(* ===== verification/Broker_Prelude.thy ===== *)
theory Broker_Prelude
  imports Main "HOL-Library.AList" "HOL-Library.Sublist"
begin

text \<open>
  The shared vocabulary of the development.

  Python strings are lists of characters. The character type of HOL has 256 elements, which
  stand here for the code points U+0000 to U+00FF: ASCII and the Latin-1 supplement. The
  operations below (\<open>py_lower\<close>, \<open>py_strip\<close>, \<open>py_int\<close> and so on) are those of
  Python's \<^verbatim>\<open>str\<close> on that repertoire.

  A Python \<^verbatim>\<open>dict\<close> is an association list in insertion order with distinct keys:
  \<^verbatim>\<open>d[k] = v\<close> is \<open>AList.update\<close> (in place when the key exists, at the end otherwise),
  \<^verbatim>\<open>del d[k]\<close> is \<open>AList.delete\<close>, \<^verbatim>\<open>d.get(k)\<close> is \<open>map_of\<close>.

  The outside world (the clock behind \<^verbatim>\<open>time.time()\<close> and the randomness behind
  \<^verbatim>\<open>secrets\<close>) is a record that every operation threads: each reading takes the next
  element of a sequence, so two readings of the clock in one handler may differ.
\<close>

section \<open>Collections of rewrite rules\<close>

named_theorems py_simps \<open>evaluation of the string and dictionary operations\<close>
named_theorems world_simps \<open>what a reading of the clock or of the randomness does\<close>

section \<open>Characters and strings\<close>

abbreviation char_code :: "char \<Rightarrow> nat" where
  "char_code c \<equiv> of_char c"

definition is_space :: "char \<Rightarrow> bool" where
  "is_space c \<longleftrightarrow> (let n = char_code c in (9 \<le> n \<and> n \<le> 13) \<or> (28 \<le> n \<and> n \<le> 32) \<or> n = 133 \<or> n = 160)"

definition is_decimal :: "char \<Rightarrow> bool" where
  "is_decimal c \<longleftrightarrow> 48 \<le> char_code c \<and> char_code c \<le> 57"

text \<open>\<^verbatim>\<open>str.isdigit\<close> also accepts the superscripts U+00B2, U+00B3 and U+00B9.\<close>

definition is_digit_char :: "char \<Rightarrow> bool" where
  "is_digit_char c \<longleftrightarrow> is_decimal c \<or> char_code c \<in> {178, 179, 185}"

definition is_ascii_char :: "char \<Rightarrow> bool" where
  "is_ascii_char c \<longleftrightarrow> char_code c < 128"

definition lower_char :: "char \<Rightarrow> char" where
  "lower_char c =
     (let n = char_code c in
      if (65 \<le> n \<and> n \<le> 90) \<or> (192 \<le> n \<and> n \<le> 222 \<and> n \<noteq> 215) then char_of (n + 32) else c)"

definition py_lower :: "string \<Rightarrow> string" where
  "py_lower s = map lower_char s"

definition py_isascii :: "string \<Rightarrow> bool" where
  "py_isascii s \<longleftrightarrow> list_all is_ascii_char s"

definition py_isdigit :: "string \<Rightarrow> bool" where
  "py_isdigit s \<longleftrightarrow> s \<noteq> [] \<and> list_all is_digit_char s"

definition lstrip :: "string \<Rightarrow> string" where
  "lstrip s = dropWhile is_space s"

definition rstrip :: "string \<Rightarrow> string" where
  "rstrip s = rev (dropWhile is_space (rev s))"

definition py_strip :: "string \<Rightarrow> string" where
  "py_strip s = rstrip (lstrip s)"

definition startswith :: "string \<Rightarrow> string \<Rightarrow> bool" where
  "startswith s p \<longleftrightarrow> take (length p) s = p"

definition endswith :: "string \<Rightarrow> string \<Rightarrow> bool" where
  "endswith s p \<longleftrightarrow> length p \<le> length s \<and> drop (length s - length p) s = p"

text \<open>\<^verbatim>\<open>s.split(c)\<close> for a one-character separator: empty pieces are kept.\<close>

fun split_on :: "char \<Rightarrow> string \<Rightarrow> string list" where
  "split_on c [] = [[]]"
| "split_on c (x # xs) =
     (if x = c then [] # split_on c xs
      else (case split_on c xs of [] \<Rightarrow> [[x]] | p # ps \<Rightarrow> (x # p) # ps))"

text \<open>\<^verbatim>\<open>s.split()\<close>: maximal runs of characters that are not white space.\<close>

fun split_ws_acc :: "string \<Rightarrow> string \<Rightarrow> string list" where
  "split_ws_acc acc [] = (if acc = [] then [] else [rev acc])"
| "split_ws_acc acc (x # xs) =
     (if is_space x then (if acc = [] then [] else [rev acc]) @ split_ws_acc [] xs
      else split_ws_acc (x # acc) xs)"

definition split_ws :: "string \<Rightarrow> string list" where
  "split_ws s = split_ws_acc [] s"

text \<open>
  The idiom \<^verbatim>\<open>[v.strip() for v in raw.split(",") if v.strip()]\<close>, which the code uses for
  configuration lists, forwarding headers and signature lists.
\<close>

definition comma_fields :: "string \<Rightarrow> string list" where
  "comma_fields raw = filter (\<lambda>p. p \<noteq> []) (map py_strip (split_on (CHR '','') raw))"

text \<open>
  \<^verbatim>\<open>int(s)\<close> on a string: surrounding white space, one sign, decimal digits with single
  underscores between digits; more than 4300 digits raise \<^verbatim>\<open>ValueError\<close> as anything
  else does (\<open>None\<close>).
\<close>

fun int_digits :: "string \<Rightarrow> int \<Rightarrow> bool \<Rightarrow> int option" where
  "int_digits [] acc prev = (if prev then Some acc else None)"
| "int_digits (c # cs) acc prev =
     (if is_decimal c then int_digits cs (10 * acc + (int (char_code c) - 48)) True
      else if c = CHR ''_'' \<and> prev then int_digits cs acc False
      else None)"

definition py_int :: "string \<Rightarrow> int option" where
  "py_int s =
     (let t = py_strip s in
      if length (filter is_decimal t) > 4300 then None
      else (case t of
        [] \<Rightarrow> None
      | c # cs \<Rightarrow>
          if c = CHR ''-'' then map_option uminus (int_digits cs 0 False)
          else if c = CHR ''+'' then int_digits cs 0 False
          else int_digits t 0 False))"

text \<open>\<^verbatim>\<open>str(n)\<close> of an integer.\<close>

fun nat_digits :: "nat \<Rightarrow> string" where
  "nat_digits n = (if n < 10 then [char_of (48 + n)] else nat_digits (n div 10) @ [char_of (48 + n mod 10)])"

declare nat_digits.simps [simp del]

definition str_of_int :: "int \<Rightarrow> string" where
  "str_of_int i = (if i < 0 then CHR ''-'' # nat_digits (nat (- i)) else nat_digits (nat i))"

text \<open>Python truth of an optional string (\<^verbatim>\<open>None\<close> and \<^verbatim>\<open>""\<close> are false) and of an optional integer.\<close>

definition truthy_str :: "string option \<Rightarrow> bool" where
  "truthy_str x \<longleftrightarrow> x \<noteq> None \<and> x \<noteq> Some []"

definition truthy_int :: "int option \<Rightarrow> bool" where
  "truthy_int x \<longleftrightarrow> x \<noteq> None \<and> x \<noteq> Some 0"

definition str_or :: "string option \<Rightarrow> string \<Rightarrow> string" where
  "str_or x d = (case x of None \<Rightarrow> d | Some s \<Rightarrow> if s = [] then d else s)"

lemma truthy_str_simps [simp, py_simps]:
  "\<not> truthy_str None" "truthy_str (Some s) \<longleftrightarrow> s \<noteq> []"
  by (auto simp: truthy_str_def)

lemma truthy_int_simps [simp, py_simps]:
  "\<not> truthy_int None" "truthy_int (Some n) \<longleftrightarrow> n \<noteq> 0"
  by (auto simp: truthy_int_def)

lemma str_or_simps [simp, py_simps]:
  "str_or None d = d" "str_or (Some []) d = d" "str_or (Some (c # cs)) d = c # cs"
  by (auto simp: str_or_def)

lemma startswith_append [simp]: "startswith (p @ s) p"
  by (simp add: startswith_def)

lemma startswith_iff: "startswith s p \<longleftrightarrow> (\<exists>t. s = p @ t)"
  by (metis append_eq_conv_conj startswith_def append_take_drop_id)

lemma split_on_not_Nil [simp]: "split_on c s \<noteq> []"
  by (induction s) (auto split: list.splits)

lemma split_on_append:
  "split_on c (s @ c # t) = split_on c s @ split_on c t"
  by (induction s) (auto split: list.splits)

lemma comma_fields_append:
  "comma_fields (s @ CHR '','' # t) = comma_fields s @ comma_fields t"
  by (simp add: comma_fields_def split_on_append)

lemma comma_fields_nonempty: "p \<in> set (comma_fields raw) \<Longrightarrow> p \<noteq> []"
  by (auto simp: comma_fields_def)

lemma split_on_free: "p \<in> set (split_on c s) \<Longrightarrow> c \<notin> set p"
  by (induction s arbitrary: p) (auto split: if_splits list.splits)

lemma lstrip_rstrip: "lstrip (rstrip (lstrip s)) = rstrip (lstrip s)"
proof (cases "rstrip (lstrip s)")
  case (Cons c cs)
  then have "rev (dropWhile is_space (rev (lstrip s))) = c # cs" by (simp add: rstrip_def)
  then have "dropWhile is_space (rev (lstrip s)) = rev cs @ [c]" by (simp add: rev_swap)
  then have "rev (lstrip s) = takeWhile is_space (rev (lstrip s)) @ rev cs @ [c]"
    by (metis takeWhile_dropWhile_id)
  then have "lstrip s = c # cs @ rev (takeWhile is_space (rev (lstrip s)))"
    by (simp add: rev_swap)
  then have "\<not> is_space c" using hd_dropWhile [of is_space s] by (metis lstrip_def list.sel(1) list.distinct(1))
  then have "lstrip (c # cs) = c # cs" by (simp add: lstrip_def)
  then show ?thesis by (simp only: Cons)
qed (simp only: lstrip_def dropWhile.simps)

lemma py_strip_idem: "py_strip (py_strip s) = py_strip s"
  by (simp add: py_strip_def lstrip_rstrip) (simp add: rstrip_def)

lemma set_py_strip: "set (py_strip s) \<subseteq> set s"
proof -
  have "set (dropWhile is_space t) \<subseteq> set t" for t by (auto dest: set_dropWhileD)
  from this [of "rev (dropWhile is_space s)"] this [of s] show ?thesis
    by (simp add: py_strip_def rstrip_def lstrip_def)
qed

lemma comma_fields_clean:
  "p \<in> set (comma_fields raw) \<Longrightarrow> p \<noteq> [] \<and> CHR '','' \<notin> set p \<and> py_strip p = p"
  using split_on_free set_py_strip by (fastforce simp: comma_fields_def py_strip_idem)

lemma lower_char_idem: "lower_char (lower_char c) = lower_char c"
  by (auto simp: lower_char_def Let_def)

lemma py_lower_idem: "py_lower (py_lower s) = py_lower s"
  by (simp add: py_lower_def lower_char_idem)

section \<open>Numbers as text\<close>

lemma nat_digits_decimal: "list_all is_decimal (nat_digits n)"
proof (induction n rule: nat_digits.induct)
  case (1 n)
  then show ?case
    by (subst nat_digits.simps) (auto simp: is_decimal_def list_all_iff)
qed

lemma nat_digits_nonempty [simp]: "nat_digits n \<noteq> []"
  by (subst nat_digits.simps) simp

lemma int_digits_decimals:
  "list_all is_decimal xs \<Longrightarrow> xs \<noteq> [] \<or> prev \<Longrightarrow>
   int_digits xs acc prev = Some (foldl (\<lambda>a c. 10 * a + (int (char_code c) - 48)) acc xs)"
  by (induction xs arbitrary: acc prev) auto

lemma foldl_nat_digits: "foldl (\<lambda>a c. 10 * a + (int (char_code c) - 48)) 0 (nat_digits n) = int n"
proof (induction n rule: nat_digits.induct)
  case (1 n)
  show ?case
  proof (cases "n < 10")
    case True
    then show ?thesis by (subst nat_digits.simps) simp
  next
    case False
    moreover have "10 * int (n div 10) + int (n mod 10) = int n" by presburger
    ultimately show ?thesis using 1 by (subst nat_digits.simps) simp
  qed
qed

lemma int_digits_nat: "int_digits (nat_digits n) 0 False = Some (int n)"
  by (simp add: int_digits_decimals nat_digits_decimal foldl_nat_digits)

lemma decimal_not_space: "is_decimal c \<Longrightarrow> \<not> is_space c"
  by (auto simp: is_decimal_def is_space_def Let_def)

lemma strip_decimals: "list_all is_decimal s \<Longrightarrow> s \<noteq> [] \<Longrightarrow> py_strip s = s"
proof -
  assume d: "list_all is_decimal s" and ne: "s \<noteq> []"
  then have "lstrip s = s" by (cases s) (auto simp: lstrip_def decimal_not_space)
  moreover have "rstrip s = s"
    using d ne by (cases s rule: rev_cases) (auto simp: rstrip_def decimal_not_space)
  ultimately show ?thesis by (simp add: py_strip_def)
qed

lemma py_int_str_of_nat:
  assumes "length (nat_digits n) \<le> 4300"
  shows "py_int (str_of_int (int n)) = Some (int n)"
proof -
  have d: "list_all is_decimal (nat_digits n)" by (rule nat_digits_decimal)
  then have f: "filter is_decimal (nat_digits n) = nat_digits n"
    by (simp add: list_all_iff filter_id_conv)
  obtain c cs where cs: "nat_digits n = c # cs" by (cases "nat_digits n") auto
  with d have "c \<noteq> CHR ''-''" "c \<noteq> CHR ''+''" by (auto simp: is_decimal_def)
  with cs f assms int_digits_nat [of n] strip_decimals [OF d] show ?thesis
    by (simp add: py_int_def str_of_int_def Let_def)
qed

lemma length_nat_digits: "n < 10 ^ k \<Longrightarrow> 0 < k \<Longrightarrow> length (nat_digits n) \<le> k"
proof (induction k arbitrary: n)
  case (Suc k)
  show ?case
  proof (cases "n < 10")
    case True
    then show ?thesis by (subst nat_digits.simps) simp
  next
    case False
    with Suc.prems have "n div 10 < 10 ^ k" "0 < k" by (auto intro: gr0I)
    with Suc.IH [of "n div 10"] False show ?thesis by (subst nat_digits.simps) simp
  qed
qed simp

section \<open>Dictionaries\<close>

type_synonym 'v dict = "(string \<times> 'v) list"

abbreviation dict_get :: "'v dict \<Rightarrow> string \<Rightarrow> 'v option" where
  "dict_get d k \<equiv> map_of d k"

abbreviation dict_keys :: "'v dict \<Rightarrow> string set" where
  "dict_keys d \<equiv> set (map fst d)"

definition wf_dict :: "'v dict \<Rightarrow> bool" where
  "wf_dict d \<longleftrightarrow> distinct (map fst d)"

text \<open>
  \<^verbatim>\<open>for k, r in list(d.items()): if dead(r): del d[k]\<close>. The loop runs over a snapshot and
  the keys are distinct, so it keeps exactly the entries whose record is not dead, in order.
\<close>

definition prune_dict :: "('v \<Rightarrow> bool) \<Rightarrow> 'v dict \<Rightarrow> 'v dict" where
  "prune_dict dead d = filter (\<lambda>(k, r). \<not> dead r) d"

text \<open>In-place mutation of every record of a dictionary.\<close>

definition map_dict :: "('v \<Rightarrow> 'v) \<Rightarrow> 'v dict \<Rightarrow> 'v dict" where
  "map_dict f d = map (\<lambda>(k, r). (k, f r)) d"

text \<open>In-place mutation of the record under one key, if the dictionary holds it.\<close>

definition modify_dict :: "string \<Rightarrow> ('v \<Rightarrow> 'v) \<Rightarrow> 'v dict \<Rightarrow> 'v dict" where
  "modify_dict k f d = map (\<lambda>(k', r). (k', if k' = k then f r else r)) d"

lemma wf_dict_Nil [simp]: "wf_dict []"
  by (simp add: wf_dict_def)

lemma wf_dict_update [simp]: "wf_dict d \<Longrightarrow> wf_dict (AList.update k v d)"
  by (simp add: wf_dict_def distinct_update)

lemma wf_dict_delete [simp]: "wf_dict d \<Longrightarrow> wf_dict (AList.delete k d)"
  by (simp add: wf_dict_def distinct_delete)

lemma map_fst_map_dict [simp]: "map fst (map_dict f d) = map fst d"
  by (induction d) (auto simp: map_dict_def)

lemma map_fst_modify_dict [simp]: "map fst (modify_dict k f d) = map fst d"
  by (induction d) (auto simp: modify_dict_def)

lemma wf_dict_map_dict [simp]: "wf_dict (map_dict f d) \<longleftrightarrow> wf_dict d"
  by (simp add: wf_dict_def)

lemma wf_dict_modify_dict [simp]: "wf_dict (modify_dict k f d) \<longleftrightarrow> wf_dict d"
  by (simp add: wf_dict_def)

lemma distinct_map_filter_fst: "distinct (map fst d) \<Longrightarrow> distinct (map fst (filter P d))"
  by (induction d) auto

lemma wf_dict_prune [simp]: "wf_dict d \<Longrightarrow> wf_dict (prune_dict dead d)"
  by (simp add: wf_dict_def prune_dict_def distinct_map_filter_fst)

lemma get_update [simp, py_simps]:
  "dict_get (AList.update k v d) k' = (if k' = k then Some v else dict_get d k')"
  by (simp add: update_conv')

lemma get_delete [simp, py_simps]:
  "dict_get (AList.delete k d) k' = (if k' = k then None else dict_get d k')"
  by (simp add: delete_conv')

lemma delete_absent: "dict_get d k = None \<Longrightarrow> AList.delete k d = d"
  by (induction d) (auto simp: AList.delete_eq split: if_splits)

lemma get_map_dict [simp, py_simps]:
  "dict_get (map_dict f d) k = map_option f (dict_get d k)"
  by (induction d) (auto simp: map_dict_def)

lemma get_modify_dict [simp, py_simps]:
  "dict_get (modify_dict k f d) k' = (if k' = k then map_option f (dict_get d k) else dict_get d k')"
  by (induction d) (auto simp: modify_dict_def)

lemma wf_dict_get_in: "wf_dict d \<Longrightarrow> dict_get d k = Some r \<longleftrightarrow> (k, r) \<in> set d"
  by (simp add: wf_dict_def map_of_eq_Some_iff)

lemma get_prune [simp]:
  "wf_dict d \<Longrightarrow> dict_get (prune_dict dead d) k =
     (case dict_get d k of None \<Rightarrow> None | Some r \<Rightarrow> if dead r then None else Some r)"
  by (induction d) (auto simp: prune_dict_def wf_dict_def map_of_eq_None_iff split: option.splits)

lemma prune_subset: "set (prune_dict dead d) \<subseteq> set d"
  by (auto simp: prune_dict_def)

lemma in_prune [simp]: "(k, r) \<in> set (prune_dict dead d) \<longleftrightarrow> (k, r) \<in> set d \<and> \<not> dead r"
  by (auto simp: prune_dict_def)

lemma prune_none: "(\<And>k r. (k, r) \<in> set d \<Longrightarrow> \<not> dead r) \<Longrightarrow> prune_dict dead d = d"
  by (auto simp: prune_dict_def intro: filter_True)

lemma prune_update:
  "wf_dict d \<Longrightarrow> \<not> dead v \<Longrightarrow>
   prune_dict dead (AList.update k v (prune_dict dead d)) = AList.update k v (prune_dict dead d)"
proof (rule prune_none)
  fix k' r
  assume wf: "wf_dict d" and live: "\<not> dead v"
    and mem: "(k', r) \<in> set (AList.update k v (prune_dict dead d))"
  from wf mem have "dict_get (AList.update k v (prune_dict dead d)) k' = Some r"
    by (simp add: wf_dict_get_in [symmetric] del: get_update)
  with wf live show "\<not> dead r"
    by (auto split: if_splits option.splits)
qed

text \<open>A property of every entry, and how the operations keep it.\<close>

definition dict_all :: "(string \<Rightarrow> 'v \<Rightarrow> bool) \<Rightarrow> 'v dict \<Rightarrow> bool" where
  "dict_all P d \<longleftrightarrow> (\<forall>k r. (k, r) \<in> set d \<longrightarrow> P k r)"

named_theorems dict_all_intros \<open>operations that keep a property of every entry\<close>

lemma dict_all_Nil [simp]: "dict_all P []"
  by (simp add: dict_all_def)

lemma dict_all_prune [dict_all_intros]: "dict_all P d \<Longrightarrow> dict_all P (prune_dict dead d)"
  by (auto simp: dict_all_def)

lemma dict_all_update [dict_all_intros]: "dict_all P d \<Longrightarrow> P k v \<Longrightarrow> dict_all P (AList.update k v d)"
  by (induction d) (auto simp: dict_all_def)

lemma dict_all_delete [dict_all_intros]: "dict_all P d \<Longrightarrow> dict_all P (AList.delete k d)"
  by (auto simp: dict_all_def AList.delete_eq)

lemma dict_all_modify [dict_all_intros]:
  "dict_all P d \<Longrightarrow> (\<And>r. P k r \<Longrightarrow> P k (f r)) \<Longrightarrow> dict_all P (modify_dict k f d)"
  by (auto simp: dict_all_def modify_dict_def)

lemma dict_all_map [dict_all_intros]:
  "dict_all P d \<Longrightarrow> (\<And>k r. P k r \<Longrightarrow> P k (f r)) \<Longrightarrow> dict_all P (map_dict f d)"
  by (auto simp: dict_all_def map_dict_def)

lemma dict_all_mono: "dict_all P d \<Longrightarrow> (\<And>k r. P k r \<Longrightarrow> Q k r) \<Longrightarrow> dict_all Q d"
  by (auto simp: dict_all_def)

lemma dict_allD: "dict_all P d \<Longrightarrow> dict_get d k = Some r \<Longrightarrow> P k r"
  by (auto simp: dict_all_def dest: map_of_SomeD)

text \<open>The keys after an operation.\<close>

lemma keys_prune: "dict_keys (prune_dict dead d) \<subseteq> dict_keys d"
  by (auto simp: prune_dict_def)

lemma keys_update [simp]: "fst ` set (AList.update k v d) = insert k (fst ` set d)"
  by (induction d) auto

lemma keys_delete [simp]: "fst ` set (AList.delete k d) = fst ` set d - {k}"
  by (auto simp: AList.delete_eq image_iff)

lemma keys_modify [simp]: "fst ` set (modify_dict k f d) = fst ` set d"
  by (force simp: modify_dict_def)

lemma keys_get: "k \<in> dict_keys d \<longleftrightarrow> dict_get d k \<noteq> None"
  by (simp add: map_of_eq_None_iff)

text \<open>
  The contract of a bucket whose records only ever get older: a record that is dead at a time
  stays dead. Pruning such a bucket at two times is pruning it at the later one, and a key that
  has disappeared never comes back by itself.
\<close>

locale expiring_bucket =
  fixes dead :: "int \<Rightarrow> 'r \<Rightarrow> bool"
  assumes dead_mono: "dead t r \<Longrightarrow> t \<le> t' \<Longrightarrow> dead t' r"
begin

lemma prune_later: "t \<le> t' \<Longrightarrow> prune_dict (dead t') (prune_dict (dead t) d) = prune_dict (dead t') d"
  by (induction d) (auto simp: prune_dict_def dest: dead_mono)

lemma prune_idem: "prune_dict (dead t) (prune_dict (dead t) d) = prune_dict (dead t) d"
  by (rule prune_later) simp

lemma gone_stays_gone:
  assumes "wf_dict d" and "t \<le> t'" and "dict_get (prune_dict (dead t) d) k = None"
  shows "dict_get (prune_dict (dead t') d) k = None"
  using assms by (auto split: option.splits if_splits dest: dead_mono)

lemma survivor:
  assumes "wf_dict d" and "t \<le> t'" and "dict_get (prune_dict (dead t') d) k = Some r"
  shows "dict_get (prune_dict (dead t) d) k = Some r"
  using assms by (auto split: option.splits if_splits dest: dead_mono)

end

section \<open>The clock and the randomness\<close>

record world =
  clock :: "nat \<Rightarrow> int"
  ticks :: nat
  rand :: "nat \<Rightarrow> string"
  draws :: nat

text \<open>\<^verbatim>\<open>int(time.time() * 1000)\<close>: the next reading of the clock, in milliseconds.\<close>

definition now_ms :: "world \<Rightarrow> int \<times> world" where
  "now_ms w = (clock w (ticks w), w\<lparr>ticks := Suc (ticks w)\<rparr>)"

text \<open>\<^verbatim>\<open>f"{prefix}_{secrets.token_urlsafe(n)}"\<close>: the next element of the randomness.\<close>

definition random_token :: "string \<Rightarrow> world \<Rightarrow> string \<times> world" where
  "random_token pre w = (pre @ ''_'' @ rand w (draws w), w\<lparr>draws := Suc (draws w)\<rparr>)"

lemma now_ms_simps [simp, world_simps]:
  "now_ms w = (clock w (ticks w), w\<lparr>ticks := Suc (ticks w)\<rparr>)"
  by (rule now_ms_def)

text \<open>The world only moves forward: its sequences stay, readings and draws are used up.\<close>

definition later :: "world \<Rightarrow> world \<Rightarrow> bool" where
  "later w w' \<longleftrightarrow> clock w' = clock w \<and> rand w' = rand w \<and> ticks w \<le> ticks w' \<and> draws w \<le> draws w'"

lemma later_refl [simp, intro]: "later w w"
  by (simp add: later_def)

lemma later_trans [trans]: "later w w' \<Longrightarrow> later w' w'' \<Longrightarrow> later w w''"
  by (simp add: later_def)

lemma later_tick [simp]: "later w (w\<lparr>ticks := Suc (ticks w)\<rparr>)"
  by (simp add: later_def)

lemma later_draw [simp]: "later w (w\<lparr>draws := Suc (draws w)\<rparr>)"
  by (simp add: later_def)

lemma random_token_eq [world_simps]:
  "random_token pre w = (pre @ ''_'' @ rand w (draws w), w\<lparr>draws := Suc (draws w)\<rparr>)"
  by (rule random_token_def)

text \<open>A string that \<open>random_token\<close> has already returned.\<close>

definition issued :: "string \<Rightarrow> world \<Rightarrow> string \<Rightarrow> bool" where
  "issued pre w k \<longleftrightarrow> (\<exists>i < draws w. k = pre @ ''_'' @ rand w i)"

lemma issued_later: "issued pre w k \<Longrightarrow> later w w' \<Longrightarrow> issued pre w' k"
  unfolding issued_def later_def by (metis order_less_le_trans)

lemma not_issued: "inj (rand w) \<Longrightarrow> draws w \<le> i \<Longrightarrow> \<not> issued pre w (pre @ ''_'' @ rand w i)"
  by (auto simp: issued_def dest: injD)

definition mono_clock :: "world \<Rightarrow> bool" where
  "mono_clock w \<longleftrightarrow> (\<forall>i j. i \<le> j \<longrightarrow> clock w i \<le> clock w j)"

lemma mono_clockD: "mono_clock w \<Longrightarrow> i \<le> j \<Longrightarrow> clock w i \<le> clock w j"
  by (simp add: mono_clock_def)

section \<open>Errors\<close>

text \<open>
  The exceptions: \<open>ResourceSpaceError(code, message, status_code)\<close> and \<open>JsonStoreLoadError\<close>, which
  the services raise by themselves; \<open>TypeError\<close>, \<open>ValueError\<close> (of which \<open>UnicodeError\<close> is a
  subclass), \<open>KeyError\<close>, \<open>AttributeError\<close>, \<open>OverflowError\<close> and \<open>ZeroDivisionError\<close> of the interpreter; \<open>OSError\<close> of the operating system; \<open>RuntimeError\<close>, which the store raises when a file cannot be locked down; \<open>HttpxError\<close>, any \<^verbatim>\<open>httpx.HTTPError\<close>, and \<open>InvalidURL\<close> of \<^verbatim>\<open>httpx\<close>, which is none.
\<close>

record rs_error =
  err_code :: string
  err_message :: string
  err_status :: int

datatype exn =
    StoreLoadError | ResourceSpaceError rs_error | TypeError | ValueError | KeyError | AttributeError
  | ZeroDivisionError | OverflowError | OSError | RuntimeError | HttpxError | InvalidURL

definition rs_err :: "string \<Rightarrow> string \<Rightarrow> int \<Rightarrow> rs_error" where
  "rs_err c m s = \<lparr>err_code = c, err_message = m, err_status = s\<rparr>"

section \<open>Reachable states and invariants\<close>

inductive reach :: "('s \<Rightarrow> 's \<Rightarrow> bool) \<Rightarrow> 's \<Rightarrow> 's \<Rightarrow> bool" for step :: "'s \<Rightarrow> 's \<Rightarrow> bool" where
  reach_refl: "reach step s s"
| reach_step: "reach step s t \<Longrightarrow> step t u \<Longrightarrow> reach step s u"

lemma reach_trans: "reach step t u \<Longrightarrow> reach step s t \<Longrightarrow> reach step s u"
  by (induction rule: reach.induct) (auto intro: reach_step)

text \<open>
  The interface of an inductive invariant: a step keeps it, so every state reachable from a state
  that satisfies it does too.
\<close>

locale step_invariant =
  fixes step :: "'s \<Rightarrow> 's \<Rightarrow> bool" and inv :: "'s \<Rightarrow> bool"
  assumes step_inv: "step s t \<Longrightarrow> inv s \<Longrightarrow> inv t"
begin

lemma reach_inv: "reach step s t \<Longrightarrow> inv s \<Longrightarrow> inv t"
  by (induction rule: reach.induct) (auto intro: step_inv)

end

text \<open>
  The interface of a monotone change: a relation between the states before and after a step that
  is reflexive and transitive relates the ends of every run.
\<close>

locale step_progress =
  fixes step :: "'s \<Rightarrow> 's \<Rightarrow> bool" and ahead :: "'s \<Rightarrow> 's \<Rightarrow> bool"
  assumes step_ahead: "step s t \<Longrightarrow> ahead s t"
    and ahead_refl: "ahead s s"
    and ahead_trans: "ahead s t \<Longrightarrow> ahead t u \<Longrightarrow> ahead s u"
begin

lemma reach_ahead: "reach step s t \<Longrightarrow> ahead s t"
  by (induction rule: reach.induct) (auto intro: step_ahead ahead_refl ahead_trans)

end

end
