(* ===== verification/Field_Crypto.thy ===== *)
theory Field_Crypto
  imports Broker_Prelude
begin

text \<open>
  \<^verbatim>\<open>services/field_crypto.py\<close>: the cipher for sensitive leaf values of the store. Fernet belongs
  to the \<^verbatim>\<open>cryptography\<close> package and is a parameter: a record of its two operations on strings
  (with the UTF-8 conversions around them), the encryption taking the randomness it draws.
  \<open>fernet_ok\<close> states the documented behaviour the code relies on: decryption inverts
  encryption, tokens are ASCII text.
\<close>

definition ENC_PREFIX :: string where
  "ENC_PREFIX = ''enc:v1:''"

record fernet =
  fernet_encrypt :: "nat \<Rightarrow> string \<Rightarrow> string"
  fernet_decrypt :: "string \<Rightarrow> string option"

datatype field_cipher = NullFieldCipher | FernetFieldCipher fernet

text \<open>\<open>FieldDecryptError\<close> is what the services catch; a sealed value whose text is not ASCII
  raises \<open>UnicodeEncodeError\<close> instead.\<close>

datatype open_error = FieldDecryptError | UnicodeEncodeError

fun seal :: "field_cipher \<Rightarrow> string \<Rightarrow> world \<Rightarrow> string \<times> world" where
  "seal NullFieldCipher v w = (v, w)"
| "seal (FernetFieldCipher F) v w =
     (if startswith v ENC_PREFIX then (v, w)
      else (ENC_PREFIX @ fernet_encrypt F (draws w) v, w\<lparr>draws := Suc (draws w)\<rparr>))"

fun open_field :: "field_cipher \<Rightarrow> string \<Rightarrow> open_error + string" where
  "open_field NullFieldCipher v =
     (if startswith v ENC_PREFIX then Inl FieldDecryptError else Inr v)"
| "open_field (FernetFieldCipher F) v =
     (if \<not> startswith v ENC_PREFIX then Inr v
      else (let ciphertext = drop (length ENC_PREFIX) v in
        if \<not> py_isascii ciphertext then Inl UnicodeEncodeError
        else (case fernet_decrypt F ciphertext of
            None \<Rightarrow> Inl FieldDecryptError
          | Some p \<Rightarrow> Inr p)))"

text \<open>\<open>fernet_of_key\<close> stands for the constructor \<^verbatim>\<open>Fernet(key)\<close>, which rejects a malformed key;
  \<open>None\<close> is the \<open>ValueError\<close> of the code.\<close>

definition create_field_cipher :: "(string \<Rightarrow> fernet option) \<Rightarrow> string option \<Rightarrow> field_cipher option" where
  "create_field_cipher fernet_of_key key =
     (if \<not> truthy_str key then Some NullFieldCipher
      else if \<not> py_isascii (the key) then None
      else map_option FernetFieldCipher (fernet_of_key (the key)))"

definition fernet_ok :: "fernet \<Rightarrow> bool" where
  "fernet_ok F \<longleftrightarrow>
     (\<forall>n v. fernet_decrypt F (fernet_encrypt F n v) = Some v \<and> py_isascii (fernet_encrypt F n v))"

fun cipher_ok :: "field_cipher \<Rightarrow> bool" where
  "cipher_ok NullFieldCipher = True"
| "cipher_ok (FernetFieldCipher F) = fernet_ok F"

text \<open>A value that does not itself look sealed.\<close>

definition plain :: "string \<Rightarrow> bool" where
  "plain v \<longleftrightarrow> \<not> startswith v ENC_PREFIX"

lemma startswith_ENC [simp]: "startswith (ENC_PREFIX @ s) ENC_PREFIX"
  by simp

text \<open>
  The interface the services use: sealing a plain value and opening the result gives it back,
  and sealing draws on the randomness only.
\<close>

locale leaf_cipher =
  fixes enc :: "'c \<Rightarrow> string \<Rightarrow> world \<Rightarrow> string \<times> world"
    and dec :: "'c \<Rightarrow> string \<Rightarrow> open_error + string"
    and good :: "'c \<Rightarrow> bool"
  assumes dec_enc: "good c \<Longrightarrow> plain v \<Longrightarrow> dec c (fst (enc c v w)) = Inr v"
    and enc_later: "later w (snd (enc c v w))"
    and enc_ticks: "ticks (snd (enc c v w)) = ticks w"
begin

text \<open>Sealing an optional leaf: only a present, non-empty value is sealed.\<close>

lemma dec_enc_eq: "good c \<Longrightarrow> plain v \<Longrightarrow> enc c v w = (s, w') \<Longrightarrow> dec c s = Inr v"
  using dec_enc [of c v w] by simp

lemma enc_frame: "enc c v w = (s, w') \<Longrightarrow> later w w' \<and> ticks w' = ticks w"
  using enc_later [of w c v] enc_ticks [of c v w] by simp

end

lemma ENC_PREFIX_len [simp]: "drop (length ENC_PREFIX) (ENC_PREFIX @ s) = s"
  by simp

interpretation field: leaf_cipher seal open_field cipher_ok
proof unfold_locales
  fix c v and w :: world
  assume "cipher_ok c" "plain v"
  then show "open_field c (fst (seal c v w)) = Inr v"
    by (cases c) (auto simp: plain_def fernet_ok_def Let_def)
next
  fix c v and w :: world
  show "later w (snd (seal c v w))" by (cases c) auto
  show "ticks (snd (seal c v w)) = ticks w" by (cases c) auto
qed

lemma seal_fernet_sealed: "startswith (fst (seal (FernetFieldCipher F) v w)) ENC_PREFIX"
  by simp

end
