(* ===== verification/Broker_Config.thy ===== *)
theory Broker_Config
  imports Broker_Prelude
begin

text \<open>
  \<^verbatim>\<open>config.py\<close>: the immutable configuration snapshot, one record per dataclass, and the
  lookups of OAuth clients that the services share. A tenant is a dictionary of the registry
  (\<^verbatim>\<open>RESOURCE_SPACE_TENANTS_JSON\<close>) or built by \<^verbatim>\<open>get_configured_tenant\<close>; the record holds the keys
  the code reads, absent optional ones as \<open>None\<close>.
\<close>

section \<open>Tenants\<close>

record tenant =
  tn_id :: string
  tn_slug :: "string option"
  tn_name :: "string option"
  tn_baseUrl :: "string option"
  tn_apiUrl :: "string option"
  tn_rootCollections :: "string list"
  tn_collectionChildren :: "(string list) dict"

section \<open>The configuration\<close>

record oauth_client =
  oc_client_id :: string
  oc_integration :: "string option"
  oc_redirect_uri_allowlist :: "string list"

record oauth_config =
  issuer :: string
  oauth_client_id :: string
  allow_default_client_id :: bool
  oauth_redirect_uri_allowlist :: "string list"
  clients :: "oauth_client dict"
  clients_parse_error :: "string option"
  token_ttl_seconds :: int
  signed_url_ttl_seconds :: int
  auth_code_ttl_seconds :: int
  refresh_grace_seconds :: int
  refresh_token_ttl_seconds :: int

record signing_config =
  asset_secret :: string
  canva_client_secret :: string
  request_verification_mode :: string
  request_timestamp_tolerance_seconds :: int

record rate_limit_config =
  rl_max_requests :: int
  rl_window_ms :: int

record resource_space_config =
  rs_mode :: string
  allowed_hosts :: "string list"
  tenants :: "tenant list"
  tenants_parse_error :: "string option"
  container_source :: string
  asset_allowed_hosts :: "string list"
  asset_proxy_max_bytes :: int
  sso_enabled :: bool
  sso_system_key :: string
  sso_pending_ttl_seconds :: int
  sso_replay_retention_seconds :: int

record upload_config =
  upload_allowed_hosts :: "string list"
  upload_max_bytes :: int
  upload_max_image_pixels :: int

record metrics_config =
  bearer_token :: string

record app_config =
  environment :: string
  port :: int
  base_url :: string
  cors_origin :: string
  storage_path :: string
  storage_encryption_key :: string
  store_prune_interval_seconds :: int
  client_ip_header :: string
  trusted_proxy_hosts :: "string list"
  client_ip_log_key :: string
  client_ip_log_diagnostics :: bool
  oauth :: oauth_config
  signing :: signing_config
  rate_limit :: rate_limit_config
  resource_space :: resource_space_config
  upload :: upload_config
  metrics :: metrics_config

definition DEV_LIKE_ENVIRONMENTS :: "string list" where
  "DEV_LIKE_ENVIRONMENTS = [''development'', ''test'']"

definition dev_like :: "app_config \<Rightarrow> bool" where
  "dev_like cfg \<longleftrightarrow> environment cfg \<in> set DEV_LIKE_ENVIRONMENTS"

section \<open>OAuth clients\<close>

definition integration_for_client_id :: "app_config \<Rightarrow> string \<Rightarrow> string option" where
  "integration_for_client_id cfg client_id =
     (case dict_get (clients (oauth cfg)) client_id of
        None \<Rightarrow> None
      | Some c \<Rightarrow> oc_integration c)"

definition is_configured_client :: "app_config \<Rightarrow> string \<Rightarrow> bool" where
  "is_configured_client cfg client_id \<longleftrightarrow> dict_get (clients (oauth cfg)) client_id \<noteq> None"

end
