(* ===== verification/Json_Store.thy ===== *)
theory Json_Store
  imports Broker_Prelude
begin

text \<open>
  \<^verbatim>\<open>services/json_store.py\<close>. The first part is the loading of the file at the level of JSON
  values: what \<^verbatim>\<open>_merge_store\<close> makes of a parsed document, strictly (every write) and leniently
  (plain reads). The second part is the transaction \<^verbatim>\<open>update\<close>: load, run the updater, save only
  when the updater has returned. It is polymorphic in the state, so the services run it on their
  typed store; a disk is \<open>None\<close> when the file cannot be loaded strictly.
\<close>

section \<open>JSON values\<close>

text \<open>What \<^verbatim>\<open>json.loads\<close> returns; a float is kept as the text it was read from.\<close>

datatype json =
    JNull
  | JBool bool
  | JInt int
  | JFloat string
  | JStr string
  | JArr "json list"
  | JObj "(string \<times> json) list"

definition is_dict :: "json \<Rightarrow> bool" where
  "is_dict j \<longleftrightarrow> (case j of JObj _ \<Rightarrow> True | _ \<Rightarrow> False)"

section \<open>Loading\<close>

definition bucket_names :: "string list" where
  "bucket_names =
     [''authorizationCodes'', ''accessTokens'', ''refreshTokens'', ''assetGrants'', ''pendingSsoStates'']"

definition clone_initial_state :: "json dict dict" where
  "clone_initial_state = map (\<lambda>k. (k, [])) bucket_names"

definition merge_bucket :: "bool \<Rightarrow> json dict \<Rightarrow> string \<Rightarrow> exn + json dict" where
  "merge_bucket strict parsed key =
     (case dict_get parsed key of
        None \<Rightarrow> Inr []
      | Some JNull \<Rightarrow> if strict then Inl StoreLoadError else Inr []
      | Some (JObj bucket) \<Rightarrow> Inr bucket
      | Some _ \<Rightarrow> if strict then Inl StoreLoadError else Inr [])"

fun merge_buckets :: "bool \<Rightarrow> json dict \<Rightarrow> string list \<Rightarrow> exn + json dict dict" where
  "merge_buckets strict parsed [] = Inr []"
| "merge_buckets strict parsed (key # keys) =
     (case merge_bucket strict parsed key of
        Inl e \<Rightarrow> Inl e
      | Inr b \<Rightarrow>
          (case merge_buckets strict parsed keys of
             Inl e \<Rightarrow> Inl e
           | Inr bs \<Rightarrow> Inr ((key, b) # bs)))"

definition merge_store :: "json \<Rightarrow> bool \<Rightarrow> exn + json dict dict" where
  "merge_store parsed strict =
     (case parsed of
        JObj d \<Rightarrow> merge_buckets strict d bucket_names
      | _ \<Rightarrow> if strict then Inl StoreLoadError else Inr clone_initial_state)"

text \<open>The file: the parsed document, or \<open>None\<close> when it cannot be read or is not JSON.\<close>

definition load :: "json option \<Rightarrow> bool \<Rightarrow> exn + json dict dict" where
  "load file strict =
     (case file of
        None \<Rightarrow> if strict then Inl StoreLoadError else Inr clone_initial_state
      | Some parsed \<Rightarrow> merge_store parsed strict)"

text \<open>What \<^verbatim>\<open>_save\<close> leaves in the file.\<close>

definition save :: "json dict dict \<Rightarrow> json option" where
  "save st = Some (JObj (map (\<lambda>(k, b). (k, JObj b)) st))"

lemma merge_bucket_lenient: "\<exists>b. merge_bucket False parsed key = Inr b"
  by (auto simp: merge_bucket_def split: option.split json.split)

lemma merge_buckets_lenient: "\<exists>bs. merge_buckets False parsed keys = Inr bs"
proof (induction keys)
  case (Cons key keys)
  then show ?case using merge_bucket_lenient [of parsed key] by auto
qed simp

lemma merge_buckets_keys: "merge_buckets strict parsed keys = Inr bs \<Longrightarrow> map fst bs = keys"
  by (induction keys arbitrary: bs) (auto split: sum.splits)

lemma merge_bucket_strict:
  "merge_bucket True parsed key = Inr b \<longleftrightarrow>
     (dict_get parsed key = None \<and> b = []) \<or> dict_get parsed key = Some (JObj b)"
  by (auto simp: merge_bucket_def split: option.split json.split)

lemma merge_bucket_strict_imp: "merge_bucket True parsed key = Inr b \<Longrightarrow> merge_bucket strict parsed key = Inr b"
  by (auto simp: merge_bucket_def split: option.splits json.splits)

lemma merge_buckets_strict_imp:
  "merge_buckets True parsed keys = Inr bs \<Longrightarrow> merge_buckets strict parsed keys = Inr bs"
proof (induction keys arbitrary: bs)
  case (Cons key keys)
  then obtain b bs' where "merge_bucket True parsed key = Inr b" "merge_buckets True parsed keys = Inr bs'"
    "bs = (key, b) # bs'"
    by (auto split: sum.splits)
  then show ?case using Cons.IH merge_bucket_strict_imp [of parsed key b strict] by simp
qed simp

lemma merge_bucket_present: "dict_get parsed k = Some (JObj b) \<Longrightarrow> merge_bucket strict parsed k = Inr b"
  by (simp add: merge_bucket_def)

lemma merge_buckets_lookup:
  "(\<And>k b. (k, b) \<in> set bs \<Longrightarrow> dict_get parsed k = Some (JObj b)) \<Longrightarrow>
   merge_buckets strict parsed (map fst bs) = Inr bs"
proof (induction bs)
  case (Cons kb bs)
  obtain k b where kb: "kb = (k, b)" by fastforce
  have "merge_bucket strict parsed k = Inr b"
    using Cons.prems kb by (auto intro: merge_bucket_present)
  with Cons kb show ?case by simp
qed simp

lemma distinct_bucket_names: "distinct bucket_names"
  by (simp add: bucket_names_def)

lemma load_keys: "load file strict = Inr st \<Longrightarrow> map fst st = bucket_names"
  by (auto simp: load_def merge_store_def clone_initial_state_def comp_def
      split: option.splits json.splits if_splits dest: merge_buckets_keys)

lemma get_map_JObj: "dict_get (map (\<lambda>(k, b). (k, JObj b)) st) k = map_option JObj (dict_get st k)"
  by (induction st) auto

lemma load_save:
  assumes "map fst st = bucket_names"
  shows "load (save st) strict = Inr st"
proof -
  have d: "distinct (map fst st)" using assms distinct_bucket_names by simp
  have "merge_buckets strict (map (\<lambda>(k, b). (k, JObj b)) st) (map fst st) = Inr st"
    by (rule merge_buckets_lookup) (simp add: get_map_JObj map_of_is_SomeI [OF d])
  then show ?thesis by (simp add: load_def save_def merge_store_def assms)
qed

section \<open>Transactions\<close>

text \<open>\<^verbatim>\<open>read\<close>: lenient, so an unloadable file reads as the initial state.\<close>

definition store_read :: "'st \<Rightarrow> 'st option \<Rightarrow> 'st" where
  "store_read initial disk = (case disk of None \<Rightarrow> initial | Some st \<Rightarrow> st)"

definition store_update ::
  "('st \<Rightarrow> world \<Rightarrow> (exn + 'r) \<times> 'st \<times> world) \<Rightarrow> 'st option \<Rightarrow> world \<Rightarrow> (exn + 'r) \<times> 'st option \<times> world"
where
  "store_update updater disk w =
     (case disk of
        None \<Rightarrow> (Inl StoreLoadError, None, w)
      | Some st \<Rightarrow>
          (case updater st w of
             (Inl e, _, w') \<Rightarrow> (Inl e, disk, w')
           | (Inr r, st', w') \<Rightarrow> (Inr r, Some st', w')))"

lemma store_update_None [simp]: "store_update f None w = (Inl StoreLoadError, None, w)"
  by (simp add: store_update_def)

lemma store_update_Some:
  "store_update f (Some st) w =
     (case f st w of (Inl e, _, w') \<Rightarrow> (Inl e, Some st, w') | (Inr r, st', w') \<Rightarrow> (Inr r, Some st', w'))"
  by (simp add: store_update_def)

text \<open>
  The contract of a transaction over a disk with a view: an updater that raises leaves the view
  alone, one that returns installs its state.
\<close>

locale transaction =
  fixes run :: "('st \<Rightarrow> world \<Rightarrow> (exn + 'r) \<times> 'st \<times> world) \<Rightarrow> 'd \<Rightarrow> world \<Rightarrow> (exn + 'r) \<times> 'd \<times> world"
    and view :: "'d \<Rightarrow> 'st option"
  assumes rollback: "run f d w = (Inl e, d', w') \<Longrightarrow> view d' = view d"
    and commit: "run f d w = (Inr r, d', w') \<Longrightarrow> \<exists>st st'. view d = Some st \<and> f st w = (Inr r, st', w') \<and> view d' = Some st'"
begin

text \<open>An invariant that the updater keeps is an invariant of the disk.\<close>

lemma keeps:
  assumes step: "run f d w = (r, d', w')"
    and inv: "\<And>st. view d = Some st \<Longrightarrow> I st"
    and upd: "\<And>st v st' w'. view d = Some st \<Longrightarrow> f st w = (Inr v, st', w') \<Longrightarrow> I st'"
    and v: "view d' = Some st'"
  shows "I st'"
proof (cases r)
  case (Inl e)
  with step v inv show ?thesis by (simp add: rollback)
next
  case (Inr x)
  with step have "run f d w = (Inr x, d', w')" by simp
  from commit [OF this] v upd show ?thesis by auto
qed

end

interpretation store: transaction store_update "\<lambda>d. d"
  by unfold_locales (auto simp: store_update_def split: option.splits prod.splits sum.splits)

end
