(* ===== verification/Auth_State.thy ===== *)
theory Auth_State
  imports Field_Crypto Broker_Config Json_Store
begin

text \<open>
  The state of the broker as \<^verbatim>\<open>services/auth_service.py\<close> and \<^verbatim>\<open>services/asset_service.py\<close> keep it in
  the store: the five buckets, one record type per bucket with the keys the code writes, and the
  broker session inside the records. Then the helpers over that state: sealing and opening the
  sensitive leaves of a session, stamping the client metadata, pruning.
\<close>

section \<open>Sessions\<close>

record user =
  us_id :: string
  us_username :: string
  us_displayName :: "string option"
  us_role :: "string option"
  us_email :: "string option"

record upstream =
  up_mode :: string
  up_sessionKey :: "string option"
  up_authenticatedAt :: string

record session =
  ss_tenant :: tenant
  ss_user :: user
  ss_upstream :: upstream
  ss_broker :: "(string dict) option"

definition stamp_broker_session_metadata :: "session \<Rightarrow> string \<Rightarrow> string option \<Rightarrow> session" where
  "stamp_broker_session_metadata s client_id integration =
     (let broker = (case ss_broker s of None \<Rightarrow> [] | Some b \<Rightarrow> b);
          broker = AList.update ''clientId'' client_id broker;
          broker = (if truthy_str integration then AList.update ''integration'' (the integration) broker
                    else AList.delete ''integration'' broker)
      in s\<lparr>ss_broker := Some broker\<rparr>)"

definition broker_integration_from_session :: "session \<Rightarrow> string option" where
  "broker_integration_from_session s =
     (case ss_broker s of None \<Rightarrow> None | Some b \<Rightarrow> dict_get b ''integration'')"

text \<open>A leaf is sealed or opened only when it is present and not empty.\<close>

definition seal_leaf :: "field_cipher \<Rightarrow> string option \<Rightarrow> world \<Rightarrow> string option \<times> world" where
  "seal_leaf c x w =
     (if truthy_str x then (case seal c (the x) w of (s, w') \<Rightarrow> (Some s, w')) else (x, w))"

definition open_leaf :: "field_cipher \<Rightarrow> string option \<Rightarrow> open_error + string option" where
  "open_leaf c x =
     (if truthy_str x then (case open_field c (the x) of Inl e \<Rightarrow> Inl e | Inr v \<Rightarrow> Inr (Some v)) else Inr x)"

definition seal_session :: "field_cipher \<Rightarrow> session \<Rightarrow> world \<Rightarrow> session \<times> world" where
  "seal_session c s w =
     (case seal_leaf c (up_sessionKey (ss_upstream s)) w of (key, w1) \<Rightarrow>
      (case seal_leaf c (us_email (ss_user s)) w1 of (email, w2) \<Rightarrow>
        (s\<lparr>ss_upstream := (ss_upstream s)\<lparr>up_sessionKey := key\<rparr>,
           ss_user := (ss_user s)\<lparr>us_email := email\<rparr>\<rparr>, w2)))"

definition open_session_dict :: "field_cipher \<Rightarrow> session \<Rightarrow> open_error + session" where
  "open_session_dict c s =
     (case open_leaf c (up_sessionKey (ss_upstream s)) of
        Inl e \<Rightarrow> Inl e
      | Inr key \<Rightarrow>
          (case open_leaf c (us_email (ss_user s)) of
             Inl e \<Rightarrow> Inl e
           | Inr email \<Rightarrow>
               Inr (s\<lparr>ss_upstream := (ss_upstream s)\<lparr>up_sessionKey := key\<rparr>,
                      ss_user := (ss_user s)\<lparr>us_email := email\<rparr>\<rparr>)))"

text \<open>\<^verbatim>\<open>_try_open_session_dict\<close> catches \<open>FieldDecryptError\<close> only.\<close>

definition try_open_session_dict :: "field_cipher \<Rightarrow> session \<Rightarrow> exn + session option" where
  "try_open_session_dict c s =
     (case open_session_dict c s of
        Inr opened \<Rightarrow> Inr (Some opened)
      | Inl FieldDecryptError \<Rightarrow> Inr None
      | Inl UnicodeEncodeError \<Rightarrow> Inl ValueError)"

section \<open>Records of the store\<close>

record auth_code =
  ac_code :: string
  ac_clientId :: string
  ac_redirectUri :: string
  ac_scope :: string
  ac_codeChallenge :: "string option"
  ac_codeChallengeMethod :: string
  ac_session :: session
  ac_expiresAt :: int

record access_record =
  at_accessToken :: string
  at_clientId :: string
  at_scope :: string
  at_integration :: "string option"
  at_session :: session
  at_expiresAt :: int
  at_createdAt :: int
  at_revokedAt :: "int option"

record token_response =
  tr_access_token :: string
  tr_token_type :: string
  tr_expires_in :: int
  tr_refresh_token :: "string option"
  tr_scope :: string

record refresh_record =
  rt_refreshToken :: string
  rt_clientId :: string
  rt_scope :: string
  rt_integration :: "string option"
  rt_session :: session
  rt_createdAt :: int
  rt_expiresAt :: "int option"
  rt_revokedAt :: "int option"
  rt_rotationResponse :: "token_response option"

datatype source =
    FixtureSource (src_assetId: string) (src_variant: string) (src_mime: string) (src_width: int) (src_height: int)
  | ProxySource (src_url: string) (src_mime: string)

record asset_grant =
  ag_grantId :: string
  ag_userId :: string
  ag_tenantId :: string
  ag_expiresAt :: int
  ag_source :: source
  ag_integration :: "string option"
  ag_mimeType :: "string option"
  ag_filename :: "string option"

record pending_sso =
  ps_handoffState :: string
  ps_canvaState :: string
  ps_clientId :: string
  ps_redirectUri :: string
  ps_scope :: string
  ps_codeChallenge :: "string option"
  ps_codeChallengeMethod :: string
  ps_tenant :: tenant
  ps_correlationId :: string
  ps_initiatorKey :: string
  ps_createdAt :: int
  ps_expiresAt :: int
  ps_usedAt :: "int option"
  ps_purgeAt :: int

record broker_store =
  authorizationCodes :: "auth_code dict"
  accessTokens :: "access_record dict"
  refreshTokens :: "refresh_record dict"
  assetGrants :: "asset_grant dict"
  pendingSsoStates :: "pending_sso dict"

definition initial_store :: broker_store where
  "initial_store = \<lparr>authorizationCodes = [], accessTokens = [], refreshTokens = [], assetGrants = [],
     pendingSsoStates = []\<rparr>"

definition wf_store :: "broker_store \<Rightarrow> bool" where
  "wf_store st \<longleftrightarrow> wf_dict (authorizationCodes st) \<and> wf_dict (accessTokens st) \<and>
     wf_dict (refreshTokens st) \<and> wf_dict (assetGrants st) \<and> wf_dict (pendingSsoStates st)"

section \<open>Metadata of token records\<close>

text \<open>\<^verbatim>\<open>_stamp_token_record_metadata\<close> on an access and on a refresh record; \<open>None\<close> is the answer False.\<close>

definition stamp_access_record :: "app_config \<Rightarrow> access_record \<Rightarrow> access_record option" where
  "stamp_access_record cfg r =
     (let client_id = at_clientId r in
      if \<not> is_configured_client cfg client_id then None
      else (let integration = integration_for_client_id cfg client_id in
        Some (r\<lparr>at_integration := integration,
                at_session := stamp_broker_session_metadata (at_session r) client_id integration\<rparr>)))"

definition stamp_refresh_record :: "app_config \<Rightarrow> refresh_record \<Rightarrow> refresh_record option" where
  "stamp_refresh_record cfg r =
     (let client_id = rt_clientId r in
      if \<not> is_configured_client cfg client_id then None
      else (let integration = integration_for_client_id cfg client_id in
        Some (r\<lparr>rt_integration := integration,
                rt_session := stamp_broker_session_metadata (rt_session r) client_id integration\<rparr>)))"

section \<open>Pruning\<close>

definition code_dead :: "int \<Rightarrow> auth_code \<Rightarrow> bool" where
  "code_dead now r \<longleftrightarrow> ac_expiresAt r \<le> now"

definition access_dead :: "int \<Rightarrow> access_record \<Rightarrow> bool" where
  "access_dead now r \<longleftrightarrow> at_expiresAt r \<le> now \<or> truthy_int (at_revokedAt r)"

definition refresh_dead :: "int \<Rightarrow> int \<Rightarrow> refresh_record \<Rightarrow> bool" where
  "refresh_dead grace now r \<longleftrightarrow>
     (if truthy_int (rt_revokedAt r) \<and> now - the (rt_revokedAt r) > grace then True
      else truthy_int (rt_expiresAt r) \<and> the (rt_expiresAt r) \<le> now)"

definition grant_dead :: "int \<Rightarrow> asset_grant \<Rightarrow> bool" where
  "grant_dead now r \<longleftrightarrow> ag_expiresAt r \<le> now"

text \<open>Pending SSO records live until \<^verbatim>\<open>purgeAt\<close>, past their expiry, as tombstones.\<close>

definition pending_dead :: "int \<Rightarrow> pending_sso \<Rightarrow> bool" where
  "pending_dead now r \<longleftrightarrow> ps_purgeAt r \<le> now"

definition prune_expired :: "broker_store \<Rightarrow> int \<Rightarrow> int \<Rightarrow> broker_store" where
  "prune_expired st now refresh_grace_ms =
     st\<lparr>authorizationCodes := prune_dict (code_dead now) (authorizationCodes st),
        accessTokens := prune_dict (access_dead now) (accessTokens st),
        refreshTokens := prune_dict (refresh_dead refresh_grace_ms now) (refreshTokens st),
        assetGrants := prune_dict (grant_dead now) (assetGrants st),
        pendingSsoStates := prune_dict (pending_dead now) (pendingSsoStates st)\<rparr>"

interpretation codes: expiring_bucket code_dead
  by unfold_locales (simp add: code_dead_def)

interpretation access: expiring_bucket access_dead
  by unfold_locales (auto simp: access_dead_def)

interpretation refresh: expiring_bucket "refresh_dead grace" for grace
  by unfold_locales (auto simp: refresh_dead_def split: if_splits)

interpretation grants: expiring_bucket grant_dead
  by unfold_locales (simp add: grant_dead_def)

interpretation pending: expiring_bucket pending_dead
  by unfold_locales (simp add: pending_dead_def)

lemma prune_expired_later:
  "t \<le> t' \<Longrightarrow> prune_expired (prune_expired st t g) t' g = prune_expired st t' g"
  by (simp add: prune_expired_def codes.prune_later access.prune_later refresh.prune_later
      grants.prune_later pending.prune_later)

lemma wf_initial_store [simp]: "wf_store initial_store"
  by (simp add: wf_store_def initial_store_def)

lemma wf_prune_expired [simp]: "wf_store st \<Longrightarrow> wf_store (prune_expired st now g)"
  by (simp add: wf_store_def prune_expired_def)

lemma prune_expired_sel [simp]:
  "authorizationCodes (prune_expired st now g) = prune_dict (code_dead now) (authorizationCodes st)"
  "accessTokens (prune_expired st now g) = prune_dict (access_dead now) (accessTokens st)"
  "refreshTokens (prune_expired st now g) = prune_dict (refresh_dead g now) (refreshTokens st)"
  "assetGrants (prune_expired st now g) = prune_dict (grant_dead now) (assetGrants st)"
  "pendingSsoStates (prune_expired st now g) = prune_dict (pending_dead now) (pendingSsoStates st)"
  by (simp_all add: prune_expired_def)

lemma wf_storeD:
  "wf_store st \<Longrightarrow> wf_dict (authorizationCodes st)"
  "wf_store st \<Longrightarrow> wf_dict (accessTokens st)"
  "wf_store st \<Longrightarrow> wf_dict (refreshTokens st)"
  "wf_store st \<Longrightarrow> wf_dict (assetGrants st)"
  "wf_store st \<Longrightarrow> wf_dict (pendingSsoStates st)"
  by (simp_all add: wf_store_def)

section \<open>Sealing and opening a session\<close>

lemma seal_leaf_frame: "seal_leaf c x w = (y, w') \<Longrightarrow> later w w' \<and> ticks w' = ticks w"
  by (auto simp: seal_leaf_def split: if_splits prod.splits dest: field.enc_frame)

lemma seal_session_frame: "seal_session c s w = (s', w') \<Longrightarrow> later w w' \<and> ticks w' = ticks w"
  by (auto simp: seal_session_def split: prod.splits dest!: seal_leaf_frame intro: later_trans)

lemma seal_session_later: "seal_session c s w = (s', w') \<Longrightarrow> later w w'"
  by (simp add: seal_session_frame)

text \<open>The leaves of a session that does not carry sealed text.\<close>

definition plain_session :: "session \<Rightarrow> bool" where
  "plain_session s \<longleftrightarrow>
     (case up_sessionKey (ss_upstream s) of None \<Rightarrow> True | Some k \<Rightarrow> plain k) \<and>
     (case us_email (ss_user s) of None \<Rightarrow> True | Some e \<Rightarrow> plain e)"

lemma open_seal_leaf:
  assumes "cipher_ok c" and "case x of None \<Rightarrow> True | Some v \<Rightarrow> plain v" and "seal_leaf c x w = (y, w')"
  shows "open_leaf c y = Inr x"
proof (cases "truthy_str x")
  case True
  then obtain v where x: "x = Some v" "v \<noteq> []" by (auto simp: truthy_str_def)
  with assms(2) have v: "plain v" by simp
  obtain s where s: "seal c v w = (s, w')" "y = Some s" using assms(3) x by (auto simp: seal_leaf_def split: prod.splits)
  have "open_field c s = Inr v" using field.dec_enc_eq [OF assms(1) v s(1)] .
  moreover have "s \<noteq> []" using s(1) x v by (cases c) (auto simp: ENC_PREFIX_def split: if_splits)
  ultimately show ?thesis using s x by (simp add: open_leaf_def)
next
  case False
  with assms(3) show ?thesis by (auto simp: seal_leaf_def open_leaf_def)
qed

lemma open_seal_session:
  assumes "cipher_ok c" and "plain_session s" and "seal_session c s w = (s', w')"
  shows "open_session_dict c s' = Inr s"
proof -
  obtain key w1 where k: "seal_leaf c (up_sessionKey (ss_upstream s)) w = (key, w1)" by fastforce
  obtain email w2 where e: "seal_leaf c (us_email (ss_user s)) w1 = (email, w2)" by fastforce
  have "open_leaf c key = Inr (up_sessionKey (ss_upstream s))" "open_leaf c email = Inr (us_email (ss_user s))"
    using assms(1,2) k e by (auto simp: plain_session_def intro: open_seal_leaf)
  then show ?thesis
    using assms(3) k e by (auto simp: seal_session_def open_session_dict_def)
qed

lemma try_open_seal_session:
  "cipher_ok c \<Longrightarrow> plain_session s \<Longrightarrow> seal_session c s w = (s', w') \<Longrightarrow>
   try_open_session_dict c s' = Inr (Some s)"
  by (simp add: try_open_session_dict_def open_seal_session)

text \<open>Sealing does not touch the identity of the session, nor the client metadata.\<close>

lemma seal_session_identity:
  "seal_session c s w = (s', w') \<Longrightarrow>
     ss_tenant s' = ss_tenant s \<and> us_id (ss_user s') = us_id (ss_user s) \<and>
     us_username (ss_user s') = us_username (ss_user s) \<and> ss_broker s' = ss_broker s"
  by (auto simp: seal_session_def split: prod.splits)

lemma stamp_identity [simp]:
  "ss_tenant (stamp_broker_session_metadata s cid i) = ss_tenant s"
  "ss_user (stamp_broker_session_metadata s cid i) = ss_user s"
  "ss_upstream (stamp_broker_session_metadata s cid i) = ss_upstream s"
  "plain_session (stamp_broker_session_metadata s cid i) = plain_session s"
  by (simp_all add: stamp_broker_session_metadata_def plain_session_def Let_def)

lemma stamp_integration:
  "broker_integration_from_session (stamp_broker_session_metadata s cid i) =
     (if truthy_str i then i else None)"
  by (cases i) (auto simp: stamp_broker_session_metadata_def broker_integration_from_session_def Let_def
      truthy_str_def)

end
