(* ===== verification/Byte_Codec.thy ===== *)
theory Byte_Codec
  imports Broker_Prelude "HOL-Library.Word"
begin

text \<open>
  The byte-level codecs of the standard library that the code calls: UTF-8 of a string,
  hexadecimal digests, and base64 in its URL-safe alphabet, encoder and decoder. The decoder
  \<open>a2b_base64\<close> is CPython's state machine in its default (not strict) mode: characters outside
  the alphabet are skipped, a complete padding ends the input, an incomplete quad is an error.
  The main result is the round trip of unpadded text, on which the PKCE challenge, the grant
  signature and the continuation token rely.
\<close>

type_synonym byte = "8 word"

definition byte_of :: "nat \<Rightarrow> byte" where
  "byte_of n = of_nat n"

lemma byte_of_unat [simp]: "byte_of (unat b) = b"
  by (simp add: byte_of_def)

lemma unat_byte [simp]: "unat (b :: byte) < 256"
  using unsigned_less [of b, where ?'a = nat] by simp

section \<open>UTF-8 and hexadecimal\<close>

definition utf8_char :: "char \<Rightarrow> byte list" where
  "utf8_char c =
     (let n = char_code c in
      if n < 128 then [byte_of n] else [byte_of (192 + n div 64), byte_of (128 + n mod 64)])"

definition utf8 :: "string \<Rightarrow> byte list" where
  "utf8 s = concat (map utf8_char s)"

definition hex_digit :: "nat \<Rightarrow> char" where
  "hex_digit n = (if n < 10 then char_of (48 + n) else char_of (87 + n))"

definition hexdigest :: "byte list \<Rightarrow> string" where
  "hexdigest bs = concat (map (\<lambda>b. [hex_digit (unat b div 16), hex_digit (unat b mod 16)]) bs)"

lemma length_hexdigest [simp]: "length (hexdigest bs) = 2 * length bs"
  by (induction bs) (auto simp: hexdigest_def)

lemma hex_digit_ascii: "n < 16 \<Longrightarrow> is_ascii_char (hex_digit n)"
  by (auto simp: hex_digit_def is_ascii_char_def)

lemma hexdigest_ascii: "py_isascii (hexdigest bs)"
proof (induction bs)
  case (Cons b bs)
  have "unat b div 16 < 16" "unat b mod 16 < 16"
    using unat_byte [of b] by (auto simp: div_less_iff_less_mult simp del: unat_byte)
  with Cons show ?case
    by (simp add: hexdigest_def py_isascii_def hex_digit_ascii)
qed (simp add: hexdigest_def py_isascii_def)

section \<open>Base64\<close>

definition b64url_char :: "nat \<Rightarrow> char" where
  "b64url_char i =
     (if i < 26 then char_of (65 + i)
      else if i < 52 then char_of (71 + i)
      else if i < 62 then char_of (i - 4)
      else if i = 62 then CHR ''-'' else CHR ''_'')"

text \<open>The value of a character for \<^verbatim>\<open>urlsafe_b64decode\<close>, which maps both \<^verbatim>\<open>-\<close> and \<^verbatim>\<open>+\<close> to 62,
  both \<^verbatim>\<open>_\<close> and \<^verbatim>\<open>/\<close> to 63.\<close>

definition b64url_value :: "char \<Rightarrow> nat option" where
  "b64url_value c =
     (let n = char_code c in
      if 65 \<le> n \<and> n \<le> 90 then Some (n - 65)
      else if 97 \<le> n \<and> n \<le> 122 then Some (n - 71)
      else if 48 \<le> n \<and> n \<le> 57 then Some (n + 4)
      else if n = 43 \<or> n = 45 then Some 62
      else if n = 47 \<or> n = 95 then Some 63
      else None)"

fun urlsafe_b64encode :: "byte list \<Rightarrow> string" where
  "urlsafe_b64encode [] = []"
| "urlsafe_b64encode [a] =
     [b64url_char (unat a div 4), b64url_char (unat a mod 4 * 16), CHR ''='', CHR ''='']"
| "urlsafe_b64encode [a, b] =
     [b64url_char (unat a div 4), b64url_char (unat a mod 4 * 16 + unat b div 16),
      b64url_char (unat b mod 16 * 4), CHR ''='']"
| "urlsafe_b64encode (a # b # c # bs) =
     b64url_char (unat a div 4) # b64url_char (unat a mod 4 * 16 + unat b div 16) #
     b64url_char (unat b mod 16 * 4 + unat c div 64) # b64url_char (unat c mod 64) #
     urlsafe_b64encode bs"

definition rstrip_eq :: "string \<Rightarrow> string" where
  "rstrip_eq s = rev (dropWhile (\<lambda>c. c = CHR ''='') (rev s))"

text \<open>\<^verbatim>\<open>base64.urlsafe_b64encode(d).rstrip(b"=").decode("ascii")\<close>\<close>

definition b64url_nopad :: "byte list \<Rightarrow> string" where
  "b64url_nopad bs = rstrip_eq (urlsafe_b64encode bs)"

fun a2b_base64 :: "nat \<Rightarrow> nat \<Rightarrow> nat \<Rightarrow> string \<Rightarrow> byte list option" where
  "a2b_base64 quad left pads [] = (if quad = 0 then Some [] else None)"
| "a2b_base64 quad left pads (c # cs) =
     (if c = CHR ''='' then
        (if 2 \<le> quad then
           (if 4 \<le> quad + Suc pads then Some [] else a2b_base64 quad left (Suc pads) cs)
         else a2b_base64 quad left pads cs)
      else
        (case b64url_value c of
           None \<Rightarrow> a2b_base64 quad left pads cs
         | Some v \<Rightarrow>
             if quad = 0 then a2b_base64 1 v 0 cs
             else if quad = 1 then
               map_option ((#) (byte_of (left * 4 + v div 16))) (a2b_base64 2 (v mod 16) 0 cs)
             else if quad = 2 then
               map_option ((#) (byte_of (left * 16 + v div 4))) (a2b_base64 3 (v mod 4) 0 cs)
             else map_option ((#) (byte_of (left * 64 + v))) (a2b_base64 0 0 0 cs)))"

text \<open>\<^verbatim>\<open>urlsafe_b64decode\<close> of a string: \<^verbatim>\<open>ValueError\<close> (\<open>None\<close>) for non-ASCII text or bad padding.\<close>

definition urlsafe_b64decode :: "string \<Rightarrow> byte list option" where
  "urlsafe_b64decode s = (if py_isascii s then a2b_base64 0 0 0 s else None)"

text \<open>\<^verbatim>\<open>"=" * (-len(value) % 4)\<close>\<close>

definition b64_padding :: "string \<Rightarrow> string" where
  "b64_padding s = replicate (nat ((- int (length s)) mod 4)) (CHR ''='')"

section \<open>The alphabet\<close>

lemma sextet_cases:
  assumes "i < (64 :: nat)"
  obtains "i < 26" | "26 \<le> i" "i < 52" | "52 \<le> i" "i < 62" | "i = 62" | "i = 63"
  using assms by fastforce

lemma of_char_char_of: "n < 256 \<Longrightarrow> of_char (char_of n :: char) = n" for n :: nat
  by simp

lemma b64url_value_char: "i < 64 \<Longrightarrow> b64url_value (b64url_char i) = Some i"
  by (erule sextet_cases) (simp_all add: b64url_char_def b64url_value_def Let_def, presburger)

lemma b64url_char_code:
  "i < 64 \<Longrightarrow> char_code (b64url_char i) < 128 \<and> char_code (b64url_char i) \<noteq> 61"
  by (erule sextet_cases) (simp_all add: b64url_char_def, presburger)

lemma b64url_char_not_pad [simp]: "i < 64 \<Longrightarrow> b64url_char i \<noteq> CHR ''=''"
  using b64url_char_code [of i] by force

lemma byte_high:
  "unat b div 4 < 64" "unat b div 16 < 16" "unat b div 64 < 4"
  "unat b div 16 div 16 = 0" "unat b div 64 div 4 = 0"
  "unat b div 16 mod 16 = unat b div 16" "unat b div 64 mod 4 = unat b div 64" for b :: byte
  using unat_byte [of b] by (simp_all add: less_mult_imp_div_less del: unat_byte)

lemma byte_bounds:
  "unat a div 4 < 64" "unat a mod 4 * 16 < 64"
  "unat a mod 4 * 16 + unat b div 16 < 64" "unat b mod 16 * 4 < 64"
  "unat b mod 16 * 4 + unat c div 64 < 64" "unat c mod 64 < 64" for a b c :: byte
proof -
  have "unat a mod 4 \<le> 3" "unat b mod 16 \<le> 15"
    using mod_less_divisor [of 4 "unat a"] mod_less_divisor [of 16 "unat b"] by linarith+
  moreover have "unat b div 16 < 16" "unat c div 64 < 4" by (rule byte_high)+
  ultimately show "unat a mod 4 * 16 < 64" "unat a mod 4 * 16 + unat b div 16 < 64"
    "unat b mod 16 * 4 < 64" "unat b mod 16 * 4 + unat c div 64 < 64" by linarith+
qed (simp_all add: byte_high)

text \<open>How the decoder puts the sextets of a byte together again.\<close>

lemma byte_split:
  "byte_of (unat a div 4 * 4 + (unat a mod 4 * 16) div 16) = a"
  "byte_of (unat a div 4 * 4 + (unat a mod 4 * 16 + unat b div 16) div 16) = a"
  "byte_of ((unat a mod 4 * 16 + unat b div 16) mod 16 * 16 + (unat b mod 16 * 4) div 4) = b"
  "byte_of ((unat a mod 4 * 16 + unat b div 16) mod 16 * 16 + (unat b mod 16 * 4 + unat c div 64) div 4) = b"
  "byte_of ((unat b mod 16 * 4 + unat c div 64) mod 4 * 64 + unat c mod 64) = c" for a b c :: byte
proof -
  have m: "(x * 16 + unat b div 16) mod 16 = unat b div 16"
    "(y * 4 + unat c div 64) mod 4 = unat c div 64" for x y
    by (simp_all add: byte_high)
  show "byte_of (unat a div 4 * 4 + (unat a mod 4 * 16) div 16) = a"
    "byte_of (unat a div 4 * 4 + (unat a mod 4 * 16 + unat b div 16) div 16) = a"
    "byte_of ((unat a mod 4 * 16 + unat b div 16) mod 16 * 16 + (unat b mod 16 * 4) div 4) = b"
    "byte_of ((unat a mod 4 * 16 + unat b div 16) mod 16 * 16 + (unat b mod 16 * 4 + unat c div 64) div 4) = b"
    "byte_of ((unat b mod 16 * 4 + unat c div 64) mod 4 * 64 + unat c mod 64) = c"
    by (simp_all add: m byte_high)
qed

section \<open>The round trip\<close>

fun b64_body :: "byte list \<Rightarrow> string" where
  "b64_body [] = []"
| "b64_body [a] = [b64url_char (unat a div 4), b64url_char (unat a mod 4 * 16)]"
| "b64_body [a, b] =
     [b64url_char (unat a div 4), b64url_char (unat a mod 4 * 16 + unat b div 16),
      b64url_char (unat b mod 16 * 4)]"
| "b64_body (a # b # c # bs) =
     b64url_char (unat a div 4) # b64url_char (unat a mod 4 * 16 + unat b div 16) #
     b64url_char (unat b mod 16 * 4 + unat c div 64) # b64url_char (unat c mod 64) #
     b64_body bs"

definition pad_count :: "byte list \<Rightarrow> nat" where
  "pad_count bs = (3 - length bs mod 3) mod 3"

lemma b64_body_chars: "c \<in> set (b64_body bs) \<Longrightarrow> \<exists>i < 64. c = b64url_char i"
  by (induction bs rule: b64_body.induct) (auto intro: byte_bounds)

lemma encode_body_pad: "urlsafe_b64encode bs = b64_body bs @ replicate (pad_count bs) (CHR ''='')"
proof (induction bs rule: b64_body.induct)
  case (4 a b c bs)
  have "pad_count (a # b # c # bs) = pad_count bs"
    by (simp add: pad_count_def mod_Suc)
  with 4 show ?case by simp
qed (simp_all add: pad_count_def numeral_2_eq_2)

lemma dropWhile_replicate_append:
  "(\<And>x. x \<in> set xs \<Longrightarrow> \<not> P x) \<Longrightarrow> P y \<Longrightarrow> dropWhile P (replicate n y @ xs) = xs"
  by (induction n) (auto simp: dropWhile_eq_self_iff)

lemma b64url_nopad_body: "b64url_nopad bs = b64_body bs"
proof -
  have "c \<noteq> CHR ''=''" if "c \<in> set (rev (b64_body bs))" for c
    using b64_body_chars [of c bs] that by auto
  then have "dropWhile (\<lambda>c. c = CHR ''='') (replicate (pad_count bs) CHR ''='' @ rev (b64_body bs)) = rev (b64_body bs)"
    by (intro dropWhile_replicate_append) auto
  then show ?thesis
    by (simp add: b64url_nopad_def rstrip_eq_def encode_body_pad)
qed

lemma length_b64_body: "length (b64_body bs) = length bs div 3 * 4 + (length bs mod 3 + (if length bs mod 3 = 0 then 0 else 1))"
proof (induction bs rule: b64_body.induct)
  case (4 a b c bs)
  have len: "length (a # b # c # bs) = length bs + 3" by simp
  have "length (b64_body (a # b # c # bs)) = 4 + length (b64_body bs)" by simp
  with 4 show ?case unfolding len by (simp add: div_add_self2)
qed simp_all

lemma b64_padding_body: "b64_padding (b64_body bs) = replicate (pad_count bs) (CHR ''='')"
proof -
  define n where "n = length bs"
  have n: "n = n div 3 * 3 + n mod 3" by simp
  have a: "(- int (k * 4 + r)) mod 4 = (- int r) mod 4" for k r
  proof -
    have "- int (k * 4 + r) = - int r + (- int k) * 4" by simp
    then show ?thesis by (simp only: mod_mult_self1)
  qed
  consider "n mod 3 = 0" | "n mod 3 = 1" | "n mod 3 = 2" by linarith
  then have "nat ((- int (n div 3 * 4 + (n mod 3 + (if n mod 3 = 0 then 0 else 1)))) mod 4) = (3 - n mod 3) mod 3"
    unfolding a by cases simp_all
  then have "nat ((- int (length (b64_body bs))) mod 4) = pad_count bs"
    unfolding length_b64_body pad_count_def n_def .
  then show ?thesis by (simp add: b64_padding_def)
qed

lemma a2b_body:
  "a2b_base64 0 0 0 (b64_body bs @ replicate (pad_count bs) (CHR ''='')) = Some bs"
proof (induction bs rule: b64_body.induct)
  case (2 a)
  show ?case
    by (simp add: pad_count_def numeral_2_eq_2 b64url_value_char byte_bounds byte_split)
next
  case (3 a b)
  show ?case
    by (simp add: pad_count_def b64url_value_char byte_bounds byte_split byte_high)
next
  case (4 a b c bs)
  have "pad_count (a # b # c # bs) = pad_count bs"
    by (simp add: pad_count_def mod_Suc)
  with 4 show ?case
    by (simp add: b64url_value_char byte_bounds byte_split byte_high)
qed (simp add: pad_count_def)

lemma b64_body_ascii: "py_isascii (b64_body bs)"
  using b64_body_chars [of _ bs] b64url_char_code
  by (fastforce simp: py_isascii_def list_all_iff is_ascii_char_def)

lemma b64url_roundtrip:
  "urlsafe_b64decode (b64url_nopad bs @ b64_padding (b64url_nopad bs)) = Some bs"
proof -
  have "py_isascii (b64_body bs @ replicate n (CHR ''=''))" for n
    using b64_body_ascii [of bs] by (auto simp: py_isascii_def is_ascii_char_def list_all_iff)
  then show ?thesis
    unfolding b64url_nopad_body b64_padding_body urlsafe_b64decode_def by (simp only: a2b_body if_True)
qed

lemma b64url_nopad_inject: "b64url_nopad bs = b64url_nopad bs' \<Longrightarrow> bs = bs'"
  by (metis b64url_roundtrip option.inject)

end
