(* ===== verification/Sha256.thy ===== *)
theory Sha256
  imports Byte_Codec
begin

text \<open>
  \<^verbatim>\<open>hashlib.sha256\<close> and \<^verbatim>\<open>hmac.new(key, msg, sha256)\<close> of the standard library, as FIPS 180-4
  and RFC 2104 define them, on 32-bit words. The properties below use the length of a digest
  only; nothing assumes that digests do not collide.
\<close>

unbundle bit_operations_syntax

type_synonym u32 = "32 word"

section \<open>Constants and functions\<close>

text \<open>
  The standard's constants are the first 32 bits of the fractional parts of the cube roots (for
  the rounds) and of the square roots (for the initial state) of the first primes. The integer
  root is built bit by bit; the conversion to a 32-bit word drops the integral part.
\<close>

definition sha256_primes :: "nat list" where
  "sha256_primes =
    [2, 3, 5, 7, 11, 13, 17, 19, 23, 29, 31, 37, 41, 43, 47, 53,
     59, 61, 67, 71, 73, 79, 83, 89, 97, 101, 103, 107, 109, 113, 127, 131,
     137, 139, 149, 151, 157, 163, 167, 173, 179, 181, 191, 193, 197, 199, 211, 223,
     227, 229, 233, 239, 241, 251, 257, 263, 269, 271, 277, 281, 283, 293, 307, 311]"

fun root_from :: "nat \<Rightarrow> nat \<Rightarrow> nat \<Rightarrow> nat \<Rightarrow> nat" where
  "root_from k n 0 acc = acc"
| "root_from k n (Suc b) acc = root_from k n b (if (acc + 2 ^ b) ^ k \<le> n then acc + 2 ^ b else acc)"

definition frac_root :: "nat \<Rightarrow> nat \<Rightarrow> u32" where
  "frac_root k p = of_nat (root_from k (p * 2 ^ (32 * k)) 38 0)"

definition sha256_K :: "u32 list" where
  "sha256_K = map (frac_root 3) sha256_primes"

type_synonym sha_state = "u32 \<times> u32 \<times> u32 \<times> u32 \<times> u32 \<times> u32 \<times> u32 \<times> u32"

definition sha256_H0 :: sha_state where
  "sha256_H0 =
     (frac_root 2 2, frac_root 2 3, frac_root 2 5, frac_root 2 7,
      frac_root 2 11, frac_root 2 13, frac_root 2 17, frac_root 2 19)"

definition Ch :: "u32 \<Rightarrow> u32 \<Rightarrow> u32 \<Rightarrow> u32" where
  "Ch x y z = (x AND y) XOR (NOT x AND z)"

definition Maj :: "u32 \<Rightarrow> u32 \<Rightarrow> u32 \<Rightarrow> u32" where
  "Maj x y z = (x AND y) XOR (x AND z) XOR (y AND z)"

definition Sigma0 :: "u32 \<Rightarrow> u32" where
  "Sigma0 x = word_rotr 2 x XOR word_rotr 13 x XOR word_rotr 22 x"

definition Sigma1 :: "u32 \<Rightarrow> u32" where
  "Sigma1 x = word_rotr 6 x XOR word_rotr 11 x XOR word_rotr 25 x"

definition sigma0 :: "u32 \<Rightarrow> u32" where
  "sigma0 x = word_rotr 7 x XOR word_rotr 18 x XOR drop_bit 3 x"

definition sigma1 :: "u32 \<Rightarrow> u32" where
  "sigma1 x = word_rotr 17 x XOR word_rotr 19 x XOR drop_bit 10 x"

section \<open>Padding, schedule and rounds\<close>

definition be64 :: "nat \<Rightarrow> byte list" where
  "be64 n = map (\<lambda>i. byte_of (n div 256 ^ (7 - i) mod 256)) [0..<8]"

definition sha256_pad :: "byte list \<Rightarrow> byte list" where
  "sha256_pad m = m @ [0x80] @ replicate (nat ((55 - int (length m)) mod 64)) 0 @ be64 (8 * length m)"

definition word_of_bytes :: "byte list \<Rightarrow> u32" where
  "word_of_bytes bs = fold (\<lambda>b acc. push_bit 8 acc OR of_nat (unat b)) bs 0"

fun words_of :: "byte list \<Rightarrow> u32 list" where
  "words_of (a # b # c # d # bs) = word_of_bytes [a, b, c, d] # words_of bs"
| "words_of _ = []"

text \<open>The message schedule, extended one word at a time.\<close>

primrec extend_schedule :: "nat \<Rightarrow> u32 list \<Rightarrow> u32 list" where
  "extend_schedule 0 ws = ws"
| "extend_schedule (Suc n) ws =
     (let t = length ws in
      extend_schedule n
        (ws @ [sigma1 (ws ! (t - 2)) + ws ! (t - 7) + sigma0 (ws ! (t - 15)) + ws ! (t - 16)]))"

definition sha256_round :: "u32 \<times> u32 \<Rightarrow> sha_state \<Rightarrow> sha_state" where
  "sha256_round kw s =
     (case (kw, s) of ((k, w), (a, b, c, d, e, f, g, h)) \<Rightarrow>
        let t1 = h + Sigma1 e + Ch e f g + k + w; t2 = Sigma0 a + Maj a b c in
        (t1 + t2, a, b, c, d + t1, e, f, g))"

definition sha256_block :: "u32 list \<Rightarrow> sha_state \<Rightarrow> sha_state" where
  "sha256_block ws s =
     (case (s, fold sha256_round (zip sha256_K (extend_schedule 48 ws)) s) of
        ((a, b, c, d, e, f, g, h), (a', b', c', d', e', f', g', h')) \<Rightarrow>
          (a + a', b + b', c + c', d + d', e + e', f + f', g + g', h + h'))"

function sha256_blocks :: "u32 list \<Rightarrow> sha_state \<Rightarrow> sha_state" where
  "sha256_blocks ws s = (if ws = [] then s else sha256_blocks (drop 16 ws) (sha256_block (take 16 ws) s))"
  by pat_completeness auto
termination
  by (relation "measure (\<lambda>(ws, _). length ws)") auto

declare sha256_blocks.simps [simp del]

definition bytes_of_word :: "u32 \<Rightarrow> byte list" where
  "bytes_of_word w = [byte_of (unat (drop_bit 24 w)), byte_of (unat (drop_bit 16 w)),
                      byte_of (unat (drop_bit 8 w)), byte_of (unat w)]"

definition sha256 :: "byte list \<Rightarrow> byte list" where
  "sha256 m =
     (case sha256_blocks (words_of (sha256_pad m)) sha256_H0 of
        (a, b, c, d, e, f, g, h) \<Rightarrow> concat (map bytes_of_word [a, b, c, d, e, f, g, h]))"

section \<open>HMAC\<close>

definition hmac_key :: "byte list \<Rightarrow> byte list" where
  "hmac_key k = (let k' = (if 64 < length k then sha256 k else k) in k' @ replicate (64 - length k') 0)"

definition hmac_sha256 :: "byte list \<Rightarrow> byte list \<Rightarrow> byte list" where
  "hmac_sha256 k m =
     sha256 (map (\<lambda>b. b XOR 0x5c) (hmac_key k) @ sha256 (map (\<lambda>b. b XOR 0x36) (hmac_key k) @ m))"

lemma length_bytes_of_word [simp]: "length (bytes_of_word w) = 4"
  by (simp add: bytes_of_word_def)

lemma length_sha256 [simp]: "length (sha256 m) = 32"
  by (simp add: sha256_def split: prod.splits)

lemma length_hmac [simp]: "length (hmac_sha256 k m) = 32"
  by (simp add: hmac_sha256_def)

text \<open>\<^verbatim>\<open>base64.urlsafe_b64encode(digest).rstrip(b"=").decode("ascii")\<close> of a digest has 43 characters.\<close>

lemma length_b64url_digest: "length bs = 32 \<Longrightarrow> length (b64url_nopad bs) = 43"
  by (simp add: b64url_nopad_body length_b64_body)

end
