(* ===== verification/Auth_Service.thy ===== *)
theory Auth_Service
  imports Auth_State Sha256
begin

text \<open>
  \<^verbatim>\<open>services/auth_service.py\<close>: the operations of \<open>AuthService\<close>. Each updater is a function of the
  store and of the world, in the order of the source: every call of \<^verbatim>\<open>_now_ms()\<close> and of
  \<^verbatim>\<open>_random_token\<close> is a separate reading. The public methods run their updater with
  \<open>store_update\<close>. The ResourceSpace service is an argument of the operation that calls it.
\<close>

record auth_service =
  sv_config :: app_config
  sv_cipher :: field_cipher

definition refresh_grace_ms :: "auth_service \<Rightarrow> int" where
  "refresh_grace_ms sv = refresh_grace_seconds (oauth (sv_config sv)) * 1000"

definition MAX_PENDING_SSO_STATES :: int where
  "MAX_PENDING_SSO_STATES = 2000"

text \<open>\<^verbatim>\<open>_sha256_b64url\<close>\<close>

definition sha256_b64url :: "string \<Rightarrow> string" where
  "sha256_b64url v = b64url_nopad (sha256 (utf8 v))"

text \<open>
  \<^verbatim>\<open>_max_pending_sso_states_per_source\<close>. The quotient is computed exactly and truncated; the
  rounding of the two floating-point divisions is not modelled.
\<close>

definition trunc_div :: "int \<Rightarrow> int \<Rightarrow> int" where
  "trunc_div a b = sgn a * sgn b * (\<bar>a\<bar> div \<bar>b\<bar>)"

definition max_pending_sso_states_per_source :: "app_config \<Rightarrow> exn + int" where
  "max_pending_sso_states_per_source cfg =
     (let win = rl_window_ms (rate_limit cfg);
          ttl = sso_pending_ttl_seconds (resource_space cfg)
      in if win = 0 then Inl ZeroDivisionError
         else (let from_rate = trunc_div (rl_max_requests (rate_limit cfg) * ttl * 1000) win
               in Inr (max 10 (min from_rate (MAX_PENDING_SSO_STATES div 10)))))"

definition is_active_pending_sso_state :: "pending_sso \<Rightarrow> int \<Rightarrow> bool" where
  "is_active_pending_sso_state r now \<longleftrightarrow> ps_usedAt r = None \<and> ps_expiresAt r > now"

section \<open>Pruning\<close>

definition svc_prune :: "auth_service \<Rightarrow> broker_store \<Rightarrow> world \<Rightarrow> broker_store \<times> world" where
  "svc_prune sv st w = (case now_ms w of (now, w') \<Rightarrow> (prune_expired st now (refresh_grace_ms sv), w'))"

definition prune :: "auth_service \<Rightarrow> broker_store option \<Rightarrow> world \<Rightarrow> (exn + unit) \<times> broker_store option \<times> world" where
  "prune sv = store_update (\<lambda>st w. case svc_prune sv st w of (st', w') \<Rightarrow> (Inr (), st', w'))"

section \<open>Authorization codes\<close>

definition mint_authorization_code ::
  "auth_service \<Rightarrow> string \<Rightarrow> string \<Rightarrow> string \<Rightarrow> string option \<Rightarrow> string option \<Rightarrow> session \<Rightarrow>
   broker_store \<Rightarrow> world \<Rightarrow> string \<times> broker_store \<times> world"
where
  "mint_authorization_code sv client_id redirect_uri scope code_challenge code_challenge_method session st w =
     (let (st, w) = svc_prune sv st w;
          (code, w) = random_token ''code'' w;
          (sealed, w) = seal_session (sv_cipher sv) session w;
          (now, w) = now_ms w;
          r = \<lparr>ac_code = code, ac_clientId = client_id, ac_redirectUri = redirect_uri, ac_scope = scope,
               ac_codeChallenge = code_challenge,
               ac_codeChallengeMethod = str_or code_challenge_method ''S256'',
               ac_session = sealed,
               ac_expiresAt = now + auth_code_ttl_seconds (oauth (sv_config sv)) * 1000\<rparr>
      in (code, st\<lparr>authorizationCodes := AList.update code r (authorizationCodes st)\<rparr>, w))"

definition mint_updater ::
  "auth_service \<Rightarrow> string \<Rightarrow> string \<Rightarrow> string \<Rightarrow> string option \<Rightarrow> string option \<Rightarrow> session \<Rightarrow>
   broker_store \<Rightarrow> world \<Rightarrow> (exn + string) \<times> broker_store \<times> world"
where
  "mint_updater sv client_id redirect_uri scope code_challenge code_challenge_method session st w =
     (case mint_authorization_code sv client_id redirect_uri scope code_challenge code_challenge_method
             session st w of
        (code, st', w') \<Rightarrow> (Inr code, st', w'))"

definition begin_authorization_from_session ::
  "auth_service \<Rightarrow> string \<Rightarrow> string \<Rightarrow> string \<Rightarrow> string option \<Rightarrow> string option \<Rightarrow> session \<Rightarrow>
   broker_store option \<Rightarrow> world \<Rightarrow> (exn + string) \<times> broker_store option \<times> world"
where
  "begin_authorization_from_session sv client_id redirect_uri scope code_challenge code_challenge_method session =
     (let integration = integration_for_client_id (sv_config sv) client_id;
          session = stamp_broker_session_metadata session client_id integration
      in store_update (mint_updater sv client_id redirect_uri scope code_challenge code_challenge_method
                         session))"

type_synonym authenticator = "string option \<Rightarrow> string \<Rightarrow> string \<Rightarrow> string option \<Rightarrow> world \<Rightarrow> (exn + session) \<times> world"

definition begin_authorization ::
  "auth_service \<Rightarrow> authenticator \<Rightarrow> string \<Rightarrow> string \<Rightarrow> string \<Rightarrow> string option \<Rightarrow> string option \<Rightarrow>
   string option \<Rightarrow> string \<Rightarrow> string \<Rightarrow> broker_store option \<Rightarrow> world \<Rightarrow>
   (exn + string) \<times> broker_store option \<times> world"
where
  "begin_authorization sv authenticate client_id redirect_uri scope code_challenge code_challenge_method
     tenant_base_url username password disk w =
     (let integration = integration_for_client_id (sv_config sv) client_id in
      case authenticate tenant_base_url username password integration w of
        (Inl e, w') \<Rightarrow> (Inl e, disk, w')
      | (Inr session, w') \<Rightarrow>
          (let session = stamp_broker_session_metadata session client_id integration in
           store_update (mint_updater sv client_id redirect_uri scope code_challenge code_challenge_method
                           session) disk w'))"

section \<open>Token pairs\<close>

definition write_token_pair_to_state ::
  "auth_service \<Rightarrow> session \<Rightarrow> string \<Rightarrow> string \<Rightarrow> bool \<Rightarrow> string option \<Rightarrow>
   broker_store \<Rightarrow> world \<Rightarrow> token_response \<times> broker_store \<times> world"
where
  "write_token_pair_to_state sv session scope client_id rotate_refresh_token existing_refresh_token st w =
     (let cfg = oauth (sv_config sv);
          (access_token, w) = random_token ''at'' w;
          (now, w) = now_ms w;
          access_expires_at = now + token_ttl_seconds cfg * 1000;
          (refresh_token, w) =
            (if rotate_refresh_token then (case random_token ''rt'' w of (t, w) \<Rightarrow> (Some t, w))
             else (existing_refresh_token, w));
          integration = integration_for_client_id (sv_config sv) client_id;
          stamped = stamp_broker_session_metadata session client_id integration;
          (sealed, w) = seal_session (sv_cipher sv) stamped w;
          (created, w) = now_ms w;
          st = st\<lparr>accessTokens := AList.update access_token
                 \<lparr>at_accessToken = access_token, at_clientId = client_id, at_scope = scope,
                  at_integration = integration, at_session = sealed, at_expiresAt = access_expires_at,
                  at_createdAt = created, at_revokedAt = None\<rparr> (accessTokens st)\<rparr>;
          (st, w) =
            (if rotate_refresh_token \<and> truthy_str refresh_token then
               (let (r_created, w) = now_ms w; (r_now, w) = now_ms w in
                (st\<lparr>refreshTokens := AList.update (the refresh_token)
                   \<lparr>rt_refreshToken = the refresh_token, rt_clientId = client_id, rt_scope = scope,
                    rt_integration = integration, rt_session = sealed, rt_createdAt = r_created,
                    rt_expiresAt = Some (r_now + refresh_token_ttl_seconds cfg * 1000),
                    rt_revokedAt = None, rt_rotationResponse = None\<rparr> (refreshTokens st)\<rparr>, w))
             else (st, w))
      in (\<lparr>tr_access_token = access_token, tr_token_type = ''Bearer'',
           tr_expires_in = token_ttl_seconds cfg, tr_refresh_token = refresh_token, tr_scope = scope\<rparr>,
          st, w))"

definition create_token_pair ::
  "auth_service \<Rightarrow> session \<Rightarrow> string \<Rightarrow> string \<Rightarrow> bool \<Rightarrow> string option \<Rightarrow>
   broker_store option \<Rightarrow> world \<Rightarrow> (exn + token_response) \<times> broker_store option \<times> world"
where
  "create_token_pair sv session scope client_id rotate_refresh_token existing_refresh_token =
     store_update (\<lambda>st w.
       let (st, w) = svc_prune sv st w;
           (tokens, st, w) = write_token_pair_to_state sv session scope client_id rotate_refresh_token
                               existing_refresh_token st w
       in (Inr tokens, st, w))"

text \<open>The OAuth body of an operation: an error with its description, or the tokens.\<close>

datatype oauth_result = OAuthError string string | OAuthTokens token_response

definition invalid_client :: oauth_result where
  "invalid_client = OAuthError ''invalid_client'' ''Unknown OAuth client_id.''"

section \<open>Exchange of an authorization code\<close>

datatype exchange_result = ExchangeError string string | ExchangeOk session string

definition exchange_updater ::
  "auth_service \<Rightarrow> string \<Rightarrow> string \<Rightarrow> string \<Rightarrow> string option \<Rightarrow> broker_store \<Rightarrow> world \<Rightarrow>
   (exn + exchange_result) \<times> broker_store \<times> world"
where
  "exchange_updater sv client_id redirect_uri code code_verifier st w =
     (let (st, w) = svc_prune sv st w in
      case dict_get (authorizationCodes st) code of
        None \<Rightarrow> (Inr (ExchangeError ''invalid_grant'' ''Authorization code not found.''), st, w)
      | Some r \<Rightarrow>
          (let st = st\<lparr>authorizationCodes := AList.delete code (authorizationCodes st)\<rparr> in
           if ac_clientId r \<noteq> client_id \<or> ac_redirectUri r \<noteq> redirect_uri then
             (Inr (ExchangeError ''invalid_grant'' ''Client binding mismatch.''), st, w)
           else if \<not> truthy_str (ac_codeChallenge r) \<or> \<not> truthy_str code_verifier then
             (Inr (ExchangeError ''invalid_request'' ''PKCE code verifier is required.''), st, w)
           else if str_or (Some (ac_codeChallengeMethod r)) ''S256'' \<noteq> ''S256'' then
             (Inr (ExchangeError ''invalid_request'' ''Only S256 PKCE is supported.''), st, w)
           else if sha256_b64url (the code_verifier) \<noteq> the (ac_codeChallenge r) then
             (Inr (ExchangeError ''invalid_grant'' ''PKCE verification failed.''), st, w)
           else
             (case try_open_session_dict (sv_cipher sv) (ac_session r) of
                Inl e \<Rightarrow> (Inl e, st, w)
              | Inr None \<Rightarrow>
                  (Inr (ExchangeError ''invalid_grant'' ''Session no longer valid; please sign in again.''), st, w)
              | Inr (Some opened) \<Rightarrow> (Inr (ExchangeOk opened (ac_scope r)), st, w))))"

definition exchange_authorization_code ::
  "auth_service \<Rightarrow> string \<Rightarrow> string \<Rightarrow> string \<Rightarrow> string option \<Rightarrow> broker_store option \<Rightarrow> world \<Rightarrow>
   (exn + oauth_result) \<times> broker_store option \<times> world"
where
  "exchange_authorization_code sv client_id redirect_uri code code_verifier disk w =
     (if \<not> is_configured_client (sv_config sv) client_id then (Inr invalid_client, disk, w)
      else
        (case store_update (exchange_updater sv client_id redirect_uri code code_verifier) disk w of
           (Inl e, disk, w) \<Rightarrow> (Inl e, disk, w)
         | (Inr (ExchangeError e d), disk, w) \<Rightarrow> (Inr (OAuthError e d), disk, w)
         | (Inr (ExchangeOk session scope), disk, w) \<Rightarrow>
             (case create_token_pair sv session scope client_id True None disk w of
                (Inl e, disk, w) \<Rightarrow> (Inl e, disk, w)
              | (Inr tokens, disk, w) \<Rightarrow> (Inr (OAuthTokens tokens), disk, w))))"

section \<open>Refresh\<close>

definition refresh_updater ::
  "auth_service \<Rightarrow> string \<Rightarrow> string \<Rightarrow> broker_store \<Rightarrow> world \<Rightarrow> (exn + oauth_result) \<times> broker_store \<times> world"
where
  "refresh_updater sv client_id refresh_token st w =
     (let grace_ms = refresh_grace_seconds (oauth (sv_config sv)) * 1000;
          (now, w) = now_ms w;
          st = prune_expired st now grace_ms in
      case dict_get (refreshTokens st) refresh_token of
        None \<Rightarrow> (Inr (OAuthError ''invalid_grant'' ''Refresh token not found.''), st, w)
      | Some r0 \<Rightarrow>
          if rt_clientId r0 \<noteq> client_id then
            (Inr (OAuthError ''invalid_grant'' ''Refresh token not found.''), st, w)
          else
            (case stamp_refresh_record (sv_config sv) r0 of
               None \<Rightarrow> (Inr invalid_client, st, w)
             | Some r \<Rightarrow>
                 (let st = st\<lparr>refreshTokens := modify_dict refresh_token (\<lambda>_. r) (refreshTokens st)\<rparr> in
                  case try_open_session_dict (sv_cipher sv) (rt_session r) of
                    Inl e \<Rightarrow> (Inl e, st, w)
                  | Inr None \<Rightarrow>
                      (Inr (OAuthError ''invalid_grant'' ''Session no longer valid; please sign in again.''), st, w)
                  | Inr (Some opened) \<Rightarrow>
                      if truthy_int (rt_revokedAt r) then
                        (let (now, w) = now_ms w in
                         case rt_rotationResponse r of
                           Some cached \<Rightarrow>
                             if now - the (rt_revokedAt r) \<le> grace_ms \<and> truthy_str (tr_refresh_token cached)
                             then (Inr (OAuthTokens cached), st, w)
                             else (Inr (OAuthError ''invalid_grant'' ''Refresh token not found.''), st, w)
                         | None \<Rightarrow>
                             (Inr (OAuthError ''invalid_grant'' ''Refresh token not found.''), st, w))
                      else
                        (let (now, w) = now_ms w;
                             st = st\<lparr>refreshTokens :=
                                    modify_dict refresh_token (\<lambda>r. r\<lparr>rt_revokedAt := Some now\<rparr>) (refreshTokens st)\<rparr>;
                             (tokens, st, w) =
                               write_token_pair_to_state sv opened (rt_scope r) client_id True None st w;
                             st = st\<lparr>refreshTokens :=
                                    modify_dict refresh_token (\<lambda>r. r\<lparr>rt_rotationResponse := Some tokens\<rparr>)
                                      (refreshTokens st)\<rparr>
                         in (Inr (OAuthTokens tokens), st, w)))))"

definition refresh_access_token ::
  "auth_service \<Rightarrow> string \<Rightarrow> string \<Rightarrow> broker_store option \<Rightarrow> world \<Rightarrow>
   (exn + oauth_result) \<times> broker_store option \<times> world"
where
  "refresh_access_token sv client_id refresh_token disk w =
     (if \<not> is_configured_client (sv_config sv) client_id then (Inr invalid_client, disk, w)
      else store_update (refresh_updater sv client_id refresh_token) disk w)"

section \<open>Reading an access token\<close>

definition open_session :: "auth_service \<Rightarrow> access_record \<Rightarrow> exn + access_record option" where
  "open_session sv r =
     (case try_open_session_dict (sv_cipher sv) (at_session r) of
        Inl e \<Rightarrow> Inl e
      | Inr None \<Rightarrow> Inr None
      | Inr (Some opened) \<Rightarrow> Inr (Some (r\<lparr>at_session := opened\<rparr>)))"

definition read_access_updater ::
  "auth_service \<Rightarrow> string \<Rightarrow> broker_store \<Rightarrow> world \<Rightarrow> (exn + access_record option) \<times> broker_store \<times> world"
where
  "read_access_updater sv token st w =
     (let (st, w) = svc_prune sv st w in
      case dict_get (accessTokens st) token of
        None \<Rightarrow> (Inr None, st, w)
      | Some r0 \<Rightarrow>
          (case stamp_access_record (sv_config sv) r0 of
             None \<Rightarrow> (Inr None, st, w)
           | Some r \<Rightarrow>
               (Inr (Some r), st\<lparr>accessTokens := modify_dict token (\<lambda>_. r) (accessTokens st)\<rparr>, w)))"

definition read_access_token ::
  "auth_service \<Rightarrow> string \<Rightarrow> broker_store option \<Rightarrow> world \<Rightarrow>
   (exn + access_record option) \<times> broker_store option \<times> world"
where
  "read_access_token sv token disk w =
     (case store_update (read_access_updater sv token) disk w of
        (Inl e, disk, w) \<Rightarrow> (Inl e, disk, w)
      | (Inr None, disk, w) \<Rightarrow> (Inr None, disk, w)
      | (Inr (Some r), disk, w) \<Rightarrow> (open_session sv r, disk, w))"

section \<open>Revocation\<close>

definition revoke_updater ::
  "auth_service \<Rightarrow> string \<Rightarrow> broker_store \<Rightarrow> world \<Rightarrow> (exn + bool) \<times> broker_store \<times> world"
where
  "revoke_updater sv token st w =
     (let (st, w) = svc_prune sv st w in
      if dict_get (accessTokens st) token \<noteq> None then
        (let (now, w) = now_ms w;
             ats = modify_dict token (\<lambda>r. r\<lparr>at_revokedAt := Some now\<rparr>) (accessTokens st)
         in (Inr True, st\<lparr>accessTokens := AList.delete token ats\<rparr>, w))
      else if dict_get (refreshTokens st) token \<noteq> None then
        (let (now, w) = now_ms w in
         (Inr True,
          st\<lparr>refreshTokens := modify_dict token (\<lambda>r. r\<lparr>rt_revokedAt := Some now\<rparr>) (refreshTokens st)\<rparr>, w))
      else (Inr False, st, w))"

definition revoke_token ::
  "auth_service \<Rightarrow> string \<Rightarrow> broker_store option \<Rightarrow> world \<Rightarrow> (exn + bool) \<times> broker_store option \<times> world"
where
  "revoke_token sv token = store_update (revoke_updater sv token)"

definition session_of_user :: "string \<Rightarrow> string \<Rightarrow> session \<Rightarrow> bool" where
  "session_of_user user_id tenant_id s \<longleftrightarrow> us_id (ss_user s) = user_id \<and> tn_id (ss_tenant s) = tenant_id"

definition revoke_user_updater ::
  "auth_service \<Rightarrow> string \<Rightarrow> string \<Rightarrow> broker_store \<Rightarrow> world \<Rightarrow> (exn + unit) \<times> broker_store \<times> world"
where
  "revoke_user_updater sv user_id tenant_id st w =
     (let (st, w) = svc_prune sv st w;
          (now, w) = now_ms w
      in (Inr (),
          st\<lparr>accessTokens := map_dict (\<lambda>r. if session_of_user user_id tenant_id (at_session r)
                                          then r\<lparr>at_revokedAt := Some now\<rparr> else r) (accessTokens st),
             refreshTokens := map_dict (\<lambda>r. if session_of_user user_id tenant_id (rt_session r)
                                          then r\<lparr>rt_revokedAt := Some now\<rparr> else r) (refreshTokens st),
             assetGrants := map_dict (\<lambda>r. if ag_userId r = user_id \<and> ag_tenantId r = tenant_id
                                        then r\<lparr>ag_expiresAt := 0\<rparr> else r) (assetGrants st)\<rparr>, w))"

definition revoke_tokens_for_user ::
  "auth_service \<Rightarrow> string \<Rightarrow> string \<Rightarrow> broker_store option \<Rightarrow> world \<Rightarrow>
   (exn + unit) \<times> broker_store option \<times> world"
where
  "revoke_tokens_for_user sv user_id tenant_id = store_update (revoke_user_updater sv user_id tenant_id)"

section \<open>User information and statistics\<close>

text \<open>\<^verbatim>\<open>ResourceSpaceService.get_session_summary\<close>; the email is present only when it is not empty.\<close>

record session_summary =
  sm_mode :: string
  sm_tenant_id :: string
  sm_tenant_slug :: "string option"
  sm_tenant_name :: "string option"
  sm_tenant_baseUrl :: "string option"
  sm_user_id :: string
  sm_username :: string
  sm_displayName :: "string option"
  sm_role :: "string option"
  sm_email :: "string option"

definition get_session_summary :: "session \<Rightarrow> session_summary" where
  "get_session_summary s =
     \<lparr>sm_mode = up_mode (ss_upstream s),
      sm_tenant_id = tn_id (ss_tenant s), sm_tenant_slug = tn_slug (ss_tenant s),
      sm_tenant_name = tn_name (ss_tenant s), sm_tenant_baseUrl = tn_baseUrl (ss_tenant s),
      sm_user_id = us_id (ss_user s), sm_username = us_username (ss_user s),
      sm_displayName = us_displayName (ss_user s), sm_role = us_role (ss_user s),
      sm_email = (if truthy_str (us_email (ss_user s)) then us_email (ss_user s) else None)\<rparr>"

record userinfo =
  ui_sub :: string
  ui_preferred_username :: string
  ui_name :: "string option"
  ui_tenant_id :: string
  ui_tenant_slug :: "string option"
  ui_tenant_name :: "string option"
  ui_role :: "string option"
  ui_scope :: string
  ui_email :: "string option"

definition userinfo_of :: "access_record \<Rightarrow> userinfo" where
  "userinfo_of r =
     (let s = get_session_summary (at_session r) in
      \<lparr>ui_sub = sm_user_id s, ui_preferred_username = sm_username s, ui_name = sm_displayName s,
       ui_tenant_id = sm_tenant_id s, ui_tenant_slug = sm_tenant_slug s, ui_tenant_name = sm_tenant_name s,
       ui_role = sm_role s, ui_scope = at_scope r,
       ui_email = (if truthy_str (sm_email s) then sm_email s else None)\<rparr>)"

definition read_user_info_from_access_token ::
  "auth_service \<Rightarrow> string \<Rightarrow> broker_store option \<Rightarrow> world \<Rightarrow>
   (exn + userinfo option) \<times> broker_store option \<times> world"
where
  "read_user_info_from_access_token sv token disk w =
     (case read_access_token sv token disk w of
        (Inl e, disk, w) \<Rightarrow> (Inl e, disk, w)
      | (Inr r, disk, w) \<Rightarrow> (Inr (map_option userinfo_of r), disk, w))"

record auth_stats =
  authorizationCodeCount :: nat
  accessTokenCount :: nat
  refreshTokenCount :: nat
  assetGrantCount :: nat

text \<open>\<^verbatim>\<open>get_stats\<close> prunes its own copy of the state: the file is not written.\<close>

definition get_stats :: "auth_service \<Rightarrow> broker_store option \<Rightarrow> world \<Rightarrow> auth_stats \<times> world" where
  "get_stats sv disk w =
     (case svc_prune sv (store_read initial_store disk) w of
        (st, w) \<Rightarrow>
          (\<lparr>authorizationCodeCount = length (authorizationCodes st),
            accessTokenCount = length (accessTokens st),
            refreshTokenCount = length (refreshTokens st),
            assetGrantCount = length (assetGrants st)\<rparr>, w))"

end
