(* ===== verification/Sso_Service.thy ===== *)
theory Sso_Service
  imports Auth_Service
begin

text \<open>
  The hosted-login part of \<^verbatim>\<open>services/auth_service.py\<close>: pending handoff states, their
  classification, the single-use completion that mints an authorization code, and the limits on
  outstanding states.
\<close>

datatype sso_status =
    SsoInvalid
  | SsoReplayed pending_sso
  | SsoExpired pending_sso
  | SsoActive pending_sso

datatype sso_completion = SsoRejected sso_status | SsoValid string pending_sso

definition outstanding_for_source :: "broker_store \<Rightarrow> string \<Rightarrow> int \<Rightarrow> int" where
  "outstanding_for_source st initiator_key now =
     int (length (filter (\<lambda>(k, r). ps_initiatorKey r = initiator_key \<and> is_active_pending_sso_state r now)
       (pendingSsoStates st)))"

definition active_pending :: "broker_store \<Rightarrow> int \<Rightarrow> int" where
  "active_pending st now =
     int (length (filter (\<lambda>(k, r). is_active_pending_sso_state r now) (pendingSsoStates st)))"

definition capacity_source_error :: rs_error where
  "capacity_source_error =
     rs_err ''SSO_CAPACITY'' ''Too many pending SSO sign-ins from this source; please retry shortly.'' 503"

definition capacity_total_error :: rs_error where
  "capacity_total_error =
     rs_err ''SSO_CAPACITY'' ''Too many pending SSO sign-ins; please retry shortly.'' 503"

text \<open>What \<^verbatim>\<open>begin_sso_authorization\<close> is asked for.\<close>

record sso_request =
  sr_client_id :: string
  sr_redirect_uri :: string
  sr_scope :: string
  sr_code_challenge :: "string option"
  sr_code_challenge_method :: "string option"
  sr_canva_state :: string
  sr_tenant :: tenant
  sr_correlation_id :: string
  sr_initiator_key :: string

definition begin_sso_updater ::
  "auth_service \<Rightarrow> sso_request \<Rightarrow> int \<Rightarrow> int \<Rightarrow> broker_store \<Rightarrow> world \<Rightarrow> (exn + string) \<times> broker_store \<times> world"
where
  "begin_sso_updater sv req expires_at purge_at st w =
     (let (st, w) = svc_prune sv st w in
      case max_pending_sso_states_per_source (sv_config sv) of
        Inl e \<Rightarrow> (Inl e, st, w)
      | Inr per_source_limit \<Rightarrow>
          (let (now, w) = now_ms w in
           if per_source_limit \<le> outstanding_for_source st (sr_initiator_key req) now then
             (Inl (ResourceSpaceError capacity_source_error), st, w)
           else if MAX_PENDING_SSO_STATES \<le> active_pending st now then
             (Inl (ResourceSpaceError capacity_total_error), st, w)
           else
             (let (handoff_state, w) = random_token ''ssostate'' w;
                  r = \<lparr>ps_handoffState = handoff_state, ps_canvaState = sr_canva_state req,
                       ps_clientId = sr_client_id req, ps_redirectUri = sr_redirect_uri req,
                       ps_scope = sr_scope req, ps_codeChallenge = sr_code_challenge req,
                       ps_codeChallengeMethod = str_or (sr_code_challenge_method req) ''S256'',
                       ps_tenant = sr_tenant req, ps_correlationId = sr_correlation_id req,
                       ps_initiatorKey = sr_initiator_key req, ps_createdAt = now,
                       ps_expiresAt = expires_at, ps_usedAt = None, ps_purgeAt = purge_at\<rparr>
              in (Inr handoff_state,
                  st\<lparr>pendingSsoStates := AList.update handoff_state r (pendingSsoStates st)\<rparr>, w))))"

definition begin_sso_authorization ::
  "auth_service \<Rightarrow> sso_request \<Rightarrow> broker_store option \<Rightarrow> world \<Rightarrow> (exn + string) \<times> broker_store option \<times> world"
where
  "begin_sso_authorization sv req disk w =
     (let rs = resource_space (sv_config sv);
          (now, w) = now_ms w;
          expires_at = now + sso_pending_ttl_seconds rs * 1000;
          purge_at = expires_at + sso_replay_retention_seconds rs * 1000
      in store_update (begin_sso_updater sv req expires_at purge_at) disk w)"

definition classify_pending_sso_record :: "pending_sso option \<Rightarrow> world \<Rightarrow> sso_status \<times> world" where
  "classify_pending_sso_record x w =
     (case x of
        None \<Rightarrow> (SsoInvalid, w)
      | Some r \<Rightarrow>
          if truthy_int (ps_usedAt r) then (SsoReplayed r, w)
          else (case now_ms w of (now, w) \<Rightarrow>
            if now > ps_expiresAt r then (SsoExpired r, w) else (SsoActive r, w)))"

text \<open>\<^verbatim>\<open>inspect_pending_sso_state\<close> reads leniently and without pruning.\<close>

definition inspect_pending_sso_state :: "string \<Rightarrow> broker_store option \<Rightarrow> world \<Rightarrow> sso_status \<times> world" where
  "inspect_pending_sso_state handoff_state disk w =
     classify_pending_sso_record
       (dict_get (pendingSsoStates (store_read initial_store disk)) handoff_state) w"

text \<open>
  The record is marked as used after the code is minted; minting prunes again, so the record may
  have left the store by then, in which case the mark has no effect on it.
\<close>

definition complete_sso_updater ::
  "auth_service \<Rightarrow> string \<Rightarrow> session \<Rightarrow> broker_store \<Rightarrow> world \<Rightarrow> (exn + sso_completion) \<times> broker_store \<times> world"
where
  "complete_sso_updater sv handoff_state session st w =
     (let (st, w) = svc_prune sv st w;
          (status, w) = classify_pending_sso_record (dict_get (pendingSsoStates st) handoff_state) w
      in case status of
           SsoActive r \<Rightarrow>
             (let client_id = ps_clientId r;
                  integration = integration_for_client_id (sv_config sv) client_id;
                  stamped = stamp_broker_session_metadata session client_id integration;
                  (code, st, w) =
                    mint_authorization_code sv client_id (ps_redirectUri r) (ps_scope r)
                      (ps_codeChallenge r) (Some (ps_codeChallengeMethod r)) stamped st w;
                  (now, w) = now_ms w;
                  used = r\<lparr>ps_usedAt := Some now\<rparr>
              in (Inr (SsoValid code used),
                  st\<lparr>pendingSsoStates := modify_dict handoff_state (\<lambda>_. used) (pendingSsoStates st)\<rparr>, w))
         | other \<Rightarrow> (Inr (SsoRejected other), st, w))"

definition complete_sso_authorization ::
  "auth_service \<Rightarrow> string \<Rightarrow> session \<Rightarrow> broker_store option \<Rightarrow> world \<Rightarrow>
   (exn + sso_completion) \<times> broker_store option \<times> world"
where
  "complete_sso_authorization sv handoff_state session =
     store_update (complete_sso_updater sv handoff_state session)"

text \<open>The deprecated \<^verbatim>\<open>consume_pending_sso_state\<close>: the answer \<^verbatim>\<open>valid\<close> is the record marked as used.\<close>

datatype sso_consumption = ConsumeRejected sso_status | ConsumeValid pending_sso

definition consume_updater ::
  "auth_service \<Rightarrow> string \<Rightarrow> broker_store \<Rightarrow> world \<Rightarrow> (exn + sso_consumption) \<times> broker_store \<times> world"
where
  "consume_updater sv handoff_state st w =
     (let (st, w) = svc_prune sv st w in
      case dict_get (pendingSsoStates st) handoff_state of
        None \<Rightarrow> (Inr (ConsumeRejected SsoInvalid), st, w)
      | Some r \<Rightarrow>
          if truthy_int (ps_usedAt r) then (Inr (ConsumeRejected (SsoReplayed r)), st, w)
          else
            (let (now, w) = now_ms w in
             if now > ps_expiresAt r then (Inr (ConsumeRejected (SsoExpired r)), st, w)
             else
               (let (now, w) = now_ms w; used = r\<lparr>ps_usedAt := Some now\<rparr> in
                (Inr (ConsumeValid used),
                 st\<lparr>pendingSsoStates := modify_dict handoff_state (\<lambda>_. used) (pendingSsoStates st)\<rparr>, w))))"

definition consume_pending_sso_state ::
  "auth_service \<Rightarrow> string \<Rightarrow> broker_store option \<Rightarrow> world \<Rightarrow>
   (exn + sso_consumption) \<times> broker_store option \<times> world"
where
  "consume_pending_sso_state sv handoff_state = store_update (consume_updater sv handoff_state)"

end
