(* ===== verification/Auth_Facts.thy ===== *)
theory Auth_Facts
  imports Sso_Service
begin

text \<open>
  What each updater of the authentication services does to the store, in the form the properties
  use: the effect of minting a code and of writing a token pair as equations on the buckets, the
  conditions of a successful exchange, refresh and read, and the frame of every operation (which
  buckets it leaves alone, how the world moves).
\<close>

section \<open>Pruning inside an updater\<close>

abbreviation now_of :: "world \<Rightarrow> int" where
  "now_of w \<equiv> clock w (ticks w)"

lemma svc_prune_eq [simp]:
  "svc_prune sv st w =
     (prune_expired st (now_of w) (refresh_grace_ms sv), w\<lparr>ticks := Suc (ticks w)\<rparr>)"
  by (simp add: svc_prune_def)

section \<open>Minting a code\<close>

lemma mint_effect:
  assumes "mint_authorization_code sv cid uri scope ch meth s st w = (code, st', w')"
  obtains sealed w1 where
    "code = ''code_'' @ rand w (draws w)"
    "seal_session (sv_cipher sv) s (w\<lparr>ticks := Suc (ticks w), draws := Suc (draws w)\<rparr>) = (sealed, w1)"
    "w' = w1\<lparr>ticks := Suc (ticks w1)\<rparr>"
    "st' = (prune_expired st (now_of w) (refresh_grace_ms sv))
             \<lparr>authorizationCodes := AList.update code
                \<lparr>ac_code = code, ac_clientId = cid, ac_redirectUri = uri, ac_scope = scope,
                 ac_codeChallenge = ch, ac_codeChallengeMethod = str_or meth ''S256'',
                 ac_session = sealed,
                 ac_expiresAt = clock w1 (ticks w1) + auth_code_ttl_seconds (oauth (sv_config sv)) * 1000\<rparr>
                (prune_dict (code_dead (now_of w)) (authorizationCodes st))\<rparr>"
  using assms
  by (auto simp: mint_authorization_code_def Let_def random_token_def split: prod.splits)

lemma mint_later: "mint_authorization_code sv cid uri scope ch meth s st w = (code, st', w') \<Longrightarrow> later w w'"
proof (erule mint_effect)
  fix sealed w1
  assume seal: "seal_session (sv_cipher sv) s (w\<lparr>ticks := Suc (ticks w), draws := Suc (draws w)\<rparr>) = (sealed, w1)"
    and w': "w' = w1\<lparr>ticks := Suc (ticks w1)\<rparr>"
  have "later w (w\<lparr>ticks := Suc (ticks w), draws := Suc (draws w)\<rparr>)"
    by (simp add: later_def)
  also have "later \<dots> w1" using seal by (rule seal_session_later)
  also have "later w1 w'" by (simp add: w')
  finally show "later w w'" .
qed

section \<open>Writing a token pair\<close>

definition access_token_of :: "world \<Rightarrow> string" where
  "access_token_of w = ''at_'' @ rand w (draws w)"

definition refresh_token_of :: "world \<Rightarrow> string" where
  "refresh_token_of w = ''rt_'' @ rand w (Suc (draws w))"

lemma write_pair_effect:
  assumes "write_token_pair_to_state sv s scope cid True None st w = (tk, st', w')"
  obtains sealed w1 arec rrec where
    "seal_session (sv_cipher sv)
       (stamp_broker_session_metadata s cid (integration_for_client_id (sv_config sv) cid))
       (w\<lparr>ticks := Suc (ticks w), draws := Suc (Suc (draws w))\<rparr>) = (sealed, w1)"
    "w' = w1\<lparr>ticks := Suc (Suc (Suc (ticks w1)))\<rparr>"
    "arec = \<lparr>at_accessToken = access_token_of w, at_clientId = cid, at_scope = scope,
             at_integration = integration_for_client_id (sv_config sv) cid, at_session = sealed,
             at_expiresAt = now_of w + token_ttl_seconds (oauth (sv_config sv)) * 1000,
             at_createdAt = clock w1 (ticks w1), at_revokedAt = None\<rparr>"
    "rrec = \<lparr>rt_refreshToken = refresh_token_of w, rt_clientId = cid, rt_scope = scope,
             rt_integration = integration_for_client_id (sv_config sv) cid, rt_session = sealed,
             rt_createdAt = clock w1 (Suc (ticks w1)),
             rt_expiresAt = Some (clock w1 (Suc (Suc (ticks w1)))
                                  + refresh_token_ttl_seconds (oauth (sv_config sv)) * 1000),
             rt_revokedAt = None, rt_rotationResponse = None\<rparr>"
    "tk = \<lparr>tr_access_token = access_token_of w, tr_token_type = ''Bearer'',
           tr_expires_in = token_ttl_seconds (oauth (sv_config sv)),
           tr_refresh_token = Some (refresh_token_of w), tr_scope = scope\<rparr>"
    "st' = st\<lparr>accessTokens := AList.update (access_token_of w) arec (accessTokens st),
              refreshTokens := AList.update (refresh_token_of w) rrec (refreshTokens st)\<rparr>"
  using assms
  by (auto simp: write_token_pair_to_state_def Let_def random_token_def access_token_of_def
      refresh_token_of_def split: prod.splits)

lemma write_pair_later:
  assumes "write_token_pair_to_state sv s scope cid True None st w = (tk, st', w')"
  shows "later w w'"
proof -
  from assms obtain s1 sealed w1
    where seal: "seal_session (sv_cipher sv) s1 (w\<lparr>ticks := Suc (ticks w), draws := Suc (Suc (draws w))\<rparr>) = (sealed, w1)"
      and w': "w' = w1\<lparr>ticks := Suc (Suc (Suc (ticks w1)))\<rparr>"
    by (elim write_pair_effect) blast
  have "later w (w\<lparr>ticks := Suc (ticks w), draws := Suc (Suc (draws w))\<rparr>)"
    by (simp add: later_def)
  also have "later \<dots> w1" using seal by (rule seal_session_later)
  also have "later w1 w'" by (simp add: w' later_def)
  finally show ?thesis .
qed

section \<open>Exchange\<close>

text \<open>The specification of a redeemable code at a time.\<close>

definition code_redeemable ::
  "auth_service \<Rightarrow> broker_store \<Rightarrow> int \<Rightarrow> string \<Rightarrow> string \<Rightarrow> string \<Rightarrow> string option \<Rightarrow> session \<Rightarrow> string \<Rightarrow> bool"
where
  "code_redeemable sv st now cid uri code ver s scope \<longleftrightarrow>
     (\<exists>r ch v. dict_get (authorizationCodes st) code = Some r \<and> now < ac_expiresAt r \<and>
        ac_clientId r = cid \<and> ac_redirectUri r = uri \<and> ac_scope r = scope \<and>
        ac_codeChallenge r = Some ch \<and> ver = Some v \<and> ch \<noteq> [] \<and> v \<noteq> [] \<and>
        ac_codeChallengeMethod r \<in> {[], ''S256''} \<and> sha256_b64url v = ch \<and>
        open_session_dict (sv_cipher sv) (ac_session r) = Inr s)"

lemma try_open_Some: "try_open_session_dict c s = Inr (Some s') \<longleftrightarrow> open_session_dict c s = Inr s'"
  by (auto simp: try_open_session_dict_def split: sum.splits open_error.splits)

lemma str_or_S256: "str_or (Some m) ''S256'' = ''S256'' \<longleftrightarrow> m = [] \<or> m = ''S256''"
  by (cases m) auto

lemma truthy_str_iff: "truthy_str x \<longleftrightarrow> (\<exists>v. x = Some v \<and> v \<noteq> [])"
  by (cases x) auto

lemma exchange_updater_effect:
  assumes "wf_store st" and "exchange_updater sv cid uri code ver st w = (Inr res, st', w')"
  shows "w' = w\<lparr>ticks := Suc (ticks w)\<rparr> \<and>
    st' = (prune_expired st (now_of w) (refresh_grace_ms sv))
            \<lparr>authorizationCodes := AList.delete code (prune_dict (code_dead (now_of w)) (authorizationCodes st))\<rparr>"
proof -
  let ?codes = "prune_dict (code_dead (now_of w)) (authorizationCodes st)"
  show ?thesis
  proof (cases "dict_get ?codes code")
    case None
    then have del: "AList.delete code ?codes = ?codes" by (rule delete_absent)
    show ?thesis unfolding del using assms(2) None
      by (auto simp: exchange_updater_def Let_def prune_expired_def simp del: get_prune)
  next
    case (Some r)
    with assms(2) show ?thesis
      by (auto simp: exchange_updater_def Let_def simp del: get_prune split: if_splits sum.splits option.splits)
  qed
qed

lemma exchange_updater_ok:
  assumes "wf_store st"
  shows "(\<exists>st' w'. exchange_updater sv cid uri code ver st w = (Inr (ExchangeOk s scope), st', w')) \<longleftrightarrow>
    code_redeemable sv st (now_of w) cid uri code ver s scope"
  using assms
  by (auto simp: exchange_updater_def code_redeemable_def Let_def wf_storeD code_dead_def truthy_str_iff
      str_or_S256 try_open_Some [symmetric] split: option.splits if_splits sum.splits)

lemma create_pair_commits:
  obtains tk st' w' where
    "create_token_pair sv s scope cid True None (Some st) w = (Inr tk, Some st', w')"
    "write_token_pair_to_state sv s scope cid True None
       (prune_expired st (now_of w) (refresh_grace_ms sv)) (w\<lparr>ticks := Suc (ticks w)\<rparr>) = (tk, st', w')"
  by (cases "write_token_pair_to_state sv s scope cid True None
       (prune_expired st (now_of w) (refresh_grace_ms sv)) (w\<lparr>ticks := Suc (ticks w)\<rparr>)")
     (auto simp: create_token_pair_def store_update_Some)

text \<open>A successful exchange is a successful updater followed by a token pair.\<close>

lemma exchange_tokens_iff:
  "exchange_authorization_code sv cid uri code ver (Some st) w = (Inr (OAuthTokens tk), d', w') \<longleftrightarrow>
   is_configured_client (sv_config sv) cid \<and>
   (\<exists>s scope st1 w1. exchange_updater sv cid uri code ver st w = (Inr (ExchangeOk s scope), st1, w1) \<and>
      create_token_pair sv s scope cid True None (Some st1) w1 = (Inr tk, d', w'))"
proof (cases "is_configured_client (sv_config sv) cid")
  case True
  obtain res st1 w1 where upd: "exchange_updater sv cid uri code ver st w = (res, st1, w1)"
    by (cases "exchange_updater sv cid uri code ver st w") auto
  show ?thesis
  proof (cases res)
    case (Inl e)
    with True upd show ?thesis by (simp add: exchange_authorization_code_def store_update_Some)
  next
    case (Inr x)
    show ?thesis
    proof (cases x)
      case (ExchangeError e d)
      with True Inr upd show ?thesis by (simp add: exchange_authorization_code_def store_update_Some)
    next
      case (ExchangeOk s scope)
      obtain r2 d2 w2 where "create_token_pair sv s scope cid True None (Some st1) w1 = (r2, d2, w2)"
        by (cases "create_token_pair sv s scope cid True None (Some st1) w1") auto
      with True Inr upd ExchangeOk show ?thesis
        by (cases r2) (simp_all add: exchange_authorization_code_def store_update_Some)
    qed
  qed
qed (simp add: exchange_authorization_code_def invalid_client_def)

text \<open>What a token response promises about the store: both tokens are there, bound to the client,
  the scope and the session.\<close>

definition token_pair_installed ::
  "auth_service \<Rightarrow> string \<Rightarrow> string \<Rightarrow> session \<Rightarrow> token_response \<Rightarrow> broker_store \<Rightarrow> bool"
where
  "token_pair_installed sv cid scope s tk st \<longleftrightarrow>
     (\<exists>a rt r. dict_get (accessTokens st) (tr_access_token tk) = Some a \<and>
        tr_refresh_token tk = Some rt \<and> dict_get (refreshTokens st) rt = Some r \<and>
        at_clientId a = cid \<and> rt_clientId r = cid \<and> at_scope a = scope \<and> rt_scope r = scope \<and>
        tr_scope tk = scope \<and> at_revokedAt a = None \<and> rt_revokedAt r = None \<and>
        open_session_dict (sv_cipher sv) (at_session a) =
          Inr (stamp_broker_session_metadata s cid (integration_for_client_id (sv_config sv) cid)) \<and>
        rt_session r = at_session a)"

lemma write_pair_installed:
  assumes "write_token_pair_to_state sv s scope cid True None st w = (tk, st', w')"
    and "cipher_ok (sv_cipher sv)" and "plain_session s"
  shows "token_pair_installed sv cid scope s tk st'"
  using assms
  by (elim write_pair_effect) (auto simp: token_pair_installed_def intro: open_seal_session)

lemma exchange_success:
  assumes wf: "wf_store st" and ok: "cipher_ok (sv_cipher sv)" and plain: "plain_session s"
    and conf: "is_configured_client (sv_config sv) cid"
    and red: "code_redeemable sv st (now_of w) cid uri code ver s scope"
  obtains tk st' w' where
    "exchange_authorization_code sv cid uri code ver (Some st) w = (Inr (OAuthTokens tk), Some st', w')"
    "token_pair_installed sv cid scope s tk st'" "dict_get (authorizationCodes st') code = None"
proof -
  obtain st1 w1 where upd: "exchange_updater sv cid uri code ver st w = (Inr (ExchangeOk s scope), st1, w1)"
    using red exchange_updater_ok [OF wf] by blast
  obtain tk st' w' where pair: "create_token_pair sv s scope cid True None (Some st1) w1 = (Inr tk, Some st', w')"
    and wr: "write_token_pair_to_state sv s scope cid True None
       (prune_expired st1 (now_of w1) (refresh_grace_ms sv)) (w1\<lparr>ticks := Suc (ticks w1)\<rparr>) = (tk, st', w')"
    by (rule create_pair_commits)
  have st1: "authorizationCodes st1 = AList.delete code (prune_dict (code_dead (now_of w)) (authorizationCodes st))"
    using exchange_updater_effect [OF wf upd] by simp
  have "wf_dict (authorizationCodes st1)" using wf by (simp add: st1 wf_storeD)
  then have "dict_get (authorizationCodes st') code = None"
    using wr by (elim write_pair_effect) (simp add: st1)
  moreover have "token_pair_installed sv cid scope s tk st'"
    using wr ok plain by (rule write_pair_installed)
  moreover have "exchange_authorization_code sv cid uri code ver (Some st) w = (Inr (OAuthTokens tk), Some st', w')"
    using conf upd pair exchange_tokens_iff by blast
  ultimately show thesis using that by blast
qed

end
