(* ===== verification/Token_Facts.thy ===== *)
theory Token_Facts
  imports Auth_Facts
begin

text \<open>
  What a refresh, a read and a revocation do to the store, as conditional equations: the first use
  of a refresh token rotates it, a replay inside the grace window answers from the cache and mints
  nothing, everything else is refused.
\<close>

section \<open>Opening a stamped session\<close>

lemma open_stamp:
  "open_session_dict c (stamp_broker_session_metadata s cid i) =
     map_sum id (\<lambda>s'. stamp_broker_session_metadata s' cid i) (open_session_dict c s)"
  by (auto simp: open_session_dict_def stamp_broker_session_metadata_def Let_def split: sum.splits option.splits)

lemma open_stamp_Inr:
  "open_session_dict c s = Inr s' \<Longrightarrow>
   open_session_dict c (stamp_broker_session_metadata s cid i) = Inr (stamp_broker_session_metadata s' cid i)"
  by (simp add: open_stamp)

lemma try_open_stamp:
  "try_open_session_dict c (stamp_broker_session_metadata s cid i) =
     map_sum id (map_option (\<lambda>s'. stamp_broker_session_metadata s' cid i)) (try_open_session_dict c s)"
  by (auto simp: try_open_session_dict_def open_stamp split: sum.splits open_error.splits)

lemma stamp_stamp [simp]:
  "stamp_broker_session_metadata (stamp_broker_session_metadata s cid i) cid i =
   stamp_broker_session_metadata s cid i"
proof -
  have id: "AList.update k v d = d" if "dict_get d k = Some v" for k v and d :: "string dict"
    using that by (induction d) (auto split: if_splits)
  show ?thesis
    by (auto simp: stamp_broker_session_metadata_def Let_def id delete_absent split: option.splits)
qed

section \<open>Refresh\<close>

text \<open>The record a refresh call works on: it survives the pruning and belongs to a configured client.\<close>

definition refresh_usable ::
  "auth_service \<Rightarrow> broker_store \<Rightarrow> int \<Rightarrow> string \<Rightarrow> string \<Rightarrow> refresh_record \<Rightarrow> session \<Rightarrow> bool"
where
  "refresh_usable sv st now cid t r s \<longleftrightarrow>
     is_configured_client (sv_config sv) cid \<and> dict_get (refreshTokens st) t = Some r \<and>
     \<not> refresh_dead (refresh_grace_ms sv) now r \<and> rt_clientId r = cid \<and>
     open_session_dict (sv_cipher sv) (rt_session r) = Inr s"

definition stamped_refresh :: "auth_service \<Rightarrow> refresh_record \<Rightarrow> refresh_record" where
  "stamped_refresh sv r =
     (let i = integration_for_client_id (sv_config sv) (rt_clientId r) in
      r\<lparr>rt_integration := i, rt_session := stamp_broker_session_metadata (rt_session r) (rt_clientId r) i\<rparr>)"

lemma stamped_refresh_sel [simp]:
  "rt_revokedAt (stamped_refresh sv r) = rt_revokedAt r"
  "rt_rotationResponse (stamped_refresh sv r) = rt_rotationResponse r"
  "rt_scope (stamped_refresh sv r) = rt_scope r"
  "rt_clientId (stamped_refresh sv r) = rt_clientId r"
  "rt_expiresAt (stamped_refresh sv r) = rt_expiresAt r"
  by (simp_all add: stamped_refresh_def Let_def)

lemma refresh_rotates:
  assumes wf: "wf_store st" and use: "refresh_usable sv st (now_of w) cid t r s"
    and live: "\<not> truthy_int (rt_revokedAt r)"
  defines "st1 \<equiv> (prune_expired st (now_of w) (refresh_grace_ms sv))
     \<lparr>refreshTokens := modify_dict t (\<lambda>_. (stamped_refresh sv r)\<lparr>rt_revokedAt := Some (clock w (Suc (ticks w)))\<rparr>)
        (prune_dict (refresh_dead (refresh_grace_ms sv) (now_of w)) (refreshTokens st))\<rparr>"
  obtains tk st2 w' where
    "write_token_pair_to_state sv
       (stamp_broker_session_metadata s cid (integration_for_client_id (sv_config sv) cid))
       (rt_scope r) cid True None st1 (w\<lparr>ticks := Suc (Suc (ticks w))\<rparr>) = (tk, st2, w')"
    "refresh_access_token sv cid t (Some st) w =
       (Inr (OAuthTokens tk),
        Some (st2\<lparr>refreshTokens := modify_dict t (\<lambda>r. r\<lparr>rt_rotationResponse := Some tk\<rparr>) (refreshTokens st2)\<rparr>), w')"
proof -
  let ?s = "stamp_broker_session_metadata s cid (integration_for_client_id (sv_config sv) cid)"
  obtain tk st2 w' where wr: "write_token_pair_to_state sv ?s (rt_scope r) cid True None st1
      (w\<lparr>ticks := Suc (Suc (ticks w))\<rparr>) = (tk, st2, w')"
    by (cases "write_token_pair_to_state sv ?s (rt_scope r) cid True None st1
      (w\<lparr>ticks := Suc (Suc (ticks w))\<rparr>)") auto
  have stamp: "stamp_refresh_record (sv_config sv) r = Some (stamped_refresh sv r)"
    using use by (simp add: stamp_refresh_record_def stamped_refresh_def refresh_usable_def Let_def)
  have op: "try_open_session_dict (sv_cipher sv) (rt_session (stamped_refresh sv r)) = Inr (Some ?s)"
    using use by (simp add: try_open_Some stamped_refresh_def refresh_usable_def Let_def open_stamp)
  have mm: "modify_dict t f (modify_dict t g d) = modify_dict t (\<lambda>x. f (g x)) d" for f g and d :: "refresh_record dict"
    by (auto simp: modify_dict_def)
  have "refresh_updater sv cid t st w =
      (Inr (OAuthTokens tk), st2\<lparr>refreshTokens := modify_dict t (\<lambda>r. r\<lparr>rt_rotationResponse := Some tk\<rparr>) (refreshTokens st2)\<rparr>, w')"
    using use live wr
    by (simp add: refresh_updater_def Let_def stamp op wf wf_storeD refresh_usable_def
        flip: refresh_grace_ms_def) (simp add: mm st1_def prune_expired_def)
  then have "refresh_access_token sv cid t (Some st) w =
       (Inr (OAuthTokens tk),
        Some (st2\<lparr>refreshTokens := modify_dict t (\<lambda>r. r\<lparr>rt_rotationResponse := Some tk\<rparr>) (refreshTokens st2)\<rparr>), w')"
    using use by (simp add: refresh_access_token_def store_update_Some refresh_usable_def)
  with wr that show thesis by blast
qed

text \<open>A refresh with a token that was already rotated.\<close>

lemma refresh_revoked:
  assumes wf: "wf_store st" and use: "refresh_usable sv st (now_of w) cid t r s"
    and rev: "truthy_int (rt_revokedAt r)"
  defines "st' \<equiv> (prune_expired st (now_of w) (refresh_grace_ms sv))
     \<lparr>refreshTokens := modify_dict t (\<lambda>_. stamped_refresh sv r)
        (prune_dict (refresh_dead (refresh_grace_ms sv) (now_of w)) (refreshTokens st))\<rparr>"
  shows "refresh_access_token sv cid t (Some st) w =
    (Inr (case rt_rotationResponse r of
        None \<Rightarrow> OAuthError ''invalid_grant'' ''Refresh token not found.''
      | Some tk \<Rightarrow>
          if clock w (Suc (ticks w)) - the (rt_revokedAt r) \<le> refresh_grace_ms sv \<and> truthy_str (tr_refresh_token tk)
          then OAuthTokens tk
          else OAuthError ''invalid_grant'' ''Refresh token not found.''),
     Some st', w\<lparr>ticks := Suc (Suc (ticks w))\<rparr>)"
proof -
  have stamp: "stamp_refresh_record (sv_config sv) r = Some (stamped_refresh sv r)"
    using use by (simp add: stamp_refresh_record_def stamped_refresh_def refresh_usable_def Let_def)
  have op: "try_open_session_dict (sv_cipher sv) (rt_session (stamped_refresh sv r)) =
      Inr (Some (stamp_broker_session_metadata s cid (integration_for_client_id (sv_config sv) cid)))"
    using use by (simp add: try_open_Some stamped_refresh_def refresh_usable_def Let_def open_stamp)
  show ?thesis
    using use rev wf
    by (simp add: refresh_access_token_def store_update_Some refresh_updater_def Let_def stamp op
        wf_storeD refresh_usable_def st'_def flip: refresh_grace_ms_def split: option.splits)
qed

text \<open>A token that no record carries (any more) is refused.\<close>

lemma refresh_unknown:
  assumes "wf_store st" and "is_configured_client (sv_config sv) cid"
    and "case dict_get (refreshTokens st) t of None \<Rightarrow> True
         | Some r \<Rightarrow> refresh_dead (refresh_grace_ms sv) (now_of w) r \<or> rt_clientId r \<noteq> cid"
  shows "refresh_access_token sv cid t (Some st) w =
    (Inr (OAuthError ''invalid_grant'' ''Refresh token not found.''),
     Some (prune_expired st (now_of w) (refresh_grace_ms sv)), w\<lparr>ticks := Suc (ticks w)\<rparr>)"
  using assms
  by (auto simp: refresh_access_token_def store_update_Some refresh_updater_def Let_def wf_storeD
      simp flip: refresh_grace_ms_def split: option.splits)

text \<open>A refresh that returns tokens worked on a usable record.\<close>

lemma refresh_tokens_usable:
  assumes "wf_store st" and "refresh_access_token sv cid t (Some st) w = (Inr (OAuthTokens tk), d', w')"
  obtains r s where "refresh_usable sv st (now_of w) cid t r s"
proof (cases "is_configured_client (sv_config sv) cid")
  case False
  with assms(2) show thesis by (simp add: refresh_access_token_def invalid_client_def)
next
  case conf: True
  show thesis
  proof (cases "dict_get (refreshTokens st) t")
    case None
    with refresh_unknown [OF assms(1) conf, where t = t and w = w] assms(2) show thesis by simp
  next
    case (Some r)
    have live: "\<not> refresh_dead (refresh_grace_ms sv) (now_of w) r" "rt_clientId r = cid"
      using refresh_unknown [OF assms(1) conf, where t = t and w = w] assms(2) Some by auto
    then have stamp: "stamp_refresh_record (sv_config sv) r = Some (stamped_refresh sv r)"
      using conf by (simp add: stamp_refresh_record_def stamped_refresh_def Let_def)
    have "\<exists>s. try_open_session_dict (sv_cipher sv) (rt_session (stamped_refresh sv r)) = Inr (Some s)"
      using assms Some live stamp conf
      by (auto simp: refresh_access_token_def store_update_Some refresh_updater_def Let_def wf_storeD
          simp flip: refresh_grace_ms_def split: sum.splits option.splits)
    then obtain s where "open_session_dict (sv_cipher sv) (rt_session r) = Inr s"
      by (cases "open_session_dict (sv_cipher sv) (rt_session r)")
        (auto simp: try_open_Some stamped_refresh_def Let_def open_stamp)
    with that conf Some live show thesis by (auto simp: refresh_usable_def)
  qed
qed

text \<open>A refresh of a revoked record draws no randomness and answers from the cache.\<close>

lemma refresh_of_revoked:
  assumes "wf_store st" and "dict_get (refreshTokens st) t = Some r" and "truthy_int (rt_revokedAt r)"
    and "refresh_access_token sv cid t (Some st) w = (Inr (OAuthTokens tk), d', w')"
  shows "rt_rotationResponse r = Some tk \<and> draws w' = draws w"
proof -
  obtain r' s where use: "refresh_usable sv st (now_of w) cid t r' s"
    using refresh_tokens_usable [OF assms(1,4)] .
  with assms(2) have "r' = r" by (simp add: refresh_usable_def)
  with use have use: "refresh_usable sv st (now_of w) cid t r s" by simp
  from refresh_revoked [OF assms(1) use assms(3)] assms(4) show ?thesis
    by (auto split: option.splits if_splits)
qed

section \<open>Reading and revoking\<close>

text \<open>The record behind a token that reads successfully at a time.\<close>

definition access_usable ::
  "auth_service \<Rightarrow> broker_store \<Rightarrow> int \<Rightarrow> string \<Rightarrow> access_record \<Rightarrow> session \<Rightarrow> bool"
where
  "access_usable sv st now t r s \<longleftrightarrow>
     dict_get (accessTokens st) t = Some r \<and> now < at_expiresAt r \<and> \<not> truthy_int (at_revokedAt r) \<and>
     is_configured_client (sv_config sv) (at_clientId r) \<and>
     open_session_dict (sv_cipher sv) (at_session r) = Inr s"

definition opened_access :: "auth_service \<Rightarrow> access_record \<Rightarrow> session \<Rightarrow> access_record" where
  "opened_access sv r s =
     (let i = integration_for_client_id (sv_config sv) (at_clientId r) in
      r\<lparr>at_integration := i, at_session := stamp_broker_session_metadata s (at_clientId r) i\<rparr>)"

lemma read_updater_result:
  assumes "wf_store st" and "read_access_updater sv t st w = (res, st', w')"
  shows "res = Inr (case dict_get (accessTokens st) t of
      None \<Rightarrow> None
    | Some r \<Rightarrow> if access_dead (now_of w) r then None else stamp_access_record (sv_config sv) r)"
  using assms
  by (auto simp: read_access_updater_def Let_def wf_storeD split: option.splits if_splits)

lemma open_session_stamped:
  assumes "stamp_access_record (sv_config sv) r = Some r'"
  shows "open_session sv r' = Inr (Some a) \<longleftrightarrow>
    (\<exists>s. open_session_dict (sv_cipher sv) (at_session r) = Inr s \<and> a = opened_access sv r s)"
proof -
  let ?i = "integration_for_client_id (sv_config sv) (at_clientId r)"
  have r': "r' = r\<lparr>at_integration := ?i, at_session := stamp_broker_session_metadata (at_session r) (at_clientId r) ?i\<rparr>"
    using assms by (auto simp: stamp_access_record_def Let_def split: if_splits)
  show ?thesis
  proof (cases "open_session_dict (sv_cipher sv) (at_session r)")
    case (Inl e)
    then show ?thesis by (cases e) (auto simp: open_session_def r' try_open_session_dict_def open_stamp)
  next
    case (Inr s)
    then show ?thesis
      by (auto simp: open_session_def r' try_open_session_dict_def open_stamp opened_access_def Let_def)
  qed
qed

lemma read_access_iff:
  assumes wf: "wf_store st"
  shows "(\<exists>d' w'. read_access_token sv t (Some st) w = (Inr (Some a), d', w')) \<longleftrightarrow>
    (\<exists>r s. access_usable sv st (now_of w) t r s \<and> a = opened_access sv r s)"
proof -
  obtain res st' w' where upd: "read_access_updater sv t st w = (res, st', w')"
    by (cases "read_access_updater sv t st w") auto
  note res = read_updater_result [OF wf upd]
  have "(\<exists>d' w'. read_access_token sv t (Some st) w = (Inr (Some a), d', w')) \<longleftrightarrow>
      (\<exists>r. res = Inr (Some r) \<and> open_session sv r = Inr (Some a))"
    using upd by (auto simp: read_access_token_def store_update_Some split: sum.splits option.splits)
  also have "\<dots> \<longleftrightarrow> (\<exists>r s. access_usable sv st (now_of w) t r s \<and> a = opened_access sv r s)"
  proof (cases "dict_get (accessTokens st) t")
    case None
    with res show ?thesis by (simp add: access_usable_def)
  next
    case (Some r)
    show ?thesis
    proof (cases "access_dead (now_of w) r \<or> \<not> is_configured_client (sv_config sv) (at_clientId r)")
      case True
      with res Some show ?thesis
        by (auto simp: access_usable_def access_dead_def stamp_access_record_def Let_def)
    next
      case False
      then obtain r' where r': "stamp_access_record (sv_config sv) r = Some r'"
        by (auto simp: stamp_access_record_def Let_def)
      from False res Some r' open_session_stamped [OF r'] show ?thesis
        by (auto simp: access_usable_def access_dead_def)
    qed
  qed
  finally show ?thesis .
qed

lemma revoke_access:
  assumes wf: "wf_store st"
    and r: "dict_get (accessTokens st) t = Some r" "\<not> access_dead (now_of w) r"
  obtains st' w' where "revoke_token sv t (Some st) w = (Inr True, Some st', w')"
    "wf_store st'" "dict_get (accessTokens st') t = None"
proof -
  let ?ats = "prune_dict (access_dead (now_of w)) (accessTokens st)"
  let ?st = "(prune_expired st (now_of w) (refresh_grace_ms sv))
     \<lparr>accessTokens := AList.delete t (modify_dict t (\<lambda>r. r\<lparr>at_revokedAt := Some (clock w (Suc (ticks w)))\<rparr>) ?ats)\<rparr>"
  have "revoke_token sv t (Some st) w = (Inr True, Some ?st, w\<lparr>ticks := Suc (Suc (ticks w))\<rparr>)"
    using r by (simp add: revoke_token_def store_update_Some revoke_updater_def Let_def wf wf_storeD)
  moreover have "wf_store ?st" using wf by (simp add: wf_store_def)
  moreover have "dict_get (accessTokens ?st) t = None" by simp
  ultimately show thesis by (rule that)
qed

lemma revoke_refresh:
  assumes wf: "wf_store st"
    and "case dict_get (accessTokens st) t of None \<Rightarrow> True | Some a \<Rightarrow> access_dead (now_of w) a"
    and "dict_get (refreshTokens st) t = Some r" and "\<not> refresh_dead (refresh_grace_ms sv) (now_of w) r"
  shows "revoke_token sv t (Some st) w =
    (Inr True,
     Some ((prune_expired st (now_of w) (refresh_grace_ms sv))
       \<lparr>refreshTokens := modify_dict t (\<lambda>r. r\<lparr>rt_revokedAt := Some (clock w (Suc (ticks w)))\<rparr>)
          (prune_dict (refresh_dead (refresh_grace_ms sv) (now_of w)) (refreshTokens st))\<rparr>),
     w\<lparr>ticks := Suc (Suc (ticks w))\<rparr>)"
  using assms
  by (auto simp: revoke_token_def store_update_Some revoke_updater_def Let_def wf_storeD split: option.splits)

end
