(* ===== verification/Url_Codec.thy ===== *)
theory Url_Codec
  imports Byte_Codec
begin

text \<open>
  The parts of \<^verbatim>\<open>urllib.parse\<close> that the code calls to build text: percent-encoding (\<^verbatim>\<open>quote\<close> with
  \<^verbatim>\<open>safe=""\<close> and \<^verbatim>\<open>quote_plus\<close>) of the UTF-8 bytes of a string, and \<^verbatim>\<open>urlencode\<close> of a list of pairs.
  The characters it can produce are bounded, which is what keeps user text out of headers and
  query syntax.
\<close>

definition unreserved :: "nat \<Rightarrow> bool" where
  "unreserved n \<longleftrightarrow> (48 \<le> n \<and> n \<le> 57) \<or> (65 \<le> n \<and> n \<le> 90) \<or> (97 \<le> n \<and> n \<le> 122) \<or>
     n = 45 \<or> n = 46 \<or> n = 95 \<or> n = 126"

definition upper_hex_digit :: "nat \<Rightarrow> char" where
  "upper_hex_digit n = (if n < 10 then char_of (48 + n) else char_of (55 + n))"

definition percent :: "byte \<Rightarrow> string" where
  "percent b = [CHR ''%'', upper_hex_digit (unat b div 16), upper_hex_digit (unat b mod 16)]"

definition quote_byte :: "byte \<Rightarrow> string" where
  "quote_byte b = (if unreserved (unat b) then [char_of (unat b)] else percent b)"

text \<open>\<^verbatim>\<open>quote(s, safe="")\<close>\<close>

definition quote :: "string \<Rightarrow> string" where
  "quote s = concat (map quote_byte (utf8 s))"

text \<open>\<^verbatim>\<open>quote_plus(s)\<close>: as \<^verbatim>\<open>quote\<close>, a space becomes a plus sign.\<close>

definition quote_plus_bytes :: "byte list \<Rightarrow> string" where
  "quote_plus_bytes bs = concat (map (\<lambda>b. if unat b = 32 then [CHR ''+''] else quote_byte b) bs)"

definition quote_plus :: "string \<Rightarrow> string" where
  "quote_plus s = quote_plus_bytes (utf8 s)"

fun urlencode :: "(string \<times> string) list \<Rightarrow> string" where
  "urlencode [] = []"
| "urlencode [(k, v)] = quote_plus k @ ''='' @ quote_plus v"
| "urlencode ((k, v) # kv # kvs) = quote_plus k @ ''='' @ quote_plus v @ ''&'' @ urlencode (kv # kvs)"

section \<open>The alphabet of the output\<close>

definition url_char :: "char \<Rightarrow> bool" where
  "url_char c \<longleftrightarrow> unreserved (char_code c) \<or> c = CHR ''%'' \<or> c = CHR ''+''"

lemma upper_hex_unreserved: "n < 16 \<Longrightarrow> unreserved (char_code (upper_hex_digit n))"
  by (auto simp: upper_hex_digit_def unreserved_def)

lemma quote_byte_chars: "c \<in> set (quote_byte b) \<Longrightarrow> unreserved (char_code c) \<or> c = CHR ''%''"
proof -
  have "unat b div 16 < 16" "unat b mod 16 < 16" by (simp_all add: byte_high)
  then show "c \<in> set (quote_byte b) \<Longrightarrow> unreserved (char_code c) \<or> c = CHR ''%''"
    by (auto simp: quote_byte_def percent_def upper_hex_unreserved split: if_splits)
qed

lemma quote_chars: "c \<in> set (quote s) \<Longrightarrow> unreserved (char_code c) \<or> c = CHR ''%''"
  by (auto simp: quote_def dest: quote_byte_chars)

lemma quote_plus_bytes_chars: "c \<in> set (quote_plus_bytes bs) \<Longrightarrow> url_char c"
  by (auto simp: quote_plus_bytes_def url_char_def dest: quote_byte_chars split: if_splits)

lemma quote_plus_chars: "c \<in> set (quote_plus s) \<Longrightarrow> url_char c"
  by (simp add: quote_plus_def quote_plus_bytes_chars)

lemma unreserved_printable: "unreserved n \<Longrightarrow> 32 < n \<and> n < 127 \<and> n \<noteq> 34"
  by (auto simp: unreserved_def)

text \<open>Text of unreserved characters is its own encoding.\<close>

lemma quote_plus_unreserved:
  "list_all (\<lambda>c. unreserved (char_code c)) s \<Longrightarrow> quote_plus s = s"
proof (induction s)
  case (Cons c s)
  then have "char_code c < 128" "char_code c \<noteq> 32" using unreserved_printable by fastforce+
  moreover have "unat (byte_of (char_code c)) = char_code c"
    using \<open>char_code c < 128\<close> by (simp add: byte_of_def unsigned_of_nat take_bit_nat_eq_self)
  moreover have "quote_plus (c # s) = concat (map (\<lambda>b. if unat b = 32 then [CHR ''+''] else quote_byte b) (utf8_char c)) @ quote_plus s"
    by (simp add: quote_plus_def quote_plus_bytes_def utf8_def)
  ultimately show ?case
    using Cons by (simp add: utf8_char_def Let_def quote_byte_def)
qed (simp add: quote_plus_def quote_plus_bytes_def utf8_def)

end
