(* ===== verification/Asset_Service.thy ===== *)
theory Asset_Service
  imports Auth_State Sha256 Url_Codec
begin

text \<open>
  \<^verbatim>\<open>services/asset_service.py\<close>: signed, short-lived grants for asset delivery (creation and
  verification), and the headers of a delivered asset (content disposition, hardening against
  active content).
\<close>

section \<open>Signatures\<close>

text \<open>\<^verbatim>\<open>_create_signature\<close>\<close>

definition create_signature :: "string \<Rightarrow> int \<Rightarrow> string \<Rightarrow> string" where
  "create_signature grant_id expires_at secret =
     b64url_nopad (hmac_sha256 (utf8 secret) (utf8 (grant_id @ '':'' @ str_of_int expires_at)))"

text \<open>\<^verbatim>\<open>hmac.compare_digest\<close> on strings: a text that is not ASCII raises \<open>TypeError\<close>.\<close>

definition compare_digest :: "string \<Rightarrow> string \<Rightarrow> exn + bool" where
  "compare_digest a b = (if py_isascii a \<and> py_isascii b then Inr (a = b) else Inl TypeError)"

section \<open>Dates\<close>

text \<open>
  \<^verbatim>\<open>_iso_from_ms\<close>: the ISO 8601 text of a UTC instant, with the fraction only when it is not
  zero, and \<^verbatim>\<open>Z\<close> for the offset. Years outside 1 to 9999 raise \<open>ValueError\<close>.
\<close>

definition civil_from_days :: "int \<Rightarrow> int \<times> int \<times> int" where
  "civil_from_days days =
     (let z = days + 719468; era = z div 146097; doe = z mod 146097;
          yoe = (doe - doe div 1460 + doe div 36524 - doe div 146096) div 365;
          doy = doe - (365 * yoe + yoe div 4 - yoe div 100);
          mp = (5 * doy + 2) div 153;
          d = doy - (153 * mp + 2) div 5 + 1;
          m = (if mp < 10 then mp + 3 else mp - 9);
          y = yoe + era * 400 + (if m \<le> 2 then 1 else 0)
      in (y, m, d))"

definition zero_pad :: "nat \<Rightarrow> int \<Rightarrow> string" where
  "zero_pad n i = (let s = str_of_int i in replicate (n - length s) (CHR ''0'') @ s)"

definition iso_from_ms :: "int \<Rightarrow> exn + string" where
  "iso_from_ms ms =
     (let secs = ms div 1000; frac = ms mod 1000; days = secs div 86400; tod = secs mod 86400;
          (y, m, d) = civil_from_days days
      in if y < 1 \<or> 9999 < y then Inl ValueError
         else Inr (zero_pad 4 y @ ''-'' @ zero_pad 2 m @ ''-'' @ zero_pad 2 d @ ''T'' @
           zero_pad 2 (tod div 3600) @ '':'' @ zero_pad 2 (tod div 60 mod 60) @ '':'' @
           zero_pad 2 (tod mod 60) @ (if frac = 0 then [] else ''.'' @ zero_pad 6 (frac * 1000)) @ ''Z''))"

section \<open>Grants\<close>

definition prune_expired_grants :: "broker_store \<Rightarrow> int \<Rightarrow> broker_store" where
  "prune_expired_grants st now = st\<lparr>assetGrants := prune_dict (grant_dead now) (assetGrants st)\<rparr>"

record grant_link =
  gl_grantId :: string
  gl_url :: string
  gl_expiresAt :: string

definition create_grant_updater ::
  "app_config \<Rightarrow> string \<Rightarrow> session \<Rightarrow> source \<Rightarrow> string option \<Rightarrow> string option \<Rightarrow>
   broker_store \<Rightarrow> world \<Rightarrow> (exn + grant_link) \<times> broker_store \<times> world"
where
  "create_grant_updater cfg path_prefix session source mime_type filename st w =
     (let (now, w) = now_ms w;
          st = prune_expired_grants st now;
          (grant_id, w) = random_token ''grant'' w;
          (now, w) = now_ms w;
          expires_at = now + signed_url_ttl_seconds (oauth cfg) * 1000;
          signature = create_signature grant_id expires_at (asset_secret (signing cfg));
          st = st\<lparr>assetGrants := AList.update grant_id
                 \<lparr>ag_grantId = grant_id, ag_userId = us_id (ss_user session),
                  ag_tenantId = tn_id (ss_tenant session), ag_expiresAt = expires_at, ag_source = source,
                  ag_integration = broker_integration_from_session session,
                  ag_mimeType = mime_type, ag_filename = filename\<rparr> (assetGrants st)\<rparr>;
          query = urlencode [(''expires'', str_of_int expires_at), (''sig'', signature)]
      in case iso_from_ms expires_at of
           Inl e \<Rightarrow> (Inl e, st, w)
         | Inr iso_text \<Rightarrow>
             (Inr \<lparr>gl_grantId = grant_id, gl_url = base_url cfg @ path_prefix @ ''/'' @ grant_id @ ''?'' @ query,
                   gl_expiresAt = iso_text\<rparr>, st, w))"

definition create_grant ::
  "app_config \<Rightarrow> string \<Rightarrow> session \<Rightarrow> source \<Rightarrow> string option \<Rightarrow> string option \<Rightarrow>
   broker_store option \<Rightarrow> world \<Rightarrow> (exn + grant_link) \<times> broker_store option \<times> world"
where
  "create_grant cfg path_prefix session source mime_type filename =
     store_update (create_grant_updater cfg path_prefix session source mime_type filename)"

definition create_preview_grant ::
  "app_config \<Rightarrow> session \<Rightarrow> source \<Rightarrow> string option \<Rightarrow> string option \<Rightarrow>
   broker_store option \<Rightarrow> world \<Rightarrow> (exn + grant_link) \<times> broker_store option \<times> world"
where
  "create_preview_grant cfg = create_grant cfg ''/public/assets''"

definition create_download_grant ::
  "app_config \<Rightarrow> session \<Rightarrow> source \<Rightarrow> string option \<Rightarrow> string option \<Rightarrow>
   broker_store option \<Rightarrow> world \<Rightarrow> (exn + grant_link) \<times> broker_store option \<times> world"
where
  "create_download_grant cfg = create_grant cfg ''/signed/assets''"

datatype grant_verdict = GrantRefused string | GrantOk asset_grant

definition lookup_grant_updater ::
  "string \<Rightarrow> broker_store \<Rightarrow> world \<Rightarrow> (exn + asset_grant option) \<times> broker_store \<times> world"
where
  "lookup_grant_updater grant_id st w =
     (let (now, w) = now_ms w; st = prune_expired_grants st now
      in (Inr (dict_get (assetGrants st) grant_id), st, w))"

definition verify_grant ::
  "app_config \<Rightarrow> string option \<Rightarrow> string option \<Rightarrow> string option \<Rightarrow>
   broker_store option \<Rightarrow> world \<Rightarrow> (exn + grant_verdict) \<times> broker_store option \<times> world"
where
  "verify_grant cfg grant_id expires_at signature disk w =
     (if \<not> truthy_str grant_id \<or> \<not> truthy_str expires_at \<or> \<not> truthy_str signature then
        (Inr (GrantRefused ''missing_signature''), disk, w)
      else
        (case py_int (the expires_at) of
           None \<Rightarrow> (Inr (GrantRefused ''expired''), disk, w)
         | Some expiry \<Rightarrow>
             (let (now, w) = now_ms w in
              if expiry < now then (Inr (GrantRefused ''expired''), disk, w)
              else
                (let expected = create_signature (the grant_id) expiry (asset_secret (signing cfg)) in
                 case compare_digest expected (the signature) of
                   Inl e \<Rightarrow> (Inl e, disk, w)
                 | Inr False \<Rightarrow> (Inr (GrantRefused ''invalid_signature''), disk, w)
                 | Inr True \<Rightarrow>
                     (case store_update (lookup_grant_updater (the grant_id)) disk w of
                        (Inl e, disk, w) \<Rightarrow> (Inl e, disk, w)
                      | (Inr None, disk, w) \<Rightarrow> (Inr (GrantRefused ''expired''), disk, w)
                      | (Inr (Some g), disk, w) \<Rightarrow>
                          (let (now, w) = now_ms w in
                           (Inr (if ag_expiresAt g < now then GrantRefused ''expired'' else GrantOk g), disk, w)))))))"

section \<open>Headers of a delivered asset\<close>

text \<open>\<^verbatim>\<open>"".join(ch for ch in filename if ord(ch) >= 32 and ord(ch) != 127)\<close>\<close>

definition is_control :: "char \<Rightarrow> bool" where
  "is_control c \<longleftrightarrow> char_code c < 32 \<or> char_code c = 127"

definition sanitized_filename_parts :: "string \<Rightarrow> string \<times> string" where
  "sanitized_filename_parts filename =
     (let cleaned = filter (\<lambda>c. \<not> is_control c) filename;
          ascii_fallback = py_strip (filter (\<lambda>c. c \<noteq> CHR 0x22) (filter is_ascii_char cleaned));
          ascii_fallback = (if ascii_fallback = [] then ''download'' else ascii_fallback)
      in (ascii_fallback, quote cleaned))"

definition disposition :: "string \<Rightarrow> string \<Rightarrow> string" where
  "disposition kind filename =
     (case sanitized_filename_parts filename of
        (ascii_fallback, encoded) \<Rightarrow>
          kind @ ''; filename='' @ [CHR 0x22] @ ascii_fallback @ [CHR 0x22] @ ''; filename*=UTF-8'' @
          [CHR 0x27, CHR 0x27] @ encoded)"

definition content_disposition :: "string \<Rightarrow> string" where
  "content_disposition filename = disposition ''inline'' filename"

definition attachment_content_disposition :: "string \<Rightarrow> string" where
  "attachment_content_disposition filename = disposition ''attachment'' filename"

definition is_svg_content_type :: "string option \<Rightarrow> bool" where
  "is_svg_content_type content_type \<longleftrightarrow>
     truthy_str content_type \<and>
     py_lower (py_strip (takeWhile (\<lambda>c. c \<noteq> CHR '';'') (the content_type))) = ''image/svg+xml''"

definition harden_asset_response_headers ::
  "string dict \<Rightarrow> string \<Rightarrow> string option \<Rightarrow> bool \<Rightarrow> string dict"
where
  "harden_asset_response_headers headers content_type filename from_proxy =
     (let headers = AList.update ''X-Content-Type-Options'' ''nosniff'' headers;
          csp = ''default-src '' @ [CHR 0x27] @ ''none'' @ [CHR 0x27] @ ''; sandbox'';
          headers = AList.update ''Content-Security-Policy'' csp headers
      in if from_proxy \<and> is_svg_content_type (Some content_type) then
           AList.update ''Content-Disposition'' (attachment_content_disposition (str_or filename ''download.svg''))
             (AList.update ''Content-Type'' ''application/octet-stream'' headers)
         else headers)"

end
