(* ===== verification/Store_Invariant.thy ===== *)
theory Store_Invariant
  imports Token_Facts Asset_Service
begin

text \<open>
  The shape of the store in every reachable state (\<open>store_inv\<close>), and how a store may change into
  another one (\<open>growth\<close>): keys appear only under freshly drawn tokens, records change only in the
  ways their kind allows. \<open>step_good\<close> collects what every operation guarantees of both.
\<close>

type_synonym broker_state = "broker_store option \<times> world"

section \<open>The invariant\<close>

definition sealed_leaf :: "field_cipher \<Rightarrow> string option \<Rightarrow> bool" where
  "sealed_leaf c x \<longleftrightarrow>
     (case c of NullFieldCipher \<Rightarrow> True
      | FernetFieldCipher F \<Rightarrow> (\<forall>v. x = Some v \<longrightarrow> v = [] \<or> startswith v ENC_PREFIX))"

definition sealed_session :: "field_cipher \<Rightarrow> session \<Rightarrow> bool" where
  "sealed_session c s \<longleftrightarrow> sealed_leaf c (up_sessionKey (ss_upstream s)) \<and> sealed_leaf c (us_email (ss_user s))"

definition code_ok :: "auth_service \<Rightarrow> world \<Rightarrow> string \<Rightarrow> auth_code \<Rightarrow> bool" where
  "code_ok sv w k r \<longleftrightarrow> issued ''code'' w k \<and> ac_code r = k \<and> sealed_session (sv_cipher sv) (ac_session r)"

definition access_ok :: "auth_service \<Rightarrow> world \<Rightarrow> string \<Rightarrow> access_record \<Rightarrow> bool" where
  "access_ok sv w k r \<longleftrightarrow> issued ''at'' w k \<and> at_accessToken r = k \<and>
     sealed_session (sv_cipher sv) (at_session r) \<and> is_configured_client (sv_config sv) (at_clientId r)"

definition refresh_ok :: "auth_service \<Rightarrow> world \<Rightarrow> string \<Rightarrow> refresh_record \<Rightarrow> bool" where
  "refresh_ok sv w k r \<longleftrightarrow> issued ''rt'' w k \<and> rt_refreshToken r = k \<and>
     sealed_session (sv_cipher sv) (rt_session r) \<and> is_configured_client (sv_config sv) (rt_clientId r)"

definition grant_ok :: "world \<Rightarrow> string \<Rightarrow> asset_grant \<Rightarrow> bool" where
  "grant_ok w k r \<longleftrightarrow> issued ''grant'' w k \<and> ag_grantId r = k"

definition pending_ok :: "world \<Rightarrow> string \<Rightarrow> pending_sso \<Rightarrow> bool" where
  "pending_ok w k r \<longleftrightarrow> issued ''ssostate'' w k \<and> ps_handoffState r = k"

definition store_inv :: "auth_service \<Rightarrow> world \<Rightarrow> broker_store \<Rightarrow> bool" where
  "store_inv sv w st \<longleftrightarrow> wf_store st \<and>
     dict_all (code_ok sv w) (authorizationCodes st) \<and> dict_all (access_ok sv w) (accessTokens st) \<and>
     dict_all (refresh_ok sv w) (refreshTokens st) \<and> dict_all (grant_ok w) (assetGrants st) \<and>
     dict_all (pending_ok w) (pendingSsoStates st)"

lemma store_invD:
  assumes "store_inv sv w st"
  shows "wf_store st" "dict_all (code_ok sv w) (authorizationCodes st)"
    "dict_all (access_ok sv w) (accessTokens st)" "dict_all (refresh_ok sv w) (refreshTokens st)"
    "dict_all (grant_ok w) (assetGrants st)" "dict_all (pending_ok w) (pendingSsoStates st)"
  using assms by (simp_all add: store_inv_def)

lemma entry_later:
  assumes "later w w'"
  shows "code_ok sv w k c \<Longrightarrow> code_ok sv w' k c" "access_ok sv w k a \<Longrightarrow> access_ok sv w' k a"
    "refresh_ok sv w k r \<Longrightarrow> refresh_ok sv w' k r" "grant_ok w k g \<Longrightarrow> grant_ok w' k g"
    "pending_ok w k p \<Longrightarrow> pending_ok w' k p"
  by (simp_all add: code_ok_def access_ok_def refresh_ok_def grant_ok_def pending_ok_def
      issued_later [OF _ assms])

lemma store_inv_later:
  assumes "store_inv sv w st" and l: "later w w'"
  shows "store_inv sv w' st"
  unfolding store_inv_def
  by (intro conjI store_invD(1) [OF assms(1)] dict_all_mono [OF store_invD(2) [OF assms(1)]]
      dict_all_mono [OF store_invD(3) [OF assms(1)]] dict_all_mono [OF store_invD(4) [OF assms(1)]]
      dict_all_mono [OF store_invD(5) [OF assms(1)]] dict_all_mono [OF store_invD(6) [OF assms(1)]])
    (rule entry_later [OF l], assumption)+

lemma store_inv_prune: "store_inv sv w st \<Longrightarrow> store_inv sv w (prune_expired st now g)"
  by (simp add: store_inv_def dict_all_prune)

lemma store_inv_initial: "store_inv sv w initial_store"
  by (simp add: store_inv_def) (simp add: initial_store_def)

section \<open>Growth\<close>

definition fresh_keys :: "string \<Rightarrow> world \<Rightarrow> string set" where
  "fresh_keys pre w = {pre @ ''_'' @ rand w i | i. draws w \<le> i}"

definition entries_kept :: "('v \<Rightarrow> 'v \<Rightarrow> bool) \<Rightarrow> string \<Rightarrow> world \<Rightarrow> 'v dict \<Rightarrow> 'v dict \<Rightarrow> bool" where
  "entries_kept R pre w d d' \<longleftrightarrow>
     (\<forall>k r'. (k, r') \<in> set d' \<longrightarrow> k \<in> fresh_keys pre w \<or> (\<exists>r. (k, r) \<in> set d \<and> R r r'))"

text \<open>
  How a record may change while it stays in the store. Authorization codes never do; access and
  refresh tokens keep their binding, and once revoked they stay so; a refresh token that was
  rotated keeps its cached response; a grant may only be put to its end; a pending sign-on that
  was used does not change any more. The marks are times, and Python reads the time 0 as false:
  \<open>clock_pos\<close> says that the clock is past the epoch.
\<close>

definition clock_pos :: "world \<Rightarrow> bool" where
  "clock_pos w \<longleftrightarrow> (\<forall>i. 0 < clock w i)"

definition code_kept :: "auth_code \<Rightarrow> auth_code \<Rightarrow> bool" where
  "code_kept r r' \<longleftrightarrow> r' = r"

definition access_kept :: "bool \<Rightarrow> access_record \<Rightarrow> access_record \<Rightarrow> bool" where
  "access_kept pos r r' \<longleftrightarrow>
     at_clientId r' = at_clientId r \<and> at_scope r' = at_scope r \<and> at_expiresAt r' = at_expiresAt r \<and>
     (pos \<longrightarrow> truthy_int (at_revokedAt r) \<longrightarrow> truthy_int (at_revokedAt r'))"

definition refresh_kept :: "bool \<Rightarrow> refresh_record \<Rightarrow> refresh_record \<Rightarrow> bool" where
  "refresh_kept pos r r' \<longleftrightarrow>
     rt_clientId r' = rt_clientId r \<and> rt_scope r' = rt_scope r \<and> rt_expiresAt r' = rt_expiresAt r \<and>
     (pos \<longrightarrow> truthy_int (rt_revokedAt r) \<longrightarrow>
        truthy_int (rt_revokedAt r') \<and> rt_rotationResponse r' = rt_rotationResponse r)"

definition grant_kept :: "asset_grant \<Rightarrow> asset_grant \<Rightarrow> bool" where
  "grant_kept r r' \<longleftrightarrow> r' = r \<or> r' = r\<lparr>ag_expiresAt := 0\<rparr>"

definition pending_kept :: "bool \<Rightarrow> pending_sso \<Rightarrow> pending_sso \<Rightarrow> bool" where
  "pending_kept pos r r' \<longleftrightarrow>
     r' = r\<lparr>ps_usedAt := ps_usedAt r'\<rparr> \<and>
     (pos \<longrightarrow> truthy_int (ps_usedAt r) \<longrightarrow> ps_usedAt r' = ps_usedAt r)"

definition growth :: "world \<Rightarrow> broker_store \<Rightarrow> broker_store \<Rightarrow> bool" where
  "growth w st st' \<longleftrightarrow>
     entries_kept code_kept ''code'' w (authorizationCodes st) (authorizationCodes st') \<and>
     entries_kept (access_kept (clock_pos w)) ''at'' w (accessTokens st) (accessTokens st') \<and>
     entries_kept (refresh_kept (clock_pos w)) ''rt'' w (refreshTokens st) (refreshTokens st') \<and>
     entries_kept grant_kept ''grant'' w (assetGrants st) (assetGrants st') \<and>
     entries_kept (pending_kept (clock_pos w)) ''ssostate'' w (pendingSsoStates st) (pendingSsoStates st')"

lemma fresh_keys_later: "later w w' \<Longrightarrow> fresh_keys pre w' \<subseteq> fresh_keys pre w"
  unfolding later_def fresh_keys_def by fastforce

lemma kept_prune [simp]: "entries_kept R pre w d d' \<Longrightarrow> entries_kept R pre w d (prune_dict dead d')"
  by (simp add: entries_kept_def)

lemma kept_delete [simp]: "entries_kept R pre w d d' \<Longrightarrow> entries_kept R pre w d (AList.delete k d')"
  by (simp add: entries_kept_def AList.delete_eq)

lemma in_update: "(k', v') \<in> set (AList.update k v d) \<Longrightarrow> k' = k \<or> (k', v') \<in> set d"
  by (induction d) (auto split: if_splits)

lemma in_modify: "(k', v') \<in> set (modify_dict k f d) \<longleftrightarrow> (\<exists>v. (k', v) \<in> set d \<and> v' = (if k' = k then f v else v))"
  by (force simp: modify_dict_def)

lemma kept_update [simp]:
  "k \<in> fresh_keys pre w \<Longrightarrow> entries_kept R pre w d d' \<Longrightarrow> entries_kept R pre w d (AList.update k v d')"
  unfolding entries_kept_def by (blast dest: in_update)

text \<open>Two changes of one record around an insertion are one change.\<close>

lemma kept_modify_update_modify:
  assumes "entries_kept R pre w d (modify_dict t (\<lambda>_. f q) d')" and "k \<in> fresh_keys pre w"
  shows "entries_kept R pre w d (modify_dict t f (AList.update k v (modify_dict t (\<lambda>_. q) d')))"
  unfolding entries_kept_def
proof (intro allI impI)
  fix k' r' assume "(k', r') \<in> set (modify_dict t f (AList.update k v (modify_dict t (\<lambda>_. q) d')))"
  then obtain r where r: "(k', r) \<in> set (AList.update k v (modify_dict t (\<lambda>_. q) d'))"
    and r': "r' = (if k' = t then f r else r)"
    by (auto simp: in_modify)
  from in_update [OF r] show "k' \<in> fresh_keys pre w \<or> (\<exists>r. (k', r) \<in> set d \<and> R r r')"
  proof
    assume "(k', r) \<in> set (modify_dict t (\<lambda>_. q) d')"
    then have "(k', r') \<in> set (modify_dict t (\<lambda>_. f q) d')" by (auto simp: in_modify r' split: if_splits)
    with assms(1) show ?thesis by (simp add: entries_kept_def)
  qed (use assms(2) in simp)
qed

text \<open>What holds of any order on records.\<close>

locale record_order =
  fixes R :: "'v \<Rightarrow> 'v \<Rightarrow> bool"
  assumes R_refl: "R r r" and R_trans: "R r s \<Longrightarrow> R s t \<Longrightarrow> R r t"
begin

lemma kept_refl: "entries_kept R pre w d d"
  by (auto simp: entries_kept_def intro: R_refl)

lemma kept_trans:
  "entries_kept R pre w d d' \<Longrightarrow> later w w' \<Longrightarrow> entries_kept R pre w' d' d'' \<Longrightarrow> entries_kept R pre w d d''"
  unfolding entries_kept_def using fresh_keys_later [of w w' pre] by (meson R_trans subsetD)

lemma kept_modify:
  assumes kept: "entries_kept R pre w d d'" and f: "\<And>r. (k, r) \<in> set d' \<Longrightarrow> R r (f r)"
  shows "entries_kept R pre w d (modify_dict k f d')"
  unfolding entries_kept_def
proof (intro allI impI)
  fix k' r' assume "(k', r') \<in> set (modify_dict k f d')"
  then obtain r where r: "(k', r) \<in> set d'" and r': "r' = (if k' = k then f r else r)"
    by (auto simp: in_modify)
  have step: "R r r'" using r f by (auto simp: r' R_refl)
  show "k' \<in> fresh_keys pre w \<or> (\<exists>r. (k', r) \<in> set d \<and> R r r')"
    using kept r step unfolding entries_kept_def by (meson R_trans)
qed

lemma kept_replace:
  assumes kept: "entries_kept R pre w d d'" and "wf_dict d'" and "dict_get d' k = Some r" and "R r q"
  shows "entries_kept R pre w d (modify_dict k (\<lambda>_. q) d')"
  using assms(2-4) by (intro kept_modify [OF kept]) (simp add: wf_dict_get_in [symmetric])

lemma kept_map:
  assumes kept: "entries_kept R pre w d d'" and f: "\<And>r. R r (f r)"
  shows "entries_kept R pre w d (map_dict f d')"
  using kept f unfolding entries_kept_def map_dict_def by (force intro: R_trans)

end

interpretation code_order: record_order code_kept
  by unfold_locales (simp_all add: code_kept_def)

interpretation access_order: record_order "access_kept pos" for pos
  by unfold_locales (auto simp: access_kept_def)

interpretation refresh_order: record_order "refresh_kept pos" for pos
  by unfold_locales (auto simp: refresh_kept_def)

interpretation grant_order: record_order grant_kept
  by unfold_locales (auto simp: grant_kept_def)

lemma pending_kept_trans: "pending_kept pos r s \<Longrightarrow> pending_kept pos s t \<Longrightarrow> pending_kept pos r t"
proof -
  assume a: "pending_kept pos r s" and b: "pending_kept pos s t"
  have s: "s = r\<lparr>ps_usedAt := ps_usedAt s\<rparr>" and t: "t = s\<lparr>ps_usedAt := ps_usedAt t\<rparr>"
    using a b unfolding pending_kept_def by blast+
  have "t = r\<lparr>ps_usedAt := ps_usedAt t\<rparr>" by (subst t, subst s) simp
  with a b show ?thesis unfolding pending_kept_def by metis
qed

interpretation pending_order: record_order "pending_kept pos" for pos
  by unfold_locales (simp add: pending_kept_def, rule pending_kept_trans)

lemmas kept_refls [simp] =
  code_order.kept_refl access_order.kept_refl refresh_order.kept_refl grant_order.kept_refl
  pending_order.kept_refl

lemma clock_pos_later: "later w w' \<Longrightarrow> clock_pos w' = clock_pos w"
  by (simp add: later_def clock_pos_def)

lemma pos_mark: "clock_pos w \<Longrightarrow> truthy_int (Some (clock w i))"
  by (simp add: clock_pos_def) (metis less_irrefl)

lemma growth_refl [simp]: "growth w st st"
  by (simp add: growth_def)

lemma growthD:
  assumes "growth w st st'"
  shows "entries_kept code_kept ''code'' w (authorizationCodes st) (authorizationCodes st')"
    "entries_kept (access_kept (clock_pos w)) ''at'' w (accessTokens st) (accessTokens st')"
    "entries_kept (refresh_kept (clock_pos w)) ''rt'' w (refreshTokens st) (refreshTokens st')"
    "entries_kept grant_kept ''grant'' w (assetGrants st) (assetGrants st')"
    "entries_kept (pending_kept (clock_pos w)) ''ssostate'' w (pendingSsoStates st) (pendingSsoStates st')"
  using assms by (simp_all add: growth_def)

lemma growth_trans:
  assumes "growth w st st'" and l: "later w w'" and "growth w' st' st''"
  shows "growth w st st''"
  using growthD [OF assms(1)] growthD [OF assms(3), unfolded clock_pos_later [OF l]]
  by (simp add: growth_def code_order.kept_trans [OF _ l] access_order.kept_trans [OF _ l]
      refresh_order.kept_trans [OF _ l] grant_order.kept_trans [OF _ l] pending_order.kept_trans [OF _ l])

lemma growth_prune: "growth w st (prune_expired st now g)"
  by (simp add: growth_def)

lemma growth_upd:
  assumes "growth w st st'"
  shows "entries_kept code_kept ''code'' w (authorizationCodes st) cs \<Longrightarrow>
      growth w st (st'\<lparr>authorizationCodes := cs\<rparr>)"
    "entries_kept (access_kept (clock_pos w)) ''at'' w (accessTokens st) ats \<Longrightarrow>
      growth w st (st'\<lparr>accessTokens := ats\<rparr>)"
    "entries_kept (refresh_kept (clock_pos w)) ''rt'' w (refreshTokens st) rts \<Longrightarrow>
      growth w st (st'\<lparr>refreshTokens := rts\<rparr>)"
    "entries_kept grant_kept ''grant'' w (assetGrants st) gs \<Longrightarrow>
      growth w st (st'\<lparr>assetGrants := gs\<rparr>)"
    "entries_kept (pending_kept (clock_pos w)) ''ssostate'' w (pendingSsoStates st) ps \<Longrightarrow>
      growth w st (st'\<lparr>pendingSsoStates := ps\<rparr>)"
  using assms by (simp_all add: growth_def)

lemma not_fresh_issued: "inj (rand w) \<Longrightarrow> issued pre w k \<Longrightarrow> k \<notin> fresh_keys pre w"
  by (auto simp: fresh_keys_def dest: not_issued)

section \<open>What a step is worth\<close>

text \<open>The world moves forward, a loadable file stays loadable, the invariant is kept and keys
  appear only under fresh tokens.\<close>

definition step_good :: "auth_service \<Rightarrow> broker_state \<Rightarrow> broker_state \<Rightarrow> bool" where
  "step_good sv s t \<longleftrightarrow>
     later (snd s) (snd t) \<and> (fst s = None \<longrightarrow> fst t = None) \<and>
     (\<forall>st. fst s = Some st \<longrightarrow> store_inv sv (snd s) st \<longrightarrow>
        (\<exists>st'. fst t = Some st' \<and> store_inv sv (snd t) st' \<and> growth (snd s) st st'))"

definition good_update ::
  "auth_service \<Rightarrow> (broker_store \<Rightarrow> world \<Rightarrow> (exn + 'r) \<times> broker_store \<times> world) \<Rightarrow> bool"
where
  "good_update sv f \<longleftrightarrow>
     (\<forall>st w r st' w'. f st w = (r, st', w') \<longrightarrow>
        later w w' \<and> (store_inv sv w st \<longrightarrow> (\<exists>v. r = Inr v) \<longrightarrow> store_inv sv w' st' \<and> growth w st st'))"

lemma good_updateI:
  assumes "\<And>st w r st' w'. f st w = (r, st', w') \<Longrightarrow> later w w'"
    and "\<And>st w v st' w'. f st w = (Inr v, st', w') \<Longrightarrow> store_inv sv w st \<Longrightarrow> store_inv sv w' st' \<and> growth w st st'"
  shows "good_update sv f"
  using assms by (force simp: good_update_def)

lemma step_good_refl: "step_good sv s s"
  by (auto simp: step_good_def)

lemma step_good_trans: "step_good sv s t \<Longrightarrow> step_good sv t u \<Longrightarrow> step_good sv s u"
proof -
  assume a: "step_good sv s t" and b: "step_good sv t u"
  have l: "later (snd s) (snd t)" "later (snd t) (snd u)" using a b by (simp_all add: step_good_def)
  show "step_good sv s u"
    unfolding step_good_def
  proof (intro conjI allI impI)
    show "later (snd s) (snd u)" using l by (rule later_trans)
    show "fst s = None \<Longrightarrow> fst u = None" using a b by (simp add: step_good_def)
    fix st assume "fst s = Some st" "store_inv sv (snd s) st"
    with a obtain st1 where 1: "fst t = Some st1" "store_inv sv (snd t) st1" "growth (snd s) st st1"
      by (auto simp: step_good_def)
    with b obtain st2 where "fst u = Some st2" "store_inv sv (snd u) st2" "growth (snd t) st1 st2"
      by (auto simp: step_good_def)
    with 1 l show "\<exists>st'. fst u = Some st' \<and> store_inv sv (snd u) st' \<and> growth (snd s) st st'"
      by (blast intro: growth_trans)
  qed
qed

lemma step_good_later: "later w w' \<Longrightarrow> step_good sv (d, w) (d, w')"
  by (auto simp: step_good_def intro: store_inv_later)

lemma store_update_good:
  assumes f: "good_update sv f" and run: "store_update f d w = (r, d', w')"
  shows "step_good sv (d, w) (d', w')"
proof (cases d)
  case None
  with run show ?thesis by (auto simp: step_good_def)
next
  case (Some st)
  obtain r1 st1 w1 where upd: "f st w = (r1, st1, w1)" by (cases "f st w") auto
  have l: "later w w1" using f upd by (auto simp: good_update_def)
  show ?thesis
  proof (cases r1)
    case (Inl e)
    with run Some upd have "d' = d" "w' = w1" by (auto simp: store_update_Some)
    with l show ?thesis by (simp add: step_good_later)
  next
    case (Inr v)
    with run Some upd have d': "d' = Some st1" "w' = w1" by (auto simp: store_update_Some)
    have "store_inv sv w st \<Longrightarrow> store_inv sv w1 st1 \<and> growth w st st1"
      using f upd Inr unfolding good_update_def by blast
    with l d' Some show ?thesis by (simp add: step_good_def)
  qed
qed

end
