(* ===== verification/Broker_System.thy ===== *)
theory Broker_System
  imports Store_Invariant
begin

text \<open>
  The broker as a state machine: a state is the disk and the world, a step is one call of an
  operation of the authentication, SSO or asset service by anybody, with any arguments, or the
  world moving on by itself. Every step is \<open>step_good\<close>, so the invariant holds in every reachable
  state and every run obeys \<open>growth\<close>.
\<close>

section \<open>Every operation is good\<close>

lemma seal_leaf_sealed: "seal_leaf c x w = (y, w') \<Longrightarrow> sealed_leaf c y"
  by (cases c) (auto simp: seal_leaf_def sealed_leaf_def truthy_str_def split: if_splits)

lemma seal_session_sealed: "seal_session c s w = (s', w') \<Longrightarrow> sealed_session c s'"
  by (auto simp: seal_session_def sealed_session_def split: prod.splits dest: seal_leaf_sealed)

lemma stamp_sealed [simp]: "sealed_session c (stamp_broker_session_metadata s cid i) = sealed_session c s"
  by (simp add: sealed_session_def)

text \<open>Pruning first, and one more tick: the common prefix of the updaters.\<close>

lemma tick_later [simp]: "later w (w\<lparr>ticks := Suc n\<rparr>) \<longleftrightarrow> ticks w \<le> Suc n"
  by (simp add: later_def)

lemma prune_step:
  assumes "store_inv sv w st"
  shows "store_inv sv (w\<lparr>ticks := Suc (ticks w)\<rparr>) (prune_expired st now g)"
    "growth w st (prune_expired st now g)"
  using assms by (auto intro: store_inv_later store_inv_prune growth_prune)

lemma prune_good: "prune sv d w = (r, d', w') \<Longrightarrow> step_good sv (d, w) (d', w')"
  unfolding prune_def
  by (erule store_update_good [rotated], rule good_updateI) (auto simp: prune_step)

lemma mint_good:
  assumes "mint_authorization_code sv cid uri scope ch meth s st w = (code, st', w')"
    and inv: "store_inv sv w st"
  shows "store_inv sv w' st' \<and> growth w st st'"
  using assms(1)
proof (rule mint_effect)
  fix sealed w1
  assume code: "code = ''code_'' @ rand w (draws w)"
    and seal: "seal_session (sv_cipher sv) s (w\<lparr>ticks := Suc (ticks w), draws := Suc (draws w)\<rparr>) = (sealed, w1)"
    and w': "w' = w1\<lparr>ticks := Suc (ticks w1)\<rparr>"
    and st': "st' = (prune_expired st (now_of w) (refresh_grace_ms sv))
             \<lparr>authorizationCodes := AList.update code
                \<lparr>ac_code = code, ac_clientId = cid, ac_redirectUri = uri, ac_scope = scope,
                 ac_codeChallenge = ch, ac_codeChallengeMethod = str_or meth ''S256'',
                 ac_session = sealed,
                 ac_expiresAt = clock w1 (ticks w1) + auth_code_ttl_seconds (oauth (sv_config sv)) * 1000\<rparr>
                (prune_dict (code_dead (now_of w)) (authorizationCodes st))\<rparr>"
  have l1: "later (w\<lparr>ticks := Suc (ticks w), draws := Suc (draws w)\<rparr>) w1"
    using seal by (rule seal_session_later)
  have l: "later w w'" using assms(1) by (rule mint_later)
  have iss: "issued ''code'' w' code" using l1 by (auto simp: issued_def later_def w' code intro!: exI [of _ "draws w"])
  have sealed: "sealed_session (sv_cipher sv) sealed" using seal by (rule seal_session_sealed)
  note inv' = store_inv_later [OF store_inv_prune [OF inv] l, of "now_of w" "refresh_grace_ms sv"]
  have "store_inv sv w' st'"
    using inv' sealed iss by (auto simp: store_inv_def st' wf_store_def code_ok_def intro!: dict_all_update)
  moreover have "code \<in> fresh_keys ''code'' w" by (auto simp: fresh_keys_def code)
  then have "growth w st st'"
    by (simp add: growth_def st')
  ultimately show ?thesis ..
qed

lemma mint_store_good:
  "store_update (mint_updater sv cid uri scope ch meth s) d w = (r, d', w') \<Longrightarrow> step_good sv (d, w) (d', w')"
  by (rule store_update_good, rule good_updateI)
    (auto simp: mint_updater_def split: prod.splits dest: mint_later mint_good)

lemma write_pair_good:
  assumes wr: "write_token_pair_to_state sv s scope cid True None st w = (tk, st', w')"
    and inv: "store_inv sv w st" and conf: "is_configured_client (sv_config sv) cid"
  shows "store_inv sv w' st' \<and> growth w st st'"
  using wr
proof (rule write_pair_effect)
  fix sealed w1 arec rrec
  assume seal: "seal_session (sv_cipher sv)
       (stamp_broker_session_metadata s cid (integration_for_client_id (sv_config sv) cid))
       (w\<lparr>ticks := Suc (ticks w), draws := Suc (Suc (draws w))\<rparr>) = (sealed, w1)"
    and w': "w' = w1\<lparr>ticks := Suc (Suc (Suc (ticks w1)))\<rparr>"
    and arec: "arec = \<lparr>at_accessToken = access_token_of w, at_clientId = cid, at_scope = scope,
             at_integration = integration_for_client_id (sv_config sv) cid, at_session = sealed,
             at_expiresAt = now_of w + token_ttl_seconds (oauth (sv_config sv)) * 1000,
             at_createdAt = clock w1 (ticks w1), at_revokedAt = None\<rparr>"
    and rrec: "rrec = \<lparr>rt_refreshToken = refresh_token_of w, rt_clientId = cid, rt_scope = scope,
             rt_integration = integration_for_client_id (sv_config sv) cid, rt_session = sealed,
             rt_createdAt = clock w1 (Suc (ticks w1)),
             rt_expiresAt = Some (clock w1 (Suc (Suc (ticks w1)))
                                  + refresh_token_ttl_seconds (oauth (sv_config sv)) * 1000),
             rt_revokedAt = None, rt_rotationResponse = None\<rparr>"
    and st': "st' = st\<lparr>accessTokens := AList.update (access_token_of w) arec (accessTokens st),
              refreshTokens := AList.update (refresh_token_of w) rrec (refreshTokens st)\<rparr>"
  have l1: "later (w\<lparr>ticks := Suc (ticks w), draws := Suc (Suc (draws w))\<rparr>) w1"
    using seal by (rule seal_session_later)
  have l: "later w w'" using wr by (rule write_pair_later)
  have iss: "issued ''at'' w' (access_token_of w)" "issued ''rt'' w' (refresh_token_of w)"
    using l1
    by (auto simp: issued_def later_def w' access_token_of_def refresh_token_of_def
        intro: exI [of _ "draws w"] exI [of _ "Suc (draws w)"])
  have sealed: "sealed_session (sv_cipher sv) sealed" using seal by (rule seal_session_sealed)
  note inv' = store_inv_later [OF inv l]
  have "access_ok sv w' (access_token_of w) arec" "refresh_ok sv w' (refresh_token_of w) rrec"
    using iss sealed conf by (simp_all add: access_ok_def refresh_ok_def arec rrec)
  then have "store_inv sv w' st'"
    using inv' by (auto simp: store_inv_def st' wf_store_def intro!: dict_all_update)
  moreover have "access_token_of w \<in> fresh_keys ''at'' w" "refresh_token_of w \<in> fresh_keys ''rt'' w"
    by (auto simp: fresh_keys_def access_token_of_def refresh_token_of_def)
  then have "growth w st st'" by (simp add: growth_def st')
  ultimately show ?thesis ..
qed

section \<open>The remaining updaters\<close>

lemma store_inv_upd:
  assumes "store_inv sv w st"
  shows "wf_dict cs \<Longrightarrow> dict_all (code_ok sv w) cs \<Longrightarrow> store_inv sv w (st\<lparr>authorizationCodes := cs\<rparr>)"
    "wf_dict ats \<Longrightarrow> dict_all (access_ok sv w) ats \<Longrightarrow> store_inv sv w (st\<lparr>accessTokens := ats\<rparr>)"
    "wf_dict rts \<Longrightarrow> dict_all (refresh_ok sv w) rts \<Longrightarrow> store_inv sv w (st\<lparr>refreshTokens := rts\<rparr>)"
    "wf_dict gs \<Longrightarrow> dict_all (grant_ok w) gs \<Longrightarrow> store_inv sv w (st\<lparr>assetGrants := gs\<rparr>)"
    "wf_dict ps \<Longrightarrow> dict_all (pending_ok w) ps \<Longrightarrow> store_inv sv w (st\<lparr>pendingSsoStates := ps\<rparr>)"
  using assms by (simp_all add: store_inv_def wf_store_def)

lemma store_inv_buckets:
  assumes "store_inv sv w st"
  shows "wf_dict (authorizationCodes st)" "wf_dict (accessTokens st)" "wf_dict (refreshTokens st)"
    "wf_dict (assetGrants st)" "wf_dict (pendingSsoStates st)"
  using store_invD(1) [OF assms] by (simp_all add: wf_store_def)

lemma good_tick: "store_inv sv w st \<Longrightarrow> ticks w \<le> n \<Longrightarrow> store_inv sv (w\<lparr>ticks := n\<rparr>) st"
  by (erule store_inv_later) (simp add: later_def)

lemma exchange_updater_good: "good_update sv (exchange_updater sv cid uri code ver)"
proof (rule good_updateI)
  fix st w r st' w' assume "exchange_updater sv cid uri code ver st w = (r, st', w')"
  then show "later w w'"
    by (auto simp: exchange_updater_def Let_def split: option.splits if_splits sum.splits)
next
  fix st w v st' w'
  assume run: "exchange_updater sv cid uri code ver st w = (Inr v, st', w')" and inv: "store_inv sv w st"
  let ?p = "prune_expired st (now_of w) (refresh_grace_ms sv)"
  note eff = exchange_updater_effect [OF store_invD(1) [OF inv] run]
  have pi: "store_inv sv w' ?p" using inv eff by (simp add: prune_step)
  have "store_inv sv w' st'"
    using store_inv_upd(1) [OF pi, of "AList.delete code (prune_dict (code_dead (now_of w)) (authorizationCodes st))"]
      store_invD(2) [OF pi] store_inv_buckets(1) [OF pi] eff
    by (simp add: dict_all_delete)
  moreover have "growth w st st'"
    using eff by (simp add: growth_upd growth_prune)
  ultimately show "store_inv sv w' st' \<and> growth w st st'" ..
qed

lemma create_pair_good:
  assumes conf: "is_configured_client (sv_config sv) cid"
    and run: "create_token_pair sv s scope cid True None d w = (r, d', w')"
  shows "step_good sv (d, w) (d', w')"
  using run unfolding create_token_pair_def
proof (rule store_update_good [rotated], intro good_updateI)
  fix st w r st' w'
  assume "(let (st, w) = svc_prune sv st w; (tokens, st, w) = write_token_pair_to_state sv s scope cid True None st w
       in (Inr tokens, st, w)) = (r :: exn + token_response, st', w')"
  then obtain tk where wr: "write_token_pair_to_state sv s scope cid True None
      (prune_expired st (now_of w) (refresh_grace_ms sv)) (w\<lparr>ticks := Suc (ticks w)\<rparr>) = (tk, st', w')"
    by (auto split: prod.splits)
  show "later w w'" using later_tick write_pair_later [OF wr] by (rule later_trans)
next
  fix st w r st' w'
  assume "(let (st, w) = svc_prune sv st w; (tokens, st, w) = write_token_pair_to_state sv s scope cid True None st w
       in (Inr tokens, st, w)) = (Inr r :: exn + token_response, st', w')" and inv: "store_inv sv w st"
  then obtain tk where wr: "write_token_pair_to_state sv s scope cid True None
      (prune_expired st (now_of w) (refresh_grace_ms sv)) (w\<lparr>ticks := Suc (ticks w)\<rparr>) = (tk, st', w')"
    by (auto split: prod.splits)
  from write_pair_good [OF wr prune_step(1) [OF inv] conf] prune_step(2) [OF inv]
  show "store_inv sv w' st' \<and> growth w st st'" by (blast intro: growth_trans later_tick)
qed

lemma exchange_good:
  assumes "exchange_authorization_code sv cid uri code ver d w = (r, d', w')"
  shows "step_good sv (d, w) (d', w')"
proof (cases "is_configured_client (sv_config sv) cid")
  case True
  obtain r1 d1 w1 where run: "store_update (exchange_updater sv cid uri code ver) d w = (r1, d1, w1)"
    by (metis prod_cases3)
  note g = store_update_good [OF exchange_updater_good run]
  consider (stop) "d' = d1" "w' = w1"
    | (pair) s scope r2 where "create_token_pair sv s scope cid True None d1 w1 = (r2, d', w')"
    using assms True run
    by (auto simp: exchange_authorization_code_def split: sum.splits exchange_result.splits prod.splits)
  then show ?thesis
  proof cases
    case stop
    with g show ?thesis by simp
  next
    case pair
    then show ?thesis using g create_pair_good [OF True] step_good_trans by blast
  qed
next
  case False
  with assms show ?thesis by (auto simp: exchange_authorization_code_def intro: step_good_refl)
qed

text \<open>The three ways a refresh can leave the store.\<close>

lemma refresh_updater_cases:
  assumes "refresh_updater sv cid t st w = (res, st', w')"
  obtains (pruned) "st' = prune_expired st (now_of w) (refresh_grace_ms sv)" "later w w'"
  | (stamped) r0 r p where "p = prune_expired st (now_of w) (refresh_grace_ms sv)"
      "dict_get (refreshTokens p) t = Some r0" "stamp_refresh_record (sv_config sv) r0 = Some r"
      "st' = p\<lparr>refreshTokens := modify_dict t (\<lambda>_. r) (refreshTokens p)\<rparr>" "later w w'"
  | (rotated) r0 r p s tk st2 where "p = prune_expired st (now_of w) (refresh_grace_ms sv)"
      "dict_get (refreshTokens p) t = Some r0" "stamp_refresh_record (sv_config sv) r0 = Some r"
      "rt_clientId r0 = cid" "\<not> truthy_int (rt_revokedAt r)"
      "write_token_pair_to_state sv s (rt_scope r) cid True None
         (p\<lparr>refreshTokens := modify_dict t (\<lambda>_. r\<lparr>rt_revokedAt := Some (clock w (Suc (ticks w)))\<rparr>) (refreshTokens p)\<rparr>)
         (w\<lparr>ticks := Suc (Suc (ticks w))\<rparr>) = (tk, st2, w')"
      "st' = st2\<lparr>refreshTokens := modify_dict t (\<lambda>r. r\<lparr>rt_rotationResponse := Some tk\<rparr>) (refreshTokens st2)\<rparr>"
      "try_open_session_dict (sv_cipher sv) (rt_session r) = Inr (Some s)"
proof -
  let ?p = "prune_expired st (now_of w) (refresh_grace_ms sv)"
  have mm: "modify_dict t f (modify_dict t g d) = modify_dict t (\<lambda>x. f (g x)) d" for f g and d :: "refresh_record dict"
    by (auto simp: modify_dict_def)
  note defs = refresh_updater_def Let_def refresh_grace_ms_def [symmetric]
  show thesis
  proof (cases "dict_get (refreshTokens ?p) t")
    case None
    with assms show thesis by (intro pruned) (auto simp: defs simp del: get_prune)
  next
    case (Some r0)
    show thesis
    proof (cases "rt_clientId r0 = cid \<and> stamp_refresh_record (sv_config sv) r0 \<noteq> None")
      case False
      with assms Some show thesis
        by (intro pruned) (auto simp: defs simp del: get_prune split: if_splits)
    next
      case True
      then obtain r where r: "stamp_refresh_record (sv_config sv) r0 = Some r" and cid: "rt_clientId r0 = cid"
        by auto
      show thesis
      proof (cases "\<exists>s. try_open_session_dict (sv_cipher sv) (rt_session r) = Inr (Some s) \<and> \<not> truthy_int (rt_revokedAt r)")
        case True
        then obtain s where s: "try_open_session_dict (sv_cipher sv) (rt_session r) = Inr (Some s)"
          and live: "\<not> truthy_int (rt_revokedAt r)"
          by blast
        obtain tk st2 w2 where wr: "write_token_pair_to_state sv s (rt_scope r) cid True None
           (?p\<lparr>refreshTokens := modify_dict t (\<lambda>_. r\<lparr>rt_revokedAt := Some (clock w (Suc (ticks w)))\<rparr>) (refreshTokens ?p)\<rparr>)
           (w\<lparr>ticks := Suc (Suc (ticks w))\<rparr>) = (tk, st2, w2)"
          by (metis prod_cases3)
        from assms Some r cid s live wr
        have "w' = w2" "st' = st2\<lparr>refreshTokens := modify_dict t (\<lambda>r. r\<lparr>rt_rotationResponse := Some tk\<rparr>) (refreshTokens st2)\<rparr>"
          by (simp_all add: defs mm del: get_prune)
        with Some r cid s live wr show thesis by (intro rotated) auto
      next
        case False
        with assms Some r cid show thesis
          by (intro stamped [of ?p r0 r])
            (auto simp: defs later_def simp del: get_prune split: sum.splits option.splits if_splits)
      qed
    qed
  qed
qed

lemma stamp_refresh_kept: "stamp_refresh_record cfg r0 = Some r \<Longrightarrow> refresh_kept pos r0 r"
  by (auto simp: stamp_refresh_record_def refresh_kept_def Let_def split: if_splits)

lemma stamp_refresh_ok:
  "stamp_refresh_record (sv_config sv) r0 = Some r \<Longrightarrow> refresh_ok sv w k r0 \<Longrightarrow> refresh_ok sv w k r"
  by (auto simp: stamp_refresh_record_def refresh_ok_def Let_def split: if_splits)

text \<open>What each of them keeps: the record is stamped, or it is rotated and a new pair is written.\<close>

lemma refresh_stamped_good:
  assumes inv: "store_inv sv w st" and p: "p = prune_expired st (now_of w) (refresh_grace_ms sv)"
    and r0: "dict_get (refreshTokens p) t = Some r0" and r: "stamp_refresh_record (sv_config sv) r0 = Some r"
    and st': "st' = p\<lparr>refreshTokens := modify_dict t (\<lambda>_. r) (refreshTokens p)\<rparr>" and later: "later w w'"
  shows "store_inv sv w' st' \<and> growth w st st'"
proof -
  have pi: "store_inv sv w' p" using store_inv_later [OF store_inv_prune [OF inv] later] by (simp add: p)
  have "refresh_ok sv w' t r"
    using stamp_refresh_ok [OF r] dict_allD [OF store_invD(4) [OF pi] r0] by blast
  then have "store_inv sv w' st'"
    unfolding st'
    using pi by (intro store_inv_upd dict_all_modify) (simp_all add: store_inv_buckets store_invD)
  moreover have gp: "growth w st p" unfolding p by (rule growth_prune)
  have "growth w st st'"
    unfolding st'
    using growthD(3) [OF gp] store_inv_buckets(3) [OF pi] r0 stamp_refresh_kept [OF r]
    by (intro growth_upd(3) [OF gp] refresh_order.kept_replace)
  ultimately show ?thesis ..
qed

lemma refresh_rotated_good:
  fixes sv :: auth_service and w :: world
  defines "u \<equiv> w\<lparr>ticks := Suc (Suc (ticks w))\<rparr>"
  defines "now \<equiv> clock w (Suc (ticks w))"
  assumes inv: "store_inv sv w st" and p: "p = prune_expired st (now_of w) (refresh_grace_ms sv)"
    and r0: "dict_get (refreshTokens p) t = Some r0" and r: "stamp_refresh_record (sv_config sv) r0 = Some r"
    and client: "rt_clientId r0 = cid" and unrevoked: "\<not> truthy_int (rt_revokedAt r)"
    and pair: "write_token_pair_to_state sv s (rt_scope r) cid True None
      (p\<lparr>refreshTokens := modify_dict t (\<lambda>_. r\<lparr>rt_revokedAt := Some now\<rparr>) (refreshTokens p)\<rparr>) u = (tk, st2, w')"
    and st': "st' = st2\<lparr>refreshTokens := modify_dict t (\<lambda>r. r\<lparr>rt_rotationResponse := Some tk\<rparr>) (refreshTokens st2)\<rparr>"
  shows "store_inv sv w' st' \<and> growth w st st'"
proof -
  let ?st = "p\<lparr>refreshTokens := modify_dict t (\<lambda>_. r\<lparr>rt_revokedAt := Some now\<rparr>) (refreshTokens p)\<rparr>"
  have lw: "later w u" by (simp add: u_def later_def)
  have pi: "store_inv sv u p" using store_inv_later [OF store_inv_prune [OF inv] lw] by (simp add: p)
  have rok: "refresh_ok sv u t r"
    using stamp_refresh_ok [OF r] dict_allD [OF store_invD(4) [OF pi] r0] by blast
  then have conf: "is_configured_client (sv_config sv) cid"
    using r client by (auto simp: stamp_refresh_record_def Let_def split: if_splits)
  have st: "store_inv sv u ?st"
    using pi rok by (intro store_inv_upd dict_all_modify) (simp_all add: store_inv_buckets store_invD refresh_ok_def)
  have "store_inv sv w' st'"
    unfolding st'
    using write_pair_good [OF pair st conf]
    by (intro store_inv_upd dict_all_modify) (auto simp: store_inv_buckets store_invD refresh_ok_def)
  moreover have "growth w st st'"
    using pair
  proof (rule write_pair_effect)
    fix arec rrec
    assume st2: "st2 = ?st\<lparr>accessTokens := AList.update (access_token_of u) arec (accessTokens ?st),
        refreshTokens := AList.update (refresh_token_of u) rrec (refreshTokens ?st)\<rparr>"
    have gp: "growth w st p" unfolding p by (rule growth_prune)
    have new: "access_token_of u \<in> fresh_keys ''at'' w" "refresh_token_of u \<in> fresh_keys ''rt'' w"
      by (auto simp: u_def fresh_keys_def access_token_of_def refresh_token_of_def)
    have "truthy_int (rt_revokedAt r0) \<longleftrightarrow> truthy_int (rt_revokedAt r)"
      using r by (auto simp: stamp_refresh_record_def Let_def split: if_splits)
    then have "refresh_kept (clock_pos w) r0 (r\<lparr>rt_revokedAt := Some now, rt_rotationResponse := Some tk\<rparr>)"
      using stamp_refresh_kept [OF r, of "clock_pos w"] unrevoked by (simp add: refresh_kept_def)
    with growthD(3) [OF gp] store_inv_buckets(3) [OF pi] r0
    have "entries_kept (refresh_kept (clock_pos w)) ''rt'' w (refreshTokens st)
       (modify_dict t (\<lambda>_. r\<lparr>rt_revokedAt := Some now, rt_rotationResponse := Some tk\<rparr>) (refreshTokens p))"
      by (rule refresh_order.kept_replace)
    note rt = kept_modify_update_modify [where f = "\<lambda>r. r\<lparr>rt_rotationResponse := Some tk\<rparr>", OF this new(2)]
    show ?thesis
      using gp growthD(2) [OF gp] new(1) rt by (simp add: st' st2 growth_def)
  qed
  ultimately show ?thesis ..
qed

lemma refresh_updater_good: "good_update sv (refresh_updater sv cid t)"
proof (rule good_updateI)
  fix st w r st' w' assume "refresh_updater sv cid t st w = (r, st', w')"
  then show "later w w'"
  proof (cases rule: refresh_updater_cases)
    case rotated
    from rotated(6) [THEN write_pair_later] show ?thesis by (simp add: later_def)
  qed
next
  fix st w v st' w'
  assume "refresh_updater sv cid t st w = (Inr v, st', w')" and inv: "store_inv sv w st"
  then show "store_inv sv w' st' \<and> growth w st st'"
  proof (cases rule: refresh_updater_cases)
    case pruned
    then show ?thesis
      using store_inv_later [OF store_inv_prune [OF inv, of "now_of w" "refresh_grace_ms sv"] pruned(2)] growth_prune
      by simp
  next
    case (stamped r0 r p)
    with inv show ?thesis by (rule refresh_stamped_good)
  next
    case (rotated r0 r p s tk st2)
    from inv rotated(1-7) show ?thesis by (rule refresh_rotated_good)
  qed
qed

lemma stamp_access_kept: "stamp_access_record cfg r0 = Some r \<Longrightarrow> access_kept pos r0 r"
  by (auto simp: stamp_access_record_def access_kept_def Let_def split: if_splits)

lemma stamp_access_ok:
  "stamp_access_record (sv_config sv) r0 = Some r \<Longrightarrow> access_ok sv w k r0 \<Longrightarrow> access_ok sv w k r"
  by (auto simp: stamp_access_record_def access_ok_def Let_def split: if_splits)

lemma read_updater_good: "good_update sv (read_access_updater sv t)"
proof (rule good_updateI)
  fix st w r st' w' assume "read_access_updater sv t st w = (r, st', w')"
  then show "later w w'"
    by (auto simp: read_access_updater_def Let_def simp del: get_prune split: option.splits)
next
  fix st w v st' w'
  let ?p = "prune_expired st (now_of w) (refresh_grace_ms sv)"
  assume run: "read_access_updater sv t st w = (Inr v, st', w')" and inv: "store_inv sv w st"
  then have w': "w' = w\<lparr>ticks := Suc (ticks w)\<rparr>"
    by (auto simp: read_access_updater_def Let_def simp del: get_prune split: option.splits)
  have pi: "store_inv sv w' ?p" unfolding w' using inv by (rule prune_step)
  consider "st' = ?p"
    | r0 r where "dict_get (accessTokens ?p) t = Some r0" "stamp_access_record (sv_config sv) r0 = Some r"
        "st' = ?p\<lparr>accessTokens := modify_dict t (\<lambda>_. r) (accessTokens ?p)\<rparr>"
    using run by (force simp: read_access_updater_def Let_def simp del: get_prune split: option.splits)
  then show "store_inv sv w' st' \<and> growth w st st'"
  proof cases
    case 1
    with pi growth_prune show ?thesis by simp
  next
    case (2 r0 r)
    have "access_ok sv w' t r"
      using stamp_access_ok [OF 2(2)] dict_allD [OF store_invD(3) [OF pi] 2(1)] by blast
    then have "store_inv sv w' st'"
      unfolding 2(3)
      using pi by (intro store_inv_upd dict_all_modify)
        (simp_all add: store_inv_buckets store_invD del: prune_expired_sel)
    moreover have "growth w st st'"
      unfolding 2(3)
      using growthD(2) [OF growth_prune] store_inv_buckets(2) [OF pi] 2(1) stamp_access_kept [OF 2(2)]
      by (intro growth_upd(2) [OF growth_prune] access_order.kept_replace)
    ultimately show ?thesis ..
  qed
qed

lemma read_good:
  assumes "read_access_token sv t d w = (r, d', w')"
  shows "step_good sv (d, w) (d', w')"
proof -
  obtain r1 d1 w1 where run: "store_update (read_access_updater sv t) d w = (r1, d1, w1)"
    by (metis prod_cases3)
  with assms have "d' = d1" "w' = w1"
    by (auto simp: read_access_token_def split: sum.splits option.splits)
  with store_update_good [OF read_updater_good run] show ?thesis by simp
qed

lemma revoke_updater_good: "good_update sv (revoke_updater sv t)"
proof (rule good_updateI)
  fix st w r st' w' assume "revoke_updater sv t st w = (r, st', w')"
  then show "later w w'"
    by (auto simp: revoke_updater_def Let_def later_def simp del: get_prune split: if_splits)
next
  fix st w v st' w'
  let ?p = "prune_expired st (now_of w) (refresh_grace_ms sv)"
  assume run: "revoke_updater sv t st w = (Inr v, st', w')" and inv: "store_inv sv w st"
  then have l: "later w w'"
    by (auto simp: revoke_updater_def Let_def later_def simp del: get_prune split: if_splits)
  have pi: "store_inv sv w' ?p" using inv l by (blast intro: store_inv_later store_inv_prune)
  consider "st' = ?p"
    | n where "n = clock w (Suc (ticks w))"
        "st' = ?p\<lparr>accessTokens := AList.delete t (modify_dict t (\<lambda>r. r\<lparr>at_revokedAt := Some n\<rparr>) (accessTokens ?p))\<rparr>"
    | n where "n = clock w (Suc (ticks w))"
        "st' = ?p\<lparr>refreshTokens := modify_dict t (\<lambda>r. r\<lparr>rt_revokedAt := Some n\<rparr>) (refreshTokens ?p)\<rparr>"
    using run by (auto simp: revoke_updater_def Let_def simp del: get_prune split: if_splits)
  then show "store_inv sv w' st' \<and> growth w st st'"
  proof cases
    case 1
    with pi growth_prune show ?thesis by simp
  next
    case 2
    have "store_inv sv w' st'"
      unfolding 2 using pi
      by (intro store_inv_upd dict_all_delete dict_all_modify)
        (simp_all add: store_inv_buckets store_invD access_ok_def del: prune_expired_sel)
    moreover have "growth w st st'"
      unfolding 2 using growthD(2) [OF growth_prune]
      by (intro growth_upd(2) [OF growth_prune] kept_delete access_order.kept_modify)
        (auto simp: access_kept_def pos_mark simp del: truthy_int_simps)
    ultimately show ?thesis ..
  next
    case 3
    have "store_inv sv w' st'"
      unfolding 3 using pi
      by (intro store_inv_upd dict_all_modify)
        (simp_all add: store_inv_buckets store_invD refresh_ok_def del: prune_expired_sel)
    moreover have "growth w st st'"
      unfolding 3 using growthD(3) [OF growth_prune]
      by (intro growth_upd(3) [OF growth_prune] refresh_order.kept_modify)
        (auto simp: refresh_kept_def pos_mark simp del: truthy_int_simps)
    ultimately show ?thesis ..
  qed
qed

lemma revoke_user_updater_good: "good_update sv (revoke_user_updater sv uid tid)"
proof (rule good_updateI)
  fix st w r st' w' assume "revoke_user_updater sv uid tid st w = (r, st', w')"
  then show "later w w'" by (auto simp: revoke_user_updater_def Let_def later_def)
next
  fix st w v st' w'
  let ?p = "prune_expired st (now_of w) (refresh_grace_ms sv)"
  assume run: "revoke_user_updater sv uid tid st w = (Inr v, st', w')" and inv: "store_inv sv w st"
  then have l: "later w w'" by (auto simp: revoke_user_updater_def Let_def later_def)
  have pi: "store_inv sv w' ?p" using inv l by (blast intro: store_inv_later store_inv_prune)
  let ?n = "now_of (w\<lparr>ticks := Suc (ticks w)\<rparr>)"
  let ?f = "\<lambda>r. if session_of_user uid tid (at_session r) then r\<lparr>at_revokedAt := Some ?n\<rparr> else r"
  let ?g = "\<lambda>r. if session_of_user uid tid (rt_session r) then r\<lparr>rt_revokedAt := Some ?n\<rparr> else r"
  let ?h = "\<lambda>r. if ag_userId r = uid \<and> ag_tenantId r = tid then r\<lparr>ag_expiresAt := 0\<rparr> else r"
  have st': "st' = ?p\<lparr>accessTokens := map_dict ?f (accessTokens ?p),
      refreshTokens := map_dict ?g (refreshTokens ?p), assetGrants := map_dict ?h (assetGrants ?p)\<rparr>"
    using run by (auto simp: revoke_user_updater_def Let_def)
  have f: "access_ok sv w' k (?f r) = access_ok sv w' k r" for k r by (simp add: access_ok_def)
  have g: "refresh_ok sv w' k (?g r) = refresh_ok sv w' k r" for k r by (simp add: refresh_ok_def)
  have h: "grant_ok w' k (?h r) = grant_ok w' k r" for k r by (simp add: grant_ok_def)
  have "store_inv sv w' st'"
    unfolding st' using pi
    by (intro store_inv_upd dict_all_map)
      (simp_all add: store_inv_buckets store_invD f g h del: prune_expired_sel)
  moreover have kept: "access_kept (clock_pos w) r (?f r)" "refresh_kept (clock_pos w) q (?g q)" "grant_kept g (?h g)" for r q g
    by (auto simp: access_kept_def refresh_kept_def grant_kept_def pos_mark simp del: truthy_int_simps)
  have gp: "growth w st ?p" by (rule growth_prune)
  have "growth w st st'"
    using gp access_order.kept_map [OF growthD(2) [OF gp] kept(1)]
      refresh_order.kept_map [OF growthD(3) [OF gp] kept(2)] grant_order.kept_map [OF growthD(4) [OF gp] kept(3)]
    unfolding st' growth_def by simp
  ultimately show "store_inv sv w' st' \<and> growth w st st'" ..
qed

section \<open>Sign-on and grants\<close>

lemma classify_later: "classify_pending_sso_record x w = (s, w') \<Longrightarrow> later w w'"
  by (auto simp: classify_pending_sso_record_def split: option.splits if_splits)

lemma classify_active:
  "classify_pending_sso_record x w = (SsoActive r, w') \<Longrightarrow>
   x = Some r \<and> \<not> truthy_int (ps_usedAt r) \<and> now_of w \<le> ps_expiresAt r"
  by (auto simp: classify_pending_sso_record_def split: option.splits if_splits)

text \<open>The record a successful begin installs, and the limits it has respected.\<close>

definition sso_record :: "sso_request \<Rightarrow> string \<Rightarrow> int \<Rightarrow> int \<Rightarrow> int \<Rightarrow> pending_sso" where
  "sso_record req v now ex pu =
     \<lparr>ps_handoffState = v, ps_canvaState = sr_canva_state req, ps_clientId = sr_client_id req,
      ps_redirectUri = sr_redirect_uri req, ps_scope = sr_scope req, ps_codeChallenge = sr_code_challenge req,
      ps_codeChallengeMethod = str_or (sr_code_challenge_method req) ''S256'', ps_tenant = sr_tenant req,
      ps_correlationId = sr_correlation_id req, ps_initiatorKey = sr_initiator_key req, ps_createdAt = now,
      ps_expiresAt = ex, ps_usedAt = None, ps_purgeAt = pu\<rparr>"

lemma begin_sso_effect:
  assumes lim: "max_pending_sso_states_per_source (sv_config sv) = Inr lim"
    and run: "begin_sso_updater sv req ex pu st w = (Inr v, st', w')"
  defines "p \<equiv> prune_expired st (now_of w) (refresh_grace_ms sv)"
  shows "outstanding_for_source p (sr_initiator_key req) (clock w (Suc (ticks w))) < lim \<and>
    active_pending p (clock w (Suc (ticks w))) < MAX_PENDING_SSO_STATES \<and>
    v = ''ssostate_'' @ rand w (draws w) \<and>
    st' = p\<lparr>pendingSsoStates :=
              AList.update v (sso_record req v (clock w (Suc (ticks w))) ex pu) (pendingSsoStates p)\<rparr> \<and>
    w' = w\<lparr>ticks := Suc (Suc (ticks w)), draws := Suc (draws w)\<rparr>"
  using run lim
  by (simp add: begin_sso_updater_def Let_def random_token_def sso_record_def p_def del: prune_expired_sel
      split: if_splits) auto

lemma begin_sso_updater_good: "good_update sv (begin_sso_updater sv req ex pu)"
proof (rule good_updateI)
  fix st w r st' w' assume "begin_sso_updater sv req ex pu st w = (r, st', w')"
  then show "later w w'"
    by (auto simp: begin_sso_updater_def Let_def random_token_def later_def split: sum.splits if_splits)
next
  fix st w v st' w'
  let ?p = "prune_expired st (now_of w) (refresh_grace_ms sv)"
  assume run: "begin_sso_updater sv req ex pu st w = (Inr v, st', w')" and inv: "store_inv sv w st"
  then obtain lim where lim: "max_pending_sso_states_per_source (sv_config sv) = Inr lim"
    by (cases "max_pending_sso_states_per_source (sv_config sv)") (simp_all add: begin_sso_updater_def)
  note eff = begin_sso_effect [OF lim run]
  let ?r = "sso_record req v (clock w (Suc (ticks w))) ex pu"
  have st': "st' = ?p\<lparr>pendingSsoStates := AList.update v ?r (pendingSsoStates ?p)\<rparr>"
    and v: "v = ''ssostate_'' @ rand w (draws w)"
    and w': "w' = w\<lparr>ticks := Suc (Suc (ticks w)), draws := Suc (draws w)\<rparr>"
    using eff by simp_all
  have l: "later w w'" by (simp add: w' later_def)
  have pi: "store_inv sv w' ?p" using inv l by (blast intro: store_inv_later store_inv_prune)
  have "pending_ok w' v ?r" using v w' by (auto simp: pending_ok_def issued_def sso_record_def)
  then have "store_inv sv w' st'"
    unfolding st' using pi
    by (intro store_inv_upd dict_all_update) (simp_all add: store_inv_buckets store_invD del: prune_expired_sel)
  moreover have "v \<in> fresh_keys ''ssostate'' w" by (auto simp: fresh_keys_def v)
  then have "growth w st st'" using growth_prune by (simp add: st' growth_upd)
  ultimately show "store_inv sv w' st' \<and> growth w st st'" ..
qed

text \<open>Marking a pending record as used keeps the invariant.\<close>

lemma mark_used_good:
  assumes inv: "store_inv sv w st" and ok: "pending_ok w h r" and l: "later w w'"
  shows "store_inv sv w' (st\<lparr>pendingSsoStates := modify_dict h (\<lambda>_. r\<lparr>ps_usedAt := Some n\<rparr>) (pendingSsoStates st)\<rparr>)"
proof -
  have i: "store_inv sv w' st" using inv l by (rule store_inv_later)
  have "pending_ok w' h (r\<lparr>ps_usedAt := Some n\<rparr>)"
    using entry_later(5) [OF l ok] by (simp add: pending_ok_def)
  with i show ?thesis
    by (intro store_inv_upd dict_all_modify) (simp_all add: store_inv_buckets store_invD)
qed

lemma complete_updater_cases:
  assumes "complete_sso_updater sv h s st w = (v, st', w')"
  obtains (rejected) "st' = prune_expired st (now_of w) (refresh_grace_ms sv)" "later w w'"
      "\<exists>x. v = Inr (SsoRejected x)"
  | (completed) p r s1 code st2 w1 w2 where
      "p = prune_expired st (now_of w) (refresh_grace_ms sv)"
      "dict_get (pendingSsoStates p) h = Some r" "\<not> truthy_int (ps_usedAt r)"
      "clock w (Suc (ticks w)) \<le> ps_expiresAt r" "w1 = w\<lparr>ticks := Suc (Suc (ticks w))\<rparr>"
      "s1 = stamp_broker_session_metadata s (ps_clientId r) (integration_for_client_id (sv_config sv) (ps_clientId r))"
      "mint_authorization_code sv (ps_clientId r) (ps_redirectUri r) (ps_scope r) (ps_codeChallenge r)
         (Some (ps_codeChallengeMethod r)) s1 p w1 = (code, st2, w2)"
      "w' = w2\<lparr>ticks := Suc (ticks w2)\<rparr>" "v = Inr (SsoValid code (r\<lparr>ps_usedAt := Some (now_of w2)\<rparr>))"
      "st' = st2\<lparr>pendingSsoStates := modify_dict h (\<lambda>_. r\<lparr>ps_usedAt := Some (now_of w2)\<rparr>) (pendingSsoStates st2)\<rparr>"
proof -
  let ?p = "prune_expired st (now_of w) (refresh_grace_ms sv)"
  let ?w = "w\<lparr>ticks := Suc (ticks w)\<rparr>"
  obtain status w1 where cl: "classify_pending_sso_record (dict_get (pendingSsoStates ?p) h) ?w = (status, w1)"
    by fastforce
  have l: "later w w1" using later_tick classify_later [OF cl] by (rule later_trans)
  show thesis
  proof (cases "\<exists>r. status = SsoActive r")
    case False
    with assms cl l show thesis
      by (intro rejected) (auto simp: complete_sso_updater_def Let_def simp del: prune_expired_sel split: sso_status.splits)
  next
    case True
    then obtain r where r: "status = SsoActive r" ..
    from classify_active [OF cl [unfolded r]]
    have get: "dict_get (pendingSsoStates ?p) h = Some r" and live: "\<not> truthy_int (ps_usedAt r)"
      and now: "clock w (Suc (ticks w)) \<le> ps_expiresAt r"
      by simp_all
    then have w1: "w1 = w\<lparr>ticks := Suc (Suc (ticks w))\<rparr>" using cl r
      by (auto simp: classify_pending_sso_record_def simp del: prune_expired_sel split: if_splits)
    let ?s = "stamp_broker_session_metadata s (ps_clientId r) (integration_for_client_id (sv_config sv) (ps_clientId r))"
    obtain code st2 w2 where m: "mint_authorization_code sv (ps_clientId r) (ps_redirectUri r) (ps_scope r)
        (ps_codeChallenge r) (Some (ps_codeChallengeMethod r)) ?s ?p w1 = (code, st2, w2)"
      by (metis prod_cases3)
    from assms cl r m
    have "w' = w2\<lparr>ticks := Suc (ticks w2)\<rparr>" "v = Inr (SsoValid code (r\<lparr>ps_usedAt := Some (now_of w2)\<rparr>))"
      "st' = st2\<lparr>pendingSsoStates := modify_dict h (\<lambda>_. r\<lparr>ps_usedAt := Some (now_of w2)\<rparr>) (pendingSsoStates st2)\<rparr>"
      by (simp_all add: complete_sso_updater_def Let_def del: prune_expired_sel)
    with get live now w1 m show thesis by (intro completed) auto
  qed
qed

lemma complete_updater_good: "good_update sv (complete_sso_updater sv h s)"
proof (rule good_updateI)
  fix st w r st' w' assume "complete_sso_updater sv h s st w = (r, st', w')"
  then show "later w w'"
  proof (cases rule: complete_updater_cases)
    case completed
    from mint_later [OF completed(7)] completed(5,8) show ?thesis by (simp add: later_def)
  qed
next
  fix st w v st' w'
  assume "complete_sso_updater sv h s st w = (Inr v, st', w')" and inv: "store_inv sv w st"
  then show "store_inv sv w' st' \<and> growth w st st'"
  proof (cases rule: complete_updater_cases)
    case rejected
    with inv growth_prune show ?thesis by (auto intro: store_inv_later store_inv_prune)
  next
    case (completed p r s1 code st2 w1 w2)
    have l1: "later w w1" by (simp add: completed(5) later_def)
    have pi: "store_inv sv w1 p" using store_inv_later [OF store_inv_prune [OF inv] l1] by (simp add: completed(1))
    note m = mint_good [OF completed(7) pi]
    have ok: "pending_ok w2 h r"
      using entry_later(5) [OF mint_later [OF completed(7)]] dict_allD [OF store_invD(6) [OF pi] completed(2)] by blast
    have "store_inv sv w' st'"
      unfolding completed(10) using m ok by (intro mark_used_good [of _ w2]) (simp_all add: completed(8))
    moreover have "growth w st p" unfolding completed(1) by (rule growth_prune)
    then have "growth w st st2" using m l1 growth_trans by blast
    then have "growth w st st'"
      unfolding completed(10)
    proof (rule growth_upd(5))
      let ?used = "r\<lparr>ps_usedAt := Some (now_of w2)\<rparr>"
      have sub: "set (pendingSsoStates st2) \<subseteq> set (pendingSsoStates p)"
        using completed(7) by (rule mint_effect) (auto dest: subsetD [OF prune_subset])
      have "entries_kept (pending_kept (clock_pos w)) ''ssostate'' w (pendingSsoStates st) (pendingSsoStates st2)"
        using \<open>growth w st st2\<close> by (rule growthD)
      then show "entries_kept (pending_kept (clock_pos w)) ''ssostate'' w (pendingSsoStates st)
          (modify_dict h (\<lambda>_. ?used) (pendingSsoStates st2))"
      proof (rule pending_order.kept_modify)
        fix q assume "(h, q) \<in> set (pendingSsoStates st2)"
        with sub have "dict_get (pendingSsoStates p) h = Some q"
          using store_inv_buckets(5) [OF pi] by (auto simp: wf_dict_get_in)
        with completed(2,3) show "pending_kept (clock_pos w) q ?used" by (auto simp: pending_kept_def)
      qed
    qed
    ultimately show ?thesis ..
  qed
qed

lemma consume_updater_cases:
  assumes "consume_updater sv h st w = (v, st', w')"
  obtains (rejected) "st' = prune_expired st (now_of w) (refresh_grace_ms sv)" "later w w'"
      "\<exists>x. v = Inr (ConsumeRejected x)"
  | (consumed) p r used where "p = prune_expired st (now_of w) (refresh_grace_ms sv)"
      "dict_get (pendingSsoStates p) h = Some r" "\<not> truthy_int (ps_usedAt r)"
      "clock w (Suc (ticks w)) \<le> ps_expiresAt r" "later w w'" "v = Inr (ConsumeValid used)"
      "used = r\<lparr>ps_usedAt := Some (clock w (Suc (Suc (ticks w))))\<rparr>"
      "st' = p\<lparr>pendingSsoStates := modify_dict h (\<lambda>_. used) (pendingSsoStates p)\<rparr>"
proof -
  let ?p = "prune_expired st (now_of w) (refresh_grace_ms sv)"
  show thesis
  proof (cases "dict_get (pendingSsoStates ?p) h")
    case None
    with assms show thesis by (intro rejected) (auto simp: consume_updater_def Let_def simp del: prune_expired_sel)
  next
    case (Some r)
    show thesis
    proof (cases "truthy_int (ps_usedAt r) \<or> ps_expiresAt r < clock w (Suc (ticks w))")
      case True
      with assms Some show thesis
        by (intro rejected) (auto simp: consume_updater_def Let_def later_def simp del: prune_expired_sel split: if_splits)
    next
      case False
      with assms Some show thesis
        by (intro consumed [of ?p r]) (simp_all add: consume_updater_def Let_def later_def del: prune_expired_sel, auto)
    qed
  qed
qed

lemma consume_updater_good: "good_update sv (consume_updater sv h)"
proof (rule good_updateI)
  fix st w r st' w' assume "consume_updater sv h st w = (r, st', w')"
  then show "later w w'" by (cases rule: consume_updater_cases)
next
  fix st w v st' w'
  let ?p = "prune_expired st (now_of w) (refresh_grace_ms sv)"
  assume run: "consume_updater sv h st w = (Inr v, st', w')" and inv: "store_inv sv w st"
  have pi: "store_inv sv w ?p" using inv by (rule store_inv_prune)
  from run show "store_inv sv w' st' \<and> growth w st st'"
  proof (cases rule: consume_updater_cases)
    case rejected
    with pi growth_prune show ?thesis by (simp add: store_inv_later)
  next
    case (consumed p r used)
    have "pending_ok w h r" using dict_allD [OF store_invD(6) [OF pi]] consumed(1,2) by simp
    then have "store_inv sv w' st'"
      unfolding consumed(7,8) using pi consumed(1,5) by (intro mark_used_good) auto
    moreover have gp: "growth w st p" unfolding consumed(1) by (rule growth_prune)
    have "growth w st st'"
      unfolding consumed(8)
    proof (rule growth_upd(5) [OF gp])
      have "pending_kept (clock_pos w) r used" using consumed(3) by (simp add: consumed(7) pending_kept_def)
      with growthD(5) [OF gp] _ consumed(2)
      show "entries_kept (pending_kept (clock_pos w)) ''ssostate'' w (pendingSsoStates st)
          (modify_dict h (\<lambda>_. used) (pendingSsoStates p))"
        by (rule pending_order.kept_replace) (use pi consumed(1) in \<open>simp add: store_inv_buckets del: prune_expired_sel\<close>)
    qed
    ultimately show ?thesis ..
  qed
qed

lemma consume_good: "consume_pending_sso_state sv h d w = (r, d', w') \<Longrightarrow> step_good sv (d, w) (d', w')"
  unfolding consume_pending_sso_state_def by (rule store_update_good [OF consume_updater_good])

lemma grants_prune_step: "store_inv sv w st \<Longrightarrow> store_inv sv w (prune_expired_grants st now)"
  unfolding prune_expired_grants_def
  by (intro store_inv_upd) (simp_all add: store_inv_buckets store_invD dict_all_prune)

lemma growth_grants_prune: "growth w st (prune_expired_grants st now)"
  by (simp add: prune_expired_grants_def growth_upd)

text \<open>The grant a call creates.\<close>

definition grant_record ::
  "app_config \<Rightarrow> session \<Rightarrow> source \<Rightarrow> string option \<Rightarrow> string option \<Rightarrow> world \<Rightarrow> asset_grant"
where
  "grant_record cfg s src mime fname w =
     \<lparr>ag_grantId = ''grant_'' @ rand w (draws w), ag_userId = us_id (ss_user s),
      ag_tenantId = tn_id (ss_tenant s),
      ag_expiresAt = clock w (Suc (ticks w)) + signed_url_ttl_seconds (oauth cfg) * 1000, ag_source = src,
      ag_integration = broker_integration_from_session s, ag_mimeType = mime, ag_filename = fname\<rparr>"

lemma create_grant_effect:
  assumes "create_grant_updater cfg path s src mime fname st w = (r, st', w')"
  defines "g \<equiv> grant_record cfg s src mime fname w"
  shows "w' = w\<lparr>ticks := Suc (Suc (ticks w)), draws := Suc (draws w)\<rparr> \<and>
    st' = st\<lparr>assetGrants := AList.update (ag_grantId g) g (prune_dict (grant_dead (now_of w)) (assetGrants st))\<rparr> \<and>
    (\<forall>l. r = Inr l \<longrightarrow> gl_grantId l = ag_grantId g \<and>
       gl_url l = base_url cfg @ path @ ''/'' @ ag_grantId g @ ''?'' @
         urlencode [(''expires'', str_of_int (ag_expiresAt g)),
                    (''sig'', create_signature (ag_grantId g) (ag_expiresAt g) (asset_secret (signing cfg)))])"
  using assms(1)
  by (simp add: create_grant_updater_def Let_def random_token_def prune_expired_grants_def g_def
      grant_record_def del: get_prune split: sum.splits) auto

lemma create_grant_good: "good_update sv (create_grant_updater cfg path s src mime fname)"
proof (rule good_updateI)
  fix st w r st' w' assume "create_grant_updater cfg path s src mime fname st w = (r, st', w')"
  then have "w' = w\<lparr>ticks := Suc (Suc (ticks w)), draws := Suc (draws w)\<rparr>"
    using create_grant_effect by blast
  then show "later w w'" by (simp add: later_def)
next
  fix st w v st' w'
  assume run: "create_grant_updater cfg path s src mime fname st w = (Inr v, st', w')" and inv: "store_inv sv w st"
  let ?g = "grant_record cfg s src mime fname w"
  have w': "w' = w\<lparr>ticks := Suc (Suc (ticks w)), draws := Suc (draws w)\<rparr>"
    and st': "st' = st\<lparr>assetGrants := AList.update (ag_grantId ?g) ?g (prune_dict (grant_dead (now_of w)) (assetGrants st))\<rparr>"
    using create_grant_effect [OF run] by simp_all
  have i: "store_inv sv w' st" using inv by (rule store_inv_later) (simp add: w' later_def)
  have g: "grant_ok w' (ag_grantId ?g) ?g" "ag_grantId ?g \<in> fresh_keys ''grant'' w"
    by (auto simp: grant_ok_def grant_record_def issued_def w' fresh_keys_def)
  have "store_inv sv w' st'"
    unfolding st' using i g
    by (intro store_inv_upd dict_all_update dict_all_prune) (simp_all add: store_inv_buckets store_invD)
  moreover have "growth w st st'" unfolding st' using g by (simp add: growth_upd)
  ultimately show "store_inv sv w' st' \<and> growth w st st'" ..
qed

lemma lookup_grant_good: "good_update sv (lookup_grant_updater k)"
  by (rule good_updateI)
    (auto simp: lookup_grant_updater_def Let_def intro: store_inv_later grants_prune_step growth_grants_prune)

lemma verify_good:
  assumes "verify_grant cfg gid ex sig d w = (r, d', w')"
  shows "step_good sv (d, w) (d', w')"
proof -
  let ?w = "w\<lparr>ticks := Suc (ticks w)\<rparr>"
  obtain r1 d1 w1 where run: "store_update (lookup_grant_updater (the gid)) d ?w = (r1, d1, w1)"
    by (metis prod_cases3)
  consider "d' = d" "later w w'" | "d' = d1" "later w1 w'"
    using assms run
    by (auto simp: verify_grant_def Let_def compare_digest_def split: if_splits option.splits sum.splits bool.splits)
  then show ?thesis
  proof cases
    case 1
    then show ?thesis by (simp add: step_good_later)
  next
    case 2
    have "step_good sv (d, w) (d, ?w)" by (rule step_good_later) simp
    moreover have "step_good sv (d, ?w) (d1, w1)" using lookup_grant_good run by (rule store_update_good)
    moreover have "step_good sv (d1, w1) (d', w')" using 2 by (simp add: step_good_later)
    ultimately show ?thesis by (blast intro: step_good_trans)
  qed
qed

lemma login_good:
  assumes auth: "\<And>b u p i w. later w (snd (authenticate b u p i w))"
    and run: "begin_authorization sv authenticate cid uri scope ch meth base uname pwd d w = (r, d', w')"
  shows "step_good sv (d, w) (d', w')"
proof -
  let ?i = "integration_for_client_id (sv_config sv) cid"
  obtain a w1 where a: "authenticate base uname pwd ?i w = (a, w1)" by fastforce
  then have l: "later w w1" using auth [of w base uname pwd ?i] by simp
  show ?thesis
  proof (cases a)
    case (Inl e)
    with run a l show ?thesis by (auto simp: begin_authorization_def intro: step_good_later)
  next
    case (Inr s)
    have "step_good sv (d, w1) (d', w')"
      using run a Inr by (auto simp: begin_authorization_def Let_def intro: mint_store_good)
    with l show ?thesis by (blast intro: step_good_trans step_good_later)
  qed
qed

lemma begin_session_good:
  "begin_authorization_from_session sv cid uri scope ch meth s d w = (r, d', w') \<Longrightarrow> step_good sv (d, w) (d', w')"
  unfolding begin_authorization_from_session_def Let_def by (rule mint_store_good)

lemma begin_sso_good:
  assumes "begin_sso_authorization sv req d w = (r, d', w')"
  shows "step_good sv (d, w) (d', w')"
proof -
  have "step_good sv (d, w) (d, w\<lparr>ticks := Suc (ticks w)\<rparr>)" by (rule step_good_later) simp
  moreover have "step_good sv (d, w\<lparr>ticks := Suc (ticks w)\<rparr>) (d', w')"
    using assms by (auto simp: begin_sso_authorization_def Let_def intro: store_update_good [OF begin_sso_updater_good])
  ultimately show ?thesis by (rule step_good_trans)
qed

section \<open>Steps\<close>

inductive broker_step :: "auth_service \<Rightarrow> broker_state \<Rightarrow> broker_state \<Rightarrow> bool" for sv where
  step_world: "later w w' \<Longrightarrow> broker_step sv (d, w) (d, w')"
| step_prune: "prune sv d w = (r, d', w') \<Longrightarrow> broker_step sv (d, w) (d', w')"
| step_login: "(\<And>b u p i w. later w (snd (authenticate b u p i w))) \<Longrightarrow>
    begin_authorization sv authenticate cid uri scope ch meth base username password d w = (rc, d', w') \<Longrightarrow>
    broker_step sv (d, w) (d', w')"
| step_begin: "begin_authorization_from_session sv cid uri scope ch meth s d w = (rc, d', w') \<Longrightarrow>
    broker_step sv (d, w) (d', w')"
| step_exchange: "exchange_authorization_code sv cid uri code ver d w = (ro, d', w') \<Longrightarrow>
    broker_step sv (d, w) (d', w')"
| step_refresh: "refresh_access_token sv cid t d w = (ro, d', w') \<Longrightarrow> broker_step sv (d, w) (d', w')"
| step_read: "read_access_token sv t d w = (ra, d', w') \<Longrightarrow> broker_step sv (d, w) (d', w')"
| step_revoke: "revoke_token sv t d w = (rb, d', w') \<Longrightarrow> broker_step sv (d, w) (d', w')"
| step_revoke_user: "revoke_tokens_for_user sv uid tid d w = (r, d', w') \<Longrightarrow> broker_step sv (d, w) (d', w')"
| step_begin_sso: "begin_sso_authorization sv req d w = (rc, d', w') \<Longrightarrow> broker_step sv (d, w) (d', w')"
| step_complete_sso: "complete_sso_authorization sv h s d w = (rs, d', w') \<Longrightarrow> broker_step sv (d, w) (d', w')"
| step_consume_sso: "consume_pending_sso_state sv h d w = (rk, d', w') \<Longrightarrow> broker_step sv (d, w) (d', w')"
| step_create_grant: "create_grant (sv_config sv) path s src mime fname d w = (rg, d', w') \<Longrightarrow>
    broker_step sv (d, w) (d', w')"
| step_verify_grant: "verify_grant (sv_config sv) gid ex sig d w = (rv, d', w') \<Longrightarrow>
    broker_step sv (d, w) (d', w')"

section \<open>Every step is good\<close>

lemma broker_step_good: "broker_step sv s t \<Longrightarrow> step_good sv s t"
proof (induction rule: broker_step.induct)
  case (step_exchange cid uri code ver d w ro d' w')
  then show ?case by (rule exchange_good)
next
  case (step_refresh cid t d w ro d' w')
  then show ?case
    by (auto simp: refresh_access_token_def invalid_client_def intro: step_good_refl
        store_update_good [OF refresh_updater_good] split: if_splits)
next
  case (step_login authenticate cid uri scope ch meth base username password d w rc d' w')
  then show ?case by (rule login_good)
qed (auto simp: revoke_token_def revoke_tokens_for_user_def complete_sso_authorization_def create_grant_def
    intro: step_good_later prune_good login_good begin_session_good read_good begin_sso_good consume_good
      verify_good store_update_good [OF revoke_updater_good] store_update_good [OF revoke_user_updater_good]
      store_update_good [OF complete_updater_good] store_update_good [OF create_grant_good])

interpretation broker: step_progress "broker_step sv" "step_good sv" for sv
  by unfold_locales (rule broker_step_good, assumption, rule step_good_refl, rule step_good_trans)

definition disk_inv :: "auth_service \<Rightarrow> broker_state \<Rightarrow> bool" where
  "disk_inv sv s \<longleftrightarrow> (\<exists>st. fst s = Some st \<and> store_inv sv (snd s) st)"

lemma disk_inv_step: "step_good sv s t \<Longrightarrow> disk_inv sv s \<Longrightarrow> disk_inv sv t"
  by (auto simp: step_good_def disk_inv_def)

interpretation disk: step_invariant "broker_step sv" "disk_inv sv" for sv
  by unfold_locales (rule disk_inv_step [OF broker_step_good])

section \<open>Runs\<close>

lemma run_growth:
  assumes "reach (broker_step sv) (Some st, w) (d, w')" and "store_inv sv w st"
  obtains st' where "d = Some st'" "store_inv sv w' st'" "growth w st st'" "later w w'"
  using broker.reach_ahead [OF assms(1)] assms(2) that by (auto simp: step_good_def)

lemma kept_gone:
  assumes "entries_kept R pre w d d'" and "inj (rand w)" and "issued pre w k" and "dict_get d k = None"
  shows "dict_get d' k = None"
proof (rule ccontr)
  assume "dict_get d' k \<noteq> None"
  then obtain r' where "(k, r') \<in> set d'" by (auto dest: map_of_SomeD)
  with assms(1) not_fresh_issued [OF assms(2,3)] have "k \<in> dict_keys d"
    by (force simp: entries_kept_def)
  with assms(4) show False by (simp add: map_of_eq_None_iff)
qed

lemma kept_get:
  assumes "entries_kept R pre w d d'" and "inj (rand w)" and "issued pre w k"
    and "wf_dict d" and "dict_get d' k = Some r'"
  obtains r where "dict_get d k = Some r" "R r r'"
proof -
  have "(k, r') \<in> set d'" using assms(5) by (rule map_of_SomeD)
  with assms(1) not_fresh_issued [OF assms(2,3)] obtain r where "(k, r) \<in> set d" "R r r'"
    by (auto simp: entries_kept_def)
  with assms(4) that show thesis by (simp add: wf_dict_get_in [symmetric])
qed

lemma inj_later: "later w w' \<Longrightarrow> inj (rand w') = inj (rand w)"
  by (simp add: later_def)

lemma exchange_removes:
  assumes wf: "wf_store st" and conf: "is_configured_client (sv_config sv) cid"
    and run: "exchange_authorization_code sv cid uri code ver (Some st) w = (Inr res, d1, w1)"
  obtains st1 where "d1 = Some st1" "dict_get (authorizationCodes st1) code = None"
proof -
  obtain res0 st0 w0 where upd: "exchange_updater sv cid uri code ver st w = (res0, st0, w0)"
    by (metis prod_cases3)
  with run conf obtain x where x: "res0 = Inr x"
    by (cases res0) (auto simp: exchange_authorization_code_def store_update_Some)
  have gone: "authorizationCodes st0 = AList.delete code (prune_dict (code_dead (now_of w)) (authorizationCodes st))"
    using exchange_updater_effect [OF wf upd [unfolded x]] by simp
  show thesis
  proof (cases x)
    case (ExchangeError e d)
    with run conf upd x have "d1 = Some st0" by (simp add: exchange_authorization_code_def store_update_Some)
    with gone that show thesis by simp
  next
    case (ExchangeOk s scope)
    obtain tk st' w' where pair: "create_token_pair sv s scope cid True None (Some st0) w0 = (Inr tk, Some st', w')"
      and wr: "write_token_pair_to_state sv s scope cid True None
         (prune_expired st0 (now_of w0) (refresh_grace_ms sv)) (w0\<lparr>ticks := Suc (ticks w0)\<rparr>) = (tk, st', w')"
      by (rule create_pair_commits)
    have "wf_dict (authorizationCodes st0)" using wf by (simp add: gone wf_storeD)
    then have "dict_get (authorizationCodes st') code = None"
      using wr by (elim write_pair_effect) (simp add: gone)
    moreover have "d1 = Some st'"
      using run conf upd x ExchangeOk pair by (simp add: exchange_authorization_code_def store_update_Some)
    ultimately show thesis using that by blast
  qed
qed

lemma exchange_absent:
  assumes "wf_store st" and "is_configured_client (sv_config sv) cid"
    and "dict_get (authorizationCodes st) code = None"
  shows "exchange_authorization_code sv cid uri code ver (Some st) w =
    (Inr (OAuthError ''invalid_grant'' ''Authorization code not found.''),
     Some (prune_expired st (now_of w) (refresh_grace_ms sv)), w\<lparr>ticks := Suc (ticks w)\<rparr>)"
  using assms by (simp add: exchange_authorization_code_def store_update_Some exchange_updater_def Let_def wf_storeD)

lemma read_absent:
  assumes "wf_store st"
    and "case dict_get (accessTokens st) t of None \<Rightarrow> True | Some r \<Rightarrow> access_dead (now_of w) r"
  shows "read_access_token sv t (Some st) w =
    (Inr None, Some (prune_expired st (now_of w) (refresh_grace_ms sv)), w\<lparr>ticks := Suc (ticks w)\<rparr>)"
  using assms
  by (auto simp: read_access_token_def store_update_Some read_access_updater_def Let_def wf_storeD split: option.splits)

lemma exchange_exn:
  assumes "exchange_authorization_code sv cid uri code ver (Some st) w = (Inr res, d1, w1)"
    and "store_inv sv w st"
  obtains st1 where "d1 = Some st1" "store_inv sv w1 st1" "growth w st st1" "later w w1"
  using exchange_good [OF assms(1)] assms(2) that by (auto simp: step_good_def)

lemma revoke_user_effect:
  assumes "revoke_tokens_for_user sv uid tid (Some st) w = (res, d1, w1)"
  defines "p \<equiv> prune_expired st (now_of w) (refresh_grace_ms sv)"
    and "n \<equiv> now_of (w\<lparr>ticks := Suc (ticks w)\<rparr>)"
  shows "d1 = Some (p
      \<lparr>accessTokens := map_dict (\<lambda>r. if session_of_user uid tid (at_session r) then r\<lparr>at_revokedAt := Some n\<rparr> else r) (accessTokens p),
       refreshTokens := map_dict (\<lambda>r. if session_of_user uid tid (rt_session r) then r\<lparr>rt_revokedAt := Some n\<rparr> else r) (refreshTokens p),
       assetGrants := map_dict (\<lambda>r. if ag_userId r = uid \<and> ag_tenantId r = tid then r\<lparr>ag_expiresAt := 0\<rparr> else r) (assetGrants p)\<rparr>)"
  using assms(1) unfolding p_def n_def
  by (auto simp: revoke_tokens_for_user_def store_update_Some revoke_user_updater_def Let_def)

lemma revoke_user_run:
  assumes "revoke_tokens_for_user sv uid tid (Some st) w = (res, d1, w1)" and "store_inv sv w st"
  obtains st1 where "d1 = Some st1" "store_inv sv w1 st1" "growth w st st1" "later w w1"
  using broker_step_good [OF step_revoke_user [OF assms(1)]] assms(2) that by (auto simp: step_good_def)

end
