(* ===== verification/Sample_Data.thy ===== *)
theory Sample_Data
  imports Broker_System
begin

text \<open>
  Concrete inputs for the witnesses: a configuration with one OAuth client, a service with and
  one without field encryption, a clock that ticks once a millisecond, a session, and a store
  with one record of each kind.
\<close>

definition sample_tenant :: tenant where
  "sample_tenant = \<lparr>tn_id = ''t1'', tn_slug = Some ''t1'', tn_name = Some ''Tenant'',
     tn_baseUrl = Some ''https://rs.example'', tn_apiUrl = None, tn_rootCollections = [],
     tn_collectionChildren = []\<rparr>"

definition sample_config :: app_config where
  "sample_config = \<lparr>environment = ''development'', port = 8000, base_url = ''https://broker.example'',
     cors_origin = ''*'', storage_path = ''.data/state.json'', storage_encryption_key = [],
     store_prune_interval_seconds = 300, client_ip_header = [], trusted_proxy_hosts = [],
     client_ip_log_key = [], client_ip_log_diagnostics = False,
     oauth = \<lparr>issuer = ''https://broker.example'', oauth_client_id = ''c1'', allow_default_client_id = True,
       oauth_redirect_uri_allowlist = [''https://app.example/cb''],
       clients = [(''c1'', \<lparr>oc_client_id = ''c1'', oc_integration = Some ''canva'',
                           oc_redirect_uri_allowlist = [''https://app.example/cb'']\<rparr>)],
       clients_parse_error = None, token_ttl_seconds = 3600, signed_url_ttl_seconds = 300,
       auth_code_ttl_seconds = 300, refresh_grace_seconds = 60, refresh_token_ttl_seconds = 2592000\<rparr>,
     signing = \<lparr>asset_secret = ''s'', canva_client_secret = ''k'', request_verification_mode = ''disabled'',
       request_timestamp_tolerance_seconds = 300\<rparr>,
     rate_limit = \<lparr>rl_max_requests = 120, rl_window_ms = 60000\<rparr>,
     resource_space = \<lparr>rs_mode = ''fixture'', allowed_hosts = [], tenants = [sample_tenant],
       tenants_parse_error = None, container_source = ''featured'', asset_allowed_hosts = [],
       asset_proxy_max_bytes = 52428800, sso_enabled = True, sso_system_key = ''sys'',
       sso_pending_ttl_seconds = 600, sso_replay_retention_seconds = 3600\<rparr>,
     upload = \<lparr>upload_allowed_hosts = [], upload_max_bytes = 52428800, upload_max_image_pixels = 40000000\<rparr>,
     metrics = \<lparr>bearer_token = []\<rparr>\<rparr>"

definition sample_service :: auth_service where
  "sample_service = \<lparr>sv_config = sample_config, sv_cipher = NullFieldCipher\<rparr>"

text \<open>A stand-in for Fernet that satisfies its contract: two letters for each character.\<close>

definition nibble :: "nat \<Rightarrow> char" where
  "nibble n = char_of (97 + n)"

fun unpair :: "string \<Rightarrow> string" where
  "unpair (a # b # s) = char_of (16 * (of_char a - 97) + (of_char b - 97 :: nat)) # unpair s"
| "unpair s = []"

definition sample_fernet :: fernet where
  "sample_fernet = \<lparr>
     fernet_encrypt = (\<lambda>n v. concat (map (\<lambda>c. [nibble (of_char c div 16), nibble (of_char c mod 16)]) v)),
     fernet_decrypt = (\<lambda>s. Some (unpair s))\<rparr>"

definition sealing_service :: auth_service where
  "sealing_service = \<lparr>sv_config = sample_config, sv_cipher = FernetFieldCipher sample_fernet\<rparr>"

definition sample_world :: world where
  "sample_world = \<lparr>clock = (\<lambda>i. 1000000 + int i), ticks = 0, rand = (\<lambda>i. replicate i (CHR ''x'')), draws = 9\<rparr>"

definition sample_session :: session where
  "sample_session = \<lparr>ss_tenant = sample_tenant,
     ss_user = \<lparr>us_id = ''u1'', us_username = ''ann'', us_displayName = Some ''Ann'', us_role = None,
                us_email = Some ''ann@x.example''\<rparr>,
     ss_upstream = \<lparr>up_mode = ''live'', up_sessionKey = Some ''key'', up_authenticatedAt = ''2024-01-01T00:00:00Z''\<rparr>,
     ss_broker = None\<rparr>"

definition sample_verifier :: string where
  "sample_verifier = ''verifier''"

definition sample_code :: auth_code where
  "sample_code = \<lparr>ac_code = ''code_x'', ac_clientId = ''c1'', ac_redirectUri = ''https://app.example/cb'',
     ac_scope = ''openid'', ac_codeChallenge = Some (sha256_b64url sample_verifier),
     ac_codeChallengeMethod = ''S256'', ac_session = sample_session, ac_expiresAt = 1300000\<rparr>"

definition sample_access :: access_record where
  "sample_access = \<lparr>at_accessToken = ''at_xx'', at_clientId = ''c1'', at_scope = ''openid'',
     at_integration = Some ''canva'', at_session = sample_session, at_expiresAt = 4600000,
     at_createdAt = 1000000, at_revokedAt = None\<rparr>"

definition sample_refresh :: refresh_record where
  "sample_refresh = \<lparr>rt_refreshToken = ''rt_xxx'', rt_clientId = ''c1'', rt_scope = ''openid'',
     rt_integration = Some ''canva'', rt_session = sample_session, rt_createdAt = 1000000,
     rt_expiresAt = Some 9000000, rt_revokedAt = None, rt_rotationResponse = None\<rparr>"

definition sample_grant :: asset_grant where
  "sample_grant = \<lparr>ag_grantId = ''grant_xxxx'', ag_userId = ''u1'', ag_tenantId = ''t1'',
     ag_expiresAt = 1300000, ag_source = ProxySource ''https://rs.example/a.png'' ''image/png'',
     ag_integration = Some ''canva'', ag_mimeType = Some ''image/png'', ag_filename = Some ''a.png''\<rparr>"

definition sample_pending :: pending_sso where
  "sample_pending = \<lparr>ps_handoffState = ''ssostate_xxxxx'', ps_canvaState = ''st'', ps_clientId = ''c1'',
     ps_redirectUri = ''https://app.example/cb'', ps_scope = ''openid'',
     ps_codeChallenge = Some (sha256_b64url sample_verifier), ps_codeChallengeMethod = ''S256'',
     ps_tenant = sample_tenant, ps_correlationId = ''cor'', ps_initiatorKey = ''ip'', ps_createdAt = 1000000,
     ps_expiresAt = 1600000, ps_usedAt = None, ps_purgeAt = 5200000\<rparr>"

definition sample_store :: broker_store where
  "sample_store = \<lparr>authorizationCodes = [(''code_x'', sample_code)], accessTokens = [(''at_xx'', sample_access)],
     refreshTokens = [(''rt_xxx'', sample_refresh)], assetGrants = [(''grant_xxxx'', sample_grant)],
     pendingSsoStates = [(''ssostate_xxxxx'', sample_pending)]\<rparr>"

named_theorems sample_simps \<open>definitions of the concrete inputs\<close>

lemmas sample_defs [sample_simps] =
  sample_tenant_def sample_config_def sample_service_def sample_world_def sample_session_def
  sample_code_def sample_access_def sample_refresh_def sample_grant_def sample_pending_def sample_store_def
  sealing_service_def

lemma sample_rand_inj: "inj (rand sample_world)"
  by (rule injI, drule arg_cong [of _ _ length]) (simp add: sample_world_def)

lemma sample_wf: "wf_store sample_store"
  by (simp add: sample_store_def wf_store_def wf_dict_def)

lemma sample_clock_pos: "clock_pos sample_world"
  by (simp add: clock_pos_def sample_world_def)

lemma sample_mono: "mono_clock sample_world"
  by (simp add: mono_clock_def sample_world_def)

lemma sample_client: "is_configured_client (sv_config sample_service) ''c1''"
  by (simp add: is_configured_client_def sample_service_def sample_config_def)

lemma sample_issued:
  "issued ''code'' sample_world ''code_x''" "issued ''at'' sample_world ''at_xx''"
  "issued ''rt'' sample_world ''rt_xxx''" "issued ''grant'' sample_world ''grant_xxxx''"
  "issued ''ssostate'' sample_world ''ssostate_xxxxx''"
  unfolding issued_def
  by (rule exI [of _ 1] exI [of _ 2] exI [of _ 3] exI [of _ 4] exI [of _ 5],
      simp add: sample_world_def eval_nat_numeral; fail)+

lemma sample_inv: "store_inv sample_service sample_world sample_store"
  using sample_wf sample_issued sample_client
  by (simp add: store_inv_def dict_all_def sample_store_def code_ok_def access_ok_def refresh_ok_def
      grant_ok_def pending_ok_def sample_code_def sample_access_def sample_refresh_def sample_grant_def
      sample_pending_def sealed_session_def sealed_leaf_def sample_service_def)

lemma sample_challenge: "sha256_b64url v \<noteq> []"
proof -
  have "length (sha256_b64url v) = 43" by (simp add: sha256_b64url_def length_b64url_digest)
  then show ?thesis by auto
qed

lemma sample_opens: "open_session_dict NullFieldCipher sample_session = Inr sample_session"
  by (simp add: open_session_dict_def open_leaf_def sample_session_def ENC_PREFIX_def startswith_def)

lemma sample_plain: "plain_session sample_session"
  by (simp add: plain_session_def plain_def sample_session_def ENC_PREFIX_def startswith_def)

section \<open>A store with a rotated refresh token\<close>

definition rotated_response :: token_response where
  "rotated_response = \<lparr>tr_access_token = ''at_xx'', tr_token_type = ''Bearer'', tr_expires_in = 3600,
     tr_refresh_token = Some ''rt_new'', tr_scope = ''openid''\<rparr>"

definition rotated_refresh :: refresh_record where
  "rotated_refresh = sample_refresh\<lparr>rt_revokedAt := Some 990000, rt_rotationResponse := Some rotated_response\<rparr>"

definition rotated_store :: broker_store where
  "rotated_store = sample_store\<lparr>refreshTokens := [(''rt_xxx'', rotated_refresh)]\<rparr>"

lemma rotated_sample:
  "wf_store rotated_store"
  "refresh_usable sample_service rotated_store (now_of sample_world) ''c1'' ''rt_xxx'' rotated_refresh sample_session"
  using sample_client sample_opens
  by (simp_all add: rotated_store_def wf_store_def wf_dict_def sample_store_def rotated_refresh_def refresh_usable_def
      refresh_dead_def sample_refresh_def sample_world_def sample_service_def refresh_grace_ms_def sample_config_def)

lemma rotated_inv: "store_inv sample_service sample_world rotated_store"
  using sample_inv sample_issued(3)
  by (simp add: store_inv_def rotated_store_def rotated_refresh_def dict_all_def refresh_ok_def wf_store_def
      sample_refresh_def sample_store_def wf_dict_def)

lemma rotated_fields:
  "rt_revokedAt rotated_refresh = Some 990000"
  "rt_rotationResponse rotated_refresh = Some rotated_response"
  "truthy_str (tr_refresh_token rotated_response)"
  "clock sample_world (Suc (ticks sample_world)) - 990000 \<le> refresh_grace_ms sample_service"
  by (simp_all add: rotated_refresh_def rotated_response_def sample_world_def refresh_grace_ms_def sample_service_def sample_config_def)

end
