(* ===== verification/Auth_Properties.thy ===== *)
theory Auth_Properties
  imports Sample_Data
begin

text \<open>
  The correctness of the authorization-code, refresh and access-token operations: when they
  succeed, what they leave in the store, and what can never happen again in any continuation.
\<close>

section \<open>Exchange of an authorization code\<close>

text \<open>C1. An exchange of an authorization code returns tokens if and only if the client is
  configured and the code is redeemable: it is in the store, has not expired, was minted for this
  client and this redirect URI, carries a non-empty S256 challenge that is the hash of the
  presented verifier, and its session opens. There is no other way to a token pair.\<close>

theorem exchange_succeeds_iff:
  assumes "wf_store st"
  shows "(\<exists>tk d' w'. exchange_authorization_code sv cid uri code ver (Some st) w = (Inr (OAuthTokens tk), d', w')) \<longleftrightarrow>
    is_configured_client (sv_config sv) cid \<and>
    (\<exists>s scope. code_redeemable sv st (now_of w) cid uri code ver s scope)"
proof
  assume "\<exists>tk d' w'. exchange_authorization_code sv cid uri code ver (Some st) w = (Inr (OAuthTokens tk), d', w')"
  then show "is_configured_client (sv_config sv) cid \<and>
      (\<exists>s scope. code_redeemable sv st (now_of w) cid uri code ver s scope)"
    unfolding exchange_tokens_iff using exchange_updater_ok [OF assms] by blast
next
  assume r: "is_configured_client (sv_config sv) cid \<and>
      (\<exists>s scope. code_redeemable sv st (now_of w) cid uri code ver s scope)"
  then obtain s scope st1 w1 where
    upd: "exchange_updater sv cid uri code ver st w = (Inr (ExchangeOk s scope), st1, w1)"
    using exchange_updater_ok [OF assms] by blast
  obtain tk st' w' where "create_token_pair sv s scope cid True None (Some st1) w1 = (Inr tk, Some st', w')"
    by (rule create_pair_commits)
  with r upd show "\<exists>tk d' w'. exchange_authorization_code sv cid uri code ver (Some st) w = (Inr (OAuthTokens tk), d', w')"
    unfolding exchange_tokens_iff by blast
qed

lemma sample_redeemable:
  "code_redeemable sample_service sample_store (now_of sample_world) ''c1'' ''https://app.example/cb'' ''code_x''
     (Some sample_verifier) sample_session ''openid''"
  using sample_opens sample_challenge [of sample_verifier]
  by (simp add: code_redeemable_def sample_store_def sample_code_def sample_world_def sample_service_def sample_verifier_def)

theorem exchange_succeeds_iff_witness:
  "\<exists>tk d' w'. exchange_authorization_code sample_service ''c1'' ''https://app.example/cb'' ''code_x''
     (Some sample_verifier) (Some sample_store) sample_world = (Inr (OAuthTokens tk), d', w')"
  using exchange_succeeds_iff [OF sample_wf] sample_redeemable sample_client by blast

text \<open>C5. When the code is redeemable the exchange installs a token pair: both tokens are in the
  store under the values returned, bound to the client, the scope and the session of the code
  (re-stamped with the client's metadata), neither is revoked, and the code is gone.\<close>

theorem exchange_installs_pair:
  assumes "wf_store st" and "cipher_ok (sv_cipher sv)" and "plain_session s"
    and "is_configured_client (sv_config sv) cid"
    and "code_redeemable sv st (now_of w) cid uri code ver s scope"
  shows "\<exists>tk st' w'. exchange_authorization_code sv cid uri code ver (Some st) w = (Inr (OAuthTokens tk), Some st', w') \<and>
    token_pair_installed sv cid scope s tk st' \<and> dict_get (authorizationCodes st') code = None"
  using exchange_success [OF assms] by metis

theorem exchange_installs_pair_witness:
  "\<exists>tk st' w'. exchange_authorization_code sample_service ''c1'' ''https://app.example/cb'' ''code_x''
     (Some sample_verifier) (Some sample_store) sample_world = (Inr (OAuthTokens tk), Some st', w') \<and>
    token_pair_installed sample_service ''c1'' ''openid'' sample_session tk st' \<and>
    dict_get (authorizationCodes st') ''code_x'' = None"
  by (rule exchange_installs_pair)
    (simp_all add: sample_wf sample_plain sample_client sample_redeemable, simp add: sample_service_def)

lemma exchanged_code_gone:
  assumes "store_inv sv w st" and "inj (rand w)" and "issued ''code'' w code"
    and "is_configured_client (sv_config sv) cid"
    and "exchange_authorization_code sv cid uri code ver (Some st) w = (Inr res, d1, w1)"
    and "reach (broker_step sv) (d1, w1) (d2, w2)"
  obtains st2 where "d2 = Some st2" and "store_inv sv w2 st2" and "dict_get (authorizationCodes st2) code = None"
proof -
  obtain st1 where st1: "d1 = Some st1" "dict_get (authorizationCodes st1) code = None"
    using exchange_removes [OF store_invD(1) [OF assms(1)] assms(4,5)] by blast
  obtain st1' where "d1 = Some st1'" and inv1: "store_inv sv w1 st1'" and l: "later w w1"
    by (rule exchange_exn [OF assms(5,1)])
  with st1 have inv1: "store_inv sv w1 st1" by simp
  obtain st2 where st2: "d2 = Some st2" "store_inv sv w2 st2" "growth w1 st1 st2"
    using run_growth [OF assms(6) [unfolded st1(1)] inv1] by blast
  moreover have "dict_get (authorizationCodes st2) code = None"
    using kept_gone [OF growthD(1) [OF st2(3)]] st1(2) assms(2,3) issued_later [OF _ l] inj_later [OF l] by blast
  ultimately show thesis using that by blast
qed

text \<open>C2. An authorization code is single use for ever. Once any exchange by a configured client has
  answered (with tokens or with an error), no continuation of any length by any callers brings the
  code back: every later exchange with it is refused, as unknown for a configured client and for the
  client for any other. (An exchange by a client that is not configured is answered before the code is
  looked up, and does not use it up.)\<close>

theorem code_single_use:
  assumes "store_inv sv w st" and "inj (rand w)" and "issued ''code'' w code"
    and "is_configured_client (sv_config sv) cid"
    and "exchange_authorization_code sv cid uri code ver (Some st) w = (Inr res, d1, w1)"
    and "reach (broker_step sv) (d1, w1) (d2, w2)"
  shows "\<exists>d3 w3. exchange_authorization_code sv cid' uri' code ver' d2 w2 =
    (Inr (if is_configured_client (sv_config sv) cid'
       then OAuthError ''invalid_grant'' ''Authorization code not found.'' else invalid_client), d3, w3)"
proof (cases "is_configured_client (sv_config sv) cid'")
  case True
  obtain st2 where "d2 = Some st2" "store_inv sv w2 st2" "dict_get (authorizationCodes st2) code = None"
    by (rule exchanged_code_gone [OF assms])
  then show ?thesis using exchange_absent [OF store_invD(1) True] True by auto
qed (simp add: exchange_authorization_code_def)

theorem code_single_use_witness:
  "\<exists>d1 w1 d3 w3 e.
     exchange_authorization_code sample_service ''c1'' ''https://evil.example'' ''code_x'' (Some sample_verifier)
       (Some sample_store) sample_world = (Inr e, d1, w1) \<and>
     exchange_authorization_code sample_service ''c1'' ''https://app.example/cb'' ''code_x'' (Some sample_verifier) d1 w1 =
       (Inr (OAuthError ''invalid_grant'' ''Authorization code not found.''), d3, w3)"
proof -
  let ?p = "prune_expired sample_store (now_of sample_world) (refresh_grace_ms sample_service)"
  have first: "exchange_authorization_code sample_service ''c1'' ''https://evil.example'' ''code_x'' (Some sample_verifier)
      (Some sample_store) sample_world =
      (Inr (OAuthError ''invalid_grant'' ''Client binding mismatch.''),
       Some (?p\<lparr>authorizationCodes := AList.delete ''code_x'' (authorizationCodes ?p)\<rparr>),
       sample_world\<lparr>ticks := Suc (ticks sample_world)\<rparr>)"
    using sample_client sample_wf
    by (simp add: exchange_authorization_code_def store_update_Some exchange_updater_def Let_def wf_storeD)
      (simp add: sample_store_def sample_code_def sample_world_def code_dead_def)
  from code_single_use [where cid' = "''c1''" and uri' = "''https://app.example/cb''" and ver' = "Some sample_verifier",
      OF sample_inv sample_rand_inj sample_issued(1) sample_client first reach_refl]
  have "\<exists>d3 w3. exchange_authorization_code sample_service ''c1'' ''https://app.example/cb'' ''code_x'' (Some sample_verifier)
      (Some (?p\<lparr>authorizationCodes := AList.delete ''code_x'' (authorizationCodes ?p)\<rparr>))
      (sample_world\<lparr>ticks := Suc (ticks sample_world)\<rparr>) =
      (Inr (OAuthError ''invalid_grant'' ''Authorization code not found.''), d3, w3)"
    by (simp only: sample_client if_True)
  with first show ?thesis by blast
qed

section \<open>Refresh tokens\<close>

text \<open>C6. The first use of a refresh token rotates it: the call returns a fresh pair that is
  installed in the store for the same client, scope and session, and the old token stays behind
  marked as revoked at that moment, with the response cached for replays.\<close>

theorem refresh_rotates_token:
  assumes inv: "store_inv sv w st" and inj: "inj (rand w)" and ok: "cipher_ok (sv_cipher sv)"
    and plain: "plain_session s" and use: "refresh_usable sv st (now_of w) cid t r s"
    and live: "\<not> truthy_int (rt_revokedAt r)"
  shows "\<exists>tk st' w' r'. refresh_access_token sv cid t (Some st) w = (Inr (OAuthTokens tk), Some st', w') \<and>
    token_pair_installed sv cid (rt_scope r) s tk st' \<and> tr_refresh_token tk \<noteq> Some t \<and>
    dict_get (refreshTokens st') t = Some r' \<and>
    rt_revokedAt r' = Some (clock w (Suc (ticks w))) \<and> rt_rotationResponse r' = Some tk"
proof -
  have get: "dict_get (refreshTokens st) t = Some r" using use by (simp add: refresh_usable_def)
  have "issued ''rt'' w t" using dict_allD [OF store_invD(4) [OF inv] get] by (simp add: refresh_ok_def)
  then have fresh: "t \<noteq> ''rt_'' @ rand w (Suc (draws w))"
    using not_issued [OF inj, of "Suc (draws w)" "''rt''"] by auto
  from use live show ?thesis
  proof (rule refresh_rotates [OF store_invD(1) [OF inv]])
    fix tk st2 w'
    let ?s = "stamp_broker_session_metadata s cid (integration_for_client_id (sv_config sv) cid)"
    let ?st1 = "(prune_expired st (now_of w) (refresh_grace_ms sv))
      \<lparr>refreshTokens := modify_dict t (\<lambda>_. (stamped_refresh sv r)\<lparr>rt_revokedAt := Some (clock w (Suc (ticks w)))\<rparr>)
        (prune_dict (refresh_dead (refresh_grace_ms sv) (now_of w)) (refreshTokens st))\<rparr>"
    let ?w = "w\<lparr>ticks := Suc (Suc (ticks w))\<rparr>"
    assume wr: "write_token_pair_to_state sv ?s (rt_scope r) cid True None ?st1 ?w = (tk, st2, w')"
      and run: "refresh_access_token sv cid t (Some st) w = (Inr (OAuthTokens tk),
        Some (st2\<lparr>refreshTokens := modify_dict t (\<lambda>r. r\<lparr>rt_rotationResponse := Some tk\<rparr>) (refreshTokens st2)\<rparr>), w')"
    have new: "refresh_token_of ?w \<noteq> t" using fresh by (auto simp: refresh_token_of_def)
    have tk: "tr_refresh_token tk = Some (refresh_token_of ?w)"
      using wr by (rule write_pair_effect) simp
    have "token_pair_installed sv cid (rt_scope r) s tk st2"
      using write_pair_installed [OF wr ok] plain by (simp add: token_pair_installed_def)
    then have "token_pair_installed sv cid (rt_scope r) s tk
        (st2\<lparr>refreshTokens := modify_dict t (\<lambda>r. r\<lparr>rt_rotationResponse := Some tk\<rparr>) (refreshTokens st2)\<rparr>)"
      using new tk by (simp add: token_pair_installed_def)
    moreover have "dict_get (refreshTokens st2) t =
        Some ((stamped_refresh sv r)\<lparr>rt_revokedAt := Some (clock w (Suc (ticks w)))\<rparr>)"
      using wr new use store_inv_buckets(3) [OF inv]
      by (elim write_pair_effect) (auto simp: refresh_usable_def)
    ultimately show ?thesis using run new tk by simp
  qed
qed

lemma sample_refresh_usable:
  "refresh_usable sample_service sample_store (now_of sample_world) ''c1'' ''rt_xxx'' sample_refresh sample_session"
  using sample_client sample_opens
  by (simp add: refresh_usable_def refresh_dead_def sample_store_def sample_refresh_def sample_world_def sample_service_def)

theorem refresh_rotates_token_witness:
  "\<exists>tk st' w'. refresh_access_token sample_service ''c1'' ''rt_xxx'' (Some sample_store) sample_world =
     (Inr (OAuthTokens tk), Some st', w') \<and>
   token_pair_installed sample_service ''c1'' ''openid'' sample_session tk st' \<and> tr_refresh_token tk \<noteq> Some ''rt_xxx''"
proof -
  have "cipher_ok (sv_cipher sample_service)" "\<not> truthy_int (rt_revokedAt sample_refresh)" "rt_scope sample_refresh = ''openid''"
    by (simp_all add: sample_service_def sample_refresh_def)
  with refresh_rotates_token [OF sample_inv sample_rand_inj _ sample_plain sample_refresh_usable]
  show ?thesis by auto
qed

text \<open>Whatever a refresh returns is cached with the revoked record from then on.\<close>

lemma refresh_tokens_cached:
  assumes inv: "store_inv sv w st" and inj: "inj (rand w)" and pos: "clock_pos w"
    and run: "refresh_access_token sv cid t (Some st) w = (Inr (OAuthTokens tk), Some st1, w1)"
  obtains r1 where "dict_get (refreshTokens st1) t = Some r1" "truthy_int (rt_revokedAt r1)"
    "rt_rotationResponse r1 = Some tk" "issued ''rt'' w t"
proof -
  note wf = store_invD(1) [OF inv]
  obtain r s where use: "refresh_usable sv st (now_of w) cid t r s" using refresh_tokens_usable [OF wf run] .
  then have get: "dict_get (refreshTokens st) t = Some r" by (simp add: refresh_usable_def)
  have iss: "issued ''rt'' w t" using dict_allD [OF store_invD(4) [OF inv] get] by (simp add: refresh_ok_def)
  show thesis
  proof (cases "truthy_int (rt_revokedAt r)")
    case True
    have "dict_get (refreshTokens st1) t = Some (stamped_refresh sv r)" "rt_rotationResponse r = Some tk"
      using refresh_revoked [OF wf use True] run use wf
      by (auto simp: refresh_usable_def wf_storeD split: option.splits if_splits)
    with True iss that show thesis by simp
  next
    case False
    from use False show thesis
    proof (rule refresh_rotates [OF wf])
      fix tk' st2 w'
      let ?w = "w\<lparr>ticks := Suc (Suc (ticks w))\<rparr>"
      let ?st1 = "(prune_expired st (now_of w) (refresh_grace_ms sv))
        \<lparr>refreshTokens := modify_dict t (\<lambda>_. (stamped_refresh sv r)\<lparr>rt_revokedAt := Some (clock w (Suc (ticks w)))\<rparr>)
          (prune_dict (refresh_dead (refresh_grace_ms sv) (now_of w)) (refreshTokens st))\<rparr>"
      assume wr: "write_token_pair_to_state sv (stamp_broker_session_metadata s cid (integration_for_client_id (sv_config sv) cid))
          (rt_scope r) cid True None ?st1 ?w = (tk', st2, w')"
        and out: "refresh_access_token sv cid t (Some st) w = (Inr (OAuthTokens tk'),
          Some (st2\<lparr>refreshTokens := modify_dict t (\<lambda>r. r\<lparr>rt_rotationResponse := Some tk'\<rparr>) (refreshTokens st2)\<rparr>), w')"
      have new: "refresh_token_of ?w \<noteq> t"
        using not_issued [OF inj, of "Suc (draws w)" "''rt''"] iss by (auto simp: refresh_token_of_def)
      have "dict_get (refreshTokens st2) t =
          Some ((stamped_refresh sv r)\<lparr>rt_revokedAt := Some (clock w (Suc (ticks w)))\<rparr>)"
        using wr new use store_inv_buckets(3) [OF inv]
        by (elim write_pair_effect) (auto simp: refresh_usable_def)
      with run out iss pos_mark [OF pos] that show thesis by auto
    qed
  qed
qed

lemma refresh_run:
  assumes "refresh_access_token sv cid t (Some st) w = (res, d1, w1)" and "store_inv sv w st"
  obtains st1 where "d1 = Some st1" "store_inv sv w1 st1" "growth w st st1" "later w w1"
  using broker_step_good [OF step_refresh [OF assms(1)]] assms(2) that by (auto simp: step_good_def)

text \<open>C3. Rotation is final. After a refresh token has yielded a pair, no continuation of any length
  makes it yield another one: whatever a later refresh with it returns is the very same response,
  and that call mints nothing (it draws no randomness).\<close>

theorem rotation_final:
  assumes inv: "store_inv sv w st" and inj: "inj (rand w)" and pos: "clock_pos w"
    and first: "refresh_access_token sv cid t (Some st) w = (Inr (OAuthTokens tk), d1, w1)"
    and run: "reach (broker_step sv) (d1, w1) (d2, w2)"
    and again: "refresh_access_token sv cid' t d2 w2 = (Inr (OAuthTokens tk'), d3, w3)"
  shows "tk' = tk \<and> draws w3 = draws w2"
proof -
  obtain st1 where st1: "d1 = Some st1" "store_inv sv w1 st1" and l: "later w w1"
    by (rule refresh_run [OF first inv])
  obtain r1 where r1: "dict_get (refreshTokens st1) t = Some r1" "truthy_int (rt_revokedAt r1)"
      "rt_rotationResponse r1 = Some tk" and iss: "issued ''rt'' w t"
    using refresh_tokens_cached [OF inv inj pos first [unfolded st1]] .
  obtain st2 where st2: "d2 = Some st2" "store_inv sv w2 st2" "growth w1 st1 st2"
    using run_growth [OF run [unfolded st1(1)] st1(2)] by blast
  obtain r2 s where "refresh_usable sv st2 (now_of w2) cid' t r2 s"
    using refresh_tokens_usable [OF store_invD(1) [OF st2(2)] again [unfolded st2(1)]] .
  then have get2: "dict_get (refreshTokens st2) t = Some r2" by (simp add: refresh_usable_def)
  have inj1: "inj (rand w1)" and iss1: "issued ''rt'' w1 t"
    using inj inj_later [OF l] issued_later [OF iss l] by auto
  obtain r where "dict_get (refreshTokens st1) t = Some r" "refresh_kept (clock_pos w1) r r2"
    using kept_get [OF growthD(3) [OF st2(3)] inj1 iss1 store_inv_buckets(3) [OF st1(2)] get2] .
  with r1 pos clock_pos_later [OF l] have "truthy_int (rt_revokedAt r2)" "rt_rotationResponse r2 = Some tk"
    by (auto simp: refresh_kept_def)
  with refresh_of_revoked [OF store_invD(1) [OF st2(2)] get2 _ again [unfolded st2(1)]] show ?thesis by simp
qed




theorem rotation_final_witness:
  "\<exists>tk d1 w1. refresh_access_token sample_service ''c1'' ''rt_xxx'' (Some rotated_store) sample_world =
     (Inr (OAuthTokens tk), d1, w1) \<and>
   (\<forall>tk' d3 w3. refresh_access_token sample_service ''c1'' ''rt_xxx'' d1 w1 = (Inr (OAuthTokens tk'), d3, w3) \<longrightarrow>
      tk' = tk \<and> draws w3 = draws w1)"
proof -
  obtain tk d1 w1 where first: "refresh_access_token sample_service ''c1'' ''rt_xxx'' (Some rotated_store) sample_world =
      (Inr (OAuthTokens tk), d1, w1)"
    using refresh_revoked [OF rotated_sample] rotated_fields by auto
  with rotation_final [OF rotated_inv sample_rand_inj sample_clock_pos first reach_refl] show ?thesis by blast
qed

end
