(* ===== verification/Revocation_Properties.thy ===== *)
theory Revocation_Properties
  imports Sample_Data
begin

text \<open>
  Reading an access token and every way to revoke: when a token reads, and that a revoked token
  never reads, refreshes or delivers again in any continuation.
\<close>

section \<open>Reading an access token\<close>

text \<open>C8. An access token reads if and only if the store holds it, it has not expired, it is not
  revoked, its client is still configured and its session opens; the record returned carries the
  opened session, re-stamped with the client's current metadata.\<close>

theorem access_token_reads_iff:
  assumes "wf_store st"
  shows "(\<exists>d' w'. read_access_token sv t (Some st) w = (Inr (Some a), d', w')) \<longleftrightarrow>
    (\<exists>r s. access_usable sv st (now_of w) t r s \<and> a = opened_access sv r s)"
  using assms by (rule read_access_iff)

lemma sample_access_usable:
  "access_usable sample_service sample_store (now_of sample_world) ''at_xx'' sample_access sample_session"
  using sample_client sample_opens
  by (simp add: access_usable_def sample_store_def sample_access_def sample_world_def sample_service_def)

theorem access_token_reads_iff_witness:
  "\<exists>d' w'. read_access_token sample_service ''at_xx'' (Some sample_store) sample_world =
     (Inr (Some (opened_access sample_service sample_access sample_session)), d', w')"
  using access_token_reads_iff [OF sample_wf] sample_access_usable by blast

section \<open>Revoking a token\<close>

lemma revoke_cases:
  assumes "revoke_token sv t (Some st) w = (res, d1, w1)"
  defines "p \<equiv> prune_expired st (now_of w) (refresh_grace_ms sv)"
  obtains (access) "d1 = Some (p\<lparr>accessTokens := AList.delete t (modify_dict t (\<lambda>r. r\<lparr>at_revokedAt := Some (clock w (Suc (ticks w)))\<rparr>) (accessTokens p))\<rparr>)"
      "dict_get (accessTokens p) t \<noteq> None" "res = Inr True"
  | (refresh) "d1 = Some (p\<lparr>refreshTokens := modify_dict t (\<lambda>r. r\<lparr>rt_revokedAt := Some (clock w (Suc (ticks w)))\<rparr>) (refreshTokens p)\<rparr>)"
      "dict_get (accessTokens p) t = None" "dict_get (refreshTokens p) t \<noteq> None" "res = Inr True"
  | (unknown) "d1 = Some p" "dict_get (accessTokens p) t = None" "dict_get (refreshTokens p) t = None" "res = Inr False"
  using assms(1)
  by (cases "dict_get (accessTokens p) t"; cases "dict_get (refreshTokens p) t")
    (auto simp: revoke_token_def store_update_Some revoke_updater_def Let_def p_def simp del: prune_expired_sel)

lemma revoke_run:
  assumes "revoke_token sv t (Some st) w = (res, d1, w1)" and "store_inv sv w st"
  obtains st1 where "d1 = Some st1" "store_inv sv w1 st1" "growth w st st1" "later w w1"
  using broker_step_good [OF step_revoke [OF assms(1)]] assms(2) that by (auto simp: step_good_def)

text \<open>C9. Revocation of an access token is final: after a call of revoke with it, whatever it answers,
  no continuation brings the token back and it never reads again.\<close>

theorem revoked_access_never_reads:
  assumes inv: "store_inv sv w st" and inj: "inj (rand w)" and iss: "issued ''at'' w t"
    and rev: "revoke_token sv t (Some st) w = (res, d1, w1)"
    and run: "reach (broker_step sv) (d1, w1) (d2, w2)"
  shows "\<exists>d3 w3. read_access_token sv t d2 w2 = (Inr None, d3, w3)"
proof -
  obtain st1 where st1: "d1 = Some st1" "store_inv sv w1 st1" and l: "later w w1"
    by (rule revoke_run [OF rev inv])
  have gone: "dict_get (accessTokens st1) t = None"
    using rev by (cases rule: revoke_cases) (simp_all add: st1(1) del: prune_expired_sel)
  obtain st2 where st2: "d2 = Some st2" "store_inv sv w2 st2" "growth w1 st1 st2"
    using run_growth [OF run [unfolded st1(1)] st1(2)] by blast
  have "dict_get (accessTokens st2) t = None"
    using kept_gone [OF growthD(2) [OF st2(3)]] gone inj iss issued_later [OF _ l] inj_later [OF l] by blast
  with read_absent [OF store_invD(1) [OF st2(2)], where t = t and w = w2 and sv = sv] st2(1) show ?thesis by auto
qed

theorem revoked_access_never_reads_witness:
  "\<exists>d1 w1 d3 w3. revoke_token sample_service ''at_xx'' (Some sample_store) sample_world = (Inr True, d1, w1) \<and>
     read_access_token sample_service ''at_xx'' d1 w1 = (Inr None, d3, w3)"
proof -
  obtain d1 w1 where rev: "revoke_token sample_service ''at_xx'' (Some sample_store) sample_world = (Inr True, d1, w1)"
    by (rule revoke_access [OF sample_wf, of "''at_xx''" sample_access sample_world])
      (simp_all add: sample_store_def sample_access_def access_dead_def sample_world_def)
  from revoked_access_never_reads [OF sample_inv sample_rand_inj sample_issued(2) rev reach_refl] rev
  show ?thesis by blast
qed

text \<open>An access and a refresh token never coincide.\<close>

lemma issued_kinds: "issued ''at'' w t \<Longrightarrow> issued ''rt'' w' t \<Longrightarrow> False"
  by (auto simp: issued_def)

text \<open>C4. Revocation of a refresh token that has not been rotated is final: after it, no continuation
  obtains tokens from it, for any client.\<close>

theorem revoked_refresh_never_refreshes:
  assumes inv: "store_inv sv w st" and inj: "inj (rand w)" and pos: "clock_pos w"
    and r: "dict_get (refreshTokens st) t = Some r" and unrot: "rt_rotationResponse r = None"
    and rev: "revoke_token sv t (Some st) w = (res, d1, w1)"
    and run: "reach (broker_step sv) (d1, w1) (d2, w2)"
  shows "refresh_access_token sv cid t d2 w2 \<noteq> (Inr (OAuthTokens tk), d3, w3)"
proof
  assume again: "refresh_access_token sv cid t d2 w2 = (Inr (OAuthTokens tk), d3, w3)"
  have iss: "issued ''rt'' w t" using dict_allD [OF store_invD(4) [OF inv] r] by (simp add: refresh_ok_def)
  obtain st1 where st1: "d1 = Some st1" "store_inv sv w1 st1" and l: "later w w1"
    by (rule revoke_run [OF rev inv])
  have noacc: "dict_get (accessTokens (prune_expired st (now_of w) (refresh_grace_ms sv))) t = None"
  proof (rule ccontr)
    assume "\<not> ?thesis"
    then obtain a where "dict_get (accessTokens (prune_expired st (now_of w) (refresh_grace_ms sv))) t = Some a" by auto
    from dict_allD [OF store_invD(3) [OF store_inv_prune [OF inv]] this] iss show False
      by (auto simp: access_ok_def dest: issued_kinds)
  qed
  have dead: "\<forall>r1. dict_get (refreshTokens st1) t = Some r1 \<longrightarrow>
      truthy_int (rt_revokedAt r1) \<and> rt_rotationResponse r1 = None"
    using rev
    by (cases rule: revoke_cases)
      (use st1 noacc r unrot pos_mark [OF pos] store_inv_buckets(3) [OF inv] in
        \<open>auto simp del: truthy_int_simps split: option.splits if_splits\<close>)
  obtain st2 where st2: "d2 = Some st2" "store_inv sv w2 st2" "growth w1 st1 st2"
    using run_growth [OF run [unfolded st1(1)] st1(2)] by blast
  obtain r2 s where "refresh_usable sv st2 (now_of w2) cid t r2 s"
    using refresh_tokens_usable [OF store_invD(1) [OF st2(2)] again [unfolded st2(1)]] .
  then have get2: "dict_get (refreshTokens st2) t = Some r2" by (simp add: refresh_usable_def)
  have inj1: "inj (rand w1)" and iss1: "issued ''rt'' w1 t"
    using inj inj_later [OF l] issued_later [OF iss l] by auto
  obtain r1 where "dict_get (refreshTokens st1) t = Some r1" "refresh_kept (clock_pos w1) r1 r2"
    using kept_get [OF growthD(3) [OF st2(3)] inj1 iss1 store_inv_buckets(3) [OF st1(2)] get2] .
  with dead pos clock_pos_later [OF l] have "truthy_int (rt_revokedAt r2)" "rt_rotationResponse r2 = None"
    by (auto simp: refresh_kept_def)
  with refresh_of_revoked [OF store_invD(1) [OF st2(2)] get2 _ again [unfolded st2(1)]] show False by simp
qed

theorem revoked_refresh_never_refreshes_witness:
  "\<exists>d1 w1. revoke_token sample_service ''rt_xxx'' (Some sample_store) sample_world = (Inr True, d1, w1) \<and>
     (\<forall>tk d3 w3. refresh_access_token sample_service ''c1'' ''rt_xxx'' d1 w1 \<noteq> (Inr (OAuthTokens tk), d3, w3))"
proof -
  have get: "dict_get (refreshTokens sample_store) ''rt_xxx'' = Some sample_refresh"
    "dict_get (accessTokens sample_store) ''rt_xxx'' = None"
    "\<not> refresh_dead (refresh_grace_ms sample_service) (now_of sample_world) sample_refresh"
    "rt_rotationResponse sample_refresh = None"
    by (simp_all add: sample_store_def refresh_dead_def sample_refresh_def sample_world_def)
  obtain d1 w1 where rev: "revoke_token sample_service ''rt_xxx'' (Some sample_store) sample_world = (Inr True, d1, w1)"
    using revoke_refresh [OF sample_wf _ get(1,3)] get(2) by auto
  from revoked_refresh_never_refreshes [OF sample_inv sample_rand_inj sample_clock_pos get(1,4) rev reach_refl] rev
  show ?thesis by blast
qed

section \<open>Revoking everything a user holds\<close>

text \<open>C10. After the tokens of a user are revoked, no access token that belonged to a session of that
  user in that tenant reads again, in any continuation.\<close>

theorem revoked_user_access_dead:
  assumes inv: "store_inv sv w st" and inj: "inj (rand w)" and pos: "clock_pos w"
    and r: "dict_get (accessTokens st) t = Some r" and own: "session_of_user uid tid (at_session r)"
    and rev: "revoke_tokens_for_user sv uid tid (Some st) w = (res, d1, w1)"
    and run: "reach (broker_step sv) (d1, w1) (d2, w2)"
  shows "\<exists>d3 w3. read_access_token sv t d2 w2 = (Inr None, d3, w3)"
proof -
  have iss: "issued ''at'' w t" using dict_allD [OF store_invD(3) [OF inv] r] by (simp add: access_ok_def)
  obtain st1 where st1: "d1 = Some st1" "store_inv sv w1 st1" and l: "later w w1"
    by (rule revoke_user_run [OF rev inv])
  have dead: "\<forall>r1. dict_get (accessTokens st1) t = Some r1 \<longrightarrow> truthy_int (at_revokedAt r1)"
    using revoke_user_effect [OF rev] r own pos_mark [OF pos] store_inv_buckets(2) [OF inv]
    by (auto simp: st1(1) simp del: truthy_int_simps split: if_splits)
  obtain st2 where st2: "d2 = Some st2" "store_inv sv w2 st2" "growth w1 st1 st2"
    using run_growth [OF run [unfolded st1(1)] st1(2)] by blast
  have inj1: "inj (rand w1)" and iss1: "issued ''at'' w1 t"
    using inj inj_later [OF l] issued_later [OF iss l] by auto
  have "case dict_get (accessTokens st2) t of None \<Rightarrow> True | Some r2 \<Rightarrow> access_dead (now_of w2) r2"
  proof (cases "dict_get (accessTokens st2) t")
    case (Some r2)
    obtain r1 where "dict_get (accessTokens st1) t = Some r1" "access_kept (clock_pos w1) r1 r2"
      using kept_get [OF growthD(2) [OF st2(3)] inj1 iss1 store_inv_buckets(2) [OF st1(2)] Some] .
    with dead pos clock_pos_later [OF l] Some show ?thesis by (auto simp: access_kept_def access_dead_def)
  qed simp
  with read_absent [OF store_invD(1) [OF st2(2)]] st2(1) show ?thesis by blast
qed

theorem revoked_user_access_dead_witness:
  "\<exists>d1 w1 d3 w3. revoke_tokens_for_user sample_service ''u1'' ''t1'' (Some sample_store) sample_world = (Inr (), d1, w1) \<and>
     read_access_token sample_service ''at_xx'' d1 w1 = (Inr None, d3, w3)"
proof -
  obtain d1 w1 where rev: "revoke_tokens_for_user sample_service ''u1'' ''t1'' (Some sample_store) sample_world = (Inr (), d1, w1)"
    by (simp add: revoke_tokens_for_user_def store_update_Some revoke_user_updater_def Let_def)
  have "dict_get (accessTokens sample_store) ''at_xx'' = Some sample_access"
    "session_of_user ''u1'' ''t1'' (at_session sample_access)"
    by (simp_all add: sample_store_def sample_access_def sample_session_def sample_tenant_def session_of_user_def)
  from revoked_user_access_dead [OF sample_inv sample_rand_inj sample_clock_pos this rev reach_refl] rev
  show ?thesis by blast
qed

text \<open>C11. After the tokens of a user are revoked, no refresh token of that user mints anything again: a
  later refresh that returns tokens at all is a replay of a response cached before, and draws no
  randomness.\<close>

theorem revoked_user_refresh_dead:
  assumes inv: "store_inv sv w st" and inj: "inj (rand w)" and pos: "clock_pos w"
    and r: "dict_get (refreshTokens st) t = Some r" and own: "session_of_user uid tid (rt_session r)"
    and rev: "revoke_tokens_for_user sv uid tid (Some st) w = (res, d1, w1)"
    and run: "reach (broker_step sv) (d1, w1) (d2, w2)"
    and again: "refresh_access_token sv cid t d2 w2 = (Inr (OAuthTokens tk), d3, w3)"
  shows "rt_rotationResponse r = Some tk \<and> draws w3 = draws w2"
proof -
  have iss: "issued ''rt'' w t" using dict_allD [OF store_invD(4) [OF inv] r] by (simp add: refresh_ok_def)
  obtain st1 where st1: "d1 = Some st1" "store_inv sv w1 st1" and l: "later w w1"
    by (rule revoke_user_run [OF rev inv])
  have dead: "\<forall>r1. dict_get (refreshTokens st1) t = Some r1 \<longrightarrow>
      truthy_int (rt_revokedAt r1) \<and> rt_rotationResponse r1 = rt_rotationResponse r"
    using revoke_user_effect [OF rev] r own pos_mark [OF pos] store_inv_buckets(3) [OF inv]
    by (auto simp: st1(1) simp del: truthy_int_simps split: if_splits)
  obtain st2 where st2: "d2 = Some st2" "store_inv sv w2 st2" "growth w1 st1 st2"
    using run_growth [OF run [unfolded st1(1)] st1(2)] by blast
  obtain r2 s where "refresh_usable sv st2 (now_of w2) cid t r2 s"
    using refresh_tokens_usable [OF store_invD(1) [OF st2(2)] again [unfolded st2(1)]] .
  then have get2: "dict_get (refreshTokens st2) t = Some r2" by (simp add: refresh_usable_def)
  have inj1: "inj (rand w1)" and iss1: "issued ''rt'' w1 t"
    using inj inj_later [OF l] issued_later [OF iss l] by auto
  obtain r1 where "dict_get (refreshTokens st1) t = Some r1" "refresh_kept (clock_pos w1) r1 r2"
    using kept_get [OF growthD(3) [OF st2(3)] inj1 iss1 store_inv_buckets(3) [OF st1(2)] get2] .
  with dead pos clock_pos_later [OF l]
  have "truthy_int (rt_revokedAt r2)" "rt_rotationResponse r2 = rt_rotationResponse r"
    by (auto simp: refresh_kept_def)
  with refresh_of_revoked [OF store_invD(1) [OF st2(2)] get2 _ again [unfolded st2(1)]] show ?thesis by simp
qed

lemma rotated_then_revoked:
  obtains d1 w1 d3 w3 where
    "revoke_tokens_for_user sample_service ''u1'' ''t1'' (Some rotated_store) sample_world = (Inr (), d1, w1)"
    "refresh_access_token sample_service ''c1'' ''rt_xxx'' d1 w1 = (Inr (OAuthTokens rotated_response), d3, w3)"
proof -
  obtain d1 w1 where rev: "revoke_tokens_for_user sample_service ''u1'' ''t1'' (Some rotated_store) sample_world = (Inr (), d1, w1)"
    by (simp add: revoke_tokens_for_user_def store_update_Some revoke_user_updater_def Let_def)
  then have w1: "w1 = sample_world\<lparr>ticks := 2\<rparr>"
    by (auto simp: revoke_tokens_for_user_def store_update_Some revoke_user_updater_def Let_def sample_world_def)
  obtain st1 where st1: "d1 = Some st1" "store_inv sample_service w1 st1"
    by (rule revoke_user_run [OF rev rotated_inv])
  let ?r = "rotated_refresh\<lparr>rt_revokedAt := Some 1000001\<rparr>"
  have get: "dict_get (refreshTokens st1) ''rt_xxx'' = Some ?r"
    using revoke_user_effect [OF rev] st1(1)
    by (simp add: rotated_store_def sample_store_def rotated_refresh_def sample_refresh_def refresh_dead_def
        sample_world_def refresh_grace_ms_def sample_service_def sample_config_def session_of_user_def
        sample_session_def sample_tenant_def wf_dict_def)
  have use: "refresh_usable sample_service st1 (now_of w1) ''c1'' ''rt_xxx'' ?r sample_session"
    using get rotated_sample(2)
    by (simp add: refresh_usable_def refresh_dead_def w1 sample_world_def refresh_grace_ms_def sample_service_def
        sample_config_def rotated_refresh_def sample_refresh_def)
  have "refresh_access_token sample_service ''c1'' ''rt_xxx'' d1 w1 =
      (Inr (OAuthTokens rotated_response), Some ((prune_expired st1 (now_of w1) (refresh_grace_ms sample_service))
     \<lparr>refreshTokens := modify_dict ''rt_xxx'' (\<lambda>_. stamped_refresh sample_service ?r)
        (prune_dict (refresh_dead (refresh_grace_ms sample_service) (now_of w1)) (refreshTokens st1))\<rparr>),
        w1\<lparr>ticks := Suc (Suc (ticks w1))\<rparr>)"
    using refresh_revoked [OF store_invD(1) [OF st1(2)] use] rotated_fields(2,3)
    by (simp add: st1(1) w1 sample_world_def refresh_grace_ms_def sample_service_def sample_config_def)
  with rev that show thesis by blast
qed

theorem revoked_user_refresh_dead_witness:
  "\<exists>d1 w1 d3 w3.
     revoke_tokens_for_user sample_service ''u1'' ''t1'' (Some rotated_store) sample_world = (Inr (), d1, w1) \<and>
     refresh_access_token sample_service ''c1'' ''rt_xxx'' d1 w1 = (Inr (OAuthTokens rotated_response), d3, w3) \<and>
     rt_rotationResponse rotated_refresh = Some rotated_response \<and> draws w3 = draws w1"
proof -
  obtain d1 w1 d3 w3 where
    rev: "revoke_tokens_for_user sample_service ''u1'' ''t1'' (Some rotated_store) sample_world = (Inr (), d1, w1)"
    and again: "refresh_access_token sample_service ''c1'' ''rt_xxx'' d1 w1 = (Inr (OAuthTokens rotated_response), d3, w3)"
    by (rule rotated_then_revoked)
  have get: "dict_get (refreshTokens rotated_store) ''rt_xxx'' = Some rotated_refresh"
    "session_of_user ''u1'' ''t1'' (rt_session rotated_refresh)"
    by (simp_all add: rotated_store_def rotated_refresh_def sample_refresh_def session_of_user_def sample_session_def
        sample_tenant_def)
  from revoked_user_refresh_dead [OF rotated_inv sample_rand_inj sample_clock_pos get rev reach_refl again] rev again
  show ?thesis by blast
qed

end
