(* ===== verification/Sso_Properties.thy ===== *)
theory Sso_Properties
  imports Sample_Data
begin

text \<open>
  The correctness of the two ways to a code, and of the hosted sign-on: a code is bound to what it
  was minted for, a pending state is completed at most once, and the number of outstanding states
  is bounded.
\<close>

section \<open>Codes are bound to what they were minted for\<close>

text \<open>Exactly who can redeem a code, and until when.\<close>

definition code_bound ::
  "auth_service \<Rightarrow> broker_store \<Rightarrow> string \<Rightarrow> string \<Rightarrow> string \<Rightarrow> string \<Rightarrow> string option \<Rightarrow> string \<Rightarrow>
   session \<Rightarrow> int \<Rightarrow> bool"
where
  "code_bound sv st code cid uri scope ch meth s expiry \<longleftrightarrow>
     (\<forall>now cid' uri' ver s' scope'. code_redeemable sv st now cid' uri' code ver s' scope' \<longleftrightarrow>
        now < expiry \<and> cid' = cid \<and> uri' = uri \<and> scope' = scope \<and> s' = s \<and> meth = ''S256'' \<and>
        (\<exists>c v. ch = Some c \<and> ver = Some v \<and> c \<noteq> [] \<and> v \<noteq> [] \<and> sha256_b64url v = c))"

lemma mint_bound:
  assumes m: "mint_authorization_code sv cid uri scope ch meth s st w = (code, st', w')"
    and ok: "cipher_ok (sv_cipher sv)" and plain: "plain_session s"
  obtains i where "ticks w < i" "i < ticks w'"
    "code_bound sv st' code cid uri scope ch (str_or meth ''S256'') s
       (clock w i + auth_code_ttl_seconds (oauth (sv_config sv)) * 1000)"
  using m
proof (rule mint_effect)
  fix sealed and w1 :: world
  let ?r = "\<lparr>ac_code = code, ac_clientId = cid, ac_redirectUri = uri, ac_scope = scope,
       ac_codeChallenge = ch, ac_codeChallengeMethod = str_or meth ''S256'', ac_session = sealed,
       ac_expiresAt = clock w1 (ticks w1) + auth_code_ttl_seconds (oauth (sv_config sv)) * 1000\<rparr>"
  assume seal: "seal_session (sv_cipher sv) s (w\<lparr>ticks := Suc (ticks w), draws := Suc (draws w)\<rparr>) = (sealed, w1)"
    and w': "w' = w1\<lparr>ticks := Suc (ticks w1)\<rparr>"
    and st': "st' = (prune_expired st (now_of w) (refresh_grace_ms sv))
      \<lparr>authorizationCodes := AList.update code ?r (prune_dict (code_dead (now_of w)) (authorizationCodes st))\<rparr>"
  have get: "dict_get (authorizationCodes st') code = Some ?r" by (simp add: st')
  have op: "open_session_dict (sv_cipher sv) sealed = Inr s" using ok plain seal by (rule open_seal_session)
  have w1: "ticks w1 = Suc (ticks w)" "clock w1 = clock w"
    using seal_session_frame [OF seal] by (simp_all add: later_def)
  have meth: "str_or meth ''S256'' \<noteq> []" by (cases meth) (auto simp: str_or_def)
  show thesis
    using w1 op meth by (intro that [of "ticks w1"]) (auto simp: w' code_bound_def code_redeemable_def get)
qed

text \<open>C19. The code that an authorization begun from a session returns can be redeemed exactly by the
  client it was minted for, with the redirect URI of the request and a verifier that hashes to its
  challenge, until its lifetime counted from a clock reading of the call has passed; the exchange
  then yields the session stamped for that client. A request without a challenge or with another
  challenge method gives a code that nobody can redeem.\<close>

theorem begun_code_bound:
  assumes "begin_authorization_from_session sv cid uri scope ch meth s (Some st) w = (Inr code, d', w')"
    and "cipher_ok (sv_cipher sv)" and "plain_session s"
  shows "\<exists>st' i. d' = Some st' \<and> ticks w < i \<and> i < ticks w' \<and>
    code_bound sv st' code cid uri scope ch (str_or meth ''S256'')
      (stamp_broker_session_metadata s cid (integration_for_client_id (sv_config sv) cid))
      (clock w i + auth_code_ttl_seconds (oauth (sv_config sv)) * 1000)"
proof -
  let ?s = "stamp_broker_session_metadata s cid (integration_for_client_id (sv_config sv) cid)"
  obtain st' where m: "mint_authorization_code sv cid uri scope ch meth ?s st w = (code, st', w')" and d': "d' = Some st'"
    using assms(1)
    by (auto simp: begin_authorization_from_session_def Let_def store_update_Some mint_updater_def split: prod.splits)
  from mint_bound [OF m assms(2)] assms(3) d' show ?thesis by (metis stamp_identity(4))
qed

theorem begun_code_bound_witness:
  "\<exists>code st' w' i. begin_authorization_from_session sample_service ''c1'' ''https://app.example/cb'' ''openid''
      (Some (sha256_b64url sample_verifier)) None sample_session (Some sample_store) sample_world = (Inr code, Some st', w') \<and>
    code_bound sample_service st' code ''c1'' ''https://app.example/cb'' ''openid'' (Some (sha256_b64url sample_verifier)) ''S256''
      (stamp_broker_session_metadata sample_session ''c1'' (Some ''canva'')) (clock sample_world i + 300000)"
proof -
  obtain code d' w' where run: "begin_authorization_from_session sample_service ''c1'' ''https://app.example/cb'' ''openid''
      (Some (sha256_b64url sample_verifier)) None sample_session (Some sample_store) sample_world = (Inr code, d', w')"
    by (cases "mint_authorization_code sample_service ''c1'' ''https://app.example/cb'' ''openid''
         (Some (sha256_b64url sample_verifier)) None
         (stamp_broker_session_metadata sample_session ''c1''
           (integration_for_client_id (sv_config sample_service) ''c1'')) sample_store sample_world")
      (simp add: begin_authorization_from_session_def Let_def store_update_Some mint_updater_def)
  have "integration_for_client_id (sv_config sample_service) ''c1'' = Some ''canva''"
    "auth_code_ttl_seconds (oauth (sv_config sample_service)) = 300"
    by (simp_all add: integration_for_client_id_def sample_service_def sample_config_def)
  with begun_code_bound [OF run _ sample_plain] run show ?thesis
    by (auto simp: sample_service_def)
qed

section \<open>Completion of a pending sign-on\<close>

lemma complete_run:
  assumes "complete_sso_authorization sv h s (Some st) w = (res, d1, w1)" and "store_inv sv w st"
  obtains st1 where "d1 = Some st1" "store_inv sv w1 st1" "growth w st st1" "later w w1"
  using broker_step_good [OF step_complete_sso [OF assms(1)]] assms(2) that by (auto simp: step_good_def)

lemma complete_valid:
  assumes "complete_sso_authorization sv h s (Some st) w = (Inr (SsoValid code used), d1, w1)"
  obtains st1 where "d1 = Some st1" "complete_sso_updater sv h s st w = (Inr (SsoValid code used), st1, w1)"
  using assms by (auto simp: complete_sso_authorization_def store_update_Some split: prod.splits sum.splits)

text \<open>Completing a pending sign-on consumes a state that was pending, unused and not expired, and
  mints a code bound to the client, redirect URI, scope and PKCE challenge recorded when the
  sign-on began, for the session handed in, stamped for that client.\<close>

theorem completed_code_bound:
  assumes run: "complete_sso_authorization sv h s (Some st) w = (Inr (SsoValid code used), d1, w1)"
    and wf: "wf_store st" and ok: "cipher_ok (sv_cipher sv)" and plain: "plain_session s"
  shows "\<exists>r st1 i. dict_get (pendingSsoStates st) h = Some r \<and> \<not> truthy_int (ps_usedAt r) \<and>
    clock w (Suc (ticks w)) \<le> ps_expiresAt r \<and> ps_handoffState used = ps_handoffState r \<and> d1 = Some st1 \<and>
    code_bound sv st1 code (ps_clientId r) (ps_redirectUri r) (ps_scope r) (ps_codeChallenge r)
      (str_or (Some (ps_codeChallengeMethod r)) ''S256'')
      (stamp_broker_session_metadata s (ps_clientId r) (integration_for_client_id (sv_config sv) (ps_clientId r)))
      (clock w i + auth_code_ttl_seconds (oauth (sv_config sv)) * 1000)"
proof -
  obtain st1 where d1: "d1 = Some st1" and upd: "complete_sso_updater sv h s st w = (Inr (SsoValid code used), st1, w1)"
    using run by (rule complete_valid)
  from upd show ?thesis
  proof (cases rule: complete_updater_cases)
    case (completed p r s1 code' st2 w1' w2)
    have r: "dict_get (pendingSsoStates st) h = Some r"
      using completed(1,2) wf by (simp add: wf_storeD split: option.splits if_splits)
    have same: "code' = code" "used = r\<lparr>ps_usedAt := Some (now_of w2)\<rparr>" using completed(9) by simp_all
    obtain i where b: "code_bound sv st2 code (ps_clientId r) (ps_redirectUri r) (ps_scope r) (ps_codeChallenge r)
        (str_or (Some (ps_codeChallengeMethod r)) ''S256'') s1
        (clock w1' i + auth_code_ttl_seconds (oauth (sv_config sv)) * 1000)"
      using mint_bound [OF completed(7) ok] plain completed(6) same by (metis stamp_identity(4))
    have "clock w1' = clock w" by (simp add: completed(5))
    moreover have "code_bound sv st1 code = code_bound sv st2 code"
      by (intro ext) (simp add: code_bound_def code_redeemable_def completed(10))
    ultimately show ?thesis using b r completed(3,4,6) same d1 by auto
  qed auto
qed

lemma sample_completes:
  obtains code used d1 w1 where
    "complete_sso_authorization sample_service ''ssostate_xxxxx'' sample_session (Some sample_store) sample_world =
       (Inr (SsoValid code used), d1, w1)"
proof -
  let ?p = "prune_expired sample_store (now_of sample_world) (refresh_grace_ms sample_service)"
  let ?w = "sample_world\<lparr>ticks := Suc (Suc (ticks sample_world))\<rparr>"
  obtain code st2 w2 where m: "mint_authorization_code sample_service ''c1'' ''https://app.example/cb'' ''openid''
      (Some (sha256_b64url sample_verifier)) (Some ''S256'')
      (stamp_broker_session_metadata sample_session ''c1'' (integration_for_client_id (sv_config sample_service) ''c1''))
      ?p ?w = (code, st2, w2)"
    by (metis prod_cases3)
  have "dict_get (pendingSsoStates ?p) ''ssostate_xxxxx'' = Some sample_pending"
    by (simp add: sample_store_def pending_dead_def sample_pending_def sample_world_def wf_dict_def)
  moreover have "classify_pending_sso_record (Some sample_pending) (sample_world\<lparr>ticks := Suc (ticks sample_world)\<rparr>) =
      (SsoActive sample_pending, ?w)"
    by (simp add: classify_pending_sso_record_def) (simp add: sample_pending_def sample_world_def)
  moreover have "ps_clientId sample_pending = ''c1''" "ps_redirectUri sample_pending = ''https://app.example/cb''"
      "ps_scope sample_pending = ''openid''" "ps_codeChallenge sample_pending = Some (sha256_b64url sample_verifier)"
      "ps_codeChallengeMethod sample_pending = ''S256''"
    by (simp_all add: sample_pending_def)
  ultimately show thesis using m that
    by (simp add: complete_sso_authorization_def store_update_Some complete_sso_updater_def Let_def del: prune_expired_sel)
qed

theorem completed_code_bound_witness:
  "\<exists>code used st1 w1 i. complete_sso_authorization sample_service ''ssostate_xxxxx'' sample_session (Some sample_store)
     sample_world = (Inr (SsoValid code used), Some st1, w1) \<and>
    code_bound sample_service st1 code ''c1'' ''https://app.example/cb'' ''openid''
      (Some (sha256_b64url sample_verifier)) ''S256''
      (stamp_broker_session_metadata sample_session ''c1'' (Some ''canva'')) (clock sample_world i + 300000)"
proof -
  obtain code used d1 w1 where run: "complete_sso_authorization sample_service ''ssostate_xxxxx'' sample_session
      (Some sample_store) sample_world = (Inr (SsoValid code used), d1, w1)"
    by (rule sample_completes)
  have "integration_for_client_id (sv_config sample_service) ''c1'' = Some ''canva''"
    "auth_code_ttl_seconds (oauth (sv_config sample_service)) = 300" "cipher_ok (sv_cipher sample_service)"
    by (simp_all add: integration_for_client_id_def sample_service_def sample_config_def)
  with completed_code_bound [OF run sample_wf _ sample_plain] run show ?thesis
    by (fastforce simp: sample_store_def sample_pending_def)
qed

section \<open>Single use\<close>

lemma used_stays_used:
  assumes st1: "store_inv sv w1 st1" and inj: "inj (rand w1)" and pos: "clock_pos w1"
    and iss: "issued ''ssostate'' w1 h"
    and used: "\<forall>q. dict_get (pendingSsoStates st1) h = Some q \<longrightarrow> truthy_int (ps_usedAt q)"
    and run: "reach (broker_step sv) (Some st1, w1) (d2, w2)"
  obtains st2 where "d2 = Some st2" "store_inv sv w2 st2"
    "\<forall>q. dict_get (pendingSsoStates st2) h = Some q \<longrightarrow> truthy_int (ps_usedAt q)"
proof -
  obtain st2 where st2: "d2 = Some st2" "store_inv sv w2 st2" "growth w1 st1 st2"
    using run_growth [OF run st1] by blast
  have "truthy_int (ps_usedAt q)" if q: "dict_get (pendingSsoStates st2) h = Some q" for q
  proof -
    obtain r where "dict_get (pendingSsoStates st1) h = Some r" "pending_kept (clock_pos w1) r q"
      using kept_get [OF growthD(5) [OF st2(3)] inj iss store_inv_buckets(5) [OF st1] q] .
    with used pos show ?thesis by (auto simp: pending_kept_def)
  qed
  with st2 that show thesis by blast
qed

lemma complete_marks:
  assumes run: "complete_sso_authorization sv h s (Some st) w = (Inr (SsoValid code used), d1, w1)"
    and inv: "store_inv sv w st" and pos: "clock_pos w"
  obtains st1 where "d1 = Some st1" "store_inv sv w1 st1" "later w w1" "issued ''ssostate'' w1 h"
    "\<forall>q. dict_get (pendingSsoStates st1) h = Some q \<longrightarrow> truthy_int (ps_usedAt q)"
proof -
  obtain st1 where st1: "d1 = Some st1" "store_inv sv w1 st1" and l: "later w w1"
    by (rule complete_run [OF run inv])
  obtain st1' where "d1 = Some st1'" and upd: "complete_sso_updater sv h s st w = (Inr (SsoValid code used), st1', w1)"
    using run by (rule complete_valid)
  with st1 have upd: "complete_sso_updater sv h s st w = (Inr (SsoValid code used), st1, w1)" by simp
  then show thesis
  proof (cases rule: complete_updater_cases)
    case (completed p r s1 code' st2 w1' w2)
    have "dict_get (pendingSsoStates st) h = Some r"
      using completed(1,2) store_inv_buckets(5) [OF inv] by (simp split: option.splits if_splits)
    from dict_allD [OF store_invD(6) [OF inv] this] have "issued ''ssostate'' w h" by (simp add: pending_ok_def)
    then have iss: "issued ''ssostate'' w1 h" using l by (rule issued_later)
    have "later w w2" using mint_later [OF completed(7)] completed(5) by (simp add: later_def)
    then have "truthy_int (Some (now_of w2))" using pos_mark clock_pos_later pos by blast
    then have "\<forall>q. dict_get (pendingSsoStates st1) h = Some q \<longrightarrow> truthy_int (ps_usedAt q)"
      by (auto simp: completed(10) simp del: truthy_int_simps)
    with st1 l iss that show thesis by blast
  qed auto
qed

text \<open>C17. A pending sign-on is completed at most once. After a completion that minted a code, no
  continuation of any length makes another completion (or the deprecated consumption) of the same
  state succeed.\<close>

theorem sso_completed_once:
  assumes inv: "store_inv sv w st" and inj: "inj (rand w)" and pos: "clock_pos w"
    and run: "complete_sso_authorization sv h s (Some st) w = (Inr (SsoValid code used), d1, w1)"
    and cont: "reach (broker_step sv) (d1, w1) (d2, w2)"
  shows "complete_sso_authorization sv h s' d2 w2 \<noteq> (Inr (SsoValid code' used'), d3, w3) \<and>
    consume_pending_sso_state sv h d2 w2 \<noteq> (Inr (ConsumeValid used''), d3', w3')"
proof -
  obtain st1 where st1: "d1 = Some st1" "store_inv sv w1 st1" and l: "later w w1" and iss: "issued ''ssostate'' w1 h"
    and used: "\<forall>q. dict_get (pendingSsoStates st1) h = Some q \<longrightarrow> truthy_int (ps_usedAt q)"
    using complete_marks [OF run inv pos] .
  have inj1: "inj (rand w1)" and pos1: "clock_pos w1" using inj inj_later [OF l] pos clock_pos_later [OF l] by auto
  obtain st2 where st2: "d2 = Some st2" "store_inv sv w2 st2"
    "\<forall>q. dict_get (pendingSsoStates st2) h = Some q \<longrightarrow> truthy_int (ps_usedAt q)"
    using used_stays_used [OF st1(2) inj1 pos1 iss used cont [unfolded st1(1)]] .
  let ?p = "prune_expired st2 (now_of w2) (refresh_grace_ms sv)"
  have u: "truthy_int (ps_usedAt q)" if "dict_get (pendingSsoStates ?p) h = Some q" for q
    using that st2(3) store_inv_buckets(5) [OF st2(2)] by (simp split: option.splits if_splits)
  show ?thesis
  proof (intro conjI notI)
    assume "complete_sso_authorization sv h s' d2 w2 = (Inr (SsoValid code' used'), d3, w3)"
    then obtain st3 where "complete_sso_updater sv h s' st2 w2 = (Inr (SsoValid code' used'), st3, w3)"
      unfolding st2(1) by (rule complete_valid)
    then show False
      by (cases rule: complete_updater_cases) (use u in \<open>auto simp del: prune_expired_sel\<close>)
  next
    assume "consume_pending_sso_state sv h d2 w2 = (Inr (ConsumeValid used''), d3', w3')"
    then obtain st3 where "consume_updater sv h st2 w2 = (Inr (ConsumeValid used''), st3, w3')"
      by (auto simp: consume_pending_sso_state_def st2(1) store_update_Some split: prod.splits sum.splits)
    then show False
      by (cases rule: consume_updater_cases) (use u in \<open>auto simp del: prune_expired_sel\<close>)
  qed
qed

theorem sso_completed_once_witness:
  "\<exists>code used d1 w1. complete_sso_authorization sample_service ''ssostate_xxxxx'' sample_session (Some sample_store)
     sample_world = (Inr (SsoValid code used), d1, w1) \<and>
   (\<forall>s code' used' d3 w3. complete_sso_authorization sample_service ''ssostate_xxxxx'' s d1 w1 \<noteq>
      (Inr (SsoValid code' used'), d3, w3))"
proof -
  obtain code used d1 w1 where run: "complete_sso_authorization sample_service ''ssostate_xxxxx'' sample_session
      (Some sample_store) sample_world = (Inr (SsoValid code used), d1, w1)"
    by (rule sample_completes)
  from sso_completed_once [OF sample_inv sample_rand_inj sample_clock_pos run reach_refl] run
  show ?thesis by blast
qed

section \<open>Outstanding sign-ons are bounded\<close>

text \<open>The limit on outstanding sign-ons of one source lies between 10 and 200 whatever the
  configuration says, provided the rate window is not zero (then the division raises).\<close>

theorem source_limit_bounds:
  "case max_pending_sso_states_per_source cfg of
     Inl e \<Rightarrow> e = ZeroDivisionError \<and> rl_window_ms (rate_limit cfg) = 0
   | Inr lim \<Rightarrow> 10 \<le> lim \<and> lim \<le> 200 \<and> rl_window_ms (rate_limit cfg) \<noteq> 0"
  by (auto simp: max_pending_sso_states_per_source_def MAX_PENDING_SSO_STATES_def Let_def)

lemma outstanding_update:
  "outstanding_for_source (st\<lparr>pendingSsoStates := AList.update k v d\<rparr>) key now
     \<le> outstanding_for_source (st\<lparr>pendingSsoStates := d\<rparr>) key now + 1"
  "active_pending (st\<lparr>pendingSsoStates := AList.update k v d\<rparr>) now \<le> active_pending (st\<lparr>pendingSsoStates := d\<rparr>) now + 1"
proof -
  have "length (filter P (AList.update k v d)) \<le> Suc (length (filter P d))" for P
    by (induction d) auto
  then have len: "int (length (filter P (AList.update k v d))) \<le> int (length (filter P d)) + 1" for P
    by (metis of_nat_Suc of_nat_le_iff add.commute)
  show "outstanding_for_source (st\<lparr>pendingSsoStates := AList.update k v d\<rparr>) key now
     \<le> outstanding_for_source (st\<lparr>pendingSsoStates := d\<rparr>) key now + 1"
    using len by (simp add: outstanding_for_source_def)
  show "active_pending (st\<lparr>pendingSsoStates := AList.update k v d\<rparr>) now \<le> active_pending (st\<lparr>pendingSsoStates := d\<rparr>) now + 1"
    using len by (simp add: active_pending_def)
qed

lemma outstanding_le:
  "outstanding_for_source st key now \<le> int (length (pendingSsoStates st))"
  "active_pending st now \<le> int (length (pendingSsoStates st))"
  by (simp_all add: outstanding_for_source_def active_pending_def)

text \<open>C20. A sign-on that begins leaves at most the limit of outstanding states for its source and at
  most 2000 in all, counted at the reading of the clock it was recorded at. It is recorded under a
  state drawn afresh with the request's data, the expiry and the purge time of the configuration.
  One that is refused leaves the file as it was.\<close>

theorem sso_capacity:
  assumes lim: "max_pending_sso_states_per_source (sv_config sv) = Inr lim"
    and run: "begin_sso_authorization sv req (Some st) w = (res, Some st', w')"
  defines "now \<equiv> clock w (Suc (Suc (ticks w)))"
    and "ex \<equiv> clock w (ticks w) + sso_pending_ttl_seconds (resource_space (sv_config sv)) * 1000"
    and "keep \<equiv> sso_replay_retention_seconds (resource_space (sv_config sv)) * 1000"
  shows "case res of
      Inr h \<Rightarrow> outstanding_for_source st' (sr_initiator_key req) now \<le> lim \<and>
         active_pending st' now \<le> 2000 \<and> h = ''ssostate_'' @ rand w (draws w) \<and>
         dict_get (pendingSsoStates st') h = Some (sso_record req h now ex (ex + keep))
    | Inl e \<Rightarrow> st' = st"
proof -
  let ?w = "w\<lparr>ticks := Suc (ticks w)\<rparr>"
  have upd: "store_update (begin_sso_updater sv req ex (ex + keep)) (Some st) ?w = (res, Some st', w')"
    using run by (auto simp: begin_sso_authorization_def Let_def ex_def keep_def)
  show ?thesis
  proof (cases res)
    case (Inl e)
    with store.rollback [OF upd [unfolded Inl]] show ?thesis by simp
  next
    case (Inr h)
    let ?now = "clock ?w (Suc (ticks ?w))" and ?pu = "ex + keep"
    let ?p = "prune_expired st (now_of ?w) (refresh_grace_ms sv)"
    have now: "?now = now" by (simp add: now_def)
    have "begin_sso_updater sv req ex ?pu st ?w = (Inr h, st', w')"
      using upd Inr by (auto simp: store_update_Some split: prod.splits sum.splits)
    note eff = begin_sso_effect [OF lim this]
    have st': "st' = ?p\<lparr>pendingSsoStates := AList.update h (sso_record req h ?now ex ?pu) (pendingSsoStates ?p)\<rparr>"
      using eff by simp
    have "?p\<lparr>pendingSsoStates := pendingSsoStates ?p\<rparr> = ?p" by simp
    then have "outstanding_for_source st' (sr_initiator_key req) ?now \<le> lim" "active_pending st' ?now \<le> 2000"
      using outstanding_update(1) [of h "sso_record req h ?now ex ?pu" "pendingSsoStates ?p" ?p "sr_initiator_key req" ?now]
        outstanding_update(2) [of h "sso_record req h ?now ex ?pu" "pendingSsoStates ?p" ?p ?now] eff
      unfolding st' by (simp_all add: MAX_PENDING_SSO_STATES_def del: prune_expired_sel)
    moreover have "h = ''ssostate_'' @ rand w (draws w)" using eff by simp
    moreover have "dict_get (pendingSsoStates st') h = Some (sso_record req h ?now ex ?pu)" unfolding st' by simp
    ultimately show ?thesis using Inr unfolding now by simp
  qed
qed

definition sample_request :: sso_request where
  "sample_request = \<lparr>sr_client_id = ''c1'', sr_redirect_uri = ''https://app.example/cb'', sr_scope = ''openid'',
     sr_code_challenge = Some ''c'', sr_code_challenge_method = None, sr_canva_state = ''st'',
     sr_tenant = sample_tenant, sr_correlation_id = ''cor'', sr_initiator_key = ''ip''\<rparr>"

theorem sso_capacity_witness:
  "\<exists>h st' w'. begin_sso_authorization sample_service sample_request (Some sample_store) sample_world = (Inr h, Some st', w') \<and>
     outstanding_for_source st' ''ip'' 1000002 \<le> 200 \<and> active_pending st' 1000002 \<le> 2000"
proof -
  have lim: "max_pending_sso_states_per_source (sv_config sample_service) = Inr 200"
    by (simp add: max_pending_sso_states_per_source_def sample_service_def sample_config_def Let_def
        trunc_div_def MAX_PENDING_SSO_STATES_def)
  let ?w = "sample_world\<lparr>ticks := Suc (ticks sample_world)\<rparr>"
  let ?p = "prune_expired sample_store (now_of ?w) (refresh_grace_ms sample_service)"
  have "length (pendingSsoStates ?p) \<le> 1"
    by (simp add: sample_store_def prune_dict_def)
  then have few: "\<not> 200 \<le> outstanding_for_source ?p key now" "\<not> 2000 \<le> active_pending ?p now" for key now
    using outstanding_le(1) [where st = ?p and key = key and now = now] outstanding_le(2) [where st = ?p and now = now]
    by linarith+
  obtain h st' w' where run: "begin_sso_authorization sample_service sample_request (Some sample_store) sample_world =
      (Inr h, Some st', w')"
    using lim few
    by (simp add: begin_sso_authorization_def Let_def store_update_Some begin_sso_updater_def random_token_def
        MAX_PENDING_SSO_STATES_def del: prune_expired_sel)
  from sso_capacity [OF lim run]
  have "outstanding_for_source st' ''ip'' 1000002 \<le> 200" "active_pending st' 1000002 \<le> 2000"
    by (simp_all add: sample_request_def sample_world_def)
  with run show ?thesis by blast
qed

end
