(* ===== verification/Sealed_Store.thy ===== *)
theory Sealed_Store
  imports Broker_System
begin

text \<open>
  The secrets of the sessions at rest. With a key configured, the leaves that hold the session key of
  the upstream and the email address are what the cipher made of some text that does not itself look
  sealed. A text that carries the prefix of the cipher when it is handed in would be stored as it is,
  so this is said of the runs in which no session is handed in with such a leaf (\<open>plain_step\<close>).
\<close>

section \<open>Leaves that the cipher made\<close>

definition leaf_at_rest :: "fernet \<Rightarrow> string option \<Rightarrow> bool" where
  "leaf_at_rest F x \<longleftrightarrow>
     (\<forall>v. x = Some v \<longrightarrow> v = [] \<or> (\<exists>n p. plain p \<and> p \<noteq> [] \<and> v = ENC_PREFIX @ fernet_encrypt F n p))"

definition session_at_rest :: "fernet \<Rightarrow> session \<Rightarrow> bool" where
  "session_at_rest F s \<longleftrightarrow> leaf_at_rest F (up_sessionKey (ss_upstream s)) \<and> leaf_at_rest F (us_email (ss_user s))"

definition sealed_store :: "fernet \<Rightarrow> broker_store \<Rightarrow> bool" where
  "sealed_store F st \<longleftrightarrow> dict_all (\<lambda>_ r. session_at_rest F (ac_session r)) (authorizationCodes st) \<and>
     dict_all (\<lambda>_ r. session_at_rest F (at_session r)) (accessTokens st) \<and>
     dict_all (\<lambda>_ r. session_at_rest F (rt_session r)) (refreshTokens st)"

lemma seal_leaf_at_rest:
  "seal_leaf (FernetFieldCipher F) x w = (y, w') \<Longrightarrow> (case x of None \<Rightarrow> True | Some v \<Rightarrow> plain v) \<Longrightarrow> leaf_at_rest F y"
  by (auto simp: seal_leaf_def leaf_at_rest_def plain_def truthy_str_def split: if_splits option.splits)

lemma seal_session_at_rest:
  assumes "seal_session (FernetFieldCipher F) s w = (s', w')" and "plain_session s"
  shows "session_at_rest F s'"
  using assms by (auto simp: seal_session_def session_at_rest_def plain_session_def dest: seal_leaf_at_rest split: prod.splits)

lemma open_leaf_plain:
  assumes "fernet_ok F" and "leaf_at_rest F x" and "open_leaf (FernetFieldCipher F) x = Inr y"
  shows "case y of None \<Rightarrow> True | Some v \<Rightarrow> plain v"
proof (cases "truthy_str x")
  case True
  then obtain v where v: "x = Some v" "v \<noteq> []" by (auto simp: truthy_str_def)
  with assms(2) obtain n p where "v = ENC_PREFIX @ fernet_encrypt F n p" and p: "plain p"
    unfolding leaf_at_rest_def by blast
  with v have x: "x = Some (ENC_PREFIX @ fernet_encrypt F n p)" by simp
  have "y = Some p" using assms(1,3) True by (auto simp: x open_leaf_def fernet_ok_def Let_def split: sum.splits)
  with p show ?thesis by simp
next
  case False
  with assms(3) have "y = None \<or> y = Some []" by (auto simp: open_leaf_def truthy_str_def)
  then show ?thesis by (auto simp: plain_def startswith_def ENC_PREFIX_def)
qed

lemma open_session_plain:
  assumes "fernet_ok F" and "session_at_rest F s" and "open_session_dict (FernetFieldCipher F) s = Inr s'"
  shows "plain_session s'"
proof -
  obtain key email where "open_leaf (FernetFieldCipher F) (up_sessionKey (ss_upstream s)) = Inr key"
    and "open_leaf (FernetFieldCipher F) (us_email (ss_user s)) = Inr email"
    and "s' = s\<lparr>ss_upstream := (ss_upstream s)\<lparr>up_sessionKey := key\<rparr>, ss_user := (ss_user s)\<lparr>us_email := email\<rparr>\<rparr>"
    using assms(3) by (auto simp: open_session_dict_def split: sum.splits)
  then show ?thesis
    using open_leaf_plain [OF assms(1)] assms(2) by (auto simp: session_at_rest_def plain_session_def)
qed

lemma stamp_at_rest [simp]: "session_at_rest F (stamp_broker_session_metadata s cid i) = session_at_rest F s"
  by (simp add: session_at_rest_def stamp_broker_session_metadata_def Let_def)

lemma plain_stamp [simp]: "plain_session (stamp_broker_session_metadata s cid i) = plain_session s"
  by (simp add: plain_session_def stamp_broker_session_metadata_def Let_def)

section \<open>Updates of a sealed store\<close>

lemma sealed_storeD:
  assumes "sealed_store F st"
  shows "dict_all (\<lambda>_ r. session_at_rest F (ac_session r)) (authorizationCodes st)"
    "dict_all (\<lambda>_ r. session_at_rest F (at_session r)) (accessTokens st)"
    "dict_all (\<lambda>_ r. session_at_rest F (rt_session r)) (refreshTokens st)"
  using assms by (simp_all add: sealed_store_def)

lemma sealed_upd:
  assumes "sealed_store F st"
  shows "dict_all (\<lambda>_ r. session_at_rest F (ac_session r)) cs \<Longrightarrow> sealed_store F (st\<lparr>authorizationCodes := cs\<rparr>)"
    "dict_all (\<lambda>_ r. session_at_rest F (at_session r)) ats \<Longrightarrow> sealed_store F (st\<lparr>accessTokens := ats\<rparr>)"
    "dict_all (\<lambda>_ r. session_at_rest F (rt_session r)) rts \<Longrightarrow> sealed_store F (st\<lparr>refreshTokens := rts\<rparr>)"
    "sealed_store F (st\<lparr>assetGrants := gs\<rparr>)" "sealed_store F (st\<lparr>pendingSsoStates := ps\<rparr>)"
  using assms by (simp_all add: sealed_store_def)

lemma sealed_prune: "sealed_store F st \<Longrightarrow> sealed_store F (prune_expired st now g)"
  by (simp add: sealed_store_def dict_all_prune)

lemma sealed_initial: "sealed_store F initial_store"
  by (simp add: sealed_store_def initial_store_def)

text \<open>What an updater that returns makes of a good, sealed store is sealed.\<close>

definition keeps_sealed ::
  "auth_service \<Rightarrow> fernet \<Rightarrow> (broker_store \<Rightarrow> world \<Rightarrow> (exn + 'r) \<times> broker_store \<times> world) \<Rightarrow> bool"
where
  "keeps_sealed sv F f \<longleftrightarrow>
     (\<forall>st w v st' w'. f st w = (Inr v, st', w') \<longrightarrow> store_inv sv w st \<longrightarrow> sealed_store F st \<longrightarrow> sealed_store F st')"

definition sealed_disk :: "fernet \<Rightarrow> broker_state \<Rightarrow> bool" where
  "sealed_disk F s \<longleftrightarrow> (\<forall>st. fst s = Some st \<longrightarrow> sealed_store F st)"

lemma sealed_disk_same [simp]: "sealed_disk F (d, w) = sealed_disk F (d, w')"
  by (simp add: sealed_disk_def)

lemma store_update_sealed:
  assumes "keeps_sealed sv F f" and "store_update f d w = (r, d', w')"
    and "disk_inv sv (d, w)" and "sealed_disk F (d, w)"
  shows "sealed_disk F (d', w')"
proof -
  from assms(3,4) obtain st where st: "d = Some st" "store_inv sv w st" "sealed_store F st"
    by (auto simp: disk_inv_def sealed_disk_def)
  obtain r1 st1 w1 where upd: "f st w = (r1, st1, w1)" by (metis prod_cases3)
  show ?thesis
  proof (cases r1)
    case (Inl e)
    with assms(2) st upd show ?thesis by (auto simp: sealed_disk_def store_update_def)
  next
    case (Inr v)
    then have "sealed_store F st1" using assms(1) upd st(2,3) unfolding keeps_sealed_def by blast
    with assms(2) st upd Inr show ?thesis by (auto simp: sealed_disk_def store_update_def)
  qed
qed

section \<open>The operations\<close>

definition sealing_with :: "auth_service \<Rightarrow> fernet \<Rightarrow> bool" where
  "sealing_with sv F \<longleftrightarrow> sv_cipher sv = FernetFieldCipher F \<and> fernet_ok F"

lemma opened_plain:
  "sealing_with sv F \<Longrightarrow> session_at_rest F s \<Longrightarrow> open_session_dict (sv_cipher sv) s = Inr s' \<Longrightarrow> plain_session s'"
  unfolding sealing_with_def using open_session_plain by metis

lemma sealed_session_rests:
  "sealing_with sv F \<Longrightarrow> seal_session (sv_cipher sv) s w = (s', w') \<Longrightarrow> plain_session s \<Longrightarrow> session_at_rest F s'"
  unfolding sealing_with_def using seal_session_at_rest by metis

lemma mint_sealed:
  assumes c: "sealing_with sv F" and mint: "mint_authorization_code sv cid uri scope ch meth s st w = (code, st', w')"
    and plain: "plain_session s" and st: "sealed_store F st"
  shows "sealed_store F st'"
  using mint
proof (rule mint_effect)
  fix sealed w1
  assume seal: "seal_session (sv_cipher sv) s (w\<lparr>ticks := Suc (ticks w), draws := Suc (draws w)\<rparr>) = (sealed, w1)"
    and st': "st' = (prune_expired st (now_of w) (refresh_grace_ms sv))
             \<lparr>authorizationCodes := AList.update code
                \<lparr>ac_code = code, ac_clientId = cid, ac_redirectUri = uri, ac_scope = scope,
                 ac_codeChallenge = ch, ac_codeChallengeMethod = str_or meth ''S256'',
                 ac_session = sealed,
                 ac_expiresAt = clock w1 (ticks w1) + auth_code_ttl_seconds (oauth (sv_config sv)) * 1000\<rparr>
                (prune_dict (code_dead (now_of w)) (authorizationCodes st))\<rparr>"
  have "session_at_rest F sealed" using c seal plain by (rule sealed_session_rests)
  then show ?thesis
    unfolding st' using sealed_storeD(1) [OF st]
    by (intro sealed_upd(1) sealed_prune st dict_all_update dict_all_prune) simp_all
qed

lemma write_pair_sealed:
  assumes c: "sealing_with sv F" and wr: "write_token_pair_to_state sv s scope cid True None st w = (tk, st', w')"
    and plain: "plain_session s" and st: "sealed_store F st"
  shows "sealed_store F st'"
  using wr
proof (rule write_pair_effect)
  fix sealed w1 arec rrec
  assume seal: "seal_session (sv_cipher sv) (stamp_broker_session_metadata s cid (integration_for_client_id (sv_config sv) cid))
       (w\<lparr>ticks := Suc (ticks w), draws := Suc (Suc (draws w))\<rparr>) = (sealed, w1)"
    and arec: "arec = \<lparr>at_accessToken = access_token_of w, at_clientId = cid, at_scope = scope,
             at_integration = integration_for_client_id (sv_config sv) cid, at_session = sealed,
             at_expiresAt = now_of w + token_ttl_seconds (oauth (sv_config sv)) * 1000,
             at_createdAt = clock w1 (ticks w1), at_revokedAt = None\<rparr>"
    and rrec: "rrec = \<lparr>rt_refreshToken = refresh_token_of w, rt_clientId = cid, rt_scope = scope,
             rt_integration = integration_for_client_id (sv_config sv) cid, rt_session = sealed,
             rt_createdAt = clock w1 (Suc (ticks w1)),
             rt_expiresAt = Some (clock w1 (Suc (Suc (ticks w1)))
                                  + refresh_token_ttl_seconds (oauth (sv_config sv)) * 1000),
             rt_revokedAt = None, rt_rotationResponse = None\<rparr>"
    and st': "st' = st\<lparr>accessTokens := AList.update (access_token_of w) arec (accessTokens st),
              refreshTokens := AList.update (refresh_token_of w) rrec (refreshTokens st)\<rparr>"
  have "session_at_rest F sealed" using c seal by (rule sealed_session_rests) (simp add: plain)
  then show ?thesis
    using sealed_storeD [OF st] by (simp add: st' sealed_store_def dict_all_update arec rrec)
qed

lemma exchange_updater_sealed: "keeps_sealed sv F (exchange_updater sv cid uri code ver)"
  unfolding keeps_sealed_def
proof (intro allI impI)
  fix st w v st' w'
  assume run: "exchange_updater sv cid uri code ver st w = (Inr v, st', w')" and inv: "store_inv sv w st"
    and st: "sealed_store F st"
  have st': "st' = (prune_expired st (now_of w) (refresh_grace_ms sv))
      \<lparr>authorizationCodes := AList.delete code (prune_dict (code_dead (now_of w)) (authorizationCodes st))\<rparr>"
    using exchange_updater_effect [OF store_invD(1) [OF inv] run] by simp
  show "sealed_store F st'"
    unfolding st' by (intro sealed_upd(1) sealed_prune st dict_all_delete dict_all_prune sealed_storeD(1) [OF st])
qed

lemma create_pair_sealed:
  assumes "sealing_with sv F" and "plain_session s"
    and "create_token_pair sv s scope cid True None d w = (r, d', w')"
    and "disk_inv sv (d, w)" and "sealed_disk F (d, w)"
  shows "sealed_disk F (d', w')"
  using _ assms(3) [unfolded create_token_pair_def] assms(4,5)
proof (rule store_update_sealed)
  show "keeps_sealed sv F (\<lambda>st w. let (st, w) = svc_prune sv st w;
      (tokens, st, w) = write_token_pair_to_state sv s scope cid True None st w in (Inr tokens :: exn + token_response, st, w))"
    unfolding keeps_sealed_def
    by (auto split: prod.splits dest!: write_pair_sealed [OF assms(1) _ assms(2)] intro: sealed_prune)
qed

lemma exchange_sealed:
  assumes c: "sealing_with sv F" and run: "exchange_authorization_code sv cid uri code ver d w = (r, d', w')"
    and inv: "disk_inv sv (d, w)" and sealed: "sealed_disk F (d, w)"
  shows "sealed_disk F (d', w')"
proof -
  obtain r1 d1 w1 where upd: "store_update (exchange_updater sv cid uri code ver) d w = (r1, d1, w1)"
    by (metis prod_cases3)
  have d1: "sealed_disk F (d1, w1)" by (rule store_update_sealed [OF exchange_updater_sealed upd inv sealed])
  have inv1: "disk_inv sv (d1, w1)"
    using disk_inv_step [OF store_update_good [OF exchange_updater_good upd]] inv by simp
  consider (same) "d' = d \<or> d' = d1"
    | (pair) s scope r2 where "r1 = Inr (ExchangeOk s scope)" "create_token_pair sv s scope cid True None d1 w1 = (r2, d', w')"
    using run upd
    by (auto simp: exchange_authorization_code_def split: if_splits sum.splits exchange_result.splits prod.splits)
  then show ?thesis
  proof cases
    case same
    with sealed d1 show ?thesis by (auto simp: sealed_disk_def)
  next
    case pair
    obtain st where st: "d = Some st" "store_inv sv w st" "sealed_store F st"
      using inv sealed by (auto simp: disk_inv_def sealed_disk_def)
    obtain st1 where "exchange_updater sv cid uri code ver st w = (Inr (ExchangeOk s scope), st1, w1)"
      using upd pair(1) st(1) by (auto simp: store_update_def split: prod.splits sum.splits)
    then have "code_redeemable sv st (now_of w) cid uri code ver s scope"
      using exchange_updater_ok [OF store_invD(1) [OF st(2)]] by blast
    then obtain q where "dict_get (authorizationCodes st) code = Some q" "open_session_dict (sv_cipher sv) (ac_session q) = Inr s"
      by (auto simp: code_redeemable_def)
    then have "plain_session s"
      using dict_allD [OF sealed_storeD(1) [OF st(3)]] opened_plain [OF c] by blast
    with c show ?thesis using pair(2) inv1 d1 by (rule create_pair_sealed)
  qed
qed

lemma stamped_refresh_rests:
  "stamp_refresh_record cfg r0 = Some r \<Longrightarrow> session_at_rest F (rt_session r) = session_at_rest F (rt_session r0)"
  by (auto simp: stamp_refresh_record_def Let_def split: if_splits)

lemma refresh_updater_sealed:
  assumes c: "sealing_with sv F"
  shows "keeps_sealed sv F (refresh_updater sv cid t)"
  unfolding keeps_sealed_def
proof (intro allI impI)
  fix st w v st' w'
  assume "refresh_updater sv cid t st w = (Inr v, st', w')" and st: "sealed_store F st"
  then show "sealed_store F st'"
  proof (cases rule: refresh_updater_cases)
    case pruned
    with st show ?thesis by (simp add: sealed_prune)
  next
    case (stamped r0 r p)
    have p: "sealed_store F p" using st by (simp add: stamped(1) sealed_prune)
    have "session_at_rest F (rt_session r)"
      using dict_allD [OF sealed_storeD(3) [OF p] stamped(2)] stamped_refresh_rests [OF stamped(3)] by simp
    then show ?thesis
      unfolding stamped(4) by (intro sealed_upd(3) [OF p] dict_all_modify sealed_storeD(3) [OF p])
  next
    case (rotated r0 r p s tk st2)
    have p: "sealed_store F p" using st by (simp add: rotated(1) sealed_prune)
    have r: "session_at_rest F (rt_session r)"
      using dict_allD [OF sealed_storeD(3) [OF p] rotated(2)] stamped_refresh_rests [OF rotated(3)] by simp
    then have "plain_session s" using opened_plain [OF c] rotated(8) by (simp add: try_open_Some)
    moreover have "sealed_store F
        (p\<lparr>refreshTokens := modify_dict t (\<lambda>_. r\<lparr>rt_revokedAt := Some (clock w (Suc (ticks w)))\<rparr>) (refreshTokens p)\<rparr>)"
      using r by (intro sealed_upd(3) [OF p] dict_all_modify sealed_storeD(3) [OF p]) simp
    ultimately have st2: "sealed_store F st2" using write_pair_sealed [OF c rotated(6)] by blast
    show ?thesis
      unfolding rotated(7) by (intro sealed_upd(3) [OF st2] dict_all_modify sealed_storeD(3) [OF st2]) simp
  qed
qed

lemma read_updater_sealed: "keeps_sealed sv F (read_access_updater sv t)"
  unfolding keeps_sealed_def
proof (intro allI impI)
  fix st w v st' w'
  let ?p = "prune_expired st (now_of w) (refresh_grace_ms sv)"
  assume run: "read_access_updater sv t st w = (Inr v, st', w')" and st: "sealed_store F st"
  have p: "sealed_store F ?p" using st by (rule sealed_prune)
  have stamp: "session_at_rest F (at_session r) = session_at_rest F (at_session r0)"
    if "stamp_access_record (sv_config sv) r0 = Some r" for r0 r
    using that by (auto simp: stamp_access_record_def Let_def split: if_splits)
  consider "st' = ?p"
    | r0 r where "dict_get (accessTokens ?p) t = Some r0" "stamp_access_record (sv_config sv) r0 = Some r"
        "st' = ?p\<lparr>accessTokens := modify_dict t (\<lambda>_. r) (accessTokens ?p)\<rparr>"
    using run by (force simp: read_access_updater_def Let_def simp del: get_prune split: option.splits)
  then show "sealed_store F st'"
  proof cases
    case (2 r0 r)
    have "session_at_rest F (at_session r)" using dict_allD [OF sealed_storeD(2) [OF p] 2(1)] stamp [OF 2(2)] by simp
    then show ?thesis
      unfolding 2(3) by (intro sealed_upd(2) [OF p] dict_all_modify sealed_storeD(2) [OF p])
  qed (simp add: p)
qed

lemma revoke_updater_sealed: "keeps_sealed sv F (revoke_updater sv t)"
  unfolding keeps_sealed_def
  by (auto simp: revoke_updater_def Let_def sealed_store_def simp del: get_prune split: if_splits
      intro!: dict_all_delete dict_all_modify dict_all_prune)

lemma revoke_user_updater_sealed: "keeps_sealed sv F (revoke_user_updater sv uid tid)"
  unfolding keeps_sealed_def
  by (auto simp: revoke_user_updater_def Let_def sealed_store_def intro!: dict_all_map dict_all_prune)

lemma begin_sso_updater_sealed: "keeps_sealed sv F (begin_sso_updater sv req ex pu)"
  unfolding keeps_sealed_def
  by (auto simp: begin_sso_updater_def Let_def random_token_def sealed_store_def dict_all_prune split: sum.splits if_splits)

lemma complete_updater_sealed:
  assumes "sealing_with sv F" and "plain_session s"
  shows "keeps_sealed sv F (complete_sso_updater sv h s)"
  unfolding keeps_sealed_def
proof (intro allI impI)
  fix st w v st' w'
  assume "complete_sso_updater sv h s st w = (Inr v, st', w')" and st: "sealed_store F st"
  then show "sealed_store F st'"
  proof (cases rule: complete_updater_cases)
    case rejected
    with st show ?thesis by (simp add: sealed_prune)
  next
    case (completed p r s1 code st2 w1 w2)
    have "plain_session s1" "sealed_store F p" using assms(2) st by (simp_all add: completed(1,6) sealed_prune)
    then have "sealed_store F st2" using mint_sealed [OF assms(1) completed(7)] by blast
    then show ?thesis by (simp add: completed(10) sealed_upd)
  qed
qed

lemma consume_updater_sealed: "keeps_sealed sv F (consume_updater sv h)"
  unfolding keeps_sealed_def
proof (intro allI impI)
  fix st w v st' w'
  assume "consume_updater sv h st w = (Inr v, st', w')" and "sealed_store F st"
  then show "sealed_store F st'"
    by (cases rule: consume_updater_cases) (simp_all add: sealed_prune sealed_upd)
qed

lemma create_grant_sealed: "keeps_sealed sv F (create_grant_updater cfg path s src mime fname)"
  unfolding keeps_sealed_def by (auto simp: sealed_store_def dest!: create_grant_effect)

lemma lookup_grant_sealed: "keeps_sealed sv F (lookup_grant_updater k)"
  unfolding keeps_sealed_def by (auto simp: lookup_grant_updater_def Let_def prune_expired_grants_def sealed_store_def)

lemma mint_updater_sealed:
  assumes "sealing_with sv F" and "plain_session s"
  shows "keeps_sealed sv F (mint_updater sv cid uri scope ch meth s)"
  unfolding keeps_sealed_def
  using mint_sealed [OF assms(1) _ assms(2)] by (auto simp: mint_updater_def split: prod.splits)

section \<open>Runs without disguised secrets\<close>

text \<open>The steps of the broker in which no session is handed in with a leaf that looks sealed.\<close>

inductive plain_step :: "auth_service \<Rightarrow> broker_state \<Rightarrow> broker_state \<Rightarrow> bool" for sv where
  plain_world: "later w w' \<Longrightarrow> plain_step sv (d, w) (d, w')"
| plain_prune: "prune sv d w = (r, d', w') \<Longrightarrow> plain_step sv (d, w) (d', w')"
| plain_login: "(\<And>b u p i w. later w (snd (authenticate b u p i w))) \<Longrightarrow>
    (\<And>b u p i w s. fst (authenticate b u p i w) = Inr s \<Longrightarrow> plain_session s) \<Longrightarrow>
    begin_authorization sv authenticate cid uri scope ch meth base username password d w = (rc, d', w') \<Longrightarrow>
    plain_step sv (d, w) (d', w')"
| plain_begin: "plain_session s \<Longrightarrow> begin_authorization_from_session sv cid uri scope ch meth s d w = (rc, d', w') \<Longrightarrow>
    plain_step sv (d, w) (d', w')"
| plain_exchange: "exchange_authorization_code sv cid uri code ver d w = (ro, d', w') \<Longrightarrow> plain_step sv (d, w) (d', w')"
| plain_refresh: "refresh_access_token sv cid t d w = (ro, d', w') \<Longrightarrow> plain_step sv (d, w) (d', w')"
| plain_read: "read_access_token sv t d w = (ra, d', w') \<Longrightarrow> plain_step sv (d, w) (d', w')"
| plain_revoke: "revoke_token sv t d w = (rb, d', w') \<Longrightarrow> plain_step sv (d, w) (d', w')"
| plain_revoke_user: "revoke_tokens_for_user sv uid tid d w = (r, d', w') \<Longrightarrow> plain_step sv (d, w) (d', w')"
| plain_begin_sso: "begin_sso_authorization sv req d w = (rc, d', w') \<Longrightarrow> plain_step sv (d, w) (d', w')"
| plain_complete_sso: "plain_session s \<Longrightarrow> complete_sso_authorization sv h s d w = (rs, d', w') \<Longrightarrow>
    plain_step sv (d, w) (d', w')"
| plain_consume_sso: "consume_pending_sso_state sv h d w = (rk, d', w') \<Longrightarrow> plain_step sv (d, w) (d', w')"
| plain_create_grant: "create_grant (sv_config sv) path s src mime fname d w = (rg, d', w') \<Longrightarrow>
    plain_step sv (d, w) (d', w')"
| plain_verify_grant: "verify_grant (sv_config sv) gid ex sig d w = (rv, d', w') \<Longrightarrow> plain_step sv (d, w) (d', w')"

lemma plain_step_broker: "plain_step sv s t \<Longrightarrow> broker_step sv s t"
proof (induction rule: plain_step.induct)
  case (plain_login authenticate)
  from plain_login(1,3) show ?case by (rule step_login)
qed (blast intro: broker_step.intros)+

lemma login_sealed:
  assumes "sealing_with sv F" and "\<And>b u p i w. later w (snd (authenticate b u p i w))"
    and "\<And>b u p i w s. fst (authenticate b u p i w) = Inr s \<Longrightarrow> plain_session s"
    and run: "begin_authorization sv authenticate cid uri scope ch meth base uname pwd d w = (r, d', w')"
    and "disk_inv sv (d, w)" and "sealed_disk F (d, w)"
  shows "sealed_disk F (d', w')"
proof -
  let ?i = "integration_for_client_id (sv_config sv) cid"
  obtain a w1 where a: "authenticate base uname pwd ?i w = (a, w1)" by fastforce
  have inv: "disk_inv sv (d, w1)"
    using assms(5) disk_inv_step [OF step_good_later] assms(2) [of w base uname pwd ?i] a by (metis snd_conv)
  show ?thesis
  proof (cases a)
    case (Inl e)
    with run a assms(6) show ?thesis by (auto simp: begin_authorization_def sealed_disk_def)
  next
    case (Inr s)
    then have "plain_session s" using assms(3) [of base uname pwd ?i w s] a by simp
    then have plain: "plain_session (stamp_broker_session_metadata s cid ?i)" by simp
    have "store_update (mint_updater sv cid uri scope ch meth (stamp_broker_session_metadata s cid ?i)) d w1 = (r, d', w')"
      using run a Inr by (simp add: begin_authorization_def Let_def)
    then show ?thesis
      using store_update_sealed [OF mint_updater_sealed [OF assms(1) plain]] inv assms(6) by (simp add: sealed_disk_def)
  qed
qed

lemma verify_sealed:
  assumes run: "verify_grant cfg gid ex sig d w = (r, d', w')" and "disk_inv sv (d, w)" and "sealed_disk F (d, w)"
  shows "sealed_disk F (d', w')"
proof -
  let ?w = "w\<lparr>ticks := Suc (ticks w)\<rparr>"
  obtain r1 d1 w1 where upd: "store_update (lookup_grant_updater (the gid)) d ?w = (r1, d1, w1)"
    by (metis prod_cases3)
  have "disk_inv sv (d, ?w)" using assms(2) by (rule disk_inv_step [OF step_good_later, rotated]) simp
  then have "sealed_disk F (d1, w1)"
    using store_update_sealed [OF lookup_grant_sealed upd] assms(3) by (simp add: sealed_disk_def)
  moreover have "d' = d \<or> d' = d1"
    using run upd
    by (auto simp: verify_grant_def Let_def compare_digest_def split: if_splits option.splits sum.splits bool.splits)
  ultimately show ?thesis using assms(3) by (auto simp: sealed_disk_def)
qed

lemma plain_step_sealed:
  assumes "plain_step sv s t" and c: "sealing_with sv F" and "disk_inv sv s" and "sealed_disk F s"
  shows "sealed_disk F t"
  using assms(1,3,4)
proof (induction rule: plain_step.induct)
  case (plain_world w w' d)
  then show ?case by (simp add: sealed_disk_def)
next
  case (plain_prune d w r d' w')
  have "keeps_sealed sv F (\<lambda>st w. case svc_prune sv st w of (st', w') \<Rightarrow> (Inr () :: exn + unit, st', w'))"
    by (auto simp: keeps_sealed_def intro: sealed_prune)
  then show ?case using plain_prune unfolding prune_def by (rule store_update_sealed)
next
  case (plain_login authenticate)
  from c plain_login show ?case by (rule login_sealed)
next
  case (plain_begin s cid uri scope ch meth d w rc d' w')
  let ?s = "stamp_broker_session_metadata s cid (integration_for_client_id (sv_config sv) cid)"
  have "plain_session ?s" using plain_begin(1) by simp
  from store_update_sealed [OF mint_updater_sealed [OF c this]] plain_begin(2-4) show ?case
    unfolding begin_authorization_from_session_def Let_def by blast
next
  case (plain_exchange cid uri code ver d w ro d' w')
  from c plain_exchange show ?case by (rule exchange_sealed)
next
  case (plain_refresh cid t d w ro d' w')
  then show ?case
    using store_update_sealed [OF refresh_updater_sealed [OF c]]
    by (auto simp: refresh_access_token_def sealed_disk_def split: if_splits)
next
  case (plain_read t d w ra d' w')
  obtain r1 d1 w1 where run: "store_update (read_access_updater sv t) d w = (r1, d1, w1)" by (metis prod_cases3)
  with plain_read(1) have "d' = d1" by (auto simp: read_access_token_def split: sum.splits option.splits)
  with store_update_sealed [OF read_updater_sealed run plain_read(2,3)] show ?case by (simp add: sealed_disk_def)
next
  case (plain_revoke t d w rb d' w')
  then show ?case unfolding revoke_token_def by (rule store_update_sealed [OF revoke_updater_sealed])
next
  case (plain_revoke_user uid tid d w r d' w')
  then show ?case unfolding revoke_tokens_for_user_def by (rule store_update_sealed [OF revoke_user_updater_sealed])
next
  case (plain_begin_sso req d w rc d' w')
  have "disk_inv sv (d, w\<lparr>ticks := Suc (ticks w)\<rparr>)"
    using plain_begin_sso(2) by (rule disk_inv_step [OF step_good_later, rotated]) simp
  with plain_begin_sso show ?case
    using store_update_sealed [OF begin_sso_updater_sealed]
    by (auto simp: begin_sso_authorization_def Let_def sealed_disk_def)
next
  case (plain_complete_sso s h d w rs d' w')
  then show ?case
    unfolding complete_sso_authorization_def
    using store_update_sealed [OF complete_updater_sealed [OF c plain_complete_sso(1)]] by blast
next
  case (plain_consume_sso h d w rk d' w')
  then show ?case unfolding consume_pending_sso_state_def by (rule store_update_sealed [OF consume_updater_sealed])
next
  case (plain_create_grant path s src mime fname d w rg d' w')
  then show ?case unfolding create_grant_def by (rule store_update_sealed [OF create_grant_sealed])
next
  case (plain_verify_grant gid ex sig d w rv d' w')
  then show ?case by (rule verify_sealed)
qed

text \<open>The invariant of such runs: the one of all runs, and the secrets at rest.\<close>

interpretation sealed_run: step_invariant "plain_step sv" "\<lambda>s. disk_inv sv s \<and> (sealing_with sv F \<longrightarrow> sealed_disk F s)" for sv F
  by unfold_locales (blast intro: plain_step_sealed disk_inv_step broker_step_good plain_step_broker)

lemma plain_run_sealed:
  assumes "reach (plain_step sv) (Some initial_store, w0) (Some st, w)" and "sealing_with sv F"
  shows "sealed_store F st"
  using sealed_run.reach_inv [OF assms(1), of F] assms(2) store_inv_initial sealed_initial
  by (auto simp: disk_inv_def sealed_disk_def)

end
