(* ===== verification/Store_Properties.thy ===== *)
theory Store_Properties
  imports Sample_Data Sealed_Store
begin

text \<open>
  What holds of the store in every reachable state, of the secrets in it, and of its file.
\<close>

section \<open>The invariant\<close>

text \<open>C15. In every state the broker can reach from an empty store, by any sequence of calls with any
  arguments, the file loads and the store is well formed: keys are distinct, every record sits
  under the token it names, every token came out of the random generator, every access and
  refresh record belongs to a configured client, and sensitive leaves are stored as the cipher
  leaves them.\<close>

theorem reachable_store_inv:
  assumes "reach (broker_step sv) (Some initial_store, w0) (d, w)"
  shows "\<exists>st. d = Some st \<and> store_inv sv w st"
  using disk.reach_inv [OF assms] store_inv_initial by (auto simp: disk_inv_def)

lemma plain_run_broker: "reach (plain_step sv) s t \<Longrightarrow> reach (broker_step sv) s t"
  by (induction rule: reach.induct) (auto intro: reach_refl reach_step plain_step_broker)

lemma sealing_run:
  obtains code q st w where
    "reach (plain_step sealing_service) (Some initial_store, sample_world) (Some st, w)"
    "dict_get (authorizationCodes st) code = Some q" "truthy_str (us_email (ss_user (ac_session q)))"
proof -
  let ?s = "stamp_broker_session_metadata sample_session ''c1''
     (integration_for_client_id (sv_config sealing_service) ''c1'')"
  obtain code st w where m: "mint_authorization_code sealing_service ''c1'' ''https://app.example/cb'' ''openid''
      (Some ''c'') None ?s initial_store sample_world = (code, st, w)"
    by (metis prod_cases3)
  then have "begin_authorization_from_session sealing_service ''c1'' ''https://app.example/cb'' ''openid'' (Some ''c'') None
      sample_session (Some initial_store) sample_world = (Inr code, Some st, w)"
    by (simp add: begin_authorization_from_session_def Let_def store_update_Some mint_updater_def)
  then have run: "reach (plain_step sealing_service) (Some initial_store, sample_world) (Some st, w)"
    by (intro reach_step [OF reach_refl] plain_begin [OF sample_plain])
  have email: "truthy_str (us_email (ss_user sealed))" if "seal_session (sv_cipher sealing_service) ?s u = (sealed, v)" for sealed u v
    using that by (auto simp: seal_session_def seal_leaf_def sealing_service_def sample_session_def
        stamp_broker_session_metadata_def Let_def ENC_PREFIX_def startswith_def split: prod.splits)
  obtain q u v where "dict_get (authorizationCodes st) code = Some q"
    and "seal_session (sv_cipher sealing_service) ?s u = (ac_session q, v)"
    using m by (rule mint_effect) simp
  with email show thesis using that [OF run] by blast
qed

theorem reachable_store_inv_witness:
  "\<exists>st w code. reach (broker_step sealing_service) (Some initial_store, sample_world) (Some st, w) \<and>
     dict_get (authorizationCodes st) code \<noteq> None \<and> store_inv sealing_service w st"
  by (rule sealing_run) (use reachable_store_inv plain_run_broker in blast)

section \<open>Secrets at rest\<close>

definition sessions_of :: "broker_store \<Rightarrow> session set" where
  "sessions_of st = ac_session ` (snd ` set (authorizationCodes st)) \<union>
     at_session ` (snd ` set (accessTokens st)) \<union> rt_session ` (snd ` set (refreshTokens st))"

lemma sample_fernet_ok: "fernet_ok sample_fernet"
proof -
  have lt: "of_char c div 16 < (16 :: nat)" for c :: char
    using nat_of_char_less_256 [of c] by (simp add: less_mult_imp_div_less)
  have "unpair (concat (map (\<lambda>c. [nibble (of_char c div 16), nibble (of_char c mod 16)]) v)) = v \<and>
      py_isascii (concat (map (\<lambda>c. [nibble (of_char c div 16), nibble (of_char c mod 16)]) v))" for v
  proof (induction v)
    case (Cons c v)
    with lt [of c] show ?case by (simp add: nibble_def py_isascii_def is_ascii_char_def)
  qed (simp add: py_isascii_def)
  then show ?thesis by (simp add: fernet_ok_def sample_fernet_def)
qed

text \<open>C16. With an encryption key configured, no ResourceSpace session key and no email address is ever
  stored in the clear. In every state that is reached by calls in which no session is handed in with
  such a leaf that already looks sealed (a text that starts with the prefix of the cipher is stored as
  it is), each of those leaves of each session of each bucket is absent, empty, or the prefix followed
  by what the cipher made of some text, and it is that text that opening the leaf with the key gives
  back. The cipher is any whose decryption inverts its encryption.\<close>

theorem sealed_at_rest:
  assumes "reach (plain_step sv) (Some initial_store, w0) (Some st, w)"
    and "sv_cipher sv = FernetFieldCipher F" and "fernet_ok F" and "s \<in> sessions_of st"
    and "v = up_sessionKey (ss_upstream s) \<or> v = us_email (ss_user s)"
  shows "v = None \<or> v = Some [] \<or>
    (\<exists>n p. plain p \<and> p \<noteq> [] \<and> v = Some (ENC_PREFIX @ fernet_encrypt F n p) \<and> open_leaf (sv_cipher sv) v = Inr (Some p))"
proof -
  have st: "sealed_store F st" using plain_run_sealed [OF assms(1)] assms(2,3) by (simp add: sealing_with_def)
  have "session_at_rest F s"
    using assms(4) sealed_storeD [OF st] by (auto simp: sessions_of_def dict_all_def)
  then have "leaf_at_rest F v" using assms(5) by (auto simp: session_at_rest_def)
  moreover have "open_leaf (sv_cipher sv) (Some (ENC_PREFIX @ fernet_encrypt F n p)) = Inr (Some p)" for n p
    using assms(2,3) by (simp add: open_leaf_def fernet_ok_def ENC_PREFIX_def startswith_def)
  ultimately show ?thesis unfolding leaf_at_rest_def by (metis option.exhaust)
qed

theorem sealed_at_rest_witness:
  "\<exists>st s w n p. reach (plain_step sealing_service) (Some initial_store, sample_world) (Some st, w) \<and> s \<in> sessions_of st \<and>
     plain p \<and> us_email (ss_user s) = Some (ENC_PREFIX @ fernet_encrypt sample_fernet n p)"
proof -
  obtain code q st w where r: "reach (plain_step sealing_service) (Some initial_store, sample_world) (Some st, w)"
    and c: "dict_get (authorizationCodes st) code = Some q" and email: "truthy_str (us_email (ss_user (ac_session q)))"
    by (rule sealing_run)
  from c have "(code, q) \<in> set (authorizationCodes st)" by (auto dest: map_of_SomeD)
  then have s: "ac_session q \<in> sessions_of st" unfolding sessions_of_def by force
  have F: "sv_cipher sealing_service = FernetFieldCipher sample_fernet" by (simp add: sealing_service_def)
  from sealed_at_rest [OF r F sample_fernet_ok s disjI2 [OF refl]] email r s show ?thesis
    unfolding truthy_str_def by blast
qed

text \<open>Sealing a session and opening the result gives the session back, for every cipher that is
  right inverse to itself and every session that does not already look sealed.\<close>

theorem sealed_session_opens:
  assumes "cipher_ok c" and "plain_session s" and "seal_session c s w = (s', w')"
  shows "open_session_dict c s' = Inr s"
  using assms by (rule open_seal_session)

theorem sealed_session_opens_witness:
  "open_session_dict (FernetFieldCipher sample_fernet)
     (fst (seal_session (FernetFieldCipher sample_fernet) sample_session sample_world)) = Inr sample_session"
  by (rule sealed_session_opens [of _ _ sample_world]) (auto simp: sample_fernet_ok sample_plain intro: prod_eqI)

section \<open>The file\<close>

text \<open>What is saved loads back unchanged, strictly (as every write does) and leniently alike.\<close>

theorem saved_store_loads:
  assumes "map fst st = bucket_names"
  shows "load (save st) strict = Inr st"
  using assms by (rule load_save)

theorem saved_store_loads_witness:
  "load (save [(''authorizationCodes'', [(''k'', JInt 1)]), (''accessTokens'', []), (''refreshTokens'', []),
     (''assetGrants'', []), (''pendingSsoStates'', [])]) True =
   Inr [(''authorizationCodes'', [(''k'', JInt 1)]), (''accessTokens'', []), (''refreshTokens'', []),
     (''assetGrants'', []), (''pendingSsoStates'', [])]"
  by (rule saved_store_loads) (simp add: bucket_names_def)

text \<open>A write never starts from a damaged file: the strict load succeeds only on an object whose
  buckets are absent or objects, it then agrees with the lenient load, and it always yields the
  five buckets in order; the lenient load never fails.\<close>

theorem strict_load_sound:
  "case load doc True of
     Inr st \<Rightarrow> load doc False = Inr st \<and> map fst st = bucket_names \<and>
       (\<exists>d. doc = Some (JObj d) \<and> list_all (\<lambda>(k, b). dict_get d k = Some (JObj b) \<or> dict_get d k = None \<and> b = []) st)
   | Inl e \<Rightarrow> e = StoreLoadError \<and> (\<exists>st. load doc False = Inr st)"
proof -
  have err: "merge_buckets True d keys = Inl e \<Longrightarrow> e = StoreLoadError" for d keys e
    by (induction keys) (auto simp: merge_bucket_def split: sum.splits option.splits json.splits)
  have ok: "list_all (\<lambda>(k, b). dict_get d k = Some (JObj b) \<or> dict_get d k = None \<and> b = []) st"
    if "merge_buckets True d keys = Inr st" for d keys st
    using that by (induction keys arbitrary: st) (auto simp: merge_bucket_strict split: sum.splits)
  show ?thesis
  proof (cases doc)
    case None
    then show ?thesis by (simp add: load_def)
  next
    case (Some j)
    show ?thesis
    proof (cases j)
      case (JObj d)
      with Some show ?thesis
        using err [of d bucket_names] ok [of d bucket_names] merge_buckets_strict_imp [of d bucket_names _ False]
          merge_buckets_keys [of True d bucket_names] merge_buckets_lenient [of d bucket_names]
        by (auto simp: load_def merge_store_def split: sum.split)
    qed (simp_all add: Some load_def merge_store_def)
  qed
qed

text \<open>A transaction is all or nothing: an updater that raises leaves the file as it was, one that
  returns installs exactly its state, and a file that does not load is never touched.\<close>

theorem transaction_atomic:
  "case store_update f d w of
     (Inl e, d', w') \<Rightarrow> d' = d
   | (Inr r, d', w') \<Rightarrow> (\<exists>st st'. d = Some st \<and> f st w = (Inr r, st', w') \<and> d' = Some st')"
  by (auto split: prod.splits sum.splits dest: store.rollback store.commit)

section \<open>Pruning\<close>

text \<open>Pruning at a time keeps exactly the live records and forgets nothing else, and pruning
  twice is pruning at the later time.\<close>

theorem prune_exact:
  assumes "wf_store st" and "now \<le> now'"
  shows "dict_get (authorizationCodes (prune_expired st now g)) k =
      (case dict_get (authorizationCodes st) k of None \<Rightarrow> None | Some r \<Rightarrow> if ac_expiresAt r \<le> now then None else Some r) \<and>
    dict_get (accessTokens (prune_expired st now g)) k =
      (case dict_get (accessTokens st) k of None \<Rightarrow> None
       | Some r \<Rightarrow> if at_expiresAt r \<le> now \<or> truthy_int (at_revokedAt r) then None else Some r) \<and>
    dict_get (pendingSsoStates (prune_expired st now g)) k =
      (case dict_get (pendingSsoStates st) k of None \<Rightarrow> None | Some r \<Rightarrow> if ps_purgeAt r \<le> now then None else Some r) \<and>
    prune_expired (prune_expired st now g) now' g = prune_expired st now' g"
  using assms by (auto simp: wf_storeD code_dead_def access_dead_def pending_dead_def prune_expired_later split: option.splits)

theorem prune_exact_witness:
  "dict_get (authorizationCodes (prune_expired sample_store 2000000 60000)) ''code_x'' = None \<and>
   prune_expired (prune_expired sample_store 2000000 60000) 3000000 60000 = prune_expired sample_store 3000000 60000"
  using prune_exact [OF sample_wf, of 2000000 3000000 60000 "''code_x''"]
  by (simp add: sample_store_def sample_code_def)

end
