(* ===== verification/Asset_Properties.thy ===== *)
theory Asset_Properties
  imports Sample_Data
begin

text \<open>
  The correctness of asset grants: exactly which signed links are accepted, that a link just
  created is accepted until it expires, that revoking a user stops the links, and that file names
  cannot break out of the response headers.
\<close>

section \<open>Verification of a link\<close>

lemma signature_ascii: "py_isascii (create_signature g n k)"
  by (simp add: create_signature_def b64url_nopad_body b64_body_ascii)

lemma signature_nonempty: "create_signature g n k \<noteq> []"
proof -
  have "length (create_signature g n k) = 43" by (simp add: create_signature_def length_b64url_digest)
  then show ?thesis by auto
qed

text \<open>The grant a link presents, if it is acceptable for a call that starts at a world.\<close>

definition link_acceptable ::
  "app_config \<Rightarrow> broker_store \<Rightarrow> world \<Rightarrow> string \<Rightarrow> string \<Rightarrow> string \<Rightarrow> asset_grant \<Rightarrow> bool"
where
  "link_acceptable cfg st w gid ex sig g \<longleftrightarrow>
     gid \<noteq> [] \<and> ex \<noteq> [] \<and>
     (\<exists>n. py_int ex = Some n \<and> now_of w \<le> n \<and> sig = create_signature gid n (asset_secret (signing cfg)) \<and>
        dict_get (assetGrants st) gid = Some g \<and> clock w (Suc (ticks w)) < ag_expiresAt g \<and>
        clock w (Suc (Suc (ticks w))) \<le> ag_expiresAt g)"

lemma verify_grant_accepts:
  assumes wf: "wf_store st"
  shows "(\<exists>d' w'. verify_grant cfg (Some gid) (Some ex) (Some sig) (Some st) w = (Inr (GrantOk g), d', w')) \<longleftrightarrow>
    link_acceptable cfg st w gid ex sig g"
proof (cases "gid = [] \<or> ex = [] \<or> sig = []")
  case True
  then show ?thesis by (auto simp: verify_grant_def link_acceptable_def signature_nonempty)
next
  case given: False
  show ?thesis
  proof (cases "py_int ex")
    case None
    with given show ?thesis by (simp add: verify_grant_def link_acceptable_def)
  next
    case (Some n)
    let ?w = "w\<lparr>ticks := Suc (ticks w)\<rparr>"
    have look: "store_update (lookup_grant_updater gid) (Some st) ?w =
        (Inr (case dict_get (assetGrants st) gid of None \<Rightarrow> None
              | Some g \<Rightarrow> if grant_dead (clock w (Suc (ticks w))) g then None else Some g),
         Some (prune_expired_grants st (clock w (Suc (ticks w)))), w\<lparr>ticks := Suc (Suc (ticks w))\<rparr>)"
      using wf by (simp add: store_update_Some lookup_grant_updater_def Let_def prune_expired_grants_def wf_storeD)
    show ?thesis
    proof (cases "now_of w \<le> n \<and> sig = create_signature gid n (asset_secret (signing cfg))")
      case False
      with given Some show ?thesis
        by (auto simp: verify_grant_def link_acceptable_def Let_def compare_digest_def)
    next
      case True
      with given Some look show ?thesis
        by (auto simp: verify_grant_def link_acceptable_def Let_def compare_digest_def signature_ascii grant_dead_def
            split: option.splits if_splits)
    qed
  qed
qed

text \<open>C13. A signed link is accepted if and only if its expiry parses as a number that has not passed,
  its signature is the HMAC of exactly this grant and this expiry under the asset secret, and the
  store holds the grant, which has not expired itself. Nothing else delivers an asset.\<close>

theorem verify_grant_iff:
  assumes wf: "wf_store st"
  shows "(\<exists>d' w'. verify_grant cfg (Some gid) (Some ex) (Some sig) (Some st) w = (Inr (GrantOk g), d', w')) \<longleftrightarrow>
    link_acceptable cfg st w gid ex sig g"
  using wf by (rule verify_grant_accepts)

lemma sample_expiry: "py_int ''1300000'' = Some 1300000"
  by code_simp

theorem verify_grant_iff_witness:
  "\<exists>d' w'. verify_grant sample_config (Some ''grant_xxxx'') (Some ''1300000'')
     (Some (create_signature ''grant_xxxx'' 1300000 (asset_secret (signing sample_config)))) (Some sample_store) sample_world =
     (Inr (GrantOk sample_grant), d', w')"
proof -
  have "link_acceptable sample_config sample_store sample_world ''grant_xxxx'' ''1300000''
     (create_signature ''grant_xxxx'' 1300000 (asset_secret (signing sample_config))) sample_grant"
    by (simp add: link_acceptable_def sample_expiry sample_store_def sample_world_def sample_grant_def)
  with verify_grant_iff [OF sample_wf] show ?thesis by blast
qed

section \<open>A link that was just created\<close>

text \<open>C14. Creating a grant returns a link whose query carries its expiry and signature, and that very
  grant id, expiry and signature are accepted, with the grant recorded for the session's user and
  tenant, by every verification that starts afterwards and finishes before the expiry.\<close>

theorem created_link_accepted:
  assumes run: "create_grant cfg path s src mime fname (Some st) w = (Inr link, Some st1, w1)"
    and wf: "wf_store st" and l: "later w1 w2"
    and pos: "0 \<le> ag_expiresAt (grant_record cfg s src mime fname w)"
    and small: "ag_expiresAt (grant_record cfg s src mime fname w) < 10 ^ 18"
    and before: "\<And>i. i \<le> Suc (Suc (ticks w2)) \<Longrightarrow> clock w i < ag_expiresAt (grant_record cfg s src mime fname w)"
  defines "g \<equiv> grant_record cfg s src mime fname w"
  defines "sig \<equiv> create_signature (ag_grantId g) (ag_expiresAt g) (asset_secret (signing cfg))"
  shows "gl_grantId link = ag_grantId g \<and>
    gl_url link = base_url cfg @ path @ ''/'' @ ag_grantId g @ ''?'' @
      urlencode [(''expires'', str_of_int (ag_expiresAt g)), (''sig'', sig)] \<and>
    (\<exists>d' w'. verify_grant cfg (Some (ag_grantId g)) (Some (str_of_int (ag_expiresAt g))) (Some sig) (Some st1) w2 =
       (Inr (GrantOk g), d', w'))"
proof -
  have upd: "create_grant_updater cfg path s src mime fname st w = (Inr link, st1, w1)"
    using run by (auto simp: create_grant_def store_update_Some split: prod.splits sum.splits)
  note eff = create_grant_effect [OF upd]
  have st1: "st1 = st\<lparr>assetGrants := AList.update (ag_grantId g) g (prune_dict (grant_dead (now_of w)) (assetGrants st))\<rparr>"
    and w1: "w1 = w\<lparr>ticks := Suc (Suc (ticks w)), draws := Suc (draws w)\<rparr>"
    using eff by (simp_all add: g_def)
  have wf1: "wf_store st1" using wf by (simp add: st1 wf_store_def)
  have same: "clock w2 = clock w" using l by (simp add: later_def w1)
  obtain n where n: "ag_expiresAt g = int n" using pos unfolding g_def by (metis nonneg_int_cases)
  have "int n < 10 ^ 18" using small n unfolding g_def by simp
  then have "n < 10 ^ 18" by simp
  then have "length (nat_digits n) \<le> 4300" using length_nat_digits [of n 18] by simp
  then have int: "py_int (str_of_int (ag_expiresAt g)) = Some (ag_expiresAt g)"
    using py_int_str_of_nat [of n] n by simp
  have "str_of_int (ag_expiresAt g) \<noteq> []" by (simp add: n str_of_int_def)
  moreover have "ag_grantId g \<noteq> []" by (simp add: g_def grant_record_def)
  moreover have "dict_get (assetGrants st1) (ag_grantId g) = Some g" by (simp add: st1)
  ultimately have "link_acceptable cfg st1 w2 (ag_grantId g) (str_of_int (ag_expiresAt g)) sig g"
    using int before unfolding g_def [symmetric] link_acceptable_def sig_def same by (auto intro: less_imp_le)
  then have "\<exists>d' w'. verify_grant cfg (Some (ag_grantId g)) (Some (str_of_int (ag_expiresAt g))) (Some sig) (Some st1) w2 =
       (Inr (GrantOk g), d', w')"
    using verify_grant_accepts [OF wf1] by blast
  with eff show ?thesis by (simp add: g_def sig_def)
qed

lemma epoch_day: "civil_from_days 0 = (1970, 1, 1)"
  by code_simp

lemma sample_link:
  obtains link st1 w1 where
    "create_grant sample_config ''/signed/assets'' sample_session (ProxySource ''https://rs.example/a.png'' ''image/png'')
       None None (Some sample_store) sample_world = (Inr link, Some st1, w1)"
proof -
  have ex: "clock sample_world (Suc (ticks sample_world)) + signed_url_ttl_seconds (oauth sample_config) * 1000 = 1300001"
    by (simp add: sample_world_def sample_config_def)
  obtain t where "iso_from_ms (clock sample_world (Suc (ticks sample_world)) + signed_url_ttl_seconds (oauth sample_config) * 1000) = Inr t"
    unfolding ex by (simp add: iso_from_ms_def epoch_day)
  then show thesis using that
    by (simp add: create_grant_def store_update_Some create_grant_updater_def Let_def random_token_def)
qed

theorem created_link_accepted_witness:
  "\<exists>link st1 w1 d' w' g sig.
     create_grant sample_config ''/signed/assets'' sample_session (ProxySource ''https://rs.example/a.png'' ''image/png'')
       None None (Some sample_store) sample_world = (Inr link, Some st1, w1) \<and>
     verify_grant sample_config (Some (gl_grantId link)) (Some (str_of_int 1300001)) (Some sig) (Some st1) w1 =
       (Inr (GrantOk g), d', w')"
proof -
  obtain link st1 w1 where run: "create_grant sample_config ''/signed/assets'' sample_session
      (ProxySource ''https://rs.example/a.png'' ''image/png'') None None (Some sample_store) sample_world = (Inr link, Some st1, w1)"
    by (rule sample_link)
  let ?g = "grant_record sample_config sample_session (ProxySource ''https://rs.example/a.png'' ''image/png'') None None sample_world"
  have ex: "ag_expiresAt ?g = 1300001"
    by (simp add: grant_record_def sample_world_def sample_config_def)
  have "create_grant_updater sample_config ''/signed/assets'' sample_session
      (ProxySource ''https://rs.example/a.png'' ''image/png'') None None sample_store sample_world = (Inr link, st1, w1)"
    using run by (auto simp: create_grant_def store_update_Some split: prod.splits sum.splits)
  from create_grant_effect [OF this] have w1: "ticks w1 = 2" by (simp add: sample_world_def)
  have "clock sample_world i < ag_expiresAt ?g" if "i \<le> Suc (Suc (ticks w1))" for i
    using that by (simp add: w1 ex) (simp add: sample_world_def)
  from created_link_accepted [OF run sample_wf later_refl _ _ this] run
  show ?thesis by (auto simp: ex)
qed

section \<open>Links of a revoked user\<close>

text \<open>C12. After the tokens of a user are revoked, no link to an asset that was granted to that user in
  that tenant is accepted any more, in any continuation, whatever expiry and signature it carries.\<close>

theorem revoked_user_links_dead:
  assumes inv: "store_inv sv w st" and inj: "inj (rand w)" and pos: "clock_pos w"
    and g: "dict_get (assetGrants st) gid = Some g" and own: "ag_userId g = uid \<and> ag_tenantId g = tid"
    and rev: "revoke_tokens_for_user sv uid tid (Some st) w = (res, d1, w1)"
    and run: "reach (broker_step sv) (d1, w1) (d2, w2)"
  shows "verify_grant (sv_config sv) (Some gid) (Some ex) (Some sig) d2 w2 \<noteq> (Inr (GrantOk g'), d3, w3)"
proof
  assume ok: "verify_grant (sv_config sv) (Some gid) (Some ex) (Some sig) d2 w2 = (Inr (GrantOk g'), d3, w3)"
  have iss: "issued ''grant'' w gid" using dict_allD [OF store_invD(5) [OF inv] g] by (simp add: grant_ok_def)
  obtain st1 where st1: "d1 = Some st1" "store_inv sv w1 st1" and l: "later w w1"
    by (rule revoke_user_run [OF rev inv])
  have dead: "\<forall>q. dict_get (assetGrants st1) gid = Some q \<longrightarrow> ag_expiresAt q = 0"
    using revoke_user_effect [OF rev] g own store_inv_buckets(4) [OF inv] by (auto simp: st1(1) split: if_splits)
  obtain st2 where st2: "d2 = Some st2" "store_inv sv w2 st2" "growth w1 st1 st2" and l2: "later w1 w2"
    using run_growth [OF run [unfolded st1(1)] st1(2)] by blast
  have acc: "link_acceptable (sv_config sv) st2 w2 gid ex sig g'"
    using verify_grant_accepts [OF store_invD(1) [OF st2(2)]] ok [unfolded st2(1)] by blast
  then have get2: "dict_get (assetGrants st2) gid = Some g'" unfolding link_acceptable_def by blast
  have inj1: "inj (rand w1)" and iss1: "issued ''grant'' w1 gid"
    using inj inj_later [OF l] issued_later [OF iss l] by auto
  obtain q where "dict_get (assetGrants st1) gid = Some q" "grant_kept q g'"
    using kept_get [OF growthD(4) [OF st2(3)] inj1 iss1 store_inv_buckets(4) [OF st1(2)] get2] .
  with dead have "ag_expiresAt g' = 0" by (auto simp: grant_kept_def)
  moreover have "clock_pos w2" using pos clock_pos_later [OF l] clock_pos_later [OF l2] by simp
  ultimately show False using acc by (auto simp: link_acceptable_def clock_pos_def dest: less_asym)
qed

theorem revoked_user_links_dead_witness:
  "\<exists>d1 w1. revoke_tokens_for_user sample_service ''u1'' ''t1'' (Some sample_store) sample_world = (Inr (), d1, w1) \<and>
     (\<forall>ex sig g d3 w3. verify_grant sample_config (Some ''grant_xxxx'') (Some ex) (Some sig) d1 w1 \<noteq> (Inr (GrantOk g), d3, w3))"
proof -
  obtain d1 w1 where rev: "revoke_tokens_for_user sample_service ''u1'' ''t1'' (Some sample_store) sample_world = (Inr (), d1, w1)"
    by (simp add: revoke_tokens_for_user_def store_update_Some revoke_user_updater_def Let_def)
  have "dict_get (assetGrants sample_store) ''grant_xxxx'' = Some sample_grant"
    "ag_userId sample_grant = ''u1'' \<and> ag_tenantId sample_grant = ''t1''"
    by (simp_all add: sample_store_def sample_grant_def)
  from revoked_user_links_dead [OF sample_inv sample_rand_inj sample_clock_pos this rev reach_refl] rev
  show ?thesis by (auto simp: sample_service_def)
qed

section \<open>Headers\<close>

text \<open>Whatever the file name, the Content-Disposition value is printable ASCII of the intended
  shape: a non-empty quoted fallback that contains no quote and no control character, then an
  encoded name of unreserved characters and percent escapes only. Nothing in a file name can end
  the header or start another one; but a backslash is kept, so a name that ends in one escapes the
  closing quote.\<close>

theorem disposition_safe:
  "\<exists>fallback encoded.
     disposition kind filename =
       kind @ ''; filename='' @ [CHR 0x22] @ fallback @ [CHR 0x22] @ ''; filename*=UTF-8'' @ [CHR 0x27, CHR 0x27] @ encoded \<and>
     fallback \<noteq> [] \<and> list_all (\<lambda>c. 32 \<le> char_code c \<and> char_code c < 127 \<and> c \<noteq> CHR 0x22) fallback \<and>
     list_all (\<lambda>c. unreserved (char_code c) \<or> c = CHR ''%'') encoded"
proof -
  have strip: "set (py_strip s) \<subseteq> set s" for s
    unfolding py_strip_def rstrip_def lstrip_def
    by (metis set_dropWhileD set_rev subsetI)
  have good: "list_all (\<lambda>c. 32 \<le> char_code c \<and> char_code c < 127 \<and> c \<noteq> CHR 0x22)
      (fst (sanitized_filename_parts filename))" (is "list_all ?P _")
  proof -
    let ?s = "filter (\<lambda>c. c \<noteq> CHR 0x22) (filter is_ascii_char (filter (\<lambda>c. \<not> is_control c) filename))"
    have "?P c" if "c \<in> set ?s" for c
      using that by (auto simp: is_control_def is_ascii_char_def)
    then have "list_all ?P (py_strip ?s)" using strip [of ?s] by (auto simp: list_all_iff)
    then show ?thesis by (simp add: sanitized_filename_parts_def Let_def)
  qed
  have ne: "fst (sanitized_filename_parts filename) \<noteq> []"
    by (simp add: sanitized_filename_parts_def Let_def)
  have enc: "list_all (\<lambda>c. unreserved (char_code c) \<or> c = CHR ''%'') (snd (sanitized_filename_parts filename))"
    by (auto simp: sanitized_filename_parts_def Let_def list_all_iff dest: quote_chars)
  obtain f e where p: "sanitized_filename_parts filename = (f, e)" by fastforce
  have "disposition kind filename =
      kind @ ''; filename='' @ [CHR 0x22] @ f @ [CHR 0x22] @ ''; filename*=UTF-8'' @ [CHR 0x27, CHR 0x27] @ e"
    by (simp only: disposition_def p prod.case)
  moreover from good ne enc have "f \<noteq> []" "list_all ?P f" "list_all (\<lambda>c. unreserved (char_code c) \<or> c = CHR ''%'') e"
    by (simp_all only: p fst_conv snd_conv not_False_eq_True)
  ultimately show ?thesis by blast
qed

text \<open>Every delivered asset carries the no-sniff and the sandboxing policy headers, and an SVG that
  comes from the proxied upstream is delivered as an attachment of neutral type, so it is never
  rendered as an active document.\<close>

theorem delivered_asset_hardened:
  "let hs = harden_asset_response_headers headers content_type filename from_proxy in
    dict_get hs ''X-Content-Type-Options'' = Some ''nosniff'' \<and>
    dict_get hs ''Content-Security-Policy'' = Some (''default-src '' @ [CHR 0x27] @ ''none'' @ [CHR 0x27] @ ''; sandbox'') \<and>
    (if from_proxy \<and> is_svg_content_type (Some content_type) then
       dict_get hs ''Content-Type'' = Some ''application/octet-stream'' \<and>
       dict_get hs ''Content-Disposition'' = Some (attachment_content_disposition (str_or filename ''download.svg''))
     else dict_get hs ''Content-Type'' = dict_get headers ''Content-Type'' \<and>
       dict_get hs ''Content-Disposition'' = dict_get headers ''Content-Disposition'')"
  by (simp add: harden_asset_response_headers_def Let_def)

end
