(* ===== verification/Rate_Limiter.thy ===== *)
theory Rate_Limiter
  imports Broker_Prelude
begin

text \<open>
  \<^verbatim>\<open>services/rate_limiter.py\<close>: the in-process fixed-window rate limiter. \<open>consume\<close> is
  \<^verbatim>\<open>RateLimiter.consume\<close>; \<open>consume_at\<close> is its body after the reading of the clock. The
  abstract specification \<open>spec_consume\<close> is a counter per key that knows nothing of the other
  keys; the refinement says that the shared dictionary and the removal of stale buckets cannot
  be observed. The main result counts the requests admitted in a window exactly.
\<close>

section \<open>The limiter\<close>

record rate_bucket =
  count :: int
  resetAt :: int

record rate_limiter =
  max_requests :: int
  window_ms :: int
  buckets :: "rate_bucket dict"

record rate_result =
  allowed :: bool
  retry_after_ms :: int

definition create_rate_limiter :: "int \<Rightarrow> int \<Rightarrow> rate_limiter" where
  "create_rate_limiter m win = \<lparr>max_requests = m, window_ms = win, buckets = []\<rparr>"

definition drop_stale :: "string \<Rightarrow> int \<Rightarrow> rate_bucket dict \<Rightarrow> rate_bucket dict" where
  "drop_stale key now bs = filter (\<lambda>(k, b). \<not> (resetAt b \<le> now \<and> k \<noteq> key)) bs"

definition consume_at :: "rate_limiter \<Rightarrow> string \<Rightarrow> int \<Rightarrow> rate_result \<times> rate_limiter" where
  "consume_at l key now =
     (let bs = drop_stale key now (buckets l) in
      case dict_get bs key of
        None \<Rightarrow>
          (\<lparr>allowed = True, retry_after_ms = 0\<rparr>,
           l\<lparr>buckets := AList.update key \<lparr>count = 1, resetAt = now + window_ms l\<rparr> bs\<rparr>)
      | Some b \<Rightarrow>
          if resetAt b \<le> now then
            (\<lparr>allowed = True, retry_after_ms = 0\<rparr>,
             l\<lparr>buckets := AList.update key \<lparr>count = 1, resetAt = now + window_ms l\<rparr> bs\<rparr>)
          else if max_requests l \<le> count b then
            (\<lparr>allowed = False, retry_after_ms = resetAt b - now\<rparr>, l\<lparr>buckets := bs\<rparr>)
          else
            (\<lparr>allowed = True, retry_after_ms = 0\<rparr>,
             l\<lparr>buckets := AList.update key (b\<lparr>count := count b + 1\<rparr>) bs\<rparr>))"

definition consume :: "rate_limiter \<Rightarrow> string \<Rightarrow> world \<Rightarrow> rate_result \<times> rate_limiter \<times> world" where
  "consume l key w =
     (case now_ms w of (now, w') \<Rightarrow>
      (case consume_at l key now of (r, l') \<Rightarrow> (r, l', w')))"

text \<open>A sequence of requests: each names its key and the reading of the clock it got.\<close>

fun consume_all :: "rate_limiter \<Rightarrow> (string \<times> int) list \<Rightarrow> rate_result list \<times> rate_limiter" where
  "consume_all l [] = ([], l)"
| "consume_all l ((key, now) # reqs) =
     (case consume_at l key now of (r, l') \<Rightarrow>
      (case consume_all l' reqs of (rs, l'') \<Rightarrow> (r # rs, l'')))"

section \<open>Invariant\<close>

definition wf_limiter :: "rate_limiter \<Rightarrow> bool" where
  "wf_limiter l \<longleftrightarrow> wf_dict (buckets l) \<and>
     (\<forall>(k, b) \<in> set (buckets l). 1 \<le> count b \<and> count b \<le> max 1 (max_requests l))"

lemma get_drop_stale [simp]:
  "dict_get (drop_stale key now bs) key = dict_get bs key"
  by (induction bs) (auto simp: drop_stale_def)

lemma get_drop_stale_other:
  "wf_dict bs \<Longrightarrow> k \<noteq> key \<Longrightarrow> dict_get (drop_stale key now bs) k =
     (case dict_get bs k of None \<Rightarrow> None | Some b \<Rightarrow> if resetAt b \<le> now then None else Some b)"
  by (induction bs) (auto simp: drop_stale_def wf_dict_def map_of_eq_None_iff split: option.splits)

lemma wf_drop_stale [simp]: "wf_dict bs \<Longrightarrow> wf_dict (drop_stale key now bs)"
  by (simp add: wf_dict_def drop_stale_def distinct_map_filter_fst)

lemma drop_stale_subset: "set (drop_stale key now bs) \<subseteq> set bs"
  by (auto simp: drop_stale_def)

lemma set_update_subset: "set (AList.update k v d) \<subseteq> insert (k, v) (set d)"
  by (induction d) auto

lemma consume_at_params:
  "consume_at l key now = (r, l') \<Longrightarrow> max_requests l' = max_requests l \<and> window_ms l' = window_ms l"
  by (auto simp: consume_at_def Let_def split: option.splits if_splits)

lemma wf_consume_at:
  assumes wf: "wf_limiter l" and step: "consume_at l key now = (r, l')"
  shows "wf_limiter l'"
proof -
  let ?bs = "drop_stale key now (buckets l)"
  have bs: "wf_dict ?bs" "\<And>k b. (k, b) \<in> set ?bs \<Longrightarrow> 1 \<le> count b \<and> count b \<le> max 1 (max_requests l)"
    using wf drop_stale_subset by (fastforce simp: wf_limiter_def)+
  have upd: "wf_limiter (l\<lparr>buckets := AList.update key b ?bs\<rparr>)"
    if "1 \<le> count b" "count b \<le> max 1 (max_requests l)" for b
    using bs that set_update_subset [of key b ?bs] by (fastforce simp: wf_limiter_def)
  have keep: "wf_limiter (l\<lparr>buckets := ?bs\<rparr>)"
    using bs by (auto simp: wf_limiter_def)
  have old: "1 \<le> count b" if "dict_get (buckets l) key = Some b" for b
    using wf that by (fastforce simp: wf_limiter_def dest: map_of_SomeD)
  show ?thesis
    using step keep by (auto simp: consume_at_def Let_def intro!: upd dest: old split: option.splits if_splits)
qed

lemma wf_create [simp]: "wf_limiter (create_rate_limiter m win)"
  by (simp add: wf_limiter_def create_rate_limiter_def)

section \<open>The abstract specification and the refinement\<close>

text \<open>What one key sees: the count and the end of its current window, if it has one.\<close>

definition view :: "rate_limiter \<Rightarrow> int \<Rightarrow> string \<Rightarrow> (int \<times> int) option" where
  "view l now key =
     (case dict_get (buckets l) key of
        None \<Rightarrow> None
      | Some b \<Rightarrow> if resetAt b \<le> now then None else Some (count b, resetAt b))"

definition spec_consume :: "int \<Rightarrow> int \<Rightarrow> (int \<times> int) option \<Rightarrow> int \<Rightarrow> rate_result \<times> (int \<times> int) option" where
  "spec_consume m win c now =
     (case c of
        None \<Rightarrow> (\<lparr>allowed = True, retry_after_ms = 0\<rparr>, Some (1, now + win))
      | Some (n, reset) \<Rightarrow>
          if m \<le> n then (\<lparr>allowed = False, retry_after_ms = reset - now\<rparr>, c)
          else (\<lparr>allowed = True, retry_after_ms = 0\<rparr>, Some (n + 1, reset)))"

lemma consume_at_refines:
  assumes "0 < window_ms l" and "consume_at l key now = (r, l')"
  shows "spec_consume (max_requests l) (window_ms l) (view l now key) now = (r, view l' now key)"
  using assms
  by (auto simp: consume_at_def spec_consume_def view_def Let_def split: option.splits if_splits)

lemma consume_at_isolated:
  assumes "wf_limiter l" and "key' \<noteq> key" and "consume_at l key now = (r, l')"
  shows "view l' now key' = view l now key'"
  using assms
  by (auto simp: consume_at_def view_def Let_def wf_limiter_def get_drop_stale_other
      split: option.splits if_splits)

text \<open>\<open>view\<close> at a later time depends on the view at an earlier time only.\<close>

definition age :: "int \<Rightarrow> (int \<times> int) option \<Rightarrow> (int \<times> int) option" where
  "age now c = (case c of None \<Rightarrow> None | Some (n, reset) \<Rightarrow> if reset \<le> now then None else Some (n, reset))"

lemma view_later: "now \<le> now' \<Longrightarrow> view l now' key = age now' (view l now key)"
  by (auto simp: view_def age_def split: option.splits)

section \<open>Admission in a window\<close>

definition admitted :: "string \<Rightarrow> (string \<times> int) list \<Rightarrow> rate_result list \<Rightarrow> nat" where
  "admitted key reqs rs = length (filter (\<lambda>((k, _), r). k = key \<and> allowed r) (zip reqs rs))"

definition asked :: "string \<Rightarrow> (string \<times> int) list \<Rightarrow> nat" where
  "asked key reqs = length (filter (\<lambda>(k, _). k = key) reqs)"

lemma admitted_in_window:
  assumes "wf_limiter l" and "dict_get (buckets l) key = Some b"
    and "\<forall>(k, now) \<in> set reqs. now < resetAt b"
    and "consume_all l reqs = (rs, l')"
  shows "int (admitted key reqs rs) = min (int (asked key reqs)) (max 0 (max_requests l - count b))"
  using assms
proof (induction reqs arbitrary: l b rs)
  case Nil
  then show ?case by (simp add: admitted_def asked_def)
next
  case (Cons req reqs)
  obtain k now where req: "req = (k, now)" by fastforce
  obtain r l1 where step: "consume_at l k now = (r, l1)" by fastforce
  obtain rs1 where rest: "consume_all l1 reqs = (rs1, l')" and rs: "rs = r # rs1"
    using Cons.prems(4) req step by (auto split: prod.splits)
  have wf1: "wf_limiter l1" using wf_consume_at [OF Cons.prems(1) step] .
  have par: "max_requests l1 = max_requests l" using consume_at_params [OF step] by simp
  have live: "now < resetAt b" using Cons.prems(3) req by simp
  show ?case
  proof (cases "k = key")
    case True
    show ?thesis
    proof (cases "max_requests l \<le> count b")
      case full: True
      then have "\<not> allowed r" "dict_get (buckets l1) key = Some b"
        using step True live Cons.prems(2) by (auto simp: consume_at_def Let_def)
      then show ?thesis
        using Cons.IH [OF wf1 _ _ rest] Cons.prems(3) full par True req rs
        by (simp add: admitted_def asked_def)
    next
      case False
      then have "allowed r" "dict_get (buckets l1) key = Some (b\<lparr>count := count b + 1\<rparr>)"
        using step True live Cons.prems(2) by (auto simp: consume_at_def Let_def)
      then show ?thesis
        using Cons.IH [OF wf1 _ _ rest] Cons.prems(3) False par True req rs
        by (simp add: admitted_def asked_def)
    qed
  next
    case False
    then have "dict_get (buckets l1) key = Some b"
      using step live Cons.prems(1,2)
      by (auto simp: consume_at_def Let_def wf_limiter_def get_drop_stale_other split: option.splits if_splits)
    then show ?thesis
      using Cons.IH [OF wf1 _ _ rest] Cons.prems(3) False par req rs
      by (simp add: admitted_def asked_def)
  qed
qed

lemma wf_consume_all:
  "wf_limiter l \<Longrightarrow> consume_all l reqs = (rs, l') \<Longrightarrow> wf_limiter l'"
proof (induction reqs arbitrary: l rs)
  case (Cons req reqs)
  then show ?case by (cases req) (fastforce split: prod.splits dest: wf_consume_at)
qed simp

end
