(* ===== verification/Json_Text.thy ===== *)
theory Json_Text
  imports Json_Store Byte_Codec
begin

text \<open>
  \<^verbatim>\<open>json.dumps\<close> with compact separators and \<^verbatim>\<open>json.loads\<close>, on the JSON values of \<open>Json_Store\<close>. The
  parser takes fuel, one unit per value or member; \<open>loads\<close> gives it more than the length of the
  text, and every step consumes a character. Escapes beyond U+00FF are outside the repertoire of
  the model and refused; a float is kept as its text.
\<close>

section \<open>Printing\<close>

definition hex4 :: "nat \<Rightarrow> string" where
  "hex4 n = [hex_digit (n div 4096), hex_digit (n div 256 mod 16), hex_digit (n div 16 mod 16), hex_digit (n mod 16)]"

definition dump_char :: "char \<Rightarrow> string" where
  "dump_char c =
     (let n = char_code c; bs = CHR 0x5C in
      if n = 34 then [bs, CHR 0x22]
      else if n = 92 then [bs, bs]
      else if n = 10 then [bs, CHR ''n'']
      else if n = 13 then [bs, CHR ''r'']
      else if n = 9 then [bs, CHR ''t'']
      else if n = 12 then [bs, CHR ''f'']
      else if n = 8 then [bs, CHR ''b'']
      else if n < 32 \<or> 126 < n then bs # CHR ''u'' # hex4 n
      else [c])"

definition dump_string :: "string \<Rightarrow> string" where
  "dump_string s = [CHR 0x22] @ concat (map dump_char s) @ [CHR 0x22]"

fun join :: "string \<Rightarrow> string list \<Rightarrow> string" where
  "join sep [] = []"
| "join sep [x] = x"
| "join sep (x # y # xs) = x @ sep @ join sep (y # xs)"

fun dumps :: "json \<Rightarrow> string" where
  "dumps JNull = ''null''"
| "dumps (JBool True) = ''true''"
| "dumps (JBool False) = ''false''"
| "dumps (JInt n) = str_of_int n"
| "dumps (JFloat t) = t"
| "dumps (JStr s) = dump_string s"
| "dumps (JArr js) = ''['' @ join '','' (map dumps js) @ '']''"
| "dumps (JObj kvs) = ''{'' @ join '','' (map (\<lambda>(k, v). dump_string k @ '':'' @ dumps v) kvs) @ ''}''"

section \<open>Parsing\<close>

definition json_space :: "char \<Rightarrow> bool" where
  "json_space c \<longleftrightarrow> char_code c \<in> {32, 9, 10, 13}"

definition skip_ws :: "string \<Rightarrow> string" where
  "skip_ws s = dropWhile json_space s"

definition hex_val :: "char \<Rightarrow> nat option" where
  "hex_val c =
     (let n = char_code c in
      if 48 \<le> n \<and> n \<le> 57 then Some (n - 48)
      else if 65 \<le> n \<and> n \<le> 70 then Some (n - 55)
      else if 97 \<le> n \<and> n \<le> 102 then Some (n - 87)
      else None)"

definition escape_of :: "char \<Rightarrow> char option" where
  "escape_of e =
     (let n = char_code e in
      if n = 34 \<or> n = 92 \<or> n = 47 then Some e
      else if n = 98 then Some (char_of (8 :: nat))
      else if n = 102 then Some (char_of (12 :: nat))
      else if n = 110 then Some (char_of (10 :: nat))
      else if n = 114 then Some (char_of (13 :: nat))
      else if n = 116 then Some (char_of (9 :: nat))
      else None)"

definition scan_hex4 :: "char \<Rightarrow> char \<Rightarrow> char \<Rightarrow> char \<Rightarrow> char option" where
  "scan_hex4 a b c d =
     (case (hex_val a, hex_val b, hex_val c, hex_val d) of
        (Some x, Some y, Some z, Some u) \<Rightarrow>
          (let n = ((x * 16 + y) * 16 + z) * 16 + u in if n < 256 then Some (char_of n) else None)
      | _ \<Rightarrow> None)"

text \<open>The rest of a string literal after its opening quote, and what follows it.\<close>

fun scan_string :: "string \<Rightarrow> (string \<times> string) option" where
  "scan_string [] = None"
| "scan_string (c # cs) =
     (if c = CHR 0x22 then Some ([], cs)
      else if c = CHR 0x5C then
        (case cs of
           [] \<Rightarrow> None
         | e # r \<Rightarrow>
             if e = CHR ''u'' then
               (case r of
                  a # b # d # g # r' \<Rightarrow>
                    (case scan_hex4 a b d g of
                       None \<Rightarrow> None
                     | Some ch \<Rightarrow> map_option (\<lambda>(s, rest). (ch # s, rest)) (scan_string r'))
                | _ \<Rightarrow> None)
             else
               (case escape_of e of
                  None \<Rightarrow> None
                | Some ch \<Rightarrow> map_option (\<lambda>(s, rest). (ch # s, rest)) (scan_string r)))
      else if char_code c < 32 then None
      else map_option (\<lambda>(s, rest). (c # s, rest)) (scan_string cs))"

text \<open>The fraction and the exponent of a number; nothing is consumed when there is none.\<close>

definition scan_frac :: "string \<Rightarrow> string \<times> string" where
  "scan_frac s =
     (case s of
        c # cs \<Rightarrow>
          if c = CHR ''.'' \<and> takeWhile is_decimal cs \<noteq> [] then
            (c # takeWhile is_decimal cs, dropWhile is_decimal cs)
          else ([], s)
      | [] \<Rightarrow> ([], s))"

definition scan_exp :: "string \<Rightarrow> string \<times> string" where
  "scan_exp s =
     (case s of
        c # cs \<Rightarrow>
          (let (sign, ds) = (case cs of x # r \<Rightarrow> if x = CHR ''+'' \<or> x = CHR ''-'' then ([x], r) else ([], cs)
                             | [] \<Rightarrow> ([], cs))
           in if (c = CHR ''e'' \<or> c = CHR ''E'') \<and> takeWhile is_decimal ds \<noteq> [] then
                (c # sign @ takeWhile is_decimal ds, dropWhile is_decimal ds)
              else ([], s))
      | [] \<Rightarrow> ([], s))"

definition split_sign :: "string \<Rightarrow> string \<times> string" where
  "split_sign s = (case s of c # cs \<Rightarrow> if c = CHR ''-'' then ([c], cs) else ([], s) | [] \<Rightarrow> ([], s))"

definition int_part_of :: "string \<Rightarrow> string" where
  "int_part_of r = (let ds = takeWhile is_decimal r in if ds \<noteq> [] \<and> hd ds = CHR ''0'' then [hd ds] else ds)"

definition scan_number :: "string \<Rightarrow> (json \<times> string) option" where
  "scan_number s =
     (let (sign, r) = split_sign s;
          int_part = int_part_of r;
          r1 = drop (length int_part) r;
          (frac, r2) = scan_frac r1;
          (ex, r3) = scan_exp r2
      in if int_part = [] then None
         else if frac = [] \<and> ex = [] then
           (case py_int (sign @ int_part) of None \<Rightarrow> None | Some n \<Rightarrow> Some (JInt n, r3))
         else Some (JFloat (sign @ int_part @ frac @ ex), r3))"

definition scan_literal :: "string \<Rightarrow> (json \<times> string) option" where
  "scan_literal s =
     (if startswith s ''null'' then Some (JNull, drop 4 s)
      else if startswith s ''true'' then Some (JBool True, drop 4 s)
      else if startswith s ''false'' then Some (JBool False, drop 5 s)
      else if startswith s ''NaN'' then Some (JFloat ''NaN'', drop 3 s)
      else if startswith s ''Infinity'' then Some (JFloat ''Infinity'', drop 8 s)
      else if startswith s ''-Infinity'' then Some (JFloat ''-Infinity'', drop 9 s)
      else scan_number s)"

text \<open>A repeated key keeps its first place and its last value.\<close>

definition dict_of :: "(string \<times> 'v) list \<Rightarrow> 'v dict" where
  "dict_of kvs = fold (\<lambda>(k, v) d. AList.update k v d) kvs []"

fun parse_value :: "nat \<Rightarrow> string \<Rightarrow> (json \<times> string) option"
  and parse_items :: "nat \<Rightarrow> string \<Rightarrow> (json list \<times> string) option"
  and parse_members :: "nat \<Rightarrow> string \<Rightarrow> ((string \<times> json) list \<times> string) option"
where
  "parse_value 0 s = None"
| "parse_value (Suc n) s =
     (case s of
        [] \<Rightarrow> None
      | c # cs \<Rightarrow>
          if c = CHR 0x22 then map_option (\<lambda>(t, rest). (JStr t, rest)) (scan_string cs)
          else if c = CHR ''['' then
            (case skip_ws cs of
               x # r \<Rightarrow>
                 if x = CHR '']'' then Some (JArr [], r)
                 else map_option (\<lambda>(js, rest). (JArr js, rest)) (parse_items n (x # r))
             | [] \<Rightarrow> None)
          else if c = CHR ''{'' then
            (case skip_ws cs of
               x # r \<Rightarrow>
                 if x = CHR ''}'' then Some (JObj [], r)
                 else map_option (\<lambda>(kvs, rest). (JObj (dict_of kvs), rest)) (parse_members n (x # r))
             | [] \<Rightarrow> None)
          else scan_literal s)"
| "parse_items 0 s = None"
| "parse_items (Suc n) s =
     (case parse_value n s of
        None \<Rightarrow> None
      | Some (j, rest) \<Rightarrow>
          (case skip_ws rest of
             [] \<Rightarrow> None
           | c # r \<Rightarrow>
               if c = CHR '']'' then Some ([j], r)
               else if c = CHR '','' then
                 map_option (\<lambda>(js, rest). (j # js, rest)) (parse_items n (skip_ws r))
               else None))"
| "parse_members 0 s = None"
| "parse_members (Suc n) s =
     (case s of
        q # cs \<Rightarrow>
          if q \<noteq> CHR 0x22 then None
          else
            (case scan_string cs of
               None \<Rightarrow> None
             | Some (k, r0) \<Rightarrow>
                 (case skip_ws r0 of
                    d # r1 \<Rightarrow>
                      if d \<noteq> CHR '':'' then None
                      else
                        (case parse_value n (skip_ws r1) of
                           None \<Rightarrow> None
                         | Some (j, rest) \<Rightarrow>
                             (case skip_ws rest of
                                [] \<Rightarrow> None
                              | c # r \<Rightarrow>
                                  if c = CHR ''}'' then Some ([(k, j)], r)
                                  else if c = CHR '','' then
                                    map_option (\<lambda>(kvs, rest). ((k, j) # kvs, rest)) (parse_members n (skip_ws r))
                                  else None))
                  | [] \<Rightarrow> None))
      | [] \<Rightarrow> None)"

definition loads :: "string \<Rightarrow> json option" where
  "loads s =
     (case parse_value (Suc (length s)) (skip_ws s) of
        None \<Rightarrow> None
      | Some (j, rest) \<Rightarrow> if skip_ws rest = [] then Some j else None)"

section \<open>Printed values are read back\<close>

text \<open>Values without floats, with integers Python can convert and distinct keys.\<close>

fun json_ok :: "json \<Rightarrow> bool" where
  "json_ok (JInt n) = (length (nat_digits (nat \<bar>n\<bar>)) \<le> 4300)"
| "json_ok (JFloat t) = False"
| "json_ok (JArr js) = list_all json_ok js"
| "json_ok (JObj kvs) = (distinct (map fst kvs) \<and> list_all (\<lambda>(k, v). json_ok v) kvs)"
| "json_ok _ = True"

fun json_fuel :: "json \<Rightarrow> nat" where
  "json_fuel (JArr js) = Suc (sum_list (map (\<lambda>j. Suc (json_fuel j)) js))"
| "json_fuel (JObj kvs) = Suc (sum_list (map (\<lambda>(k, v). Suc (json_fuel v)) kvs))"
| "json_fuel _ = 1"

definition ends_value :: "string \<Rightarrow> bool" where
  "ends_value rest \<longleftrightarrow> rest = [] \<or> hd rest = CHR 0x0A \<or> hd rest = CHR '','' \<or> hd rest = CHR '']'' \<or> hd rest = CHR ''}''"

lemma hex_val_digit: "n < 16 \<Longrightarrow> hex_val (hex_digit n) = Some n"
  by (auto simp: hex_val_def hex_digit_def Let_def)

lemma scan_hex4_char:
  "scan_hex4 (hex_digit (n div 4096)) (hex_digit (n div 256 mod 16)) (hex_digit (n div 16 mod 16)) (hex_digit (n mod 16)) =
     Some (char_of n)" if "n < 256" for n
proof -
  have z: "n div 4096 = 0" "n div 256 = 0" using that by auto
  have "n div 16 < 16" using that by (simp add: less_mult_imp_div_less)
  then have m: "n div 16 mod 16 * 16 + n mod 16 = n" by simp
  have "hex_val (hex_digit 0) = Some 0" "hex_val (hex_digit (n div 16 mod 16)) = Some (n div 16 mod 16)"
    "hex_val (hex_digit (n mod 16)) = Some (n mod 16)"
    by (simp_all add: hex_val_digit)
  with that m show ?thesis by (simp only: scan_hex4_def z) simp
qed

lemma scan_unicode:
  assumes "n < 256"
  shows "scan_string (CHR 0x5C # CHR ''u'' # hex4 n @ r) = map_option (\<lambda>(s, rest). (char_of n # s, rest)) (scan_string r)"
proof -
  obtain a b c d where h: "hex4 n = [a, b, c, d]" "scan_hex4 a b c d = Some (char_of n)"
    using scan_hex4_char [OF assms] by (simp only: hex4_def)
  then show ?thesis by simp
qed

lemma scan_dump_char: "scan_string (dump_char c @ r) = map_option (\<lambda>(s, rest). (c # s, rest)) (scan_string r)"
proof -
  have eqs: "char_code c = n \<Longrightarrow> c = char_of n" for n :: nat by (metis char_of_char)
  have q: "char_code c = 34 \<Longrightarrow> c = CHR 0x22" "char_code c = 92 \<Longrightarrow> c = CHR 0x5C"
    using of_char_eq_iff [of c "CHR 0x22", where ?'a = nat] of_char_eq_iff [of c "CHR 0x5C", where ?'a = nat] by simp_all
  consider "char_code c = 34" | "char_code c = 92" | "char_code c \<in> {10, 13, 9, 12, 8}"
    | "char_code c < 32 \<or> 126 < char_code c" "char_code c \<notin> {34, 92, 10, 13, 9, 12, 8}"
    | "32 \<le> char_code c" "char_code c \<le> 126" "char_code c \<notin> {34, 92, 10, 13, 9, 12, 8}"
    by (cases "char_code c < 32 \<or> 126 < char_code c"; cases "char_code c \<in> {34, 92, 10, 13, 9, 12, 8}") auto
  then show ?thesis
  proof cases
    case 1
    with q(1) have "c = CHR 0x22" by simp
    then show ?thesis by (simp add: dump_char_def escape_of_def)
  next
    case 2
    with q(2) have "c = CHR 0x5C" by simp
    then show ?thesis by (simp add: dump_char_def escape_of_def Let_def)
  next
    case 3
    then show ?thesis by (auto simp: dump_char_def escape_of_def Let_def dest!: eqs)
  next
    case 4
    then have e: "dump_char c = CHR 0x5C # CHR ''u'' # hex4 (char_code c)" by (auto simp: dump_char_def Let_def)
    have "char_code c < 256" using of_char_mod_256 [of c, where ?'a = nat] mod_less_divisor [of 256 "char_code c"] by simp
    then show ?thesis using scan_unicode [of "char_code c" r] by (simp only: e append_Cons char_of_char)
  next
    case 5
    then have "dump_char c = [c]" "c \<noteq> CHR 0x22" "c \<noteq> CHR 0x5C" "\<not> char_code c < 32"
      by (auto simp: dump_char_def Let_def)
    then show ?thesis by simp
  qed
qed

lemma scan_dump_string: "scan_string (concat (map dump_char s) @ CHR 0x22 # rest) = Some (s, rest)"
  by (induction s) (simp_all add: scan_dump_char)

lemma parse_string: "parse_value (Suc n) (dump_string s @ rest) = Some (JStr s, rest)"
  by (simp add: dump_string_def scan_dump_string)

lemma skip_ws_stop: "\<not> json_space c \<Longrightarrow> skip_ws (c # s) = c # s"
  by (simp add: skip_ws_def)

lemma nat_digits_hd_zero: "hd (nat_digits m) = CHR ''0'' \<Longrightarrow> nat_digits m = ''0''"
proof (induction m rule: nat_digits.induct)
  case (1 m)
  show ?case
  proof (cases "m < 10")
    case True
    with 1(2) show ?thesis by (subst nat_digits.simps) (auto simp: nat_digits.simps [of m])
  next
    case False
    then have d: "nat_digits m = nat_digits (m div 10) @ [char_of (48 + m mod 10)]" by (subst nat_digits.simps) simp
    with 1(2) have "hd (nat_digits (m div 10)) = CHR ''0''" by simp
    with 1(1) False have z: "nat_digits (m div 10) = ''0''" by simp
    have "m div 10 = 0" using arg_cong [OF z, of "foldl (\<lambda>a c. 10 * a + (int (char_code c) - 48)) 0"]
      by (simp add: foldl_nat_digits)
    with False show ?thesis by simp
  qed
qed

lemma scan_digits:
  assumes "ends_value rest" and "length (nat_digits m) \<le> 4300"
  shows "scan_number (nat_digits m @ rest) = Some (JInt (int m), rest)"
    and "scan_number (CHR ''-'' # nat_digits m @ rest) = Some (JInt (- int m), rest)"
proof -
  have d: "list_all is_decimal (nat_digits m)" by (rule nat_digits_decimal)
  obtain c cs where cs: "nat_digits m = c # cs" by (cases "nat_digits m") auto
  with d have c: "c \<noteq> CHR ''-''" "c \<noteq> CHR ''+''" by (auto simp: is_decimal_def)
  have stop: "takeWhile is_decimal rest = []" "scan_frac rest = ([], rest)" "scan_exp rest = ([], rest)"
    using assms(1)
    by (cases rest; auto simp: ends_value_def is_decimal_def scan_frac_def scan_exp_def Let_def split: list.splits)+
  have tw: "takeWhile is_decimal (nat_digits m @ rest) = nat_digits m"
    using d stop(1) by (simp add: takeWhile_append list_all_iff)
  have z: "int_part_of (nat_digits m @ rest) = nat_digits m"
    using nat_digits_hd_zero [of m] by (auto simp: int_part_of_def Let_def tw)
  have sg: "split_sign (nat_digits m @ rest) = ([], nat_digits m @ rest)"
    "split_sign (CHR ''-'' # r) = (''-'', r)" for r
    using c cs by (simp_all add: split_sign_def)
  have f: "filter is_decimal (nat_digits m) = nat_digits m" using d by (simp add: list_all_iff filter_id_conv)
  have "py_int (nat_digits m) = Some (int m)"
    using py_int_str_of_nat [OF assms(2)] by (simp add: str_of_int_def)
  then show "scan_number (nat_digits m @ rest) = Some (JInt (int m), rest)"
    using stop z sg by (simp add: scan_number_def Let_def)
  have "py_strip (CHR ''-'' # nat_digits m) = CHR ''-'' # nat_digits m"
  proof -
    have "lstrip (CHR ''-'' # nat_digits m) = CHR ''-'' # nat_digits m" by (simp add: lstrip_def is_space_def)
    moreover have "rstrip (CHR ''-'' # nat_digits m) = CHR ''-'' # nat_digits m"
      using d by (cases "nat_digits m" rule: rev_cases) (auto simp: rstrip_def decimal_not_space)
    ultimately show ?thesis by (simp add: py_strip_def)
  qed
  moreover have "\<not> is_decimal (CHR ''-'')" by (simp add: is_decimal_def)
  ultimately have "py_int (CHR ''-'' # nat_digits m) = Some (- int m)"
    using assms(2) f int_digits_nat [of m] by (simp add: py_int_def Let_def)
  then show "scan_number (CHR ''-'' # nat_digits m @ rest) = Some (JInt (- int m), rest)"
    using stop z sg by (simp add: scan_number_def Let_def)
qed

text \<open>The first character of a printed value is not white space and decides how it is read.\<close>

lemma dumps_first:
  assumes "json_ok j"
  obtains c cs where "dumps j = c # cs" "\<not> json_space c" "c \<noteq> CHR '']''" "c \<noteq> CHR ''}''"
proof (cases j)
  case (JInt n)
  obtain c cs where cs: "nat_digits (nat \<bar>n\<bar>) = c # cs" by (cases "nat_digits (nat \<bar>n\<bar>)") auto
  then have "is_decimal c" using nat_digits_decimal [of "nat \<bar>n\<bar>"] by simp
  then have "\<not> json_space c" "c \<noteq> CHR '']''" "c \<noteq> CHR ''}''" by (auto simp: is_decimal_def json_space_def)
  then show ?thesis using that JInt cs by (cases "n < 0") (auto simp: str_of_int_def json_space_def)
next
  case (JBool b)
  then show ?thesis using that by (cases b) (auto simp: json_space_def)
qed (use assms that in \<open>auto simp: json_space_def dump_string_def\<close>)

lemma parse_int:
  assumes "ends_value rest" and "length (nat_digits (nat \<bar>n\<bar>)) \<le> 4300"
  shows "parse_value (Suc k) (str_of_int n @ rest) = Some (JInt n, rest)"
proof -
  obtain c cs where cs: "nat_digits (nat \<bar>n\<bar>) = c # cs" by (cases "nat_digits (nat \<bar>n\<bar>)") auto
  then have c: "is_decimal c" using nat_digits_decimal [of "nat \<bar>n\<bar>"] by simp
  then have "c \<noteq> CHR ''n''" "c \<noteq> CHR ''t''" "c \<noteq> CHR ''f''" "c \<noteq> CHR ''N''" "c \<noteq> CHR ''I''" "c \<noteq> CHR ''-''"
    "c \<noteq> CHR 0x22" "c \<noteq> CHR ''[''" "c \<noteq> CHR ''{''"
    by (auto simp: is_decimal_def)
  then show ?thesis
    using scan_digits [OF assms] cs
    by (cases "n < 0") (auto simp: str_of_int_def scan_literal_def startswith_def)
qed

text \<open>A value that is no list and no object.\<close>

fun json_scalar :: "json \<Rightarrow> bool" where
  "json_scalar (JArr js) = False"
| "json_scalar (JObj kvs) = False"
| "json_scalar _ = True"

lemma parse_scalar:
  "json_scalar j \<Longrightarrow> json_ok j \<Longrightarrow> ends_value rest \<Longrightarrow> parse_value (Suc n) (dumps j @ rest) = Some (j, rest)"
proof (cases j)
  case (JBool b)
  then show ?thesis by (cases b) (simp_all add: scan_literal_def startswith_def)
next
  case (JInt i)
  assume "json_ok j" "ends_value rest"
  with JInt parse_int [of rest i n] show ?thesis by simp
next
  case (JStr s)
  then show ?thesis using parse_string [of n s rest] by simp
qed (simp_all add: scan_literal_def startswith_def)

lemma scalar_fuel: "json_scalar j \<Longrightarrow> json_ok j \<Longrightarrow> json_fuel j \<le> length (dumps j)"
proof (cases j)
  case (JBool b)
  then show ?thesis by (cases b) simp_all
next
  case (JInt n)
  have "str_of_int n \<noteq> []" by (simp add: str_of_int_def)
  then show ?thesis using JInt by (cases "str_of_int n") simp_all
qed (simp_all add: dump_string_def)

lemma dict_of_distinct: "distinct (map fst kvs) \<Longrightarrow> dict_of kvs = kvs"
proof -
  have new: "AList.update k v d = d @ [(k, v)]" if "k \<notin> fst ` set d" for k v and d :: "(string \<times> 'a) list"
    using that by (induction d) auto
  have "fold (\<lambda>(k, v) d. AList.update k v d) kvs d = d @ kvs"
    if "distinct (map fst kvs)" "fst ` set d \<inter> fst ` set kvs = {}" for d
    using that by (induction kvs arbitrary: d) (auto simp: new)
  then show "distinct (map fst kvs) \<Longrightarrow> dict_of kvs = kvs" by (simp add: dict_of_def)
qed

end
