(* ===== verification/Json_Layout.thy ===== *)
theory Json_Layout
  imports Json_Text
begin

text \<open>
  The texts that the broker prints JSON to: compact (cursors and request bodies), \<^verbatim>\<open>json.dumps(value)\<close>
  (a line of the log) and \<^verbatim>\<open>json.dumps(value, indent=2)\<close> (the store file). They are layouts of one
  printer, which differ in white space only, and \<^verbatim>\<open>json.loads\<close> reads each of them back.
\<close>

section \<open>Layouts\<close>

text \<open>A line break and the indentation of the next line.\<close>

definition line_break :: "nat \<Rightarrow> string" where
  "line_break d = CHR 0x0A # replicate d (CHR '' '')"

text \<open>
  White space stands after a colon (\<open>col\<close>), inside the brackets of a list or object that is not empty
  (\<open>pad\<close>) and after its commas (\<open>sep\<close>); the last two depend on the indentation.
\<close>

fun dump_layout :: "string \<Rightarrow> (nat \<Rightarrow> string) \<Rightarrow> (nat \<Rightarrow> string) \<Rightarrow> nat \<Rightarrow> json \<Rightarrow> string" where
  "dump_layout col pad sep d (JArr []) = ''[]''"
| "dump_layout col pad sep d (JArr (j # js)) =
     ''['' @ pad (d + 2) @ join (CHR '','' # sep (d + 2)) (map (dump_layout col pad sep (d + 2)) (j # js)) @ pad d @ '']''"
| "dump_layout col pad sep d (JObj []) = ''{}''"
| "dump_layout col pad sep d (JObj (kv # kvs)) =
     ''{'' @ pad (d + 2) @ join (CHR '','' # sep (d + 2))
       (map (\<lambda>(k, v). dump_string k @ CHR '':'' # col @ dump_layout col pad sep (d + 2) v) (kv # kvs)) @ pad d @ ''}''"
| "dump_layout col pad sep d j = dumps j"

definition dump_indent :: "nat \<Rightarrow> json \<Rightarrow> string" where
  "dump_indent = dump_layout '' '' line_break line_break"

definition dump_spaced :: "json \<Rightarrow> string" where
  "dump_spaced = dump_layout '' '' (\<lambda>_. []) (\<lambda>_. '' '') 0"

lemma layout_scalar: "json_scalar j \<Longrightarrow> dump_layout col pad sep d j = dumps j"
  by (cases j) simp_all

lemma dumps_layout: "dumps j = dump_layout [] (\<lambda>_. []) (\<lambda>_. []) d j"
proof (induction j arbitrary: d)
  case (JArr js)
  then show ?case by (cases js) (simp_all cong: map_cong)
next
  case (JObj kvs)
  have "dumps v = dump_layout [] (\<lambda>_. []) (\<lambda>_. []) (d + 2) v" if "(k, v) \<in> set kvs" for k v
    using JObj [OF that, of v] by simp
  then have "map (\<lambda>(k, v). dump_string k @ '':'' @ dumps v) kvs =
      map (\<lambda>(k, v). dump_string k @ CHR '':'' # dump_layout [] (\<lambda>_. []) (\<lambda>_. []) (d + 2) v) kvs"
    by auto
  then show ?case by (cases kvs) (simp_all cong: map_cong)
next
  case (JBool b)
  show ?case by (cases b) simp_all
qed simp_all

section \<open>Parsing a layout back\<close>

lemma skip_ws_comma [simp]:
  "skip_ws (CHR '','' # s) = CHR '','' # s" "skip_ws (CHR '']'' # s) = CHR '']'' # s"
  "skip_ws (CHR ''}'' # s) = CHR ''}'' # s" "skip_ws (CHR '':'' # s) = CHR '':'' # s"
  "skip_ws (CHR 0x22 # s) = CHR 0x22 # s" "skip_ws (CHR '' '' # s) = skip_ws s"
  by (simp_all add: skip_ws_def json_space_def)

lemma skip_spaces: "list_all json_space w \<Longrightarrow> skip_ws (w @ s) = skip_ws s"
  by (induction w) (simp_all add: skip_ws_def)

text \<open>What the text of any layout has to offer to be read back.\<close>

locale json_layout =
  fixes col :: string and pad :: "nat \<Rightarrow> string" and sep :: "nat \<Rightarrow> string"
  assumes col_space: "list_all json_space col" and pad_space: "list_all json_space (pad d)"
    and sep_space: "list_all json_space (sep d)" and pad_break: "pad d = [] \<or> hd (pad d) = CHR 0x0A"
begin

abbreviation show_json :: "nat \<Rightarrow> json \<Rightarrow> string" where
  "show_json \<equiv> dump_layout col pad sep"

abbreviation show_member :: "nat \<Rightarrow> string \<times> json \<Rightarrow> string" where
  "show_member d \<equiv> \<lambda>(k, v). dump_string k @ CHR '':'' # col @ show_json d v"

lemma skip_pad [simp]:
  "skip_ws (pad d @ s) = skip_ws s" "skip_ws (sep d @ s) = skip_ws s" "skip_ws (col @ s) = skip_ws s"
  by (simp_all add: skip_spaces pad_space sep_space col_space)

lemma pad_ends: "ends_value (pad d @ CHR '']'' # s)" "ends_value (pad d @ CHR ''}'' # s)"
  using pad_break [of d] by (cases "pad d"; simp add: ends_value_def)+

lemma layout_first:
  assumes "json_ok j"
  obtains c cs where "show_json d j = c # cs" "\<not> json_space c" "c \<noteq> CHR '']''" "c \<noteq> CHR ''}''"
proof (cases "json_scalar j")
  case True
  obtain c cs where "dumps j = c # cs" "\<not> json_space c" "c \<noteq> CHR '']''" "c \<noteq> CHR ''}''"
    using assms by (rule dumps_first)
  then show ?thesis by (intro that [of c cs]) (simp_all add: layout_scalar [OF True])
next
  case False
  then obtain js kvs where "j = JArr js \<or> j = JObj kvs" by (cases j) auto
  then show ?thesis using that by (cases js; cases kvs) (auto simp: json_space_def)
qed

lemma skip_layout: "json_ok j \<Longrightarrow> skip_ws (show_json d j @ s) = show_json d j @ s"
  by (rule layout_first [of j d]) (simp_all add: skip_ws_stop)

lemma skip_items: "list_all json_ok js \<Longrightarrow> js \<noteq> [] \<Longrightarrow>
    skip_ws (join x (map (show_json d) js) @ s) = join x (map (show_json d) js) @ s"
  by (cases js; cases "tl js") (auto simp: skip_layout)

lemma skip_members: "kvs \<noteq> [] \<Longrightarrow>
    skip_ws (join x (map (show_member d) kvs) @ s) = join x (map (show_member d) kvs) @ s"
  by (cases kvs; cases "hd kvs"; cases "tl kvs") (auto simp: dump_string_def)

lemma parse_layout_items:
  assumes "\<And>j n rest. j \<in> set js \<Longrightarrow> json_fuel j \<le> n \<Longrightarrow> ends_value rest \<Longrightarrow>
      parse_value n (show_json e j @ rest) = Some (j, rest)"
    and "list_all json_ok js" and "js \<noteq> []" and "sum_list (map (\<lambda>j. Suc (json_fuel j)) js) \<le> n"
  shows "parse_items n (join (CHR '','' # sep e) (map (show_json e) js) @ pad d @ CHR '']'' # rest) = Some (js, rest)"
  using assms
proof (induction js arbitrary: n)
  case (Cons j js)
  then obtain m where n: "n = Suc m" by (cases n) auto
  have pv: "parse_value m (show_json e j @ r) = Some (j, r)" if "ends_value r" for r
    using Cons.prems(1) [of j m] Cons.prems(4) that n by simp
  show ?case
  proof (cases js)
    case Nil
    then show ?thesis using pv [OF pad_ends(1)] by (simp add: n)
  next
    case (Cons j2 js2)
    let ?r = "join (CHR '','' # sep e) (map (show_json e) js) @ pad d @ CHR '']'' # rest"
    have "parse_value m (show_json e j @ CHR '','' # sep e @ ?r) = Some (j, CHR '','' # sep e @ ?r)"
      by (rule pv) (simp add: ends_value_def)
    moreover have "parse_items m ?r = Some (js, rest)"
      using Cons.prems n Cons by (intro Cons.IH) auto
    moreover have "skip_ws ?r = ?r" using Cons.prems(2) Cons by (intro skip_items) simp_all
    ultimately show ?thesis using Cons by (simp add: n)
  qed
qed simp

lemma parse_layout_members:
  assumes "\<And>k j n rest. (k, j) \<in> set kvs \<Longrightarrow> json_fuel j \<le> n \<Longrightarrow> ends_value rest \<Longrightarrow>
      parse_value n (show_json e j @ rest) = Some (j, rest)"
    and "list_all (\<lambda>(k, v). json_ok v) kvs" and "kvs \<noteq> []" and "sum_list (map (\<lambda>(k, v). Suc (json_fuel v)) kvs) \<le> n"
  shows "parse_members n (join (CHR '','' # sep e) (map (show_member e) kvs) @
      pad d @ CHR ''}'' # rest) = Some (kvs, rest)"
  using assms
proof (induction kvs arbitrary: n)
  case (Cons kv kvs)
  obtain k j where kv: "kv = (k, j)" by fastforce
  from Cons.prems obtain m where n: "n = Suc m" by (cases n) (auto simp: kv)
  have pv: "parse_value m (show_json e j @ r) = Some (j, r)" if "ends_value r" for r
    using Cons.prems(1) [of k j m] Cons.prems(4) that n by (simp add: kv)
  have start: "skip_ws (show_json e j @ r) = show_json e j @ r" for r
    using Cons.prems(2) by (simp add: kv skip_layout)
  have key: "scan_string (concat (map dump_char k) @ CHR 0x22 # r) = Some (k, r)" for r
    by (rule scan_dump_string)
  show ?case
  proof (cases kvs)
    case Nil
    then show ?thesis using pv [OF pad_ends(2)] start key by (simp add: n kv dump_string_def)
  next
    case (Cons kv2 kvs2)
    let ?r = "join (CHR '','' # sep e) (map (show_member e) kvs) @
      pad d @ CHR ''}'' # rest"
    have "parse_value m (show_json e j @ CHR '','' # sep e @ ?r) = Some (j, CHR '','' # sep e @ ?r)"
      by (rule pv) (simp add: ends_value_def)
    moreover have "parse_members m ?r = Some (kvs, rest)"
      using Cons.prems n Cons by (intro Cons.IH) (auto simp: kv)
    moreover have "skip_ws ?r = ?r" using Cons by (intro skip_members) simp
    ultimately show ?thesis using start key Cons by (simp add: n kv dump_string_def)
  qed
qed simp

lemma parse_layout_list:
  assumes "\<And>j n rest d. j \<in> set js \<Longrightarrow> json_fuel j \<le> n \<Longrightarrow> ends_value rest \<Longrightarrow>
      parse_value n (show_json d j @ rest) = Some (j, rest)"
    and "json_ok (JArr js)" and "json_fuel (JArr js) \<le> n"
  shows "parse_value n (show_json d (JArr js) @ rest) = Some (JArr js, rest)"
proof (cases js)
  case Nil
  with assms(3) show ?thesis by (cases n) simp_all
next
  case (Cons j2 js2)
  obtain m where n: "n = Suc m" using assms(3) by (cases n) auto
  let ?r = "join (CHR '','' # sep (d + 2)) (map (show_json (d + 2)) js) @ pad d @ CHR '']'' # rest"
  have "parse_items m ?r = Some (js, rest)"
    by (rule parse_layout_items) (use assms Cons n in \<open>auto simp: list_all_iff\<close>)
  moreover have "skip_ws ?r = ?r" using assms(2) Cons by (intro skip_items) simp_all
  moreover obtain c cs where "show_json (d + 2) j2 = c # cs" "c \<noteq> CHR '']''"
    using assms(2) Cons by (auto elim: layout_first [of j2 "d + 2"])
  ultimately show ?thesis using Cons by (cases js2) (simp_all add: n)
qed

lemma parse_layout_object:
  assumes "\<And>k j n rest d. (k, j) \<in> set kvs \<Longrightarrow> json_fuel j \<le> n \<Longrightarrow> ends_value rest \<Longrightarrow>
      parse_value n (show_json d j @ rest) = Some (j, rest)"
    and "json_ok (JObj kvs)" and "json_fuel (JObj kvs) \<le> n"
  shows "parse_value n (show_json d (JObj kvs) @ rest) = Some (JObj kvs, rest)"
proof (cases kvs)
  case Nil
  with assms(3) show ?thesis by (cases n) (simp_all add: dict_of_def)
next
  case (Cons kv2 kvs2)
  obtain m where n: "n = Suc m" using assms(3) by (cases n) auto
  have "parse_members m (join (CHR '','' # sep (d + 2)) (map (show_member (d + 2)) kvs) @ pad d @ CHR ''}'' # rest) =
      Some (kvs, rest)"
    by (rule parse_layout_members) (use assms Cons n in auto)
  moreover have "dict_of kvs = kvs" using assms(2) by (simp add: dict_of_distinct)
  ultimately show ?thesis using Cons by (cases kvs2; cases kv2) (simp_all add: n dump_string_def)
qed

lemma parse_layout:
  "json_ok j \<Longrightarrow> json_fuel j \<le> n \<Longrightarrow> ends_value rest \<Longrightarrow> parse_value n (show_json d j @ rest) = Some (j, rest)"
proof (induction j arbitrary: n rest d)
  case (JArr js)
  show ?case by (rule parse_layout_list) (use JArr in \<open>auto simp: list_all_iff\<close>)
next
  case (JObj kvs)
  show ?case
  proof (rule parse_layout_object)
    show "parse_value i (show_json d v @ r) = Some (v, r)"
      if "(k, v) \<in> set kvs" "json_fuel v \<le> i" "ends_value r" for k v i r d
      using JObj.IH [of "(k, v)" v] JObj.prems(1) that by (auto simp: list_all_iff)
  qed (use JObj.prems in auto)
next
  case (JBool b)
  then show ?case by (cases n) (simp_all only: layout_scalar json_scalar.simps parse_scalar, simp)
next
  case (JInt i)
  then show ?case by (cases n) (simp_all only: layout_scalar json_scalar.simps parse_scalar, simp)
next
  case (JStr s)
  then show ?case by (cases n) (simp_all only: layout_scalar json_scalar.simps parse_scalar, simp)
next
  case JNull
  then show ?case by (cases n) (simp_all only: layout_scalar json_scalar.simps parse_scalar, simp)
qed simp

section \<open>Enough fuel\<close>

lemma items_fuel:
  assumes "\<And>j. j \<in> set js \<Longrightarrow> json_fuel j \<le> length (show_json d j)"
  shows "sum_list (map (\<lambda>j. Suc (json_fuel j)) js) \<le> Suc (length (join (CHR '','' # x) (map (show_json d) js)))"
  using assms
proof (induction js)
  case (Cons j js)
  then have "json_fuel j \<le> length (show_json d j)"
    "sum_list (map (\<lambda>j. Suc (json_fuel j)) js) \<le> Suc (length (join (CHR '','' # x) (map (show_json d) js)))" by simp_all
  then show ?case by (cases js) simp_all
qed simp

lemma members_fuel:
  assumes "\<And>k v. (k, v) \<in> set kvs \<Longrightarrow> json_fuel v \<le> length (show_json d v)"
  shows "sum_list (map (\<lambda>(k, v). Suc (json_fuel v)) kvs) \<le> Suc (length (join (CHR '','' # x) (map (show_member d) kvs)))"
  using assms
proof (induction kvs)
  case (Cons kv kvs)
  obtain k v where kv: "kv = (k, v)" by fastforce
  have "json_fuel v \<le> length (show_json d v)" using Cons.prems [of k v] by (simp add: kv)
  moreover have "sum_list (map (\<lambda>(k, v). Suc (json_fuel v)) kvs) \<le> Suc (length (join (CHR '','' # x) (map (show_member d) kvs)))"
    using Cons.prems by (intro Cons.IH) auto
  ultimately show ?case by (cases kvs) (simp_all add: kv)
qed simp

lemma layout_fuel: "json_ok j \<Longrightarrow> json_fuel j \<le> length (show_json d j)"
proof (induction j arbitrary: d)
  case (JArr js)
  have "sum_list (map (\<lambda>j. Suc (json_fuel j)) js) \<le> Suc (length (join (CHR '','' # sep (d + 2)) (map (show_json (d + 2)) js)))"
    by (rule items_fuel) (use JArr in \<open>auto simp: list_all_iff\<close>)
  then show ?case by (cases js) simp_all
next
  case (JObj kvs)
  have "sum_list (map (\<lambda>(k, v). Suc (json_fuel v)) kvs) \<le>
      Suc (length (join (CHR '','' # sep (d + 2)) (map (show_member (d + 2)) kvs)))"
  proof (rule members_fuel)
    show "json_fuel v \<le> length (show_json (d + 2) v)" if "(k, v) \<in> set kvs" for k v
      using JObj.IH [of "(k, v)" v] JObj.prems that by (auto simp: list_all_iff)
  qed
  then show ?case by (cases kvs) simp_all
qed (simp_all only: layout_scalar json_scalar.simps scalar_fuel)

lemma loads_layout: "json_ok j \<Longrightarrow> loads (show_json d j) = Some j"
proof -
  assume ok: "json_ok j"
  have "parse_value (Suc (length (show_json d j))) (show_json d j @ []) = Some (j, [])"
    using layout_fuel [OF ok, of d] by (intro parse_layout ok) (simp_all add: ends_value_def)
  moreover have "skip_ws (show_json d j) = show_json d j" using skip_layout [OF ok, of d "[]"] by simp
  ultimately show ?thesis by (simp add: loads_def skip_ws_def)
qed

end

interpretation compact: json_layout "[]" "\<lambda>_. []" "\<lambda>_. []"
  by unfold_locales simp_all

interpretation indented: json_layout "'' ''" line_break line_break
  by unfold_locales (simp_all add: line_break_def json_space_def list_all_iff)

interpretation spaced: json_layout "'' ''" "\<lambda>_. []" "\<lambda>_. '' ''"
  by unfold_locales (simp_all add: json_space_def)

lemma loads_dumps: "json_ok j \<Longrightarrow> loads (dumps j) = Some j"
  unfolding dumps_layout [where d = 0] by (rule compact.loads_layout)

lemma loads_indent: "json_ok j \<Longrightarrow> loads (dump_indent d j) = Some j"
  unfolding dump_indent_def by (rule indented.loads_layout)

lemma loads_spaced: "json_ok j \<Longrightarrow> loads (dump_spaced j) = Some j"
  unfolding dump_spaced_def by (rule spaced.loads_layout)

end
