(* ===== verification/Json_Values.thy ===== *)
theory Json_Values
  imports Json_Layout
begin

text \<open>
  What Python's built-in functions make of a decoded JSON value: truth, \<^verbatim>\<open>int()\<close>, the operator
  \<^verbatim>\<open>in\<close>, \<^verbatim>\<open>dict.get\<close>, and slices of lists. A float is kept as its text; where the code looks at
  one, the text is rounded to the nearest binary64 number, ties to even, as the parser does.
\<close>

section \<open>Floats\<close>

datatype pyfloat = Finite bool nat int | Infinite bool | NaN

text \<open>The text of a finite number: its sign, its digits, and the power of ten they stand for.\<close>

definition digits_value :: "string \<Rightarrow> nat" where
  "digits_value ds = foldl (\<lambda>a c. 10 * a + (char_code c - 48)) 0 ds"

definition decimal_parts :: "string \<Rightarrow> bool \<times> nat \<times> int" where
  "decimal_parts t =
     (let (sign, r) = split_sign t;
          ip = takeWhile is_decimal r;
          (frac, r2) = scan_frac (dropWhile is_decimal r);
          ex = tl r2;
          e = (if ex = [] then 0
               else if hd ex = CHR ''-'' then - int (digits_value (tl ex))
               else if hd ex = CHR ''+'' then int (digits_value (tl ex))
               else int (digits_value ex))
      in (sign \<noteq> [], digits_value (ip @ tl frac), e - int (length (tl frac))))"

fun bit_length :: "nat \<Rightarrow> nat" where
  "bit_length n = (if n = 0 then 0 else Suc (bit_length (n div 2)))"

declare bit_length.simps [simp del]

definition round_half_even :: "nat \<Rightarrow> nat \<Rightarrow> nat" where
  "round_half_even n d =
     (let q = n div d; r = n mod d in
      if 2 * r < d then q else if d < 2 * r then Suc q else if even q then q else Suc q)"

text \<open>\<open>n / d\<close> divided by \<open>2 ^ k\<close>, rounded.\<close>

definition scaled :: "nat \<Rightarrow> nat \<Rightarrow> int \<Rightarrow> nat" where
  "scaled n d k = (if 0 \<le> k then round_half_even n (d * 2 ^ nat k) else round_half_even (n * 2 ^ nat (- k)) d)"

text \<open>53 significant bits, and no bit below \<open>2 ^ -1074\<close>.\<close>

definition float_of_text :: "string \<Rightarrow> pyfloat" where
  "float_of_text t =
     (if t = ''NaN'' then NaN
      else if t = ''Infinity'' then Infinite False
      else if t = ''-Infinity'' then Infinite True
      else
        (let (neg, m, e) = decimal_parts t;
             n = (if 0 \<le> e then m * 10 ^ nat e else m);
             d = (if 0 \<le> e then 1 else 10 ^ nat (- e));
             k0 = int (bit_length n) - int (bit_length d) - 53;
             k1 = (if scaled n d k0 < 2 ^ 53 then k0 else k0 + 1);
             k = max k1 (- 1074);
             q = scaled n d k
         in if m = 0 then Finite neg 0 0
            else if 0 \<le> k \<and> 2 ^ 1024 \<le> q * 2 ^ nat k then Infinite neg
            else Finite neg q k))"

definition float_trunc :: "pyfloat \<Rightarrow> exn + int" where
  "float_trunc f =
     (case f of
        NaN \<Rightarrow> Inl ValueError
      | Infinite _ \<Rightarrow> Inl OverflowError
      | Finite neg q k \<Rightarrow>
          (let n = (if 0 \<le> k then q * 2 ^ nat k else q div 2 ^ nat (- k)) in Inr (if neg then - int n else int n)))"

definition float_nonzero :: "pyfloat \<Rightarrow> bool" where
  "float_nonzero f \<longleftrightarrow> (case f of Finite neg q k \<Rightarrow> q \<noteq> 0 | _ \<Rightarrow> True)"

section \<open>Truth and conversion\<close>

fun json_truthy :: "json \<Rightarrow> bool" where
  "json_truthy JNull = False"
| "json_truthy (JBool b) = b"
| "json_truthy (JInt n) = (n \<noteq> 0)"
| "json_truthy (JFloat t) = float_nonzero (float_of_text t)"
| "json_truthy (JStr s) = (s \<noteq> [])"
| "json_truthy (JArr js) = (js \<noteq> [])"
| "json_truthy (JObj kvs) = (kvs \<noteq> [])"

text \<open>\<^verbatim>\<open>a or b\<close>\<close>

definition json_or :: "json \<Rightarrow> json \<Rightarrow> json" where
  "json_or a b = (if json_truthy a then a else b)"

text \<open>\<^verbatim>\<open>d.get(key)\<close>\<close>

definition json_get :: "json dict \<Rightarrow> string \<Rightarrow> json" where
  "json_get d key = (case dict_get d key of Some v \<Rightarrow> v | None \<Rightarrow> JNull)"

text \<open>\<^verbatim>\<open>body.get(key)\<close> where \<^verbatim>\<open>body\<close> may be any value\<close>

definition json_attr_get :: "json \<Rightarrow> string \<Rightarrow> exn + json" where
  "json_attr_get body key = (case body of JObj d \<Rightarrow> Inr (json_get d key) | _ \<Rightarrow> Inl AttributeError)"

definition int_of_json :: "json \<Rightarrow> exn + int" where
  "int_of_json j =
     (case j of
        JInt n \<Rightarrow> Inr n
      | JBool b \<Rightarrow> Inr (if b then 1 else 0)
      | JStr s \<Rightarrow> (case py_int s of Some n \<Rightarrow> Inr n | None \<Rightarrow> Inl ValueError)
      | JFloat t \<Rightarrow> float_trunc (float_of_text t)
      | _ \<Rightarrow> Inl TypeError)"

definition substring :: "string \<Rightarrow> string \<Rightarrow> bool" where
  "substring p s \<longleftrightarrow> list_ex (\<lambda>i. startswith (drop i s) p) [0..<Suc (length s)]"

text \<open>\<^verbatim>\<open>x in container\<close> for a string \<^verbatim>\<open>x\<close>\<close>

definition json_contains :: "json \<Rightarrow> string \<Rightarrow> exn + bool" where
  "json_contains c x =
     (case c of
        JArr js \<Rightarrow> Inr (JStr x \<in> set js)
      | JObj kvs \<Rightarrow> Inr (x \<in> dict_keys kvs)
      | JStr s \<Rightarrow> Inr (substring x s)
      | _ \<Rightarrow> Inl TypeError)"

definition json_str_opt :: "json \<Rightarrow> string option" where
  "json_str_opt j = (case j of JStr s \<Rightarrow> Some s | _ \<Rightarrow> None)"

definition json_of_opt :: "string option \<Rightarrow> json" where
  "json_of_opt x = (case x of Some s \<Rightarrow> JStr s | None \<Rightarrow> JNull)"

section \<open>Slices\<close>

text \<open>\<^verbatim>\<open>xs[a:b]\<close>: negative bounds count from the end, everything is clipped.\<close>

definition slice_index :: "nat \<Rightarrow> int \<Rightarrow> nat" where
  "slice_index n i = nat (max 0 (min (int n) (if i < 0 then i + int n else i)))"

definition py_slice :: "'a list \<Rightarrow> int \<Rightarrow> int \<Rightarrow> 'a list" where
  "py_slice xs a b =
     (let lo = slice_index (length xs) a; hi = slice_index (length xs) b in take (hi - lo) (drop lo xs))"

lemma py_slice_nonneg: "0 \<le> a \<Longrightarrow> 0 \<le> n \<Longrightarrow> py_slice xs a (a + n) = take (nat n) (drop (nat a) xs)"
proof -
  assume "0 \<le> a" "0 \<le> n"
  then show ?thesis
    by (cases "a < int (length xs)"; cases "a + n < int (length xs)")
      (auto simp: py_slice_def slice_index_def Let_def nat_add_distrib min_def max_def)
qed

lemma length_py_slice: "length (py_slice xs a b) \<le> length xs"
  by (simp add: py_slice_def Let_def)

lemma set_py_slice: "set (py_slice xs a b) \<subseteq> set xs"
  by (auto simp: py_slice_def Let_def dest: in_set_takeD in_set_dropD)

lemma json_or_simps [simp]:
  "json_or (JStr s) b = (if s = [] then b else JStr s)" "json_or JNull b = b"
  by (simp_all add: json_or_def)

lemma json_get_Cons [simp]: "json_get ((k, v) # d) key = (if k = key then v else json_get d key)"
  by (simp add: json_get_def)

lemma json_get_Nil [simp]: "json_get [] key = JNull"
  by (simp add: json_get_def)

end
