(* ===== verification/Ip_Address.thy ===== *)
theory Ip_Address
  imports Broker_Prelude "HOL-Library.Word"
begin

text \<open>
  The part of the standard module \<^verbatim>\<open>ipaddress\<close> that the trusted-proxy check uses: parsing of IPv4
  and IPv6 addresses and networks (with \<^verbatim>\<open>strict=False\<close>), equality of addresses and membership in
  a network. A failed parse is \<open>None\<close>, Python's \<open>ValueError\<close>. Addresses are the integers Python
  keeps; the lemmas at the end say what membership means.
\<close>

unbundle bit_operations_syntax

datatype ip_address = IPv4 int | IPv6 int "string option"

datatype ip_network = NetV4 int int | NetV6 int int

section \<open>IPv4 addresses\<close>

text \<open>One to three ASCII digits, no leading zero, at most 255.\<close>

definition parse_octet :: "string \<Rightarrow> int option" where
  "parse_octet s =
     (if s = [] \<or> \<not> list_all is_decimal s \<or> 3 < length s then None
      else if s \<noteq> ''0'' \<and> hd s = CHR ''0'' then None
      else (case py_int s of None \<Rightarrow> None | Some n \<Rightarrow> if 255 < n then None else Some n))"

fun parse_all :: "(string \<Rightarrow> int option) \<Rightarrow> string list \<Rightarrow> int list option" where
  "parse_all p [] = Some []"
| "parse_all p (x # xs) =
     (case p x of None \<Rightarrow> None
      | Some n \<Rightarrow> (case parse_all p xs of None \<Rightarrow> None | Some ns \<Rightarrow> Some (n # ns)))"

definition big_endian :: "int \<Rightarrow> int list \<Rightarrow> int" where
  "big_endian base ns = foldl (\<lambda>acc n. acc * base + n) 0 ns"

definition parse_ipv4 :: "string \<Rightarrow> int option" where
  "parse_ipv4 s =
     (let octets = split_on (CHR ''.'') s in
      if length octets \<noteq> 4 then None else map_option (big_endian 256) (parse_all parse_octet octets))"

section \<open>IPv6 addresses\<close>

definition hex_value :: "char \<Rightarrow> int option" where
  "hex_value c =
     (let n = char_code c in
      if 48 \<le> n \<and> n \<le> 57 then Some (int n - 48)
      else if 65 \<le> n \<and> n \<le> 70 then Some (int n - 55)
      else if 97 \<le> n \<and> n \<le> 102 then Some (int n - 87)
      else None)"

definition parse_hextet :: "string \<Rightarrow> int option" where
  "parse_hextet s =
     (if s = [] \<or> 4 < length s then None
      else map_option (big_endian 16) (parse_all (\<lambda>x. case x of [c] \<Rightarrow> hex_value c | _ \<Rightarrow> None) (map (\<lambda>c. [c]) s)))"

text \<open>The groups of the text: a trailing dotted quad counts for two of them.\<close>

datatype group = Hextet string | Quad int

definition ipv6_groups :: "string \<Rightarrow> group list option" where
  "ipv6_groups s =
     (let parts = split_on (CHR '':'') s in
      if length parts < 3 then None
      else if CHR ''.'' \<in> set (last parts) then
        (case parse_ipv4 (last parts) of
           None \<Rightarrow> None
         | Some v4 \<Rightarrow> Some (map Hextet (butlast parts) @ [Quad (v4 div 65536), Quad (v4 mod 65536)]))
      else Some (map Hextet parts))"

fun group_value :: "group \<Rightarrow> int option" where
  "group_value (Hextet s) = parse_hextet s"
| "group_value (Quad n) = Some n"

fun group_values :: "group list \<Rightarrow> int list option" where
  "group_values [] = Some []"
| "group_values (g # gs) =
     (case group_value g of None \<Rightarrow> None
      | Some n \<Rightarrow> (case group_values gs of None \<Rightarrow> None | Some ns \<Rightarrow> Some (n # ns)))"

text \<open>The positions of the empty groups strictly inside the text, where \<^verbatim>\<open>::\<close> may stand.\<close>

definition inner_gaps :: "group list \<Rightarrow> nat list" where
  "inner_gaps gs = filter (\<lambda>i. gs ! i = Hextet []) [1..<length gs - 1]"

definition parse_ipv6_int :: "string \<Rightarrow> int option" where
  "parse_ipv6_int s =
     (if s = [] then None else
      case ipv6_groups s of
        None \<Rightarrow> None
      | Some gs \<Rightarrow>
          if 9 < length gs then None
          else
            (case inner_gaps gs of
               [] \<Rightarrow>
                 if length gs \<noteq> 8 \<or> hd gs = Hextet [] \<or> last gs = Hextet [] then None
                 else map_option (big_endian 65536) (group_values gs)
             | [skip] \<Rightarrow>
                 (let hi = (if hd gs = Hextet [] then skip - 1 else skip);
                      lo = (if last gs = Hextet [] then length gs - skip - 2 else length gs - skip - 1)
                  in if hd gs = Hextet [] \<and> hi \<noteq> 0 then None
                     else if last gs = Hextet [] \<and> lo \<noteq> 0 then None
                     else if 8 < hi + lo + 1 then None
                     else
                       (case (group_values (take hi gs), group_values (drop (length gs - lo) gs)) of
                          (Some his, Some los) \<Rightarrow>
                            Some (big_endian 65536 (his @ replicate (8 - (hi + lo)) 0 @ los))
                        | _ \<Rightarrow> None))
             | _ \<Rightarrow> None))"

text \<open>An address may carry a scope after one percent sign; a slash is refused first.\<close>

definition parse_ipv6 :: "string \<Rightarrow> (int \<times> string option) option" where
  "parse_ipv6 s =
     (if CHR ''/'' \<in> set s then None
      else
        (let host = takeWhile (\<lambda>c. c \<noteq> CHR ''%'') s; rest = dropWhile (\<lambda>c. c \<noteq> CHR ''%'') s in
         case rest of
           [] \<Rightarrow> map_option (\<lambda>n. (n, None)) (parse_ipv6_int host)
         | _ # scope \<Rightarrow>
             if scope = [] \<or> CHR ''%'' \<in> set scope then None
             else map_option (\<lambda>n. (n, Some scope)) (parse_ipv6_int host)))"

definition parse_ip_address :: "string \<Rightarrow> ip_address option" where
  "parse_ip_address s =
     (case parse_ipv4 s of
        Some n \<Rightarrow> Some (IPv4 n)
      | None \<Rightarrow> (case parse_ipv6 s of Some (n, scope) \<Rightarrow> Some (IPv6 n scope) | None \<Rightarrow> None))"

section \<open>Networks\<close>

text \<open>\<^verbatim>\<open>ALL_ONES ^ (ALL_ONES >> prefixlen)\<close>\<close>

definition netmask :: "nat \<Rightarrow> nat \<Rightarrow> int" where
  "netmask bits prefix_len = (2 ^ bits - 1) XOR drop_bit prefix_len (2 ^ bits - 1)"

definition prefix_from_string :: "nat \<Rightarrow> string \<Rightarrow> nat option" where
  "prefix_from_string bits s =
     (if s = [] \<or> \<not> list_all is_decimal s then None
      else (case py_int s of None \<Rightarrow> None
            | Some n \<Rightarrow> if 0 \<le> n \<and> n \<le> int bits then Some (nat n) else None))"

text \<open>A dotted mask: ones followed by zeros, as a netmask or complemented as a host mask.\<close>

definition prefix_from_mask :: "int \<Rightarrow> nat option" where
  "prefix_from_mask m = List.find (\<lambda>p. netmask 32 p = m) [0..<33]"

definition prefix_from_ip_string :: "string \<Rightarrow> nat option" where
  "prefix_from_ip_string s =
     (case parse_ipv4 s of
        None \<Rightarrow> None
      | Some m \<Rightarrow>
          (case prefix_from_mask m of
             Some p \<Rightarrow> Some p
           | None \<Rightarrow> prefix_from_mask (m XOR (2 ^ 32 - 1))))"

definition parse_net_v4 :: "string \<Rightarrow> ip_network option" where
  "parse_net_v4 s =
     (case split_on (CHR ''/'') s of
        [host] \<Rightarrow> map_option (\<lambda>n. NetV4 n (netmask 32 32)) (parse_ipv4 host)
      | [host, len] \<Rightarrow>
          (case parse_ipv4 host of
             None \<Rightarrow> None
           | Some n \<Rightarrow>
               (case (case prefix_from_string 32 len of Some p \<Rightarrow> Some p | None \<Rightarrow> prefix_from_ip_string len) of
                  None \<Rightarrow> None
                | Some p \<Rightarrow> Some (NetV4 (n AND netmask 32 p) (netmask 32 p))))
      | _ \<Rightarrow> None)"

definition parse_net_v6 :: "string \<Rightarrow> ip_network option" where
  "parse_net_v6 s =
     (case split_on (CHR ''/'') s of
        [host] \<Rightarrow> map_option (\<lambda>(n, _). NetV6 n (netmask 128 128)) (parse_ipv6 host)
      | [host, len] \<Rightarrow>
          (case parse_ipv6 host of
             None \<Rightarrow> None
           | Some (n, _) \<Rightarrow>
               (case prefix_from_string 128 len of
                  None \<Rightarrow> None
                | Some p \<Rightarrow> Some (NetV6 (n AND netmask 128 p) (netmask 128 p))))
      | _ \<Rightarrow> None)"

definition parse_ip_network :: "string \<Rightarrow> ip_network option" where
  "parse_ip_network s = (case parse_net_v4 s of Some n \<Rightarrow> Some n | None \<Rightarrow> parse_net_v6 s)"

fun in_network :: "ip_address \<Rightarrow> ip_network \<Rightarrow> bool" where
  "in_network (IPv4 a) (NetV4 n m) \<longleftrightarrow> a AND m = n"
| "in_network (IPv6 a _) (NetV6 n m) \<longleftrightarrow> a AND m = n"
| "in_network _ _ \<longleftrightarrow> False"

section \<open>What membership means\<close>

lemma netmask_bits: "p \<le> b \<Longrightarrow> bit (netmask b p) i \<longleftrightarrow> b - p \<le> i \<and> i < b"
  by (auto simp: netmask_def bit_xor_iff bit_drop_bit_eq simp flip: mask_eq_exp_minus_1 simp add: bit_mask_iff)

lemma and_netmask:
  assumes "p \<le> b" and "0 \<le> a" and "a < 2 ^ b"
  shows "a AND netmask b p = push_bit (b - p) (drop_bit (b - p) a)"
proof (rule bit_eqI)
  fix i
  have "bit a i \<Longrightarrow> i < b" using assms(2,3) by (metis bit_take_bit_iff take_bit_int_eq_self)
  then show "bit (a AND netmask b p) i \<longleftrightarrow> bit (push_bit (b - p) (drop_bit (b - p) a)) i"
    using assms(1) by (auto simp: bit_and_iff netmask_bits bit_push_bit_iff bit_drop_bit_eq)
qed

text \<open>Two addresses agree under a mask exactly when they agree in the bits of the prefix.\<close>

lemma same_network:
  assumes "p \<le> b" and "0 \<le> a" "a < 2 ^ b" "0 \<le> n" "n < 2 ^ b"
  shows "a AND netmask b p = n AND netmask b p \<longleftrightarrow> a div 2 ^ (b - p) = n div 2 ^ (b - p)"
  using assms by (simp add: and_netmask push_bit_eq_mult drop_bit_eq_div)

lemma parse_all_bound:
  "parse_all p xs = Some ns \<Longrightarrow> (\<And>x n. p x = Some n \<Longrightarrow> 0 \<le> n \<and> n < base) \<Longrightarrow>
   length ns = length xs \<and> (\<forall>n \<in> set ns. 0 \<le> n \<and> n < base)"
  by (induction xs arbitrary: ns) (auto split: option.splits)

lemma foldl_base_bound:
  fixes base :: int
  assumes "\<forall>n \<in> set ns. 0 \<le> n \<and> n < base" and "0 \<le> acc" and "acc < base ^ k"
  shows "0 \<le> foldl (\<lambda>acc n. acc * base + n) acc ns \<and> foldl (\<lambda>acc n. acc * base + n) acc ns < base ^ (k + length ns)"
  using assms
proof (induction ns arbitrary: acc k)
  case (Cons n ns)
  from Cons.prems have n: "0 \<le> n" "n < base" by simp_all
  then have "acc * base + n < base ^ Suc k"
  proof -
    have "acc * base + n < (acc + 1) * base" using n by (simp add: distrib_right)
    also have "\<dots> \<le> base ^ k * base" using Cons.prems(3) n by (intro mult_right_mono) auto
    finally show ?thesis by (simp add: mult.commute)
  qed
  with Cons.IH [of "acc * base + n" "Suc k"] Cons.prems n show ?case by simp
qed simp

lemma parse_ipv4_bound: "parse_ipv4 s = Some n \<Longrightarrow> 0 \<le> n \<and> n < 2 ^ 32"
proof -
  assume "parse_ipv4 s = Some n"
  then obtain os ns where os: "length os = 4" "parse_all parse_octet os = Some ns" and n: "n = big_endian 256 ns"
    by (auto simp: parse_ipv4_def Let_def split: if_splits)
  have "length ns = length os \<and> (\<forall>n \<in> set ns. 0 \<le> n \<and> n < 256)"
    using os(2)
  proof (rule parse_all_bound)
    fix x m assume x: "parse_octet x = Some m"
    then have d: "list_all is_decimal x" "x \<noteq> []" and int: "py_int x = Some m" and "m \<le> 255"
      by (auto simp: parse_octet_def split: if_splits option.splits)
    have "0 \<le> m"
    proof -
      have "0 \<le> foldl (\<lambda>a c. 10 * a + (int (char_code c) - 48)) acc x" if "0 \<le> acc" for acc :: int
        using d(1) that
        by (induction x arbitrary: acc) (auto simp: is_decimal_def)
      moreover have "int_digits x 0 False = Some m"
        using int d by (auto simp: py_int_def Let_def strip_decimals is_decimal_def split: list.splits if_splits)
      ultimately show ?thesis using d by (auto simp: int_digits_decimals)
    qed
    with \<open>m \<le> 255\<close> show "0 \<le> m \<and> m < 256" by simp
  qed
  with os(1) foldl_base_bound [of ns 256 0 0] show ?thesis by (simp add: n big_endian_def)
qed

text \<open>The host part of a pattern does not matter: membership of an IPv4 address in a parsed network
  is agreement with the written address in the first bits.\<close>

lemma in_network_v4:
  assumes host: "parse_ipv4 host = Some n" "CHR ''/'' \<notin> set host"
    and len: "prefix_from_string 32 len = Some p" "CHR ''/'' \<notin> set len"
    and a: "0 \<le> a" "a < 2 ^ 32"
  shows "\<exists>net. parse_ip_network (host @ ''/'' @ len) = Some net \<and>
    (in_network (IPv4 a) net \<longleftrightarrow> a div 2 ^ (32 - p) = n div 2 ^ (32 - p))"
proof -
  have one: "split_on (CHR ''/'') s = [s]" if "CHR ''/'' \<notin> set s" for s
    using that by (induction s) auto
  have split: "split_on (CHR ''/'') (host @ ''/'' @ len) = [host, len]"
    using split_on_append [of "CHR ''/''" host len] one host len by simp
  have "p \<le> 32" using len(1) by (auto simp: prefix_from_string_def split: if_splits option.splits)
  then show ?thesis
    using same_network [of p 32 a n] parse_ipv4_bound [OF host(1)] a host len split
    by (simp add: parse_ip_network_def parse_net_v4_def)
qed

end
