(* ===== verification/Ip_Class.thy ===== *)
theory Ip_Class
  imports Ip_Address
begin

text \<open>
  The classification of addresses by the standard module \<^verbatim>\<open>ipaddress\<close> (the tables of Python 3.11.10),
  \<^verbatim>\<open>_ip_is_blocked\<close> of \<^verbatim>\<open>services/resourcespace/_helpers.py\<close> on top of it, and the text of an
  address (\<^verbatim>\<open>compressed\<close>).
\<close>

section \<open>Blocks of addresses\<close>

text \<open>A block is the address it starts at and the length of its prefix.\<close>

definition in_block :: "nat \<Rightarrow> int \<Rightarrow> int \<times> nat \<Rightarrow> bool" where
  "in_block bits n b \<longleftrightarrow> n div 2 ^ (bits - snd b) = fst b div 2 ^ (bits - snd b)"

definition quad :: "int \<Rightarrow> int \<Rightarrow> int \<Rightarrow> int \<Rightarrow> int" where
  "quad a b c d = ((a * 256 + b) * 256 + c) * 256 + d"

definition v4_private_networks :: "(int \<times> nat) list" where
  "v4_private_networks =
     [(quad 0 0 0 0, 8), (quad 10 0 0 0, 8), (quad 127 0 0 0, 8), (quad 169 254 0 0, 16), (quad 172 16 0 0, 12),
      (quad 192 0 0 0, 24), (quad 192 0 0 170, 31), (quad 192 0 2 0, 24), (quad 192 168 0 0, 16),
      (quad 198 18 0 0, 15), (quad 198 51 100 0, 24), (quad 203 0 113 0, 24), (quad 240 0 0 0, 4),
      (quad 255 255 255 255, 32)]"

definition v4_private_exceptions :: "(int \<times> nat) list" where
  "v4_private_exceptions = [(quad 192 0 0 9, 32), (quad 192 0 0 10, 32)]"

text \<open>An IPv6 block is written by the leading groups of its first address.\<close>

definition groups :: "int list \<Rightarrow> int" where
  "groups gs = big_endian 65536 gs * 2 ^ (16 * (8 - length gs))"

definition v6_private_networks :: "(int \<times> nat) list" where
  "v6_private_networks =
     [(1, 128), (0, 128), (groups [0, 0, 0, 0, 0, 0xFFFF], 96), (groups [0x64, 0xFF9B, 1], 48), (groups [0x100], 64),
      (groups [0x2001], 23), (groups [0x2001, 0xDB8], 32), (groups [0x2002], 16), (groups [0xFC00], 7),
      (groups [0xFE80], 10)]"

definition v6_private_exceptions :: "(int \<times> nat) list" where
  "v6_private_exceptions =
     [(groups [0x2001, 1] + 1, 128), (groups [0x2001, 1] + 2, 128), (groups [0x2001, 3], 32),
      (groups [0x2001, 4, 0x112], 48), (groups [0x2001, 0x20], 28), (groups [0x2001, 0x30], 28)]"

definition v6_reserved_networks :: "(int \<times> nat) list" where
  "v6_reserved_networks =
     [(0, 8), (groups [0x100], 8), (groups [0x200], 7), (groups [0x400], 6), (groups [0x800], 5),
      (groups [0x1000], 4), (groups [0x4000], 3), (groups [0x6000], 3), (groups [0x8000], 3), (groups [0xA000], 3),
      (groups [0xC000], 3), (groups [0xE000], 4), (groups [0xF000], 5), (groups [0xF800], 6), (groups [0xFE00], 9)]"

section \<open>The properties of an address\<close>

definition v4_is_private :: "int \<Rightarrow> bool" where
  "v4_is_private n \<longleftrightarrow>
     list_ex (in_block 32 n) v4_private_networks \<and> \<not> list_ex (in_block 32 n) v4_private_exceptions"

definition ipv4_mapped :: "int \<Rightarrow> int option" where
  "ipv4_mapped n = (if n div 2 ^ 32 = 0xFFFF then Some (n mod 2 ^ 32) else None)"

definition v6_is_private :: "int \<Rightarrow> bool" where
  "v6_is_private n \<longleftrightarrow>
     (case ipv4_mapped n of
        Some m \<Rightarrow> v4_is_private m
      | None \<Rightarrow>
          list_ex (in_block 128 n) v6_private_networks \<and> \<not> list_ex (in_block 128 n) v6_private_exceptions)"

fun is_private :: "ip_address \<Rightarrow> bool" where
  "is_private (IPv4 n) = v4_is_private n"
| "is_private (IPv6 n _) = v6_is_private n"

fun is_loopback :: "ip_address \<Rightarrow> bool" where
  "is_loopback (IPv4 n) = in_block 32 n (quad 127 0 0 0, 8)"
| "is_loopback (IPv6 n _) = (n = 1)"

fun is_link_local :: "ip_address \<Rightarrow> bool" where
  "is_link_local (IPv4 n) = in_block 32 n (quad 169 254 0 0, 16)"
| "is_link_local (IPv6 n _) = in_block 128 n (groups [0xFE80], 10)"

fun is_reserved :: "ip_address \<Rightarrow> bool" where
  "is_reserved (IPv4 n) = in_block 32 n (quad 240 0 0 0, 4)"
| "is_reserved (IPv6 n _) = list_ex (in_block 128 n) v6_reserved_networks"

fun is_multicast :: "ip_address \<Rightarrow> bool" where
  "is_multicast (IPv4 n) = in_block 32 n (quad 224 0 0 0, 4)"
| "is_multicast (IPv6 n _) = in_block 128 n (groups [0xFF00], 8)"

fun is_unspecified :: "ip_address \<Rightarrow> bool" where
  "is_unspecified (IPv4 n) = (n = 0)"
| "is_unspecified (IPv6 n _) = (n = 0)"

fun is_site_local :: "ip_address \<Rightarrow> bool" where
  "is_site_local (IPv4 n) = False"
| "is_site_local (IPv6 n _) = in_block 128 n (groups [0xFEC0], 10)"

fun is_global :: "ip_address \<Rightarrow> bool" where
  "is_global (IPv4 n) = (\<not> in_block 32 n (quad 100 64 0 0, 10) \<and> \<not> v4_is_private n)"
| "is_global (IPv6 n _) = (\<not> v6_is_private n)"

definition ip_is_blocked :: "ip_address \<Rightarrow> bool" where
  "ip_is_blocked ip \<longleftrightarrow>
     is_private ip \<or> is_loopback ip \<or> is_link_local ip \<or> is_reserved ip \<or> is_multicast ip \<or>
     is_unspecified ip \<or> is_site_local ip \<or> \<not> is_global ip"

fun ip_version :: "ip_address \<Rightarrow> int" where
  "ip_version (IPv4 _) = 4"
| "ip_version (IPv6 _ _) = 6"

section \<open>The text of an address\<close>

fun hex_text :: "nat \<Rightarrow> string" where
  "hex_text n = (if n < 16 then [] else hex_text (n div 16)) @
     [if n mod 16 < 10 then char_of (48 + n mod 16) else char_of (87 + n mod 16)]"

declare hex_text.simps [simp del]

text \<open>The value of the text \<open>n\<close> in base \<open>base\<close>, most significant group first.\<close>

fun base_groups :: "nat \<Rightarrow> int \<Rightarrow> int \<Rightarrow> int list" where
  "base_groups 0 base n = []"
| "base_groups (Suc k) base n = base_groups k base (n div base) @ [n mod base]"

fun join_with :: "string \<Rightarrow> string list \<Rightarrow> string" where
  "join_with sep [] = []"
| "join_with sep [x] = x"
| "join_with sep (x # y # xs) = x @ sep @ join_with sep (y # xs)"

definition ipv4_text :: "int \<Rightarrow> string" where
  "ipv4_text n = join_with ''.'' (map str_of_int (base_groups 4 256 n))"

text \<open>
  \<^verbatim>\<open>_compress_hextets\<close>: the start and the length of the first longest run of zero groups, then the
  run is replaced by an empty group.
\<close>

fun zero_run :: "nat \<Rightarrow> int list \<Rightarrow> nat \<times> nat \<Rightarrow> nat \<times> nat \<Rightarrow> nat \<times> nat" where
  "zero_run i [] cur best = best"
| "zero_run i (g # gs) cur best =
     (if g = 0 then
        (let cur' = (if snd cur = 0 then i else fst cur, Suc (snd cur)) in
         zero_run (Suc i) gs cur' (if snd best < snd cur' then cur' else best))
      else zero_run (Suc i) gs (0, 0) best)"

definition ipv6_text :: "int \<Rightarrow> string" where
  "ipv6_text n =
     (let gs = base_groups 8 65536 n;
          (start, len) = zero_run 0 gs (0, 0) (0, 0);
          hs = map (\<lambda>g. hex_text (nat g)) gs
      in if 1 < len then
           join_with '':''
             ((if start = 0 then [[]] else []) @ take start hs @ [[]] @ drop (start + len) hs @
              (if start + len = 8 then [[]] else []))
         else join_with '':'' hs)"

fun compressed :: "ip_address \<Rightarrow> string" where
  "compressed (IPv4 n) = ipv4_text n"
| "compressed (IPv6 n None) = ipv6_text n"
| "compressed (IPv6 n (Some scope)) = ipv6_text n @ ''%'' @ scope"

section \<open>What is blocked\<close>

text \<open>A block is an interval.\<close>

lemma in_block_iff:
  fixes n a :: int
  shows "in_block bits n (a * 2 ^ (bits - len), len) \<longleftrightarrow> a * 2 ^ (bits - len) \<le> n \<and> n < (a + 1) * 2 ^ (bits - len)"
proof -
  define m :: int where "m = 2 ^ (bits - len)"
  have p: "0 < m" by (simp add: m_def)
  have "n div m = a \<longleftrightarrow> a * m \<le> n \<and> n < (a + 1) * m"
  proof
    assume "n div m = a"
    moreover define r where "r = n mod m"
    ultimately have "n = m * a + r" "0 \<le> r" "r < m" using p by auto
    then show "a * m \<le> n \<and> n < (a + 1) * m" by (simp add: algebra_simps)
  next
    assume "a * m \<le> n \<and> n < (a + 1) * m"
    then show "n div m = a" by (intro int_div_pos_eq [where r = "n - m * a"]) (auto simp: algebra_simps)
  qed
  then show ?thesis by (simp add: in_block_def m_def)
qed

text \<open>
  The IPv4 addresses the broker may connect to: none of the private, shared, loopback, link-local,
  documentation, benchmarking, multicast and reserved ranges.
\<close>

definition v4_internal_ranges :: "(int \<times> int) list" where
  "v4_internal_ranges =
     [(quad 0 0 0 0, quad 0 255 255 255), (quad 10 0 0 0, quad 10 255 255 255), (quad 100 64 0 0, quad 100 127 255 255),
      (quad 127 0 0 0, quad 127 255 255 255), (quad 169 254 0 0, quad 169 254 255 255),
      (quad 172 16 0 0, quad 172 31 255 255), (quad 192 0 2 0, quad 192 0 2 255),
      (quad 192 168 0 0, quad 192 168 255 255), (quad 198 18 0 0, quad 198 19 255 255),
      (quad 198 51 100 0, quad 198 51 100 255), (quad 203 0 113 0, quad 203 0 113 255),
      (quad 224 0 0 0, quad 255 255 255 255)]"

lemmas v4_tables = v4_private_networks_def v4_private_exceptions_def v4_internal_ranges_def quad_def

lemma in_block_v4:
  "in_block 32 n (x, len) \<longleftrightarrow>
     x div 2 ^ (32 - len) * 2 ^ (32 - len) \<le> n \<and> n < (x div 2 ^ (32 - len) + 1) * 2 ^ (32 - len)"
  using in_block_iff [of 32 n "x div 2 ^ (32 - len)" len] by (simp add: in_block_def)

lemma v4_internal_blocked:
  assumes "(lo, hi) \<in> set v4_internal_ranges" and "lo \<le> n" and "n \<le> hi"
  shows "ip_is_blocked (IPv4 n)"
  using assms
  by (simp add: v4_internal_ranges_def quad_def, elim disjE conjE;
      simp add: ip_is_blocked_def v4_is_private_def v4_tables in_block_v4; linarith?)

end
