(* ===== verification/Effect_Monad.thy ===== *)
theory Effect_Monad
  imports Broker_Prelude
begin

text \<open>
  Operations over a state that may raise: what a Python function does that reads and changes
  something outside and may end with an exception. The network, and the whole application, are
  states of this kind. \<open>delivers\<close> is the contract of an operation: an invariant it keeps on every
  path, and what holds of its result when it returns.
\<close>

section \<open>Operations that may raise\<close>

type_synonym ('s, 'a) op = "'s \<Rightarrow> (exn + 'a) \<times> 's"

definition op_return :: "'a \<Rightarrow> ('s, 'a) op" where
  "op_return x = (\<lambda>n. (Inr x, n))"

definition op_raise :: "exn \<Rightarrow> ('s, 'a) op" where
  "op_raise e = (\<lambda>n. (Inl e, n))"

definition op_lift :: "exn + 'a \<Rightarrow> ('s, 'a) op" where
  "op_lift r = (\<lambda>n. (r, n))"

definition op_bind :: "('s, 'a) op \<Rightarrow> ('a \<Rightarrow> ('s, 'b) op) \<Rightarrow> ('s, 'b) op" where
  "op_bind m f = (\<lambda>n. case m n of (Inl e, n') \<Rightarrow> (Inl e, n') | (Inr x, n') \<Rightarrow> f x n')"

text \<open>\<^verbatim>\<open>try: ... except\<close>: the handler decides whether to raise again.\<close>

definition op_handle :: "('s, 'a) op \<Rightarrow> (exn \<Rightarrow> ('s, 'a) op) \<Rightarrow> ('s, 'a) op" where
  "op_handle m h = (\<lambda>n. case m n of (Inl e, n') \<Rightarrow> h e n' | (Inr x, n') \<Rightarrow> (Inr x, n'))"

definition op_ask :: "('s \<Rightarrow> 'a) \<Rightarrow> ('s, 'a) op" where
  "op_ask f = (\<lambda>n. (Inr (f n), n))"

fun op_map :: "('a \<Rightarrow> ('s, 'b) op) \<Rightarrow> 'a list \<Rightarrow> ('s, 'b list) op" where
  "op_map f [] = op_return []"
| "op_map f (x # xs) = op_bind (f x) (\<lambda>y. op_bind (op_map f xs) (\<lambda>ys. op_return (y # ys)))"

section \<open>What an operation keeps and delivers\<close>

text \<open>
  Started where \<open>P\<close> holds, the operation ends where \<open>P\<close> holds, whether it raises or not; when it
  returns, \<open>Q\<close> holds of the result.
\<close>

definition delivers :: "('s \<Rightarrow> bool) \<Rightarrow> ('s, 'a) op \<Rightarrow> ('a \<Rightarrow> bool) \<Rightarrow> bool" where
  "delivers P m Q \<longleftrightarrow> (\<forall>n. P n \<longrightarrow> P (snd (m n)) \<and> (\<forall>x. fst (m n) = Inr x \<longrightarrow> Q x))"

abbreviation keeps :: "('s \<Rightarrow> bool) \<Rightarrow> ('s, 'a) op \<Rightarrow> bool" where
  "keeps P m \<equiv> delivers P m (\<lambda>_. True)"

named_theorems net_intros \<open>how an operation that keeps an invariant is composed\<close>

declare TrueI [net_intros]

lemma deliversD:
  assumes "delivers P m Q" and "P n"
  shows "P (snd (m n))" and "fst (m n) = Inr x \<Longrightarrow> Q x"
  using assms by (auto simp: delivers_def)

lemma delivers_return [net_intros]: "Q x \<Longrightarrow> delivers P (op_return x) Q"
  by (simp add: delivers_def op_return_def)

lemma delivers_raise [net_intros]: "delivers P (op_raise e) Q"
  by (simp add: delivers_def op_raise_def)

lemma delivers_lift [net_intros]: "(\<And>x. r = Inr x \<Longrightarrow> Q x) \<Longrightarrow> delivers P (op_lift r) Q"
  by (simp add: delivers_def op_lift_def)

lemma delivers_ask [net_intros]: "(\<And>n. Q (f n)) \<Longrightarrow> delivers P (op_ask f) Q"
  by (simp add: delivers_def op_ask_def)

lemma delivers_bind:
  assumes "delivers P m Q" and "\<And>x. Q x \<Longrightarrow> delivers P (f x) R"
  shows "delivers P (op_bind m f) R"
  using assms
  by (fastforce simp: delivers_def op_bind_def split: prod.splits sum.splits)

lemma keeps_bind [net_intros]:
  "keeps P m \<Longrightarrow> (\<And>x. delivers P (f x) R) \<Longrightarrow> delivers P (op_bind m f) R"
  by (rule delivers_bind) auto

lemma delivers_handle [net_intros]:
  assumes "delivers P m Q" and "\<And>e. delivers P (h e) Q"
  shows "delivers P (op_handle m h) Q"
  using assms
  by (fastforce simp: delivers_def op_handle_def split: prod.splits sum.splits)

lemma delivers_weaken: "delivers P m Q \<Longrightarrow> (\<And>x. Q x \<Longrightarrow> R x) \<Longrightarrow> delivers P m R"
  by (auto simp: delivers_def)

lemma keeps_of: "delivers P m Q \<Longrightarrow> keeps P m"
  by (auto simp: delivers_def)

lemma keeps_map [net_intros]: "(\<And>x. keeps P (f x)) \<Longrightarrow> keeps P (op_map f xs)"
  by (induction xs) (auto intro!: net_intros)

lemma delivers_if [net_intros]:
  "(c \<Longrightarrow> delivers P a Q) \<Longrightarrow> (\<not> c \<Longrightarrow> delivers P b Q) \<Longrightarrow> delivers P (if c then a else b) Q"
  by simp

lemma delivers_option [net_intros]:
  "(x = None \<Longrightarrow> delivers P a Q) \<Longrightarrow> (\<And>y. x = Some y \<Longrightarrow> delivers P (f y) Q) \<Longrightarrow>
   delivers P (case x of None \<Rightarrow> a | Some y \<Rightarrow> f y) Q"
  by (cases x) auto

lemma delivers_prod [net_intros]:
  "(\<And>a b. x = (a, b) \<Longrightarrow> delivers P (f a b) Q) \<Longrightarrow> delivers P (case x of (a, b) \<Rightarrow> f a b) Q"
  by (cases x) auto

lemma delivers_sum [net_intros]:
  "(\<And>y. x = Inl y \<Longrightarrow> delivers P (f y) Q) \<Longrightarrow> (\<And>y. x = Inr y \<Longrightarrow> delivers P (g y) Q) \<Longrightarrow>
   delivers P (case x of Inl y \<Rightarrow> f y | Inr y \<Rightarrow> g y) Q"
  by (cases x) auto

lemma delivers_let [net_intros]: "delivers P (f x) Q \<Longrightarrow> delivers P (Let x f) Q"
  by simp

lemma op_bind_raise [simp]: "op_bind (op_raise e) f = op_raise e"
  by (simp add: op_bind_def op_raise_def)

lemma op_bind_return [simp]: "op_bind (op_return x) f = f x"
  by (simp add: op_bind_def op_return_def)

lemma op_bind_lift: "op_bind (op_lift r) f = (case r of Inl e \<Rightarrow> op_raise e | Inr x \<Rightarrow> f x)"
  by (auto simp: op_bind_def op_lift_def op_raise_def split: sum.splits)

lemma op_bind_ask: "op_bind (op_ask g) f n = f (g n) n"
  by (simp add: op_bind_def op_ask_def)

lemmas op_defs = op_return_def op_raise_def op_lift_def op_bind_def op_handle_def op_ask_def

end
