(* ===== verification/Net_Model.thy ===== *)
theory Net_Model
  imports Json_Values Ip_Class Effect_Monad
begin

text \<open>
  The network as the broker sees it, and the interactions with it. What is not code of the
  repository is a field of the state: the IDNA encoding, URL parser and URL join of \<^verbatim>\<open>httpx\<close>, the
  resolver, the answers of the servers, the monotonic clock, the current date, the JPEG encoder,
  \<^verbatim>\<open>repr()\<close>, and what \<^verbatim>\<open>str()\<close> makes of floats and containers. The resolver and the servers may answer
  differently each time: they are asked with the number of the interaction. The state records every
  request that was sent; the code does not read that record, the theorems do.
\<close>

section \<open>Requests\<close>

text \<open>What \<^verbatim>\<open>httpx.URL\<close> makes of a text.\<close>

record hurl =
  hu_text :: string
  hu_scheme :: string
  hu_host :: string
  hu_raw_host :: string
  hu_port :: "int option"

text \<open>The URL with its host replaced by an address: \<^verbatim>\<open>str(parsed.copy_with(host=ip))\<close>.\<close>

record pinned =
  pn_url :: hurl
  pn_address :: string

datatype payload =
    NoPayload
  | FormPayload "string dict"
  | FilePayload string "byte list" string

record http_call =
  hc_method :: string
  hc_to :: pinned
  hc_headers :: "string dict"
  hc_sni :: string
  hc_body :: payload
  hc_read_timeout :: int
  hc_connect_timeout :: int

text \<open>
  An answer has a body as text, and the chunks of a streamed body with a flag that says that the
  stream came to its end. A failed connection is told from other transport errors.
\<close>

record http_reply =
  hr_status :: int
  hr_headers :: "string dict"
  hr_text :: string
  hr_chunks :: "byte list list"
  hr_complete :: bool

datatype outcome = Reply http_reply | ConnectFailed | TransportFailed

text \<open>How an attempt of a race between addresses ends: it is connected and has an answer, or it fails.\<close>

datatype attempt = Opened http_reply | AttemptFailed | AttemptRaised exn

record net =
  nt_idna :: "string \<Rightarrow> string option"
  nt_parse_url :: "string \<Rightarrow> hurl option"
  nt_join :: "string \<Rightarrow> string \<Rightarrow> string option"
  nt_resolve :: "nat \<Rightarrow> string \<Rightarrow> string list option"
  nt_answer :: "nat \<Rightarrow> http_call \<Rightarrow> outcome"
  nt_race :: "nat \<Rightarrow> http_call list \<Rightarrow> nat list \<times> (nat \<times> attempt) list list"
  nt_mono :: "nat \<Rightarrow> int"
  nt_stamp :: "nat \<Rightarrow> string"
  nt_preview :: "byte list \<Rightarrow> int \<Rightarrow> byte list option"
  nt_str :: "json \<Rightarrow> string"
  nt_repr :: "json \<Rightarrow> string"
  nt_ticks :: nat
  nt_sent :: "http_call list"

section \<open>The interactions\<close>

type_synonym 'a net_op = "(net, 'a) op"

definition getaddrinfo :: "string \<Rightarrow> string list option net_op" where
  "getaddrinfo host = (\<lambda>n. (Inr (nt_resolve n (nt_ticks n) host), n\<lparr>nt_ticks := Suc (nt_ticks n)\<rparr>))"

definition send :: "http_call \<Rightarrow> outcome net_op" where
  "send c = (\<lambda>n. (Inr (nt_answer n (nt_ticks n) c), n\<lparr>nt_ticks := Suc (nt_ticks n), nt_sent := nt_sent n @ [c]\<rparr>))"

text \<open>
  Requests started together: the network says which of them are started before the race is over, and
  in which groups they end.
\<close>

definition start_race :: "http_call list \<Rightarrow> (nat \<times> attempt) list list net_op" where
  "start_race calls = (\<lambda>n.
     case nt_race n (nt_ticks n) calls of
       (started, batches) \<Rightarrow>
         (Inr batches, n\<lparr>nt_ticks := Suc (nt_ticks n),
            nt_sent := nt_sent n @ map ((!) calls) (filter (\<lambda>i. i < length calls) started)\<rparr>))"

definition monotonic :: "int net_op" where
  "monotonic = (\<lambda>n. (Inr (nt_mono n (nt_ticks n)), n\<lparr>nt_ticks := Suc (nt_ticks n)\<rparr>))"

definition now_iso :: "string net_op" where
  "now_iso = (\<lambda>n. (Inr (nt_stamp n (nt_ticks n)), n\<lparr>nt_ticks := Suc (nt_ticks n)\<rparr>))"

text \<open>\<^verbatim>\<open>str(value)\<close> and \<^verbatim>\<open>f"{value}"\<close>\<close>

definition json_text :: "(json \<Rightarrow> string) \<Rightarrow> json \<Rightarrow> string" where
  "json_text other j =
     (case j of
        JStr s \<Rightarrow> s
      | JInt n \<Rightarrow> str_of_int n
      | JNull \<Rightarrow> ''None''
      | JBool b \<Rightarrow> if b then ''True'' else ''False''
      | _ \<Rightarrow> other j)"

lemma delivers_outcome [net_intros]:
  "(\<And>r. x = Reply r \<Longrightarrow> delivers P (f r) Q) \<Longrightarrow> delivers P a Q \<Longrightarrow> delivers P b Q \<Longrightarrow>
   delivers P (case x of Reply r \<Rightarrow> f r | ConnectFailed \<Rightarrow> a | TransportFailed \<Rightarrow> b) Q"
  by (cases x) auto

section \<open>A discipline of requests\<close>

text \<open>
  An invariant of the network state that depends on the requests sent only, and that every
  permitted request keeps. The interactions keep it; so do the operations built from them.
\<close>

locale request_discipline =
  fixes permitted :: "http_call \<Rightarrow> bool" and inv :: "net \<Rightarrow> bool"
  assumes inv_ticks: "inv n \<Longrightarrow> inv (n\<lparr>nt_ticks := k\<rparr>)"
    and inv_sent: "inv n \<Longrightarrow> list_all permitted cs \<Longrightarrow> inv (n\<lparr>nt_ticks := k, nt_sent := nt_sent n @ cs\<rparr>)"
begin

lemma getaddrinfo_keeps: "keeps inv (getaddrinfo host)"
  by (simp add: delivers_def getaddrinfo_def inv_ticks)

lemma monotonic_keeps: "keeps inv monotonic"
  by (simp add: delivers_def monotonic_def inv_ticks)

lemma now_iso_keeps: "keeps inv now_iso"
  by (simp add: delivers_def now_iso_def inv_ticks)

lemma send_keeps: "permitted c \<Longrightarrow> keeps inv (send c)"
  by (simp add: delivers_def send_def inv_sent)

lemma start_race_keeps:
  assumes "list_all permitted calls"
  shows "keeps inv (start_race calls)"
proof -
  have "list_all permitted (map ((!) calls) (filter (\<lambda>i. i < length calls) started))" for started
    using assms by (auto simp: list_all_iff)
  then show ?thesis by (auto simp: delivers_def start_race_def inv_sent split: prod.splits)
qed

lemmas interaction_keeps = getaddrinfo_keeps monotonic_keeps now_iso_keeps send_keeps

end

end
