(* ===== verification/Url_Parse.thy ===== *)
theory Url_Parse
  imports Url_Codec Ip_Address
begin

text \<open>
  The parts of \<^verbatim>\<open>urllib.parse\<close> that the code calls to take URLs apart and to extend their query:
  \<^verbatim>\<open>urlparse\<close> with the \<open>hostname\<close>, \<open>port\<close>, \<open>username\<close> and \<open>password\<close> of its result, \<^verbatim>\<open>geturl\<close>, and
  \<^verbatim>\<open>parse_qsl\<close> with \<^verbatim>\<open>keep_blank_values=True\<close>. Decoded query text is kept as its UTF-8 bytes, so that
  characters outside the repertoire of the strings (the replacement character among them) pass
  through. On the repertoire the NFKC check of \<^verbatim>\<open>_checknetloc\<close> never raises.
\<close>

section \<open>Partitioning\<close>

definition before :: "char \<Rightarrow> string \<Rightarrow> string" where
  "before c s = takeWhile (\<lambda>x. x \<noteq> c) s"

definition after :: "char \<Rightarrow> string \<Rightarrow> string" where
  "after c s = tl (dropWhile (\<lambda>x. x \<noteq> c) s)"

text \<open>\<^verbatim>\<open>s.rpartition(c)\<close>: the text up to the last \<open>c\<close>, and the text behind it.\<close>

definition before_last :: "char \<Rightarrow> string \<Rightarrow> string" where
  "before_last c s = rev (after c (rev s))"

definition after_last :: "char \<Rightarrow> string \<Rightarrow> string" where
  "after_last c s = rev (before c (rev s))"

section \<open>urlparse\<close>

record url_parts =
  ur_scheme :: string
  ur_netloc :: string
  ur_path :: string
  ur_params :: string
  ur_query :: string
  ur_fragment :: string

definition is_ascii_alpha :: "char \<Rightarrow> bool" where
  "is_ascii_alpha c \<longleftrightarrow> (let n = char_code c in (65 \<le> n \<and> n \<le> 90) \<or> (97 \<le> n \<and> n \<le> 122))"

definition is_scheme_char :: "char \<Rightarrow> bool" where
  "is_scheme_char c \<longleftrightarrow> is_ascii_alpha c \<or> is_decimal c \<or> c \<in> {CHR ''+'', CHR ''-'', CHR ''.''}"

text \<open>Leading control characters and spaces go, and tabs and line breaks anywhere.\<close>

definition clean_url :: "string \<Rightarrow> string" where
  "clean_url s = filter (\<lambda>c. char_code c \<notin> {9, 10, 13}) (dropWhile (\<lambda>c. char_code c \<le> 32) s)"

definition split_scheme :: "string \<Rightarrow> string \<times> string" where
  "split_scheme url =
     (let i = before (CHR '':'') url in
      if CHR '':'' \<in> set url \<and> i \<noteq> [] \<and> is_ascii_alpha (hd url) \<and> list_all is_scheme_char i
      then (py_lower i, after (CHR '':'') url)
      else ([], url))"

definition is_hex_char :: "char \<Rightarrow> bool" where
  "is_hex_char c \<longleftrightarrow>
     (let n = char_code c in (48 \<le> n \<and> n \<le> 57) \<or> (65 \<le> n \<and> n \<le> 70) \<or> (97 \<le> n \<and> n \<le> 102))"

text \<open>\<^verbatim>\<open>_check_bracketed_host\<close>: an IPvFuture literal or an IPv6 address.\<close>

definition bracketed_host_ok :: "string \<Rightarrow> bool" where
  "bracketed_host_ok h =
     (if startswith h ''v'' then
        (let v = takeWhile is_hex_char (tl h); r = dropWhile is_hex_char (tl h)
         in v \<noteq> [] \<and> r \<noteq> [] \<and> hd r = CHR ''.'' \<and> tl r \<noteq> [])
      else (case parse_ip_address h of Some (IPv6 _ _) \<Rightarrow> True | _ \<Rightarrow> False))"

definition netloc_ok :: "string \<Rightarrow> bool" where
  "netloc_ok n =
     (let op = (CHR ''['' \<in> set n); cl = (CHR '']'' \<in> set n) in
      op = cl \<and> (op \<longrightarrow> bracketed_host_ok (before (CHR '']'') (after (CHR ''['') n))))"

definition netloc_stop :: "char \<Rightarrow> bool" where
  "netloc_stop c \<longleftrightarrow> c = CHR ''/'' \<or> c = CHR ''?'' \<or> c = CHR ''#''"

definition split_netloc :: "string \<Rightarrow> string \<times> string" where
  "split_netloc url =
     (if startswith url ''//'' then
        (takeWhile (\<lambda>c. \<not> netloc_stop c) (drop 2 url), dropWhile (\<lambda>c. \<not> netloc_stop c) (drop 2 url))
      else ([], url))"

definition uses_params :: "string list" where
  "uses_params =
     [[], ''ftp'', ''hdl'', ''prospero'', ''http'', ''imap'', ''https'', ''shttp'', ''rtsp'', ''rtsps'', ''rtspu'',
      ''sip'', ''sips'', ''mms'', ''sftp'', ''tel'']"

definition uses_netloc :: "string list" where
  "uses_netloc =
     [[], ''ftp'', ''http'', ''gopher'', ''nntp'', ''telnet'', ''imap'', ''wais'', ''file'', ''mms'', ''https'',
      ''shttp'', ''snews'', ''prospero'', ''rtsp'', ''rtsps'', ''rtspu'', ''rsync'', ''svn'', ''svn+ssh'', ''sftp'',
      ''nfs'', ''git'', ''git+ssh'', ''ws'', ''wss'']"

text \<open>\<^verbatim>\<open>_splitparams\<close>: the parameters are those of the last path segment.\<close>

definition split_params :: "string \<Rightarrow> string \<times> string" where
  "split_params path =
     (let seg = after_last (CHR ''/'') path; dir = take (length path - length seg) path in
      if CHR '';'' \<in> set seg then (dir @ before (CHR '';'') seg, after (CHR '';'') seg) else (path, []))"

definition urlparse :: "string \<Rightarrow> exn + url_parts" where
  "urlparse s =
     (let (scheme, url) = split_scheme (clean_url s);
          (netloc, url) = split_netloc url
      in if \<not> netloc_ok netloc then Inl ValueError
         else
           (let fragment = (if CHR ''#'' \<in> set url then after (CHR ''#'') url else []);
                url = before (CHR ''#'') url;
                query = (if CHR ''?'' \<in> set url then after (CHR ''?'') url else []);
                path = before (CHR ''?'') url;
                (path, params) = (if scheme \<in> set uses_params then split_params path else (path, []))
            in Inr \<lparr>ur_scheme = scheme, ur_netloc = netloc, ur_path = path, ur_params = params,
                     ur_query = query, ur_fragment = fragment\<rparr>))"

section \<open>The parts of the network location\<close>

definition hostinfo :: "string \<Rightarrow> string \<times> string" where
  "hostinfo netloc =
     (let h = after_last (CHR ''@'') netloc in
      if CHR ''['' \<in> set h then
        (let b = after (CHR ''['') h in
         (before (CHR '']'') b, after (CHR '':'') (after (CHR '']'') b)))
      else (before (CHR '':'') h, after (CHR '':'') h))"

text \<open>Only the text before a zone identifier is lowercased.\<close>

definition hostname :: "url_parts \<Rightarrow> string option" where
  "hostname p =
     (let h = fst (hostinfo (ur_netloc p)) in
      if h = [] then None
      else Some (py_lower (before (CHR ''%'') h) @ drop (length (before (CHR ''%'') h)) h))"

definition url_port :: "url_parts \<Rightarrow> exn + int option" where
  "url_port p =
     (let t = snd (hostinfo (ur_netloc p)) in
      if t = [] then Inr None
      else if py_isdigit t \<and> py_isascii t then
        (case py_int t of
           None \<Rightarrow> Inl ValueError
         | Some n \<Rightarrow> if 0 \<le> n \<and> n \<le> 65535 then Inr (Some n) else Inl ValueError)
      else Inl ValueError)"

definition url_username :: "url_parts \<Rightarrow> string option" where
  "url_username p =
     (if CHR ''@'' \<in> set (ur_netloc p) then Some (before (CHR '':'') (before_last (CHR ''@'') (ur_netloc p))) else None)"

definition url_password :: "url_parts \<Rightarrow> string option" where
  "url_password p =
     (if CHR ''@'' \<in> set (ur_netloc p) \<and> CHR '':'' \<in> set (before_last (CHR ''@'') (ur_netloc p))
      then Some (after (CHR '':'') (before_last (CHR ''@'') (ur_netloc p))) else None)"

section \<open>geturl\<close>

definition geturl :: "url_parts \<Rightarrow> string" where
  "geturl p =
     (let url = (if ur_params p = [] then ur_path p else ur_path p @ '';'' @ ur_params p);
          scheme = ur_scheme p; netloc = ur_netloc p;
          url = (if netloc \<noteq> [] \<or> (scheme \<noteq> [] \<and> scheme \<in> set uses_netloc) \<or> startswith url ''//''
                 then ''//'' @ netloc @ (if url \<noteq> [] \<and> hd url \<noteq> CHR ''/'' then CHR ''/'' # url else url)
                 else url);
          url = (if scheme = [] then url else scheme @ '':'' @ url);
          url = (if ur_query p = [] then url else url @ ''?'' @ ur_query p)
      in if ur_fragment p = [] then url else url @ ''#'' @ ur_fragment p)"

section \<open>parse_qsl\<close>

text \<open>
  Decoding UTF-8 with \<^verbatim>\<open>errors="replace"\<close>: a maximal ill-formed part becomes U+FFFD, whose bytes are
  EF BF BD. For a lead byte, the number of bytes to follow and the range of the first of them.
\<close>

definition utf8_lead :: "byte \<Rightarrow> (nat \<times> nat \<times> nat) option" where
  "utf8_lead b =
     (let n = unat b in
      if 194 \<le> n \<and> n \<le> 223 then Some (1, 128, 191)
      else if n = 224 then Some (2, 160, 191)
      else if n = 237 then Some (2, 128, 159)
      else if 225 \<le> n \<and> n \<le> 239 then Some (2, 128, 191)
      else if n = 240 then Some (3, 144, 191)
      else if 241 \<le> n \<and> n \<le> 243 then Some (3, 128, 191)
      else if n = 244 then Some (3, 128, 143)
      else None)"

fun utf8_follow :: "nat \<Rightarrow> nat \<Rightarrow> nat \<Rightarrow> byte list \<Rightarrow> nat" where
  "utf8_follow 0 lo hi bs = 0"
| "utf8_follow (Suc k) lo hi [] = 0"
| "utf8_follow (Suc k) lo hi (b # bs) =
     (if lo \<le> unat b \<and> unat b \<le> hi then Suc (utf8_follow k 128 191 bs) else 0)"

definition replacement :: "byte list" where
  "replacement = [0xEF, 0xBF, 0xBD]"

function utf8_replace :: "byte list \<Rightarrow> byte list" where
  "utf8_replace [] = []"
| "utf8_replace (b # bs) =
     (if unat b < 128 then b # utf8_replace bs
      else
        (case utf8_lead b of
           None \<Rightarrow> replacement @ utf8_replace bs
         | Some (k, lo, hi) \<Rightarrow>
             (let m = utf8_follow k lo hi bs in
              if m = k then b # take k bs @ utf8_replace (drop k bs)
              else replacement @ utf8_replace (drop m bs))))"
  by pat_completeness auto
termination by (relation "measure length") auto

definition hex_pair :: "char \<Rightarrow> char \<Rightarrow> byte option" where
  "hex_pair a b =
     (if is_hex_char a \<and> is_hex_char b then
        (let v = (\<lambda>c. let n = char_code c in if n \<le> 57 then n - 48 else if n \<le> 70 then n - 55 else n - 87)
         in Some (byte_of (v a * 16 + v b)))
      else None)"

fun percent_decode :: "string \<Rightarrow> byte list" where
  "percent_decode (c # a # b # cs) =
     (if c = CHR ''%'' then
        (case hex_pair a b of Some v \<Rightarrow> v # percent_decode cs | None \<Rightarrow> utf8_char c @ percent_decode (a # b # cs))
      else utf8_char c @ percent_decode (a # b # cs))"
| "percent_decode (c # cs) = utf8_char c @ percent_decode cs"
| "percent_decode [] = []"

text \<open>\<^verbatim>\<open>unquote\<close> decodes each run of ASCII characters by itself.\<close>

fun unquote_runs :: "string \<Rightarrow> string \<Rightarrow> byte list" where
  "unquote_runs acc [] = utf8_replace (percent_decode acc)"
| "unquote_runs acc (c # cs) =
     (if is_ascii_char c then unquote_runs (acc @ [c]) cs
      else utf8_replace (percent_decode acc) @ utf8_char c @ unquote_runs [] cs)"

definition unquote_plus :: "string \<Rightarrow> byte list" where
  "unquote_plus s = unquote_runs [] (map (\<lambda>c. if c = CHR ''+'' then CHR '' '' else c) s)"

definition parse_qsl :: "string \<Rightarrow> (byte list \<times> byte list) list" where
  "parse_qsl qs =
     map (\<lambda>f. (unquote_plus (before (CHR ''='') f), unquote_plus (after (CHR ''='') f)))
       (filter (\<lambda>f. f \<noteq> []) (split_on (CHR ''&'') qs))"

fun urlencode_bytes :: "(byte list \<times> byte list) list \<Rightarrow> string" where
  "urlencode_bytes [] = []"
| "urlencode_bytes [(k, v)] = quote_plus_bytes k @ ''='' @ quote_plus_bytes v"
| "urlencode_bytes ((k, v) # kv # kvs) = quote_plus_bytes k @ ''='' @ quote_plus_bytes v @ ''&'' @ urlencode_bytes (kv # kvs)"

text \<open>
  The idiom of \<^verbatim>\<open>_append_query\<close>: take the URL apart, add pairs to its query, put it together again.
\<close>

definition append_query :: "string \<Rightarrow> (string \<times> string) list \<Rightarrow> exn + string" where
  "append_query url params =
     (case urlparse url of
        Inl e \<Rightarrow> Inl e
      | Inr p \<Rightarrow>
          Inr (geturl (p\<lparr>ur_query :=
            urlencode_bytes (parse_qsl (ur_query p) @ map (\<lambda>(k, v). (utf8 k, utf8 v)) params)\<rparr>)))"

section \<open>Round trips\<close>

lemma before_append: "c \<notin> set a \<Longrightarrow> before c (a @ c # b) = a"
  by (induction a) (auto simp: before_def)

lemma after_append: "c \<notin> set a \<Longrightarrow> after c (a @ c # b) = b"
  by (induction a) (auto simp: after_def)

lemma before_absent: "c \<notin> set s \<Longrightarrow> before c s = s"
  by (auto simp: before_def takeWhile_eq_all_conv)

lemma before_no: "c \<notin> set (before c s)"
  by (auto simp: before_def dest: set_takeWhileD)

lemma before_set: "x \<in> set (before c s) \<Longrightarrow> x \<in> set s"
  by (auto simp: before_def dest: set_takeWhileD)

lemma after_set: "x \<in> set (after c s) \<Longrightarrow> x \<in> set s"
  by (metis after_def list.sel(2) list.set_sel(2) set_dropWhileD)

lemma before_after: "c \<in> set s \<Longrightarrow> s = before c s @ c # after c s"
proof -
  assume "c \<in> set s"
  then obtain a b where "s = a @ c # b" "c \<notin> set a" by (auto dest: split_list_first)
  then show ?thesis by (simp add: before_append after_append)
qed

subsection \<open>UTF-8\<close>

text \<open>Well-formed UTF-8.\<close>

function utf8_ok :: "byte list \<Rightarrow> bool" where
  "utf8_ok [] \<longleftrightarrow> True"
| "utf8_ok (b # bs) \<longleftrightarrow>
     (if unat b < 128 then utf8_ok bs
      else
        (case utf8_lead b of
           None \<Rightarrow> False
         | Some (k, lo, hi) \<Rightarrow> utf8_follow k lo hi bs = k \<and> utf8_ok (drop k bs)))"
  by pat_completeness auto
termination by (relation "measure length") auto

declare utf8_replace.simps [simp del] utf8_ok.simps [simp del]

lemmas utf8_unfold = utf8_replace.simps utf8_ok.simps

lemma utf8_follow_le: "utf8_follow k lo hi bs \<le> k" "utf8_follow k lo hi bs \<le> length bs"
  by (induction k lo hi bs rule: utf8_follow.induct) auto

lemma utf8_follow_append: "utf8_follow k lo hi bs = k \<Longrightarrow> utf8_follow k lo hi (bs @ cs) = k"
  by (induction k lo hi bs rule: utf8_follow.induct) (auto split: if_splits)

lemma utf8_ok_append: "utf8_ok a \<Longrightarrow> utf8_ok (a @ b) = utf8_ok b"
proof (induction a rule: utf8_ok.induct)
  case (2 x xs)
  show ?case
  proof (cases "unat x < 128")
    case True
    with 2 show ?thesis by (simp add: utf8_ok.simps)
  next
    case False
    with 2(3) obtain k lo hi where l: "utf8_lead x = Some (k, lo, hi)"
      and f: "utf8_follow k lo hi xs = k" "utf8_ok (drop k xs)" by (auto simp: utf8_ok.simps split: option.splits)
    have "k \<le> length xs" using f(1) utf8_follow_le(2) [of k lo hi xs] by simp
    then show ?thesis using 2(2) [OF False l _ _ f(2)] False l f utf8_follow_append [OF f(1), of b]
      by (simp add: utf8_ok.simps)
  qed
qed (simp add: utf8_ok.simps)

lemma utf8_replace_append: "utf8_ok a \<Longrightarrow> utf8_replace (a @ b) = a @ utf8_replace b"
proof (induction a rule: utf8_ok.induct)
  case (2 x xs)
  show ?case
  proof (cases "unat x < 128")
    case True
    with 2 show ?thesis by (simp add: utf8_unfold)
  next
    case False
    with 2(3) obtain k lo hi where l: "utf8_lead x = Some (k, lo, hi)"
      and f: "utf8_follow k lo hi xs = k" "utf8_ok (drop k xs)" by (auto simp: utf8_ok.simps split: option.splits)
    have "k \<le> length xs" using f(1) utf8_follow_le(2) [of k lo hi xs] by simp
    moreover have "take k xs @ drop k xs @ utf8_replace b = xs @ utf8_replace b" by simp
    ultimately show ?thesis using 2(2) [OF False l _ _ f(2)] False l f utf8_follow_append [OF f(1), of b]
      by (simp add: utf8_replace.simps)
  qed
qed (simp add: utf8_replace.simps)

lemma utf8_replace_ok: "utf8_ok a \<Longrightarrow> utf8_replace a = a"
  using utf8_replace_append [of a "[]"] by (simp add: utf8_replace.simps)

lemma replacement_ok: "utf8_ok replacement"
proof -
  have "utf8_lead 0xEF = Some (2, 128, 191)" by code_simp
  moreover have "utf8_follow 2 128 191 [0xBF, 0xBD] = 2" by code_simp
  moreover have "\<not> unat (0xEF :: byte) < 128" by simp
  ultimately show ?thesis by (simp add: replacement_def utf8_ok.simps)
qed

lemma utf8_follow_ok: "utf8_follow k lo hi bs = k \<Longrightarrow> utf8_follow k lo hi (take k bs) = k"
  by (induction k lo hi bs rule: utf8_follow.induct) (auto split: if_splits)

lemma utf8_replace_is_ok: "utf8_ok (utf8_replace bs)"
proof (induction bs rule: utf8_replace.induct)
  case (2 b bs)
  show ?case
  proof (cases "unat b < 128")
    case True
    with 2 show ?thesis by (simp add: utf8_unfold)
  next
    case False
    show ?thesis
    proof (cases "utf8_lead b")
      case None
      with 2(2) False show ?thesis by (simp add: utf8_replace.simps utf8_ok_append [OF replacement_ok])
    next
      case (Some t)
      obtain k lo hi where t: "utf8_lead b = Some (k, lo, hi)" using Some by (cases t) auto
      show ?thesis
      proof (cases "utf8_follow k lo hi bs = k")
        case True
        have le: "k \<le> length bs" using True utf8_follow_le(2) [of k lo hi bs] by simp
        have "utf8_ok (b # take k bs)"
          using False t utf8_follow_ok [OF True] le by (simp add: utf8_ok.simps)
        then have "utf8_ok ((b # take k bs) @ utf8_replace (drop k bs))"
          using 2(3) [OF False t _ _ refl True] by (subst utf8_ok_append) auto
        then show ?thesis using False t True by (simp add: utf8_replace.simps)
      next
        case neq: False
        then show ?thesis using 2(4) [OF False t _ _ refl neq] False t
          by (simp add: utf8_replace.simps utf8_ok_append [OF replacement_ok])
      qed
    qed
  qed
qed (simp add: utf8_unfold)

subsection \<open>Percent-encoding\<close>

definition enc_byte :: "byte \<Rightarrow> string" where
  "enc_byte b = (if unat b = 32 then [CHR '' ''] else quote_byte b)"

lemma percent_decode_plain: "c \<noteq> CHR ''%'' \<Longrightarrow> percent_decode (c # s) = utf8_char c @ percent_decode s"
  by (cases s rule: percent_decode.cases) auto

lemma utf8_char_ascii: "unat b < 128 \<Longrightarrow> utf8_char (char_of (unat b)) = [b]"
  by (simp add: utf8_char_def Let_def of_char_char_of)

lemma char_of_unat_eq: "unat (b :: byte) < 128 \<Longrightarrow> char_of (unat b) = c \<longleftrightarrow> unat b = char_code c"
  by (metis of_char_char_of char_of_char unat_byte)

lemma hex_pair_upper:
  assumes "a < 16" and "b < 16"
  shows "hex_pair (upper_hex_digit a) (upper_hex_digit b) = Some (byte_of (a * 16 + b))"
proof -
  have "is_hex_char (upper_hex_digit n) \<and>
      (let m = char_code (upper_hex_digit n) in if m \<le> 57 then m - 48 else if m \<le> 70 then m - 55 else m - 87) = n"
    if "n < 16" for n using that by (auto simp: is_hex_char_def upper_hex_digit_def of_char_char_of Let_def)
  from this [OF assms(1)] this [OF assms(2)] show ?thesis by (simp add: hex_pair_def Let_def)
qed

lemma percent_decode_enc: "percent_decode (enc_byte b @ s) = b # percent_decode s"
proof (cases "unat b = 32 \<or> unreserved (unat b)")
  case True
  then have "unat b < 128" by (auto dest: unreserved_printable)
  moreover have "char_of (unat b) \<noteq> CHR ''%''"
    using True \<open>unat b < 128\<close> by (auto simp: char_of_unat_eq unreserved_def)
  moreover have "enc_byte b = [char_of (unat b)]"
  proof -
    have "char_of (32 :: nat) = CHR '' ''" by code_simp
    with True show ?thesis by (auto simp: enc_byte_def quote_byte_def)
  qed
  ultimately show ?thesis by (simp add: percent_decode_plain utf8_char_ascii)
next
  case False
  have "hex_pair (upper_hex_digit (unat b div 16)) (upper_hex_digit (unat b mod 16)) = Some b"
    using hex_pair_upper [of "unat b div 16" "unat b mod 16"] by (simp add: byte_high)
  with False show ?thesis by (simp add: enc_byte_def quote_byte_def percent_def)
qed

lemma percent_decode_encs: "percent_decode (concat (map enc_byte bs)) = bs"
  by (induction bs) (simp_all add: percent_decode_enc)

lemma unquote_runs_ascii: "py_isascii s \<Longrightarrow> unquote_runs acc s = utf8_replace (percent_decode (acc @ s))"
  by (induction s arbitrary: acc) (simp_all add: py_isascii_def)

lemma quote_byte_not_plus: "CHR ''+'' \<notin> set (quote_byte b)"
  by (auto dest!: quote_byte_chars simp: unreserved_def)

lemma unquote_quote: "unquote_plus (quote_plus_bytes bs) = utf8_replace bs"
proof -
  have "map (\<lambda>c. if c = CHR ''+'' then CHR '' '' else c) (quote_plus_bytes bs) = concat (map enc_byte bs)"
  proof (induction bs)
    case (Cons b bs)
    have "map (\<lambda>c. if c = CHR ''+'' then CHR '' '' else c) (quote_byte b) = quote_byte b"
      using quote_byte_not_plus [of b] by (intro map_idI) auto
    with Cons show ?case by (simp add: quote_plus_bytes_def enc_byte_def)
  qed (simp add: quote_plus_bytes_def)
  moreover have "py_isascii (concat (map enc_byte bs))"
    by (auto simp: py_isascii_def list_all_iff enc_byte_def is_ascii_char_def
        dest!: quote_byte_chars unreserved_printable split: if_splits)
  ultimately show ?thesis by (simp add: unquote_plus_def unquote_runs_ascii percent_decode_encs)
qed

lemma quote_plus_bytes_no: "CHR ''&'' \<notin> set (quote_plus_bytes bs)" "CHR ''='' \<notin> set (quote_plus_bytes bs)"
  "CHR ''#'' \<notin> set (quote_plus_bytes bs)"
  using quote_plus_bytes_chars [of _ bs] by (fastforce simp: url_char_def unreserved_def)+

definition pairs_ok :: "(byte list \<times> byte list) list \<Rightarrow> bool" where
  "pairs_ok kvs \<longleftrightarrow> list_all (\<lambda>(k, v). utf8_ok k \<and> utf8_ok v) kvs"

lemma split_on_piece: "c \<notin> set a \<Longrightarrow> split_on c (a @ c # b) = a # split_on c b"
  by (induction a) auto

lemma split_on_none: "c \<notin> set a \<Longrightarrow> split_on c a = [a]"
  by (induction a) auto

lemma pair_text:
  "CHR ''&'' \<notin> set (quote_plus_bytes k @ ''='' @ quote_plus_bytes v)"
  "unquote_plus (before (CHR ''='') (quote_plus_bytes k @ CHR ''='' # quote_plus_bytes v)) = utf8_replace k"
  "unquote_plus (after (CHR ''='') (quote_plus_bytes k @ CHR ''='' # quote_plus_bytes v)) = utf8_replace v"
  by (simp_all add: before_append after_append quote_plus_bytes_no unquote_quote)

text \<open>What is encoded is decoded unchanged.\<close>

lemma parse_qsl_urlencode: "pairs_ok kvs \<Longrightarrow> parse_qsl (urlencode_bytes kvs) = kvs"
proof (induction kvs rule: urlencode_bytes.induct)
  case 1
  then show ?case by (simp add: parse_qsl_def)
next
  case (2 k v)
  then show ?case
    using split_on_none [OF pair_text(1) [of k v]]
    by (simp add: parse_qsl_def pair_text utf8_replace_ok pairs_ok_def)
next
  case (3 k v kv kvs)
  have "split_on (CHR ''&'') (urlencode_bytes ((k, v) # kv # kvs)) =
      (quote_plus_bytes k @ ''='' @ quote_plus_bytes v) # split_on (CHR ''&'') (urlencode_bytes (kv # kvs))"
    using split_on_piece [OF pair_text(1) [of k v]] by simp
  with 3 show ?case by (simp add: parse_qsl_def pair_text utf8_replace_ok pairs_ok_def)
qed

subsection \<open>Taking a URL apart and putting it together\<close>

text \<open>The parts of a URL with a network location, as \<^verbatim>\<open>urlparse\<close> returns them.\<close>

definition url_wf :: "url_parts \<Rightarrow> bool" where
  "url_wf p \<longleftrightarrow>
     (ur_scheme p = [] \<or>
       (is_ascii_alpha (hd (ur_scheme p)) \<and> list_all is_scheme_char (ur_scheme p) \<and> py_lower (ur_scheme p) = ur_scheme p)) \<and>
     ur_netloc p \<noteq> [] \<and> netloc_ok (ur_netloc p) \<and> list_all (\<lambda>c. \<not> netloc_stop c) (ur_netloc p) \<and>
     (ur_path p = [] \<or> hd (ur_path p) = CHR ''/'') \<and> (ur_params p \<noteq> [] \<longrightarrow> ur_path p \<noteq> []) \<and>
     (if ur_scheme p \<in> set uses_params then
        CHR '';'' \<notin> set (after_last (CHR ''/'') (ur_path p)) \<and> CHR ''/'' \<notin> set (ur_params p)
      else ur_params p = []) \<and>
     CHR ''?'' \<notin> set (ur_path p @ ur_params p) \<and>
     CHR ''#'' \<notin> set (ur_path p @ ur_params p @ ur_query p) \<and>
     list_all (\<lambda>c. char_code c \<notin> {9, 10, 13})
       (ur_netloc p @ ur_path p @ ur_params p @ ur_query p @ ur_fragment p)"

lemma after_last_append: "c \<in> set b \<Longrightarrow> after_last c (a @ b) = after_last c b"
  by (auto simp: after_last_def before_def takeWhile_append)

lemma after_last_suffix: "c \<in> set a \<Longrightarrow> c \<notin> set b \<Longrightarrow> after_last c (a @ b) = after_last c a @ b"
  by (auto simp: after_last_def before_def takeWhile_append)

lemma after_last_split: "\<exists>d. s = d @ after_last c s"
  by (metis after_last_def before_def rev_append rev_rev_ident takeWhile_dropWhile_id)

lemma split_params_join:
  assumes "CHR '';'' \<notin> set (after_last (CHR ''/'') path)" and "CHR ''/'' \<notin> set ps"
    and "ps \<noteq> []" and "CHR ''/'' \<in> set path"
  shows "split_params (path @ CHR '';'' # ps) = (path, ps)"
proof -
  obtain d where d: "path = d @ after_last (CHR ''/'') path" using after_last_split by blast
  have seg: "after_last (CHR ''/'') (path @ CHR '';'' # ps) = after_last (CHR ''/'') path @ CHR '';'' # ps"
    using assms(2,4) after_last_suffix [of "CHR ''/''" path "CHR '';'' # ps"] by simp
  have "length path = length d + length (after_last (CHR ''/'') path)" by (metis d length_append)
  then have "take (length path - length (after_last (CHR ''/'') path)) path = d"
    by (metis add_diff_cancel_right' append_eq_conv_conj d)
  then show ?thesis
    using assms(1) d by (simp add: split_params_def Let_def seg before_append after_append)
qed

definition url_tail :: "url_parts \<Rightarrow> string" where
  "url_tail p =
     ur_path p @ (if ur_params p = [] then [] else CHR '';'' # ur_params p) @
     (if ur_query p = [] then [] else CHR ''?'' # ur_query p) @
     (if ur_fragment p = [] then [] else CHR ''#'' # ur_fragment p)"

lemma geturl_text:
  assumes "url_wf p"
  shows "geturl p = (if ur_scheme p = [] then [] else ur_scheme p @ '':'') @ ''//'' @ ur_netloc p @ url_tail p"
proof -
  have "ur_path p @ x \<noteq> [] \<Longrightarrow> hd (ur_path p @ x) = CHR ''/''" if "ur_path p \<noteq> []" for x
    using assms that by (auto simp: url_wf_def)
  with assms show ?thesis
    by (cases "ur_path p") (auto simp: geturl_def url_tail_def Let_def url_wf_def)
qed

lemma url_tail_parts:
  assumes "url_wf p"
  shows "(if CHR ''#'' \<in> set (url_tail p) then after (CHR ''#'') (url_tail p) else []) = ur_fragment p"
    and "before (CHR ''#'') (url_tail p) =
      ur_path p @ (if ur_params p = [] then [] else CHR '';'' # ur_params p) @
      (if ur_query p = [] then [] else CHR ''?'' # ur_query p)"
proof -
  let ?a = "ur_path p @ (if ur_params p = [] then [] else CHR '';'' # ur_params p) @
      (if ur_query p = [] then [] else CHR ''?'' # ur_query p)"
  have t: "url_tail p = ?a @ (if ur_fragment p = [] then [] else CHR ''#'' # ur_fragment p)"
    by (simp add: url_tail_def)
  have n: "CHR ''#'' \<notin> set ?a" using assms by (auto simp: url_wf_def)
  show "(if CHR ''#'' \<in> set (url_tail p) then after (CHR ''#'') (url_tail p) else []) = ur_fragment p"
    using n after_append [OF n, of "ur_fragment p"] by (cases "ur_fragment p = []") (simp_all add: t)
  show "before (CHR ''#'') (url_tail p) = ?a"
    using before_append [OF n, of "ur_fragment p"] before_absent [OF n]
    by (cases "ur_fragment p = []") (simp_all only: t if_True if_False append_Nil2 simp_thms)
qed

lemma url_query_parts:
  fixes p
  defines "a \<equiv> ur_path p @ (if ur_params p = [] then [] else CHR '';'' # ur_params p)"
  defines "u \<equiv> ur_path p @ (if ur_params p = [] then [] else CHR '';'' # ur_params p) @
      (if ur_query p = [] then [] else CHR ''?'' # ur_query p)"
  assumes "url_wf p"
  shows "(if CHR ''?'' \<in> set u then after (CHR ''?'') u else []) = ur_query p" and "before (CHR ''?'') u = a"
proof -
  have n: "CHR ''?'' \<notin> set a" using assms by (auto simp: url_wf_def)
  have u: "u = a @ (if ur_query p = [] then [] else CHR ''?'' # ur_query p)"
    by (simp add: u_def a_def)
  show "(if CHR ''?'' \<in> set u then after (CHR ''?'') u else []) = ur_query p" "before (CHR ''?'') u = a"
    using n after_append [OF n, of "ur_query p"] before_append [OF n, of "ur_query p"] before_absent [OF n]
    by (cases "ur_query p = []"; simp add: u)+
qed

lemma url_params_parts:
  assumes "url_wf p"
  shows "(if ur_scheme p \<in> set uses_params
          then split_params (ur_path p @ (if ur_params p = [] then [] else CHR '';'' # ur_params p))
          else (ur_path p @ (if ur_params p = [] then [] else CHR '';'' # ur_params p), [])) = (ur_path p, ur_params p)"
proof (cases "ur_params p = []")
  case True
  then show ?thesis using assms by (simp add: url_wf_def split_params_def Let_def)
next
  case False
  then have "CHR ''/'' \<in> set (ur_path p)" using assms by (cases "ur_path p") (auto simp: url_wf_def)
  with False assms show ?thesis by (auto simp: url_wf_def split_params_join)
qed

lemma scheme_char_facts:
  assumes "list_all is_scheme_char s"
  shows "CHR '':'' \<notin> set s" and "list_all (\<lambda>c. 32 < char_code c) s"
  using assms by (auto simp: list_all_iff is_scheme_char_def is_ascii_alpha_def is_decimal_def Let_def)

lemma clean_geturl:
  assumes "url_wf p"
  shows "clean_url (geturl p) = geturl p"
proof -
  have "list_all (\<lambda>c. char_code c \<notin> {9, 10, 13}) (ur_scheme p)"
  proof (cases "ur_scheme p = []")
    case False
    then have "list_all (\<lambda>c. 32 < char_code c) (ur_scheme p)"
      using assms by (intro scheme_char_facts(2)) (auto simp: url_wf_def)
    then show ?thesis by (auto simp: list_all_iff)
  qed simp
  then have f: "list_all (\<lambda>c. char_code c \<notin> {9, 10, 13}) (geturl p)"
    using assms by (auto simp: geturl_text url_wf_def url_tail_def list_all_iff)
  have "\<exists>c cs. geturl p = c # cs \<and> 32 < char_code c"
    using assms scheme_char_facts(2) [of "ur_scheme p"]
    by (cases "ur_scheme p") (auto simp: geturl_text url_wf_def)
  with f show ?thesis by (auto simp: clean_url_def list_all_iff intro: filter_True)
qed

lemma split_geturl:
  assumes "url_wf p"
  shows "split_scheme (geturl p) = (ur_scheme p, ''//'' @ ur_netloc p @ url_tail p)"
proof (cases "ur_scheme p = []")
  case True
  then show ?thesis
    using assms by (simp add: geturl_text split_scheme_def Let_def is_ascii_alpha_def)
next
  case False
  then have "CHR '':'' \<notin> set (ur_scheme p)" using assms scheme_char_facts(1) by (auto simp: url_wf_def)
  with False assms show ?thesis
    by (auto simp: geturl_text split_scheme_def Let_def before_append after_append url_wf_def)
qed

lemma split_netloc_text:
  assumes "url_wf p"
  shows "split_netloc (''//'' @ ur_netloc p @ url_tail p) = (ur_netloc p, url_tail p)"
proof -
  have stop: "netloc_stop (CHR ''/'')" "netloc_stop (CHR ''?'')" "netloc_stop (CHR ''#'')"
    by (simp_all add: netloc_stop_def)
  have n: "\<forall>c \<in> set (ur_netloc p). \<not> netloc_stop c" using assms by (simp add: url_wf_def list_all_iff)
  have "url_tail p = [] \<or> netloc_stop (hd (url_tail p))"
    using assms stop by (cases "ur_path p") (auto simp: url_tail_def url_wf_def)
  then show ?thesis
  proof
    assume "url_tail p = []"
    with n show ?thesis by (simp add: split_netloc_def startswith_def takeWhile_eq_all_conv)
  next
    assume h: "netloc_stop (hd (url_tail p))"
    show ?thesis
    proof (cases "url_tail p")
      case Nil
      with n show ?thesis by (simp add: split_netloc_def startswith_def takeWhile_eq_all_conv)
    next
      case (Cons c cs)
      with h n show ?thesis by (simp add: split_netloc_def startswith_def)
    qed
  qed
qed

text \<open>Parsing inverts \<^verbatim>\<open>geturl\<close> on such parts.\<close>

lemma urlparse_geturl:
  assumes "url_wf p"
  shows "urlparse (geturl p) = Inr p"
proof -
  have "netloc_ok (ur_netloc p)" using assms by (simp add: url_wf_def)
  then show ?thesis
    using assms url_params_parts [OF assms]
    by (simp only: urlparse_def Let_def prod.case clean_geturl split_geturl split_netloc_text not_True_eq_False
        url_tail_parts url_query_parts if_False) simp
qed


lemma clean_url_chars: "c \<in> set (clean_url s) \<Longrightarrow> char_code c \<notin> {9, 10, 13}"
  by (simp add: clean_url_def)

lemma lower_scheme_char:
  assumes "is_scheme_char c"
  shows "is_scheme_char (lower_char c)" and "is_ascii_alpha c \<Longrightarrow> is_ascii_alpha (lower_char c)"
  using assms
  by (auto simp: is_scheme_char_def is_ascii_alpha_def is_decimal_def lower_char_def Let_def of_char_char_of)

lemma split_scheme_wf:
  assumes "split_scheme u = (scheme, rest)"
  shows "scheme = [] \<or> (is_ascii_alpha (hd scheme) \<and> list_all is_scheme_char scheme \<and> py_lower scheme = scheme)"
    and "set rest \<subseteq> set u"
proof -
  let ?i = "before (CHR '':'') u"
  show "scheme = [] \<or> (is_ascii_alpha (hd scheme) \<and> list_all is_scheme_char scheme \<and> py_lower scheme = scheme)"
  proof (cases "CHR '':'' \<in> set u \<and> ?i \<noteq> [] \<and> is_ascii_alpha (hd u) \<and> list_all is_scheme_char ?i")
    case True
    then have "hd ?i = hd u" by (cases u) (auto simp: before_def split: if_splits)
    with True have "is_ascii_alpha (hd ?i)" by simp
    with True have "is_ascii_alpha (hd (py_lower ?i))"
      using lower_scheme_char(2) [of "hd ?i"] by (cases ?i) (auto simp: py_lower_def)
    moreover have "list_all is_scheme_char (py_lower ?i)"
      using True by (auto simp: py_lower_def list_all_iff lower_scheme_char)
    ultimately show ?thesis using assms True by (auto simp: split_scheme_def Let_def py_lower_idem)
  next
    case False
    with assms show ?thesis by (auto simp: split_scheme_def Let_def split: if_splits)
  qed
  show "set rest \<subseteq> set u"
    using assms by (auto simp: split_scheme_def Let_def dest: after_set split: if_splits)
qed

lemma split_params_wf:
  assumes "split_params path0 = (path, params)" and "path0 = [] \<or> hd path0 = CHR ''/''"
  shows "path = [] \<or> hd path = CHR ''/''" and "params \<noteq> [] \<longrightarrow> path \<noteq> []"
    and "CHR '';'' \<notin> set (after_last (CHR ''/'') path)" and "CHR ''/'' \<notin> set params"
    and "set path \<subseteq> set path0" and "set params \<subseteq> set path0"
proof -
  let ?seg = "after_last (CHR ''/'') path0"
  obtain d where d: "path0 = d @ ?seg" using after_last_split by blast
  have len: "length path0 = length d + length ?seg" by (metis d length_append)
  have dir: "take (length path0 - length ?seg) path0 = d"
    by (metis add_diff_cancel_right' append_eq_conv_conj d len)
  have seg: "CHR ''/'' \<notin> set ?seg" by (simp add: after_last_def before_no)
  have "(path = [] \<or> hd path = CHR ''/'') \<and> (params \<noteq> [] \<longrightarrow> path \<noteq> []) \<and>
      CHR '';'' \<notin> set (after_last (CHR ''/'') path) \<and> CHR ''/'' \<notin> set params \<and>
      set path \<subseteq> set path0 \<and> set params \<subseteq> set path0"
  proof (cases "CHR '';'' \<in> set ?seg")
      case True
      then have pp: "path = d @ before (CHR '';'') ?seg" "params = after (CHR '';'') ?seg"
        using assms(1) by (auto simp: split_params_def Let_def dir)
      have "path0 \<noteq> []" using True by (auto simp: after_last_def before_def)
      with assms(2) have "CHR ''/'' \<in> set path0" by (cases path0) auto
      with seg d have inn: "CHR ''/'' \<in> set d" by (metis Un_iff set_append)
      then have "after_last (CHR ''/'') path = after_last (CHR ''/'') d @ before (CHR '';'') ?seg"
        unfolding pp(1) using seg by (intro after_last_suffix) (auto dest: before_set)
      moreover have "after_last (CHR ''/'') d = []"
      proof -
        have "?seg = after_last (CHR ''/'') d @ ?seg"
          using after_last_suffix [OF inn seg] d by simp
        then show ?thesis by simp
      qed
      moreover have "hd path = CHR ''/''"
      proof -
        have "d \<noteq> []" using inn by auto
        then have "hd path0 = hd d" "hd path = hd d" by (metis d hd_append2, simp add: pp(1))
        then show ?thesis using assms(2) \<open>path0 \<noteq> []\<close> by simp
      qed
      moreover have "set ?seg \<subseteq> set path0" "set d \<subseteq> set path0"
        by (metis Un_upper2 d set_append, metis Un_upper1 d set_append)
      ultimately show ?thesis
        using inn seg unfolding pp by (auto simp: before_no dest: after_set before_set)
    next
      case False
      with assms show ?thesis by (auto simp: split_params_def Let_def)
  qed
  then show "path = [] \<or> hd path = CHR ''/''" "params \<noteq> [] \<longrightarrow> path \<noteq> []"
    "CHR '';'' \<notin> set (after_last (CHR ''/'') path)" "CHR ''/'' \<notin> set params"
    "set path \<subseteq> set path0" "set params \<subseteq> set path0" by blast+
qed

lemma params_part_wf:
  assumes "(if scheme \<in> set uses_params then split_params path0 else (path0, [])) = (path, params)"
    and "path0 = [] \<or> hd path0 = CHR ''/''"
  shows "path = [] \<or> hd path = CHR ''/''" and "params \<noteq> [] \<longrightarrow> path \<noteq> []"
    and "if scheme \<in> set uses_params then CHR '';'' \<notin> set (after_last (CHR ''/'') path) \<and> CHR ''/'' \<notin> set params
         else params = []"
    and "set path \<subseteq> set path0" and "set params \<subseteq> set path0"
proof -
  consider "scheme \<in> set uses_params" "split_params path0 = (path, params)"
    | "scheme \<notin> set uses_params" "path = path0" "params = []"
    using assms(1) by (auto split: if_splits)
  note parts = this
  from parts show "path = [] \<or> hd path = CHR ''/''" by cases (use assms(2) split_params_wf(1) in blast)+
  from parts show "params \<noteq> [] \<longrightarrow> path \<noteq> []" by cases (use assms(2) split_params_wf(2) in blast)+
  from parts show "if scheme \<in> set uses_params then CHR '';'' \<notin> set (after_last (CHR ''/'') path) \<and> CHR ''/'' \<notin> set params
      else params = []"
    by cases (use split_params_wf(3,4) [OF _ assms(2)] in simp_all)
  from parts show "set path \<subseteq> set path0" by cases (use split_params_wf(5) [OF _ assms(2)] in simp_all)
  from parts show "set params \<subseteq> set path0" by cases (use split_params_wf(6) [OF _ assms(2)] in simp_all)
qed

lemma split_netloc_wf:
  assumes "split_netloc u = (netloc, v)" and "netloc \<noteq> []"
  shows "set netloc \<subseteq> set u" and "set v \<subseteq> set u" and "list_all (\<lambda>c. \<not> netloc_stop c) netloc"
    and "v = [] \<or> netloc_stop (hd v)"
proof -
  have v: "netloc = takeWhile (\<lambda>c. \<not> netloc_stop c) (drop 2 u)" "v = dropWhile (\<lambda>c. \<not> netloc_stop c) (drop 2 u)"
    using assms by (auto simp: split_netloc_def split: if_splits)
  then show "set netloc \<subseteq> set u" "set v \<subseteq> set u" "list_all (\<lambda>c. \<not> netloc_stop c) netloc"
    by (auto simp: list_all_iff dest!: set_takeWhileD set_dropWhileD dest: in_set_dropD)
  show "v = [] \<or> netloc_stop (hd v)" using hd_dropWhile [of "\<lambda>c. \<not> netloc_stop c" "drop 2 u"] by (auto simp: v(2))
qed

lemma urlparse_wf:
  assumes "urlparse s = Inr p" and "ur_netloc p \<noteq> []"
  shows "url_wf p"
proof -
  obtain scheme u where sc: "split_scheme (clean_url s) = (scheme, u)" by fastforce
  obtain netloc v where nl: "split_netloc u = (netloc, v)" by fastforce
  let ?u2 = "before (CHR ''#'') v"
  let ?path0 = "before (CHR ''?'') ?u2"
  obtain path params where pp: "(if scheme \<in> set uses_params then split_params ?path0 else (?path0, [])) = (path, params)"
    by fastforce
  have ok: "netloc_ok netloc"
    and p: "p = \<lparr>ur_scheme = scheme, ur_netloc = netloc, ur_path = path, ur_params = params,
      ur_query = (if CHR ''?'' \<in> set ?u2 then after (CHR ''?'') ?u2 else []),
      ur_fragment = (if CHR ''#'' \<in> set v then after (CHR ''#'') v else [])\<rparr>"
    using assms(1) sc nl pp by (auto simp: urlparse_def Let_def split: if_splits)
  have ne: "netloc \<noteq> []" using assms(2) by (simp add: p)
  note net = split_netloc_wf [OF nl ne]
  have cl: "\<forall>c \<in> set u. char_code c \<notin> {9, 10, 13}"
    using split_scheme_wf(2) [OF sc] clean_url_chars [of _ s] by blast
  have path0: "?path0 = [] \<or> hd ?path0 = CHR ''/''"
    using net(4) by (cases v) (auto simp: before_def netloc_stop_def)
  have no: "CHR ''?'' \<notin> set ?path0" "CHR ''#'' \<notin> set ?path0" "set ?path0 \<subseteq> set v"
    using before_no [of "CHR ''?''" ?u2] before_no [of "CHR ''#''" v]
      before_set [of _ "CHR ''?''" ?u2] before_set [of _ "CHR ''#''" v] by blast+
  have nq: "CHR ''#'' \<notin> set (ur_query p)" "set (ur_query p) \<subseteq> set v" "set (ur_fragment p) \<subseteq> set v"
    using before_no [of "CHR ''#''" v] after_set [of _ "CHR ''?''" ?u2] after_set [of _ "CHR ''#''" v]
      before_set [of _ "CHR ''#''" v] by (auto simp: p)
  note parts = params_part_wf [OF pp path0]
  have eqs: "ur_scheme p = scheme" "ur_netloc p = netloc" "ur_path p = path" "ur_params p = params"
    by (simp_all add: p)
  have chars: "list_all (\<lambda>c. char_code c \<notin> {9, 10, 13})
      (ur_netloc p @ ur_path p @ ur_params p @ ur_query p @ ur_fragment p)"
  proof -
    have "set path \<subseteq> set u" "set params \<subseteq> set u" using parts(4,5) no(3) net(2) by (meson order_trans)+
    moreover have "set (ur_query p) \<subseteq> set u" "set (ur_fragment p) \<subseteq> set u" using nq(2,3) net(2) by (meson order_trans)+
    ultimately have "set (netloc @ path @ params @ ur_query p @ ur_fragment p) \<subseteq> set u"
      using net(1) by (simp only: set_append Un_subset_iff)
    then show ?thesis using cl unfolding eqs list_all_iff by blast
  qed
  have sets: "CHR ''?'' \<notin> set (ur_path p @ ur_params p)" "CHR ''#'' \<notin> set (ur_path p @ ur_params p @ ur_query p)"
    using parts(4,5) no(1,2) nq(1) unfolding eqs set_append by blast+
  show ?thesis
    using split_scheme_wf(1) [OF sc] ne ok net(3) parts(1-3) sets chars
    unfolding url_wf_def eqs by (intro conjI)
qed

lemma urlencode_bytes_chars: "c \<in> set (urlencode_bytes kvs) \<Longrightarrow> url_char c \<or> c = CHR ''&'' \<or> c = CHR ''=''"
  by (induction kvs rule: urlencode_bytes.induct) (auto dest: quote_plus_bytes_chars)

lemma url_wf_query:
  assumes "url_wf p"
  shows "url_wf (p\<lparr>ur_query := urlencode_bytes kvs\<rparr>)"
proof -
  have "list_all (\<lambda>c. char_code c \<notin> {9, 10, 13}) (urlencode_bytes kvs)" "CHR ''#'' \<notin> set (urlencode_bytes kvs)"
    using urlencode_bytes_chars [of _ kvs]
    by (fastforce simp: list_all_iff url_char_def unreserved_def)+
  with assms show ?thesis by (simp add: url_wf_def)
qed

text \<open>The pairs of a parsed query are well formed, and so are the bytes of a string.\<close>

lemma utf8_char_ok: "utf8_ok (utf8_char c)"
proof (cases "char_code c < 128")
  case True
  then show ?thesis by (simp add: utf8_char_def utf8_ok.simps byte_of_def unsigned_of_nat take_bit_nat_eq_self)
next
  case False
  have "char_code c div 64 < 4" by (rule less_mult_imp_div_less) simp
  with False have d: "2 \<le> char_code c div 64" "char_code c div 64 \<le> 3" by auto
  have m: "char_code c mod 64 < 64" by simp
  have un: "n < 256 \<Longrightarrow> unat (byte_of n) = n" for n
    by (simp add: byte_of_def unsigned_of_nat take_bit_nat_eq_self)
  have "unat (byte_of (192 + char_code c div 64)) = 192 + char_code c div 64"
    "unat (byte_of (128 + char_code c mod 64)) = 128 + char_code c mod 64"
    using d m by (intro un; simp)+
  with False d m show ?thesis
    by (auto simp: utf8_char_def Let_def utf8_ok.simps utf8_lead_def)
qed

lemma utf8_is_ok: "utf8_ok (utf8 s)"
  by (induction s) (simp_all add: utf8_def utf8_ok_append utf8_char_ok utf8_ok.simps)

lemma unquote_runs_ok: "utf8_ok (unquote_runs acc s)"
  by (induction acc s rule: unquote_runs.induct) (simp_all add: utf8_replace_is_ok utf8_ok_append utf8_char_ok)

lemma parse_qsl_ok: "pairs_ok (parse_qsl q)"
  by (simp add: pairs_ok_def parse_qsl_def list_all_iff unquote_plus_def unquote_runs_ok)

text \<open>
  Appending to the query of a URL with a network location changes nothing but the query, and the
  new query reads as the old pairs followed by the new ones.
\<close>

lemma append_query_spec:
  assumes "urlparse url = Inr p" and "ur_netloc p \<noteq> []"
  obtains target q where "append_query url params = Inr target" and "urlparse target = Inr (p\<lparr>ur_query := q\<rparr>)"
    and "parse_qsl q = parse_qsl (ur_query p) @ map (\<lambda>(k, v). (utf8 k, utf8 v)) params"
proof -
  let ?kvs = "parse_qsl (ur_query p) @ map (\<lambda>(k, v). (utf8 k, utf8 v)) params"
  have "pairs_ok ?kvs"
    using parse_qsl_ok [of "ur_query p"] by (auto simp: pairs_ok_def list_all_iff utf8_is_ok)
  then have "parse_qsl (urlencode_bytes ?kvs) = ?kvs" by (rule parse_qsl_urlencode)
  moreover have "urlparse (geturl (p\<lparr>ur_query := urlencode_bytes ?kvs\<rparr>)) = Inr (p\<lparr>ur_query := urlencode_bytes ?kvs\<rparr>)"
    by (intro urlparse_geturl url_wf_query urlparse_wf [OF assms])
  ultimately show ?thesis using that assms(1) by (simp add: append_query_def)
qed

end
