(* ===== verification/Rs_Helpers.thy ===== *)
theory Rs_Helpers
  imports Net_Model Url_Parse Auth_State Sha256
begin

text \<open>
  \<^verbatim>\<open>services/resourcespace/_helpers.py\<close>: normalisation of tenant URLs, allowlists of hosts, the
  address checks that keep requests out of internal networks, container ids, the choice of names and
  types of assets, and the signed API URL. The stated facts are what the request discipline of the
  backends rests on.
\<close>

definition SUPPORTED_IMAGE_MIME_TYPES :: "string list" where
  "SUPPORTED_IMAGE_MIME_TYPES = [''image/jpeg'', ''image/png'', ''image/svg+xml'', ''image/webp'', ''image/heic'']"

section \<open>URLs\<close>

definition is_slug_char :: "char \<Rightarrow> bool" where
  "is_slug_char c \<longleftrightarrow> (let n = char_code c in (48 \<le> n \<and> n \<le> 57) \<or> (97 \<le> n \<and> n \<le> 122))"

text \<open>Every run of other characters becomes one dash.\<close>

fun collapse_runs :: "bool \<Rightarrow> string \<Rightarrow> string" where
  "collapse_runs in_run [] = []"
| "collapse_runs in_run (c # cs) =
     (if is_slug_char c then c # collapse_runs False cs
      else (if in_run then [] else ''-'') @ collapse_runs True cs)"

definition strip_char :: "char \<Rightarrow> string \<Rightarrow> string" where
  "strip_char c s = rev (dropWhile (\<lambda>x. x = c) (rev (dropWhile (\<lambda>x. x = c) s)))"

definition rstrip_char :: "char \<Rightarrow> string \<Rightarrow> string" where
  "rstrip_char c s = rev (dropWhile (\<lambda>x. x = c) (rev s))"

definition slugify :: "string \<Rightarrow> string" where
  "slugify v = strip_char (CHR ''-'') (collapse_runs False (py_lower v))"

definition normalize_base_url :: "string option \<Rightarrow> exn + string option" where
  "normalize_base_url v =
     (if \<not> truthy_str v then Inr None
      else
        (let candidate = py_strip (the v) in
         if candidate = [] then Inr None
         else
           (let candidate =
              (if \<not> startswith candidate ''http://'' \<and> \<not> startswith candidate ''https://''
               then ''https://'' @ candidate else candidate)
            in case urlparse candidate of
                 Inl e \<Rightarrow> Inl e
               | Inr p \<Rightarrow>
                   if ur_netloc p = [] then Inr None
                   else Inr (Some (rstrip_char (CHR ''/'') (ur_scheme p @ ''://'' @ ur_netloc p))))))"

definition normalize_api_url :: "string \<Rightarrow> string option \<Rightarrow> string" where
  "normalize_api_url base override =
     (if truthy_str override then (if endswith (the override) ''/'' then the override else the override @ ''/'')
      else base @ ''/api/'')"

section \<open>Allowlists\<close>

text \<open>Host names outside ASCII go through the IDNA encoding of \<^verbatim>\<open>httpx\<close>, which may refuse them.\<close>

definition canonical_ascii_host :: "(string \<Rightarrow> string option) \<Rightarrow> string \<Rightarrow> exn + string" where
  "canonical_ascii_host idna host =
     (if host = [] then Inr []
      else if py_isascii host then Inr (py_lower host)
      else
        (case idna host of
           Some h \<Rightarrow> Inr h
         | None \<Rightarrow> Inl (ResourceSpaceError (rs_err ''FORBIDDEN'' ''Invalid host name.'' 400))))"

definition canonical_pattern :: "(string \<Rightarrow> string option) \<Rightarrow> string \<Rightarrow> string" where
  "canonical_pattern idna pattern =
     (let p = py_lower (py_strip pattern) in
      if p = [] then []
      else if startswith p ''.'' then
        (case canonical_ascii_host idna (tl p) of Inr h \<Rightarrow> CHR ''.'' # h | Inl _ \<Rightarrow> p)
      else (case canonical_ascii_host idna p of Inr h \<Rightarrow> h | Inl _ \<Rightarrow> p))"

definition host_matches_pattern :: "(string \<Rightarrow> string option) \<Rightarrow> string \<Rightarrow> string \<Rightarrow> bool" where
  "host_matches_pattern idna host pattern =
     (case canonical_ascii_host idna host of
        Inl _ \<Rightarrow> False
      | Inr chost \<Rightarrow>
          (let normalized = canonical_pattern idna pattern in
           if normalized = [] then False
           else if startswith normalized ''.'' then endswith chost normalized
           else chost = normalized \<or> endswith chost (CHR ''.'' # normalized)))"

definition host_matches_strict :: "(string \<Rightarrow> string option) \<Rightarrow> string \<Rightarrow> string \<Rightarrow> bool" where
  "host_matches_strict idna host pattern =
     (case canonical_ascii_host idna host of
        Inl _ \<Rightarrow> False
      | Inr chost \<Rightarrow>
          (let normalized = canonical_pattern idna pattern in
           if normalized = [] then False
           else if startswith normalized ''.'' then chost = tl normalized \<or> endswith chost normalized
           else chost = normalized))"

section \<open>Addresses\<close>

definition blocked_address :: "string \<Rightarrow> bool" where
  "blocked_address a = (case parse_ip_address a of Some ip \<Rightarrow> ip_is_blocked ip | None \<Rightarrow> False)"

text \<open>\<^verbatim>\<open>_is_private_ip\<close>: what does not resolve counts as private.\<close>

definition is_private_ip :: "string \<Rightarrow> bool net_op" where
  "is_private_ip host =
     op_bind (op_ask nt_idna) (\<lambda>idna.
       case canonical_ascii_host idna host of
         Inl _ \<Rightarrow> op_return True
       | Inr h \<Rightarrow>
           if h = [] then op_return True
           else op_bind (getaddrinfo h) (\<lambda>infos.
             op_return (case infos of None \<Rightarrow> True | Some addrs \<Rightarrow> list_ex blocked_address addrs)))"

fun collect_addresses :: "string list \<Rightarrow> exn + string list \<times> string list" where
  "collect_addresses [] = Inr ([], [])"
| "collect_addresses (addr # addrs) =
     (case parse_ip_address addr of
        None \<Rightarrow> collect_addresses addrs
      | Some ip \<Rightarrow>
          if ip_is_blocked ip then
            Inl (ResourceSpaceError (rs_err ''FORBIDDEN'' ''Host resolves to a non-public address.'' 403))
          else
            (case collect_addresses addrs of
               Inl e \<Rightarrow> Inl e
             | Inr (v4, v6) \<Rightarrow> Inr (if ip_version ip = 6 then (v4, addr # v6) else (addr # v4, v6))))"

fun dedup :: "string list \<Rightarrow> string list \<Rightarrow> string list" where
  "dedup ordered [] = ordered"
| "dedup ordered (a # as) = dedup (if a \<in> set ordered then ordered else ordered @ [a]) as"

definition resolve_pinned_addresses :: "string \<Rightarrow> string list net_op" where
  "resolve_pinned_addresses host =
     op_bind (op_ask nt_idna) (\<lambda>idna.
     op_bind (op_lift (canonical_ascii_host idna host)) (\<lambda>h.
     op_bind (getaddrinfo h) (\<lambda>infos.
       case infos of
         None \<Rightarrow> op_raise (ResourceSpaceError
           (rs_err ''FORBIDDEN'' ''This ResourceSpace URL could not be resolved.'' 403))
       | Some addrs \<Rightarrow>
           op_bind (op_lift (collect_addresses addrs)) (\<lambda>(v4, v6).
             let ordered = dedup [] (v4 @ v6) in
             if ordered = [] then
               op_raise (ResourceSpaceError (rs_err ''FORBIDDEN'' ''Host has no usable address.'' 403))
             else op_return ordered))))"

definition resolve_pinned_ip :: "string \<Rightarrow> string net_op" where
  "resolve_pinned_ip host = op_bind (resolve_pinned_addresses host) (\<lambda>addrs. op_return (hd addrs))"

definition authority_for_header :: "string \<Rightarrow> int option \<Rightarrow> string" where
  "authority_for_header ascii_host portno =
     (let authority =
        (case parse_ip_address ascii_host of
           Some (IPv6 _ _) \<Rightarrow> ''['' @ ascii_host @ '']''
         | _ \<Rightarrow> ascii_host)
      in case portno of None \<Rightarrow> authority | Some p \<Rightarrow> authority @ '':'' @ str_of_int p)"

record pin =
  pi_urls :: "pinned list"
  pi_headers :: "string dict"
  pi_sni :: string

definition pin_request :: "string \<Rightarrow> string list \<Rightarrow> pin net_op" where
  "pin_request url allowed =
     op_bind (op_ask (\<lambda>n. (nt_parse_url n, nt_idna n))) (\<lambda>(parse, idna).
       case parse url of
         None \<Rightarrow> op_raise (ResourceSpaceError (rs_err ''FORBIDDEN'' ''Invalid URL.'' 400))
       | Some parsed \<Rightarrow>
           if hu_scheme parsed \<noteq> ''https'' \<or> hu_host parsed = [] then
             op_raise (ResourceSpaceError
               (rs_err ''FORBIDDEN'' ''Only https URLs with a hostname may be fetched.'' 400))
           else
             (let ascii_host = hu_raw_host parsed in
              if allowed \<noteq> [] \<and> \<not> list_ex (host_matches_strict idna ascii_host) allowed then
                op_raise (ResourceSpaceError
                  (rs_err ''FORBIDDEN'' ''Host is not in the configured allowlist.'' 403))
              else
                op_bind (resolve_pinned_addresses ascii_host) (\<lambda>addresses.
                  op_return
                    \<lparr>pi_urls = map (\<lambda>a. \<lparr>pn_url = parsed, pn_address = a\<rparr>) addresses,
                     pi_headers = [(''Host'', authority_for_header ascii_host (hu_port parsed))],
                     pi_sni = ascii_host\<rparr>)))"

section \<open>Container ids and asset fields\<close>

definition encode_collection_container_id :: "(json \<Rightarrow> string) \<Rightarrow> json \<Rightarrow> string" where
  "encode_collection_container_id other ref = ''collection:'' @ json_text other ref"

definition decode_collection_container_id :: "string option \<Rightarrow> string option" where
  "decode_collection_container_id container_id =
     (if \<not> truthy_str container_id \<or> \<not> startswith (the container_id) ''collection:'' then None
      else Some (drop (length ''collection:'') (the container_id)))"

definition decode_fixture_container_id :: "string option \<Rightarrow> string option" where
  "decode_fixture_container_id container_id =
     (if \<not> truthy_str container_id \<or> \<not> startswith (the container_id) ''fixture:'' then None
      else Some (drop (length ''fixture:'') (the container_id)))"

definition mime_types :: "string dict" where
  "mime_types =
     [(''jpg'', ''image/jpeg''), (''jpeg'', ''image/jpeg''), (''png'', ''image/png''), (''svg'', ''image/svg+xml''),
      (''webp'', ''image/webp''), (''heic'', ''image/heic''), (''tif'', ''image/tiff''), (''tiff'', ''image/tiff''),
      (''gif'', ''image/gif'')]"

text \<open>The extension may be any JSON value; one that is true and no string has no \<^verbatim>\<open>strip\<close>.\<close>

definition mime_type_from_extension :: "json \<Rightarrow> exn + string" where
  "mime_type_from_extension extension =
     (case json_or extension (JStr []) of
        JStr s \<Rightarrow>
          Inr (case dict_get mime_types (py_lower (py_strip s)) of Some m \<Rightarrow> m | None \<Rightarrow> ''application/octet-stream'')
      | _ \<Rightarrow> Inl AttributeError)"

text \<open>The first candidate that is a string and not blank.\<close>

fun pick_text :: "json list \<Rightarrow> string option" where
  "pick_text [] = None"
| "pick_text (JStr s # js) = (if py_strip s \<noteq> [] then Some s else pick_text js)"
| "pick_text (j # js) = pick_text js"

definition pick_asset_name :: "(json \<Rightarrow> string) \<Rightarrow> json dict \<Rightarrow> string" where
  "pick_asset_name other record =
     (case pick_text (map (json_get record)
         [''name'', ''title'', ''resource_title'', ''field8'', ''original_filename'', ''file_path''] @
         [JStr (''Asset '' @ json_text other (json_or (json_get record ''ref'') (json_get record ''id'')))]) of
        Some s \<Rightarrow> s | None \<Rightarrow> ''Untitled asset'')"

definition pick_asset_description :: "json dict \<Rightarrow> string" where
  "pick_asset_description record =
     (case pick_text (map (json_get record) [''summary'', ''description'', ''field73'', ''field3'', ''country'']) of
        Some s \<Rightarrow> s | None \<Rightarrow> [])"

definition resourcespace_request_headers :: "string option \<Rightarrow> string dict" where
  "resourcespace_request_headers integration =
     (if integration = Some ''canva'' then [(''User-Agent'', ''python-httpx RSCanva'')] else [])"

section \<open>The signed API URL\<close>

text \<open>Parameters are given with their values printed; \<open>None\<close> and empty values are left out.\<close>

definition build_signed_api_url :: "string \<Rightarrow> string \<Rightarrow> string \<Rightarrow> string dict \<Rightarrow> string" where
  "build_signed_api_url api_url username session_key params =
     (let pairs = [(''user'', username), (''function'', the (dict_get params ''function''))] @
            filter (\<lambda>(k, v). k \<noteq> ''function'' \<and> v \<noteq> []) params;
          query_string = urlencode pairs;
          signature = hexdigest (sha256 (utf8 (session_key @ query_string)))
      in api_url @ ''?'' @ query_string @ ''&sign='' @ signature @ ''&authmode=sessionkey'')"

section \<open>Facts\<close>

text \<open>An address the broker may connect to.\<close>

definition public_address :: "string \<Rightarrow> bool" where
  "public_address a \<longleftrightarrow> (\<exists>ip. parse_ip_address a = Some ip \<and> \<not> ip_is_blocked ip)"

lemma collect_addresses_public:
  "collect_addresses addrs = Inr (v4, v6) \<Longrightarrow> a \<in> set v4 \<union> set v6 \<Longrightarrow> public_address a \<and> a \<in> set addrs"
  by (induction addrs arbitrary: v4 v6) (auto simp: public_address_def split: option.splits if_splits sum.splits prod.splits)

lemma collect_addresses_all:
  "collect_addresses addrs = Inr (v4, v6) \<Longrightarrow> a \<in> set addrs \<Longrightarrow> \<not> blocked_address a"
  by (induction addrs arbitrary: v4 v6) (auto simp: blocked_address_def split: option.splits if_splits sum.splits prod.splits)

lemma set_dedup [simp]: "set (dedup xs ys) = set xs \<union> set ys"
  by (induction xs ys rule: dedup.induct) auto

lemma distinct_dedup: "distinct xs \<Longrightarrow> distinct (dedup xs ys)"
  by (induction xs ys rule: dedup.induct) auto

lemma dedup_append: "dedup xs (ys @ zs) = dedup (dedup xs ys) zs"
  by (induction xs ys rule: dedup.induct) auto

definition pin_safe :: "string list \<Rightarrow> pin \<Rightarrow> bool" where
  "pin_safe allowed p \<longleftrightarrow>
     pi_urls p \<noteq> [] \<and>
     (\<forall>u \<in> set (pi_urls p). public_address (pn_address u) \<and> hu_scheme (pn_url u) = ''https'' \<and>
        hu_raw_host (pn_url u) = pi_sni p)"

context request_discipline
begin

lemma is_private_ip_keeps [net_intros]: "keeps inv (is_private_ip host)"
  unfolding is_private_ip_def by (intro net_intros interaction_keeps; simp)+

lemma resolve_delivers:
  "delivers inv (resolve_pinned_addresses host) (\<lambda>as. as \<noteq> [] \<and> distinct as \<and> (\<forall>a \<in> set as. public_address a))"
proof -
  have "delivers inv (op_bind (op_lift (collect_addresses addrs)) (\<lambda>(v4, v6).
      let ordered = dedup [] (v4 @ v6) in
      if ordered = [] then op_raise (ResourceSpaceError (rs_err ''FORBIDDEN'' ''Host has no usable address.'' 403))
      else op_return ordered)) (\<lambda>as. as \<noteq> [] \<and> distinct as \<and> (\<forall>a \<in> set as. public_address a))" for addrs
  proof (rule delivers_bind)
    show "delivers inv (op_lift (collect_addresses addrs)) (\<lambda>(v4, v6). \<forall>a \<in> set v4 \<union> set v6. public_address a)"
      by (rule delivers_lift) (use collect_addresses_public in fastforce)
  next
    fix x :: "string list \<times> string list"
    assume "case x of (v4, v6) \<Rightarrow> \<forall>a \<in> set v4 \<union> set v6. public_address a"
    then show "delivers inv (case x of (v4, v6) \<Rightarrow>
        let ordered = dedup [] (v4 @ v6) in
        if ordered = [] then op_raise (ResourceSpaceError (rs_err ''FORBIDDEN'' ''Host has no usable address.'' 403))
        else op_return ordered) (\<lambda>as. as \<noteq> [] \<and> distinct as \<and> (\<forall>a \<in> set as. public_address a))"
      by (cases x) (auto intro!: net_intros simp: distinct_dedup)
  qed
  note collected = this
  show ?thesis
    unfolding resolve_pinned_addresses_def by (rule collected net_intros interaction_keeps | simp)+
qed

lemma pin_request_delivers: "delivers inv (pin_request url allowed) (pin_safe allowed)"
proof -
  have "delivers inv (op_bind (resolve_pinned_addresses (hu_raw_host parsed)) (\<lambda>addresses.
      op_return
        \<lparr>pi_urls = map (\<lambda>a. \<lparr>pn_url = parsed, pn_address = a\<rparr>) addresses,
         pi_headers = [(''Host'', authority_for_header (hu_raw_host parsed) (hu_port parsed))],
         pi_sni = hu_raw_host parsed\<rparr>)) (pin_safe allowed)" if "hu_scheme parsed = ''https''" for parsed
    by (rule delivers_bind [OF resolve_delivers]) (auto intro!: net_intros simp: pin_safe_def that)
  note pinned = this
  show ?thesis
    unfolding pin_request_def Let_def by (rule pinned net_intros interaction_keeps | simp)+
qed

end

end
