(* ===== verification/Continuation.thy ===== *)
theory Continuation
  imports Json_Values "HOL-Library.List_Lexorder" "HOL-Library.Char_ord"
begin

text \<open>
  The paging cursor of \<^verbatim>\<open>http_utils.py\<close>: a JSON object in unpadded URL-safe base64 which carries the
  two offsets and the scope they belong to, and the canonical text of that scope. Bytes decode as
  UTF-8; what \<^verbatim>\<open>json.loads\<close> would take as UTF-16 or UTF-32, and characters beyond the repertoire, are
  refused.
\<close>

section \<open>Bytes to text\<close>

fun utf8_decode :: "byte list \<Rightarrow> string option" where
  "utf8_decode [] = Some []"
| "utf8_decode (b # bs) =
     (if unat b < 128 then map_option (\<lambda>s. char_of (unat b) # s) (utf8_decode bs)
      else
        (case bs of
           [] \<Rightarrow> None
         | c # cs \<Rightarrow>
             if (unat b = 194 \<or> unat b = 195) \<and> 128 \<le> unat c \<and> unat c < 192
             then map_option (\<lambda>s. char_of ((unat b - 192) * 64 + (unat c - 128)) # s) (utf8_decode cs)
             else None))"

lemma utf8_decode_ascii: "py_isascii s \<Longrightarrow> utf8_decode (utf8 s) = Some s"
proof (induction s)
  case (Cons c s)
  then have "char_code c < 128" by (simp add: py_isascii_def is_ascii_char_def)
  moreover from this have "unat (byte_of (char_code c)) = char_code c"
    by (simp add: byte_of_def unsigned_of_nat take_bit_nat_eq_self)
  ultimately show ?case using Cons by (simp add: utf8_def utf8_char_def Let_def py_isascii_def)
qed (simp add: utf8_def)

section \<open>The cursor\<close>

record cursor =
  cu_containerOffset :: int
  cu_assetOffset :: int
  cu_scopeKey :: json

definition encode_continuation :: "json \<Rightarrow> string" where
  "encode_continuation payload = b64url_nopad (utf8 (dumps payload))"

text \<open>
  The result is \<open>None\<close> when the text is not base64 of a JSON object; the conversions of the offsets
  are outside the \<^verbatim>\<open>try\<close>, so that a wrong offset raises.
\<close>

definition decode_continuation :: "json \<Rightarrow> exn + cursor option" where
  "decode_continuation value =
     (if \<not> json_truthy value then
        Inr (Some \<lparr>cu_containerOffset = 0, cu_assetOffset = 0, cu_scopeKey = JNull\<rparr>)
      else
        (case value of
           JStr text \<Rightarrow>
             (case urlsafe_b64decode (text @ b64_padding text) of
                None \<Rightarrow> Inr None
              | Some raw \<Rightarrow>
                  (case Option.bind (utf8_decode raw) loads of
                     Some (JObj parsed) \<Rightarrow>
                       (case int_of_json (json_or (json_get parsed ''containerOffset'') (JInt 0)) of
                          Inl e \<Rightarrow> Inl e
                        | Inr c \<Rightarrow>
                            (case int_of_json (json_or (json_get parsed ''assetOffset'') (JInt 0)) of
                               Inl e \<Rightarrow> Inl e
                             | Inr a \<Rightarrow>
                                 Inr (Some \<lparr>cu_containerOffset = c, cu_assetOffset = a,
                                   cu_scopeKey = json_get parsed ''scopeKey''\<rparr>)))
                   | _ \<Rightarrow> Inr None))
         | _ \<Rightarrow> Inl TypeError))"

definition cursor_json :: "string \<Rightarrow> int \<Rightarrow> int \<Rightarrow> json" where
  "cursor_json key c a =
     JObj [(''scopeKey'', JStr key), (''containerOffset'', JInt c), (''assetOffset'', JInt a)]"

section \<open>The scope\<close>

text \<open>\<^verbatim>\<open>sort_keys=True\<close> sorts the keys of every object by code points.\<close>

fun sort_json :: "json \<Rightarrow> json" where
  "sort_json (JArr js) = JArr (map sort_json js)"
| "sort_json (JObj kvs) = JObj (sort_key fst (map (\<lambda>(k, v). (k, sort_json v)) kvs))"
| "sort_json j = j"

definition scope_key :: "json \<Rightarrow> json \<Rightarrow> json \<Rightarrow> json \<Rightarrow> string" where
  "scope_key container_id query sorting types =
     dumps (sort_json (JObj [(''containerId'', container_id), (''query'', query), (''sort'', sorting), (''types'', types)]))"

section \<open>Facts\<close>

lemma dump_string_ascii: "py_isascii (dump_string s)"
proof -
  have "is_ascii_char x" if "x \<in> set (dump_char c)" for c x
  proof -
    have h: "is_ascii_char (hex_digit n)" if "n < 16" for n using that by (rule hex_digit_ascii)
    have "char_code c div 16 < 16" by (rule less_mult_imp_div_less) simp
    then have "is_ascii_char y" if "y \<in> set (hex4 (char_code c))" for y
      using that by (auto simp: hex4_def h)
    with that show ?thesis by (auto simp: dump_char_def Let_def is_ascii_char_def split: if_splits)
  qed
  then show ?thesis by (auto simp: dump_string_def py_isascii_def list_all_iff is_ascii_char_def)
qed

lemma join_ascii: "list_all py_isascii xs \<Longrightarrow> py_isascii sep \<Longrightarrow> py_isascii (join sep xs)"
  by (induction sep xs rule: join.induct) (auto simp: py_isascii_def)

lemma str_of_int_ascii: "py_isascii (str_of_int n)"
proof -
  have "list_all is_ascii_char (nat_digits m)" for m
    using nat_digits_decimal [of m] by (auto simp: list_all_iff is_decimal_def is_ascii_char_def)
  then show ?thesis by (simp add: str_of_int_def py_isascii_def is_ascii_char_def)
qed

lemma dumps_ascii: "json_ok j \<Longrightarrow> py_isascii (dumps j)"
proof (induction j)
  case (JBool b)
  then show ?case by (cases b) (simp_all add: py_isascii_def is_ascii_char_def)
next
  case (JArr js)
  then have "py_isascii (join '','' (map dumps js))"
    by (intro join_ascii) (auto simp: list_all_iff py_isascii_def is_ascii_char_def)
  then show ?case by (simp add: py_isascii_def is_ascii_char_def)
next
  case (JObj kvs)
  have "py_isascii (dump_string k @ '':'' @ dumps v)" if "(k, v) \<in> set kvs" for k v
    using JObj.IH [OF that, of v] JObj.prems that dump_string_ascii [of k]
    by (auto simp: list_all_iff py_isascii_def is_ascii_char_def)
  then have "py_isascii (join '','' (map (\<lambda>(k, v). dump_string k @ '':'' @ dumps v) kvs))"
    by (intro join_ascii) (auto simp: list_all_iff py_isascii_def is_ascii_char_def)
  then show ?case by (simp add: py_isascii_def is_ascii_char_def)
next
  case JNull
  then show ?case by (simp add: py_isascii_def is_ascii_char_def)
qed (simp_all add: str_of_int_ascii dump_string_ascii)

lemma b64_body_Nil: "b64_body bs = [] \<longleftrightarrow> bs = []"
  by (cases bs rule: b64_body.cases) auto

lemma encode_continuation_nonempty: "json_ok payload \<Longrightarrow> encode_continuation payload \<noteq> []"
proof -
  assume ok: "json_ok payload"
  obtain c cs where "dumps payload = c # cs" using ok by (rule dumps_first)
  then have "utf8 (dumps payload) \<noteq> []" by (simp add: utf8_def utf8_char_def Let_def)
  then show ?thesis by (simp add: encode_continuation_def b64url_nopad_body b64_body_Nil)
qed

lemma decode_encode:
  assumes "json_ok (JObj parsed)"
  shows "Option.bind (map_option utf8_decode (urlsafe_b64decode
      (encode_continuation (JObj parsed) @ b64_padding (encode_continuation (JObj parsed))))) (\<lambda>t. Option.bind t loads) =
    Some (JObj parsed)"
  using loads_dumps [OF assms] dumps_ascii [OF assms]
  by (simp add: encode_continuation_def b64url_roundtrip utf8_decode_ascii del: dumps.simps)

lemma int_ok: "\<bar>n\<bar> < 10 ^ 18 \<Longrightarrow> length (nat_digits (nat \<bar>n\<bar>)) \<le> 4300" for n :: int
proof -
  assume "\<bar>n\<bar> < 10 ^ 18"
  then have "nat \<bar>n\<bar> < 10 ^ 18" by simp
  from length_nat_digits [OF this] show ?thesis by simp
qed

lemma cursor_ok: "\<bar>c\<bar> < 10 ^ 18 \<Longrightarrow> \<bar>a\<bar> < 10 ^ 18 \<Longrightarrow> json_ok (cursor_json key c a)"
  using int_ok [of c] int_ok [of a] by (simp add: cursor_json_def)

text \<open>Sorting does not lose information about values whose objects have sorted keys.\<close>

fun json_sorted :: "json \<Rightarrow> bool" where
  "json_sorted (JArr js) = list_all json_sorted js"
| "json_sorted (JObj kvs) = (sorted (map fst kvs) \<and> list_all (\<lambda>(k, v). json_sorted v) kvs)"
| "json_sorted _ = True"

lemma sort_json_sorted: "json_sorted j \<Longrightarrow> sort_json j = j"
proof (induction j)
  case (JArr js)
  then show ?case by (auto simp: list_all_iff intro!: map_idI)
next
  case (JObj kvs)
  then have "map (\<lambda>(k, v). (k, sort_json v)) kvs = kvs"
    by (intro map_idI) (auto simp: list_all_iff)
  moreover have "sort_key fst kvs = kvs" using JObj.prems by (intro sort_key_id_if_sorted) simp
  ultimately show ?case by simp
qed simp_all

lemma scope_key_text:
  assumes "json_sorted cid" "json_sorted query" "json_sorted sorting" "json_sorted types"
  shows "scope_key cid query sorting types =
    dumps (JObj [(''containerId'', cid), (''query'', query), (''sort'', sorting), (''types'', types)])"
proof -
  have "json_sorted (JObj [(''containerId'', cid), (''query'', query), (''sort'', sorting), (''types'', types)])"
    using assms by (simp add: less_eq_char_def)
  then show ?thesis unfolding scope_key_def by (simp only: sort_json_sorted)
qed

end
