(* ===== verification/Fixture_Backend.thy ===== *)
theory Fixture_Backend
  imports Rs_Helpers Continuation
begin

text \<open>
  \<^verbatim>\<open>data/fixture_data.py\<close>, the in-memory tenants, users, folders and assets of development and test,
  and \<^verbatim>\<open>services/resourcespace/_fixture_backend.py\<close>, the backend over them: authentication, listing
  and searching of folders and of the assets a user may see, download, and the SVG of an asset. A
  query or a folder id comes out of a JSON body and may be any value; where the code calls a string
  method on it, a value that is no string raises \<open>AttributeError\<close>.
\<close>

section \<open>Records shared by the backends\<close>

text \<open>The source of a picture with the width and height reported for it.\<close>

record media_source =
  ms_source :: source
  ms_width :: json
  ms_height :: json

record asset_item =
  ai_id :: string
  ai_name :: string
  ai_description :: string
  ai_mimeType :: string
  ai_filename :: string
  ai_width :: json
  ai_height :: json
  ai_createdAt :: json
  ai_updatedAt :: json
  ai_thumbnail :: "media_source option"
  ai_preview :: "media_source option"

record container_item =
  ci_id :: string
  ci_name :: json
  ci_description :: "string option"
  ci_numContainers :: nat
  ci_access :: string

record asset_page =
  ap_items :: "asset_item list"
  ap_total :: int
  ap_scanned :: nat

record download =
  dl_source :: source
  dl_mimeType :: string
  dl_filename :: string

text \<open>\<^verbatim>\<open>value.strip()\<close> and its kind on a JSON value\<close>

definition json_method :: "json \<Rightarrow> exn + string" where
  "json_method j = (case j of JStr s \<Rightarrow> Inr s | _ \<Rightarrow> Inl AttributeError)"

text \<open>\<^verbatim>\<open>decode(container_id) if container_id else None\<close>\<close>

definition container_ref :: "(string option \<Rightarrow> string option) \<Rightarrow> json \<Rightarrow> exn + string option" where
  "container_ref decode j =
     (if \<not> json_truthy j then Inr None
      else (case json_method j of Inl e \<Rightarrow> Inl e | Inr s \<Rightarrow> Inr (decode (Some s))))"

fun map_exn :: "('a \<Rightarrow> exn + 'b) \<Rightarrow> 'a list \<Rightarrow> exn + 'b list" where
  "map_exn f [] = Inr []"
| "map_exn f (x # xs) =
     (case f x of
        Inl e \<Rightarrow> Inl e
      | Inr y \<Rightarrow> (case map_exn f xs of Inl e \<Rightarrow> Inl e | Inr ys \<Rightarrow> Inr (y # ys)))"

text \<open>Folders whose name contains the query; a name that is no string raises.\<close>

definition name_filter :: "string \<Rightarrow> container_item list \<Rightarrow> exn + container_item list" where
  "name_filter query cs =
     (case map_exn (\<lambda>c. case json_method (ci_name c) of Inl e \<Rightarrow> Inl e | Inr n \<Rightarrow> Inr (c, n)) cs of
        Inl e \<Rightarrow> Inl e
      | Inr named \<Rightarrow> Inr (map fst (filter (\<lambda>(c, n). substring (py_lower (py_strip query)) (py_lower n)) named)))"

section \<open>The data\<close>

record fx_user =
  fu_id :: string
  fu_username :: string
  fu_password :: string
  fu_displayName :: string
  fu_tenantId :: string
  fu_role :: string

record fx_container =
  fc_id :: string
  fc_tenantId :: string
  fc_parentId :: "string option"
  fc_name :: string

record fx_asset =
  fa_id :: string
  fa_tenantId :: string
  fa_containerId :: string
  fa_title :: string
  fa_summary :: string
  fa_mimeType :: string
  fa_filename :: string
  fa_width :: nat
  fa_height :: nat
  fa_accent :: string
  fa_createdAt :: string
  fa_updatedAt :: string
  fa_restrictedTo :: "string list"

definition fixture_tenant :: "string \<Rightarrow> string \<Rightarrow> string \<Rightarrow> string \<Rightarrow> tenant" where
  "fixture_tenant i slug name url = \<lparr>tn_id = i, tn_slug = Some slug, tn_name = Some name, tn_baseUrl = Some url,
     tn_apiUrl = None, tn_rootCollections = [], tn_collectionChildren = []\<rparr>"

definition TENANTS :: "tenant list" where
  "TENANTS =
     [fixture_tenant ''tenant_acme'' ''acme'' ''Acme Brands UAT'' ''https://acme.demo.resourcespace.local'',
      fixture_tenant ''tenant_globex'' ''globex'' ''Globex Media UAT'' ''https://globex.demo.resourcespace.local'']"

definition USERS :: "fx_user list" where
  "USERS =
     [\<lparr>fu_id = ''user_alice'', fu_username = ''alice'', fu_password = ''alice-password'',
       fu_displayName = ''Alice Admin'', fu_tenantId = ''tenant_acme'', fu_role = ''admin''\<rparr>,
      \<lparr>fu_id = ''user_bob'', fu_username = ''bob'', fu_password = ''bob-password'',
       fu_displayName = ''Bob Brand Manager'', fu_tenantId = ''tenant_acme'', fu_role = ''editor''\<rparr>,
      \<lparr>fu_id = ''user_clara'', fu_username = ''clara'', fu_password = ''clara-password'',
       fu_displayName = ''Clara Curator'', fu_tenantId = ''tenant_globex'', fu_role = ''admin''\<rparr>]"

definition FIXTURE_SSO_SESSION_KEYS :: "string dict" where
  "FIXTURE_SSO_SESSION_KEYS = [(''fixture-sso-alice'', ''user_alice''), (''fixture-sso-clara'', ''user_clara'')]"

definition CONTAINERS :: "fx_container list" where
  "CONTAINERS = map (\<lambda>(i, t, p, n). \<lparr>fc_id = i, fc_tenantId = t, fc_parentId = p, fc_name = n\<rparr>)
     [(''container_acme_root'', ''tenant_acme'', None, ''Brand Library''),
      (''container_acme_campaigns'', ''tenant_acme'', Some ''container_acme_root'', ''Campaigns''),
      (''container_acme_social'', ''tenant_acme'', Some ''container_acme_root'', ''Social''),
      (''container_globex_root'', ''tenant_globex'', None, ''Launch Assets''),
      (''container_globex_evergreen'', ''tenant_globex'', Some ''container_globex_root'', ''Evergreen'')]"

definition ASSETS :: "fx_asset list" where
  "ASSETS =
     [\<lparr>fa_id = ''asset_summer_hero'', fa_tenantId = ''tenant_acme'', fa_containerId = ''container_acme_campaigns'',
       fa_title = ''Summer Hero Banner'', fa_summary = ''Primary hero image for seasonal campaign work.'',
       fa_mimeType = ''image/svg+xml'', fa_filename = ''summer-hero.svg'', fa_width = 1600, fa_height = 900,
       fa_accent = ''#ffb703'', fa_createdAt = ''2026-03-02T09:15:00.000Z'',
       fa_updatedAt = ''2026-04-01T08:45:00.000Z'', fa_restrictedTo = []\<rparr>,
      \<lparr>fa_id = ''asset_social_tiles'', fa_tenantId = ''tenant_acme'', fa_containerId = ''container_acme_social'',
       fa_title = ''Social Tiles Pack'', fa_summary = ''Square social pack for paid and organic posts.'',
       fa_mimeType = ''image/svg+xml'', fa_filename = ''social-tiles.svg'', fa_width = 1080, fa_height = 1080,
       fa_accent = ''#219ebc'', fa_createdAt = ''2026-03-10T12:00:00.000Z'',
       fa_updatedAt = ''2026-04-08T16:00:00.000Z'', fa_restrictedTo = []\<rparr>,
      \<lparr>fa_id = ''asset_board_minutes'', fa_tenantId = ''tenant_acme'', fa_containerId = ''container_acme_root'',
       fa_title = ''Board Minutes Scan'',
       fa_summary = ''Visible but not importable because TIFF is out of scope for Phase 1.'',
       fa_mimeType = ''image/tiff'', fa_filename = ''board-minutes.tiff'', fa_width = 1400, fa_height = 1400,
       fa_accent = ''#8d99ae'', fa_createdAt = ''2026-02-01T10:00:00.000Z'',
       fa_updatedAt = ''2026-02-01T10:00:00.000Z'', fa_restrictedTo = []\<rparr>,
      \<lparr>fa_id = ''asset_confidential_strategy'', fa_tenantId = ''tenant_acme'',
       fa_containerId = ''container_acme_campaigns'', fa_title = ''Confidential Strategy Sheet'',
       fa_summary = ''Visible only to Alice inside the tenant.'', fa_mimeType = ''image/svg+xml'',
       fa_filename = ''confidential-strategy.svg'', fa_width = 1400, fa_height = 900, fa_accent = ''#ef476f'',
       fa_createdAt = ''2026-03-18T10:00:00.000Z'', fa_updatedAt = ''2026-03-18T10:00:00.000Z'',
       fa_restrictedTo = [''user_alice'']\<rparr>,
      \<lparr>fa_id = ''asset_globex_product'', fa_tenantId = ''tenant_globex'', fa_containerId = ''container_globex_root'',
       fa_title = ''Globex Product Showcase'', fa_summary = ''Launch imagery for product showcase collateral.'',
       fa_mimeType = ''image/svg+xml'', fa_filename = ''globex-product-showcase.svg'', fa_width = 1400,
       fa_height = 900, fa_accent = ''#8338ec'', fa_createdAt = ''2026-03-28T10:00:00.000Z'',
       fa_updatedAt = ''2026-04-04T10:00:00.000Z'', fa_restrictedTo = []\<rparr>,
      \<lparr>fa_id = ''asset_globex_logo'', fa_tenantId = ''tenant_globex'',
       fa_containerId = ''container_globex_evergreen'', fa_title = ''Globex Logo Lockup'',
       fa_summary = ''Evergreen logo treatment for general brand use.'', fa_mimeType = ''image/svg+xml'',
       fa_filename = ''globex-logo-lockup.svg'', fa_width = 1200, fa_height = 700, fa_accent = ''#06d6a0'',
       fa_createdAt = ''2026-01-11T10:00:00.000Z'', fa_updatedAt = ''2026-03-11T10:00:00.000Z'',
       fa_restrictedTo = []\<rparr>]"

definition SUPPORTED_IMPORT_MIME_TYPES :: "string list" where
  "SUPPORTED_IMPORT_MIME_TYPES = [''image/jpeg'', ''image/png'', ''image/svg+xml'', ''image/webp'']"

section \<open>Lookups\<close>

definition get_tenant_by_base_url :: "string \<Rightarrow> tenant option" where
  "get_tenant_by_base_url url = List.find (\<lambda>t. tn_baseUrl t = Some url) TENANTS"

definition get_tenant_by_id :: "string \<Rightarrow> tenant option" where
  "get_tenant_by_id i = List.find (\<lambda>t. tn_id t = i) TENANTS"

definition get_user_by_tenant_and_username :: "string \<Rightarrow> string \<Rightarrow> fx_user option" where
  "get_user_by_tenant_and_username tenant_id username =
     List.find (\<lambda>u. fu_tenantId u = tenant_id \<and> py_lower (fu_username u) = py_lower username) USERS"

definition get_user_by_id :: "string \<Rightarrow> fx_user option" where
  "get_user_by_id i = List.find (\<lambda>u. fu_id u = i) USERS"

definition can_user_see_asset :: "fx_user option \<Rightarrow> fx_asset \<Rightarrow> bool" where
  "can_user_see_asset u a =
     (case u of
        None \<Rightarrow> False
      | Some u \<Rightarrow>
          if fu_tenantId u \<noteq> fa_tenantId a then False
          else if fa_restrictedTo a = [] then True
          else fu_id u \<in> set (fa_restrictedTo a))"

definition get_container_by_id :: "string \<Rightarrow> fx_container option" where
  "get_container_by_id i = List.find (\<lambda>c. fc_id c = i) CONTAINERS"

text \<open>
  The loops up the tree of folders, on fuel: as many steps as there are folders are enough, because
  the data has no cycle (\<open>container_chain_ends\<close>). An empty id ends a loop.
\<close>

fun container_chain :: "nat \<Rightarrow> string option \<Rightarrow> fx_container list option" where
  "container_chain 0 current = (if truthy_str current then None else Some [])"
| "container_chain (Suc n) current =
     (if \<not> truthy_str current then Some []
      else
        (case get_container_by_id (the current) of
           None \<Rightarrow> Some []
         | Some c \<Rightarrow> map_option (\<lambda>cs. c # cs) (container_chain n (fc_parentId c))))"

definition ancestors :: "string option \<Rightarrow> fx_container list" where
  "ancestors i = (case container_chain (length CONTAINERS) i of Some cs \<Rightarrow> cs | None \<Rightarrow> [])"

definition get_container_path :: "string option \<Rightarrow> string" where
  "get_container_path i = join_with '' / '' (rev (map fc_name (ancestors i)))"

definition list_child_containers :: "string \<Rightarrow> string option \<Rightarrow> fx_container list" where
  "list_child_containers tenant_id parent_id =
     filter (\<lambda>c. fc_tenantId c = tenant_id \<and> fc_parentId c = parent_id) CONTAINERS"

definition is_asset_in_container_subtree :: "fx_asset \<Rightarrow> string option \<Rightarrow> bool" where
  "is_asset_in_container_subtree a container_id \<longleftrightarrow>
     \<not> truthy_str container_id \<or> fa_containerId a = the container_id \<or>
     the container_id \<in> set (List.map_filter fc_parentId (ancestors (Some (fa_containerId a))))"

definition search_visible_assets :: "fx_user option \<Rightarrow> string \<Rightarrow> string option \<Rightarrow> fx_asset list" where
  "search_visible_assets u query container_id =
     filter (\<lambda>a. can_user_see_asset u a \<and> is_asset_in_container_subtree a container_id \<and>
         (let normalized = py_lower (py_strip query) in
          normalized = [] \<or>
          substring normalized (py_lower (join_with '' '' (filter (\<lambda>s. s \<noteq> [])
            [fa_title a, fa_summary a, get_container_path (Some (fa_containerId a))])))))
       ASSETS"

definition sort_assets :: "fx_asset list \<Rightarrow> json \<Rightarrow> fx_asset list" where
  "sort_assets entries sorting =
     (if sorting = JStr ''name_asc'' then sort_key fa_title entries
      else if sorting = JStr ''updated_asc'' then sort_key fa_updatedAt entries
      else rev (sort_key fa_updatedAt (rev entries)))"

definition get_asset_by_id :: "string \<Rightarrow> fx_asset option" where
  "get_asset_by_id i = List.find (\<lambda>a. fa_id a = i) ASSETS"

definition is_asset_importable :: "fx_asset \<Rightarrow> bool" where
  "is_asset_importable a \<longleftrightarrow> fa_mimeType a \<in> set SUPPORTED_IMPORT_MIME_TYPES"

section \<open>The backend\<close>

definition fixture_session :: "tenant \<Rightarrow> fx_user \<Rightarrow> string \<Rightarrow> session" where
  "fixture_session t u stamp = \<lparr>ss_tenant = t,
     ss_user = \<lparr>us_id = fu_id u, us_username = fu_username u, us_displayName = Some (fu_displayName u),
       us_role = Some (fu_role u), us_email = None\<rparr>,
     ss_upstream = \<lparr>up_mode = ''fixture'', up_sessionKey = None, up_authenticatedAt = stamp\<rparr>,
     ss_broker = None\<rparr>"

definition authenticate_fixture_tenant :: "string option \<Rightarrow> string \<Rightarrow> string \<Rightarrow> session net_op" where
  "authenticate_fixture_tenant url username password =
     op_bind (op_lift (normalize_base_url url)) (\<lambda>base.
       case get_tenant_by_base_url (str_or base []) of
         None \<Rightarrow> op_raise (ResourceSpaceError (rs_err ''UNKNOWN_TENANT'' ''Unknown fixture tenant.'' 403))
       | Some t \<Rightarrow>
           (case get_user_by_tenant_and_username (tn_id t) username of
              None \<Rightarrow> op_raise (ResourceSpaceError
                (rs_err ''INVALID_CREDENTIALS'' ''Invalid fixture credentials.'' 401))
            | Some u \<Rightarrow>
                if fu_password u \<noteq> password then
                  op_raise (ResourceSpaceError (rs_err ''INVALID_CREDENTIALS'' ''Invalid fixture credentials.'' 401))
                else op_bind now_iso (\<lambda>stamp. op_return (fixture_session t u stamp))))"

definition authenticate_fixture_sso :: "tenant \<Rightarrow> string \<Rightarrow> string \<Rightarrow> session net_op" where
  "authenticate_fixture_sso t session_key username =
     (case Option.bind (dict_get FIXTURE_SSO_SESSION_KEYS session_key) get_user_by_id of
        None \<Rightarrow> op_raise (ResourceSpaceError
          (rs_err ''UPSTREAM_SESSION_EXPIRED'' ''Unknown fixture SSO session key.'' 401))
      | Some u \<Rightarrow>
          (let wrong = ResourceSpaceError
             (rs_err ''UPSTREAM_SESSION_EXPIRED'' ''Fixture SSO session key is not valid for this tenant.'' 401)
           in case get_tenant_by_id (fu_tenantId u) of
                None \<Rightarrow> op_raise wrong
              | Some fixture_t \<Rightarrow>
                  op_bind (op_lift (normalize_base_url (tn_baseUrl t))) (\<lambda>a.
                  op_bind (op_lift (normalize_base_url (tn_baseUrl fixture_t))) (\<lambda>b.
                    if a \<noteq> b then op_raise wrong
                    else op_bind now_iso (\<lambda>stamp. op_return (fixture_session fixture_t u stamp))))))"

definition build_fixture_container :: "fx_container \<Rightarrow> container_item" where
  "build_fixture_container c = \<lparr>ci_id = ''fixture:'' @ fc_id c, ci_name = JStr (fc_name c),
     ci_description = Some (get_container_path (Some (fc_id c))),
     ci_numContainers = length (list_child_containers (fc_tenantId c) (Some (fc_id c))), ci_access = ''read-only''\<rparr>"

definition build_fixture_asset :: "fx_asset \<Rightarrow> asset_item" where
  "build_fixture_asset a =
     \<lparr>ai_id = fa_id a, ai_name = fa_title a, ai_description = fa_summary a, ai_mimeType = fa_mimeType a,
      ai_filename = fa_filename a, ai_width = JInt (int (fa_width a)), ai_height = JInt (int (fa_height a)),
      ai_createdAt = JStr (fa_createdAt a), ai_updatedAt = JStr (fa_updatedAt a),
      ai_thumbnail = Some \<lparr>ms_source = FixtureSource (fa_id a) ''thumbnail'' ''image/svg+xml'' 480 320,
        ms_width = JInt 480, ms_height = JInt 320\<rparr>,
      ai_preview = Some \<lparr>ms_source = FixtureSource (fa_id a) ''preview'' (fa_mimeType a)
          (int (fa_width a)) (int (fa_height a)),
        ms_width = JInt (int (fa_width a)), ms_height = JInt (int (fa_height a))\<rparr>\<rparr>"

definition list_fixture_containers :: "session \<Rightarrow> json \<Rightarrow> exn + container_item list" where
  "list_fixture_containers s parent_id =
     (case container_ref decode_fixture_container_id parent_id of
        Inl e \<Rightarrow> Inl e
      | Inr raw_parent_id \<Rightarrow>
          Inr (map build_fixture_container (list_child_containers (tn_id (ss_tenant s)) raw_parent_id)))"

definition search_fixture_containers :: "session \<Rightarrow> json \<Rightarrow> json \<Rightarrow> exn + container_item list" where
  "search_fixture_containers s parent_id query =
     (case list_fixture_containers s parent_id of
        Inl e \<Rightarrow> Inl e
      | Inr cs \<Rightarrow> (case json_method query of Inl e \<Rightarrow> Inl e | Inr q \<Rightarrow> name_filter q cs))"

definition list_fixture_assets :: "session \<Rightarrow> json \<Rightarrow> json \<Rightarrow> int \<Rightarrow> int \<Rightarrow> json \<Rightarrow> exn + asset_page" where
  "list_fixture_assets s query container_id offset limit sorting =
     (let u = get_user_by_id (us_id (ss_user s)) in
      case container_ref decode_fixture_container_id container_id of
        Inl e \<Rightarrow> Inl e
      | Inr raw_container_id \<Rightarrow>
          (case json_method query of
             Inl e \<Rightarrow> Inl e
           | Inr q \<Rightarrow>
               (let results = sort_assets (search_visible_assets u q raw_container_id) sorting;
                    visible = filter (\<lambda>a. fa_mimeType a \<in> set SUPPORTED_IMAGE_MIME_TYPES) results;
                    items = map build_fixture_asset (py_slice visible offset (offset + limit))
                in Inr \<lparr>ap_items = items, ap_total = int (length visible), ap_scanned = length items\<rparr>)))"

definition get_fixture_download_source :: "session \<Rightarrow> string \<Rightarrow> exn + download" where
  "get_fixture_download_source s asset_id =
     (let u = get_user_by_id (us_id (ss_user s)) in
      case get_asset_by_id asset_id of
        None \<Rightarrow> Inl (ResourceSpaceError (rs_err ''NOT_FOUND'' ''Asset not found.'' 404))
      | Some a \<Rightarrow>
          if fa_tenantId a \<noteq> tn_id (ss_tenant s) then
            Inl (ResourceSpaceError (rs_err ''NOT_FOUND'' ''Asset not found.'' 404))
          else if \<not> list_ex (\<lambda>e. fa_id e = asset_id) (search_visible_assets u (fa_title a) None) then
            Inl (ResourceSpaceError
              (rs_err ''FORBIDDEN'' ''This asset is not available to the current user.'' 403))
          else if \<not> is_asset_importable a then
            Inl (ResourceSpaceError
              (rs_err ''UNSUPPORTED_FORMAT'' ''This asset format is not importable in Phase 1.'' 409))
          else
            Inr \<lparr>dl_source = FixtureSource asset_id ''full'' (fa_mimeType a) (int (fa_width a)) (int (fa_height a)),
                 dl_mimeType = fa_mimeType a, dl_filename = fa_filename a\<rparr>)"

section \<open>The SVG of an asset\<close>

definition escape_xml_char :: "char \<Rightarrow> string" where
  "escape_xml_char c =
     (if c = CHR ''&'' then ''&amp;''
      else if c = CHR ''<'' then ''&lt;''
      else if c = CHR ''>'' then ''&gt;''
      else if c = CHR 0x22 then ''&quot;''
      else if c = CHR 0x27 then ''&apos;''
      else [c])"

text \<open>The ampersand is replaced first, so each character is replaced by itself.\<close>

definition escape_xml :: "string \<Rightarrow> string" where
  "escape_xml s = concat (map escape_xml_char s)"

definition xml_attrs :: "(string \<times> string) list \<Rightarrow> string" where
  "xml_attrs kvs = join_with '' '' (map (\<lambda>(k, v). k @ ''='' @ [CHR 0x22] @ v @ [CHR 0x22]) kvs)"

text \<open>\<^verbatim>\<open>round(n * p / 100)\<close>\<close>

definition percent_of :: "nat \<Rightarrow> nat \<Rightarrow> string" where
  "percent_of n p = str_of_int (int (round_half_even (n * p) 100))"

definition svg_text :: "string \<Rightarrow> string \<Rightarrow> string \<Rightarrow> string \<Rightarrow> string \<Rightarrow> string list" where
  "svg_text y fill fsize weight body =
     [''  <text '' @ xml_attrs ([(''x'', ''48''), (''y'', y), (''fill'', fill)]) @ '' '' @
        xml_attrs ([(''font-family'', ''Helvetica, Arial, sans-serif''), (''font-size'', fsize)] @
          (if weight = [] then [] else [(''font-weight'', weight)])) @ ''>'',
      ''    '' @ escape_xml body,
      ''  </text>'']"

definition render_fixture_svg :: "fx_asset \<Rightarrow> string \<Rightarrow> string" where
  "render_fixture_svg a variant =
     (let thumb = (variant = ''thumbnail'');
          width = (if thumb then 480 else fa_width a);
          height = (if thumb then 320 else fa_height a);
          title_size = (if thumb then ''28'' else ''46'');
          subtitle_size = (if thumb then ''14'' else ''24'');
          w = str_of_int (int width); h = str_of_int (int height)
      in join_with [CHR 0x0A]
           ([''<?xml '' @ xml_attrs [(''version'', ''1.0''), (''encoding'', ''UTF-8'')] @ ''?>'',
             ''<svg '' @ xml_attrs [(''xmlns'', ''http://www.w3.org/2000/svg''), (''width'', w), (''height'', h),
               (''viewBox'', ''0 0 '' @ w @ '' '' @ h)] @ ''>'',
             ''  <defs>'',
             ''    <linearGradient '' @ xml_attrs [(''id'', ''bg''), (''x1'', ''0%''), (''y1'', ''0%''),
               (''x2'', ''100%''), (''y2'', ''100%'')] @ ''>'',
             ''      <stop '' @ xml_attrs [(''offset'', ''0%''), (''stop-color'', fa_accent a)] @ ''/>'',
             ''      <stop '' @ xml_attrs [(''offset'', ''100%''), (''stop-color'', ''#0b1020'')] @ ''/>'',
             ''    </linearGradient>'',
             ''  </defs>'',
             ''  <rect '' @ xml_attrs [(''width'', w), (''height'', h), (''rx'', ''24''), (''fill'', ''url(#bg)'')] @ ''/>'',
             ''  <circle '' @ xml_attrs [(''cx'', percent_of width 82), (''cy'', percent_of height 18),
               (''r'', percent_of width 12), (''fill'', ''rgba(255,255,255,0.12)'')] @ ''/>''] @
            svg_text (percent_of height 42) ''#ffffff'' title_size ''700'' (fa_title a) @
            svg_text (percent_of height 54) ''#edf2f4'' subtitle_size [] (fa_summary a) @
            svg_text (str_of_int (int height - 32)) ''#edf2f4'' subtitle_size []
              (get_container_path (Some (fa_containerId a))) @
            [''</svg>'']))"

section \<open>Facts\<close>

text \<open>The fuel of the loops over the folders is enough for every id.\<close>

lemma container_chain_ends: "container_chain (length CONTAINERS) i \<noteq> None"
proof (cases "truthy_str i")
  case False
  then show ?thesis by (simp add: CONTAINERS_def)
next
  case True
  show ?thesis
  proof (cases "get_container_by_id (the i)")
    case None
    with True show ?thesis by (simp add: CONTAINERS_def)
  next
    case (Some c)
    then have "the i \<in> set (map fc_id CONTAINERS)"
      by (auto simp: get_container_by_id_def find_Some_iff intro!: rev_image_eqI [OF nth_mem])
    moreover have "map fc_id CONTAINERS = [''container_acme_root'', ''container_acme_campaigns'',
        ''container_acme_social'', ''container_globex_root'', ''container_globex_evergreen'']"
      by code_simp
    moreover have "container_chain (length CONTAINERS) (Some x) \<noteq> None"
      if "x \<in> {''container_acme_root'', ''container_acme_campaigns'', ''container_acme_social'',
        ''container_globex_root'', ''container_globex_evergreen''}" for x
      using that by (elim insertE emptyE; hypsubst; code_simp)
    ultimately show ?thesis using True by (cases i) auto
  qed
qed

text \<open>Escaped text has no character that can end an element or an attribute.\<close>

lemma escape_xml_safe: "c \<in> set (escape_xml s) \<Longrightarrow> c \<notin> {CHR ''<'', CHR ''>'', CHR 0x22, CHR 0x27}"
  by (auto simp: escape_xml_def escape_xml_char_def split: if_splits)

text \<open>What a user may see lies in the tenant of the user, and restricted assets are for the users named.\<close>

lemma search_visible:
  "a \<in> set (search_visible_assets u query cid) \<Longrightarrow>
    \<exists>v. u = Some v \<and> fu_tenantId v = fa_tenantId a \<and> (fa_restrictedTo a = [] \<or> fu_id v \<in> set (fa_restrictedTo a))"
  by (auto simp: search_visible_assets_def can_user_see_asset_def split: option.splits if_splits)

lemma set_sort_assets [simp]: "set (sort_assets xs k) = set xs"
  by (simp add: sort_assets_def)

end
