(* ===== verification/Tenant_Config.thy ===== *)
theory Tenant_Config
  imports Fixture_Backend
begin

text \<open>
  The resolution of tenants in \<^verbatim>\<open>services/resourcespace/service.py\<close>: the identity of a tenant URL, the
  guard against internal hosts, the registry of configured tenants and the rules for URLs that are
  entered by hand.
\<close>

definition ip_bracket :: "string \<Rightarrow> string" where
  "ip_bracket host = (case parse_ip_address host of Some (IPv6 _ _) \<Rightarrow> ''['' @ host @ '']'' | _ \<Rightarrow> host)"

definition https_origin :: "string \<Rightarrow> int \<Rightarrow> string" where
  "https_origin host portno =
     (if portno = 443 then ''https://'' @ ip_bracket host
      else ''https://'' @ ip_bracket host @ '':'' @ str_of_int portno)"

definition unresolvable :: exn where
  "unresolvable = ResourceSpaceError (rs_err ''FORBIDDEN'' ''This ResourceSpace URL could not be resolved.'' 403)"

section \<open>The guard against internal hosts\<close>

text \<open>One URL; an absent one and one without a host pass.\<close>

definition reject_private_url :: "string option \<Rightarrow> unit net_op" where
  "reject_private_url url =
     (if \<not> truthy_str url then op_return ()
      else
        op_bind (op_lift (urlparse (the url))) (\<lambda>p.
          let host = py_lower (str_or (hostname p) []) in
          if host = [] then op_return ()
          else
            op_bind (op_ask nt_idna) (\<lambda>idna.
              case canonical_ascii_host idna host of
                Inl _ \<Rightarrow> op_raise unresolvable
              | Inr ascii_host \<Rightarrow>
                  op_bind (getaddrinfo ascii_host) (\<lambda>infos.
                    if infos = None then op_raise unresolvable
                    else
                      op_bind (is_private_ip host) (\<lambda>internal.
                        if internal then
                          op_raise (ResourceSpaceError (rs_err ''FORBIDDEN''
                            ''This ResourceSpace URL resolves to a private network address.'' 403))
                        else op_return ())))))"

fun reject_private_urls :: "string option list \<Rightarrow> unit net_op" where
  "reject_private_urls [] = op_return ()"
| "reject_private_urls (url # urls) = op_bind (reject_private_url url) (\<lambda>_. reject_private_urls urls)"

definition reject_private_tenant_sink :: "app_config \<Rightarrow> string option list \<Rightarrow> bool \<Rightarrow> unit net_op" where
  "reject_private_tenant_sink cfg urls skip_fixture =
     (if skip_fixture \<and> rs_mode (resource_space cfg) = ''fixture'' then op_return ()
      else reject_private_urls urls)"

section \<open>The identity of a tenant\<close>

definition tenant_identity :: "(string \<Rightarrow> string option) \<Rightarrow> string option \<Rightarrow> exn + (string \<times> string \<times> int) option" where
  "tenant_identity idna url =
     (case normalize_base_url url of
        Inl e \<Rightarrow> Inl e
      | Inr normalized \<Rightarrow>
          if \<not> truthy_str normalized then Inr None
          else
            (case urlparse (the normalized) of
               Inl e \<Rightarrow> Inl e
             | Inr parsed \<Rightarrow>
                 (let scheme = py_lower (ur_scheme parsed) in
                  case canonical_ascii_host idna (str_or (hostname parsed) []) of
                    Inl _ \<Rightarrow> Inr None
                  | Inr host \<Rightarrow>
                      if host = [] then Inr None
                      else
                        (let host = (case parse_ip_address host of Some ip \<Rightarrow> compressed ip | None \<Rightarrow> host) in
                         case url_port parsed of
                           Inl _ \<Rightarrow> Inr None
                         | Inr explicit \<Rightarrow>
                             Inr (Some (scheme, host,
                               (case explicit of Some n \<Rightarrow> n | None \<Rightarrow> if scheme = ''https'' then 443 else 80)))))))"

section \<open>get_configured_tenant\<close>

text \<open>The first tenant of the registry with the requested identity.\<close>

fun find_tenant :: "(string \<Rightarrow> string option) \<Rightarrow> string \<times> string \<times> int \<Rightarrow> tenant list \<Rightarrow> exn + tenant option" where
  "find_tenant idna identity [] = Inr None"
| "find_tenant idna identity (t # ts) =
     (case tenant_identity idna (tn_baseUrl t) of
        Inl e \<Rightarrow> Inl e
      | Inr i \<Rightarrow> if i = Some identity then Inr (Some t) else find_tenant idna identity ts)"

definition registered_tenant :: "app_config \<Rightarrow> tenant \<Rightarrow> tenant net_op" where
  "registered_tenant cfg t =
     op_bind (op_lift (normalize_base_url (tn_baseUrl t))) (\<lambda>base.
       let resolved_base = str_or base []; resolved_api = normalize_api_url resolved_base (tn_apiUrl t) in
       op_bind (reject_private_tenant_sink cfg [Some resolved_base, Some resolved_api] True) (\<lambda>_.
         op_return (t\<lparr>tn_baseUrl := Some resolved_base, tn_apiUrl := Some resolved_api\<rparr>)))"

definition entered_tenant :: "app_config \<Rightarrow> string \<Rightarrow> (string \<times> string \<times> int) option \<Rightarrow> tenant net_op" where
  "entered_tenant cfg normalized identity =
     op_bind (op_ask nt_idna) (\<lambda>idna.
     op_bind (op_lift (urlparse normalized)) (\<lambda>parsed.
       let host = (case identity of Some (_, h, _) \<Rightarrow> h | None \<Rightarrow> []);
           allowed = allowed_hosts (resource_space cfg)
       in
       if allowed \<noteq> [] \<and> \<not> (host \<noteq> [] \<and> list_ex (host_matches_pattern idna host) allowed) then
         op_raise (ResourceSpaceError (rs_err ''UNKNOWN_TENANT''
           ''This ResourceSpace URL is not in the broker tenant registry or approved hostname suffixes.'' 403))
       else
         op_bind (reject_private_tenant_sink cfg [Some normalized] (dev_like cfg)) (\<lambda>_.
           let invalid = ResourceSpaceError (rs_err ''INVALID_TENANT_URL''
             ''ResourceSpace URLs must use HTTPS without credentials.'' 400)
           in case identity of
             None \<Rightarrow> op_raise invalid
           | Some (scheme, _, portno) \<Rightarrow>
               if scheme \<noteq> ''https'' \<or> portno = 0 \<or> url_username parsed \<noteq> None \<or> url_password parsed \<noteq> None
               then op_raise invalid
               else
                 (let resolved_base = https_origin host portno;
                      slug = slugify host;
                      slug = (if portno \<noteq> 443 then slug @ ''-'' @ str_of_int portno else slug)
                  in op_return
                    \<lparr>tn_id = ''tenant_'' @ slug, tn_slug = Some slug,
                     tn_name = Some (drop (length ''https://'') resolved_base),
                     tn_baseUrl = Some resolved_base,
                     tn_apiUrl = Some (normalize_api_url resolved_base None),
                     tn_rootCollections = [], tn_collectionChildren = []\<rparr>))))"

definition get_configured_tenant :: "app_config \<Rightarrow> string option \<Rightarrow> tenant net_op" where
  "get_configured_tenant cfg url =
     op_bind (op_lift (normalize_base_url url)) (\<lambda>normalized.
       if \<not> truthy_str normalized then
         op_raise (ResourceSpaceError (rs_err ''INVALID_TENANT_URL'' ''A ResourceSpace URL is required.'' 400))
       else
         op_bind (op_ask nt_idna) (\<lambda>idna.
         op_bind (op_lift (tenant_identity idna normalized)) (\<lambda>identity.
         op_bind (op_lift (case identity of
             None \<Rightarrow> Inr None
           | Some i \<Rightarrow> find_tenant idna i (tenants (resource_space cfg)))) (\<lambda>found.
           case found of
             Some t \<Rightarrow> registered_tenant cfg t
           | None \<Rightarrow> entered_tenant cfg (the normalized) identity))))"

section \<open>Facts\<close>

context request_discipline
begin

lemma reject_private_keeps [net_intros]: "keeps inv (reject_private_tenant_sink cfg urls skip)"
proof -
  have one: "keeps inv (reject_private_url u)" for u
    unfolding reject_private_url_def Let_def by (rule net_intros interaction_keeps | simp)+
  have "keeps inv (reject_private_urls urls)"
    by (induction urls) (auto intro!: net_intros one)
  then show ?thesis by (simp add: reject_private_tenant_sink_def delivers_return)
qed

lemma get_configured_tenant_keeps [net_intros]: "keeps inv (get_configured_tenant cfg url)"
  unfolding get_configured_tenant_def registered_tenant_def entered_tenant_def Let_def
  by (rule net_intros interaction_keeps | simp)+

end

end
