(* ===== verification/Iso_Date.thy ===== *)
theory Iso_Date
  imports Json_Values
begin

text \<open>
  The dates of \<^verbatim>\<open>_helpers.py\<close>: \<^verbatim>\<open>_to_iso_date\<close>, which turns what an upstream calls a date into UTC in
  ISO 8601. It rests on \<^verbatim>\<open>datetime\<close> of the standard library, which is modelled as CPython 3.11
  implements it: \<^verbatim>\<open>fromisoformat\<close> on the UTF-8 bytes of the text, with a zero byte read beyond the end,
  \<^verbatim>\<open>fromtimestamp\<close> with the rounding of floats to microseconds, the calendar, and \<^verbatim>\<open>isoformat\<close>. A moment
  is a number of microseconds since the first of January of the year 1.
\<close>

section \<open>The calendar\<close>

definition is_leap :: "int \<Rightarrow> bool" where
  "is_leap y \<longleftrightarrow> y mod 4 = 0 \<and> (y mod 100 \<noteq> 0 \<or> y mod 400 = 0)"

definition days_before_year :: "int \<Rightarrow> int" where
  "days_before_year y = (let k = y - 1 in k * 365 + k div 4 - k div 100 + k div 400)"

definition month_lengths :: "int \<Rightarrow> int list" where
  "month_lengths y = [31, if is_leap y then 29 else 28, 31, 30, 31, 30, 31, 31, 30, 31, 30, 31]"

definition ymd_ordinal :: "int \<Rightarrow> int \<Rightarrow> int \<Rightarrow> int" where
  "ymd_ordinal y m d = days_before_year y + sum_list (take (nat (m - 1)) (month_lengths y)) + d"

text \<open>The year that an ordinal lies in: an estimate that is off by at most one.\<close>

definition year_of :: "int \<Rightarrow> int" where
  "year_of n =
     (let y = (n - 1) * 400 div 146097 + 1 in
      if days_before_year (y + 1) < n then y + 1 else if n \<le> days_before_year y then y - 1 else y)"

fun month_day :: "int list \<Rightarrow> int \<Rightarrow> int \<Rightarrow> int \<times> int" where
  "month_day [] m r = (m, r)"
| "month_day (l # ls) m r = (if r \<le> l then (m, r) else month_day ls (m + 1) (r - l))"

definition ordinal_ymd :: "int \<Rightarrow> int \<times> int \<times> int" where
  "ordinal_ymd n = (let y = year_of n in (y, month_day (month_lengths y) 1 (n - days_before_year y)))"

definition valid_date :: "int \<Rightarrow> int \<Rightarrow> int \<Rightarrow> bool" where
  "valid_date y m d \<longleftrightarrow> 1 \<le> y \<and> y \<le> 9999 \<and> 1 \<le> m \<and> m \<le> 12 \<and> 1 \<le> d \<and> d \<le> month_lengths y ! nat (m - 1)"

text \<open>\<^verbatim>\<open>9999-12-31\<close> is the last ordinal.\<close>

definition LAST_ORDINAL :: int where
  "LAST_ORDINAL = 3652059"

definition day_us :: int where
  "day_us = 86400000000"

section \<open>Reading a date\<close>

definition byte_at :: "nat list \<Rightarrow> nat \<Rightarrow> nat" where
  "byte_at cs i = (if i < length cs then cs ! i else 0)"

definition is_digit_byte :: "nat \<Rightarrow> bool" where
  "is_digit_byte b \<longleftrightarrow> 48 \<le> b \<and> b \<le> 57"

fun parse_digits :: "nat list \<Rightarrow> nat \<Rightarrow> nat \<Rightarrow> int \<Rightarrow> int option" where
  "parse_digits cs p 0 v = Some v"
| "parse_digits cs p (Suc n) v =
     (if is_digit_byte (byte_at cs p) then parse_digits cs (Suc p) n (10 * v + (int (byte_at cs p) - 48)) else None)"

text \<open>Where the date ends and its separator stands.\<close>

definition find_separator :: "nat list \<Rightarrow> nat option" where
  "find_separator cs =
     (let n = length cs in
      if n = 7 then Some 7
      else if byte_at cs 4 = 45 then
        (if byte_at cs 5 = 87 then
           (if 8 < n \<and> byte_at cs 8 = 45 then
              (if n = 9 then None else if 10 < n \<and> is_digit_byte (byte_at cs 10) then Some 8 else Some 10)
            else Some 8)
         else Some 10)
      else if byte_at cs 4 = 87 then
        (let pos = 7 + length (takeWhile is_digit_byte (drop 7 cs)) in
         if pos < 9 then Some pos else if even pos then Some 7 else Some 8)
      else Some 8)"

definition iso_week_date :: "int \<Rightarrow> int \<Rightarrow> int \<Rightarrow> (int \<times> int \<times> int) option" where
  "iso_week_date y w d =
     (let first = ymd_ordinal y 1 1; weekday = first mod 7;
          monday = first - (first + 6) mod 7 + (if 3 < (first + 6) mod 7 then 7 else 0)
      in if \<not> (1 \<le> y \<and> y \<le> 9999) then None
         else if \<not> (1 \<le> w \<and> w \<le> 52) \<and> \<not> (w = 53 \<and> (weekday = 4 \<or> weekday = 3 \<and> is_leap y)) then None
         else if \<not> (1 \<le> d \<and> d \<le> 7) then None
         else Some (ordinal_ymd (monday + (w - 1) * 7 + d - 1)))"

definition parse_iso_date :: "nat list \<Rightarrow> nat \<Rightarrow> (int \<times> int \<times> int) option" where
  "parse_iso_date cs len =
     (case parse_digits cs 0 4 0 of
        None \<Rightarrow> None
      | Some y \<Rightarrow>
          (let dashed = (byte_at cs 4 = 45); p = (if dashed then 5 else 4) in
           if byte_at cs p = 87 then
             (case parse_digits cs (p + 1) 2 0 of
                None \<Rightarrow> None
              | Some w \<Rightarrow>
                  if len \<le> p + 3 then iso_week_date y w 1
                  else if dashed \<and> byte_at cs (p + 3) \<noteq> 45 then None
                  else
                    (case parse_digits cs (if dashed then p + 4 else p + 3) 1 0 of
                       None \<Rightarrow> None
                     | Some d \<Rightarrow> iso_week_date y w d))
           else
             (case parse_digits cs p 2 0 of
                None \<Rightarrow> None
              | Some m \<Rightarrow>
                  if dashed \<and> byte_at cs (p + 2) \<noteq> 45 then None
                  else
                    (case parse_digits cs (if dashed then p + 3 else p + 2) 2 0 of
                       None \<Rightarrow> None
                     | Some d \<Rightarrow> Some (y, m, d)))))"

text \<open>
  Hours, minutes, seconds and the fraction; the flag says that something is left at the end. The
  fields are read one after the other, at most three: \<open>hms_fields\<close> yields their values, and the place
  of the fraction when there is one.
\<close>

datatype hms = BadTime | WholeTime "int list" bool | FractionAt "int list" nat

fun hms_fields :: "nat list \<Rightarrow> nat \<Rightarrow> nat \<Rightarrow> nat \<Rightarrow> bool \<Rightarrow> int list \<Rightarrow> hms" where
  "hms_fields cs stop 0 p colons vs = FractionAt vs p"
| "hms_fields cs stop (Suc left) p colons vs =
     (case parse_digits cs p 2 0 of
        None \<Rightarrow> BadTime
      | Some v \<Rightarrow>
          (let c = byte_at cs (p + 2); colons = (if vs = [] then c = 58 else colons) in
           if stop \<le> p + 3 then WholeTime (vs @ [v]) (c \<noteq> 0)
           else if colons \<and> c = 58 then hms_fields cs stop left (p + 3) colons (vs @ [v])
           else if c = 46 \<or> c = 44 then FractionAt (vs @ [v]) (p + 3)
           else if \<not> colons then hms_fields cs stop left (p + 2) colons (vs @ [v])
           else BadTime))"

text \<open>A field that is not given is zero.\<close>

definition hms_us :: "int list \<Rightarrow> int \<Rightarrow> int \<times> int \<times> int \<times> int" where
  "hms_us vs us = (let vs = vs @ [0, 0, 0] in (vs ! 0, vs ! 1, vs ! 2, us))"

definition parse_hms :: "nat list \<Rightarrow> nat \<Rightarrow> nat \<Rightarrow> ((int \<times> int \<times> int \<times> int) \<times> bool) option" where
  "parse_hms cs p stop =
     (case hms_fields cs stop 3 p True [] of
        BadTime \<Rightarrow> None
      | WholeTime vs rest \<Rightarrow> Some (hms_us vs 0, rest)
      | FractionAt vs q \<Rightarrow>
          (let k = min 6 (stop - q) in
           case parse_digits cs q k 0 of
             None \<Rightarrow> None
           | Some f \<Rightarrow>
               (let e = q + k + length (takeWhile is_digit_byte (drop (q + k) cs)) in
                Some (hms_us vs (f * 10 ^ (6 - k)), byte_at cs e \<noteq> 0))))"

text \<open>The time and, when there is a zone, its offset in microseconds.\<close>

definition parse_iso_time :: "nat list \<Rightarrow> nat \<Rightarrow> ((int \<times> int \<times> int \<times> int) \<times> int option) option" where
  "parse_iso_time cs p =
     (let n = length cs; z = p + length (takeWhile (\<lambda>c. c \<notin> {43, 45, 90}) (drop p cs)) in
      case parse_hms cs p z of
        None \<Rightarrow> None
      | Some (t, rest) \<Rightarrow>
          if n \<le> z then (if rest then None else Some (t, None))
          else if byte_at cs z = 90 then (if byte_at cs (z + 1) \<noteq> 0 then None else Some (t, Some 0))
          else
            (case parse_hms cs (z + 1) n of
               Some ((h, m, s, us), False) \<Rightarrow>
                 (let secs = h * 3600 + m * 60 + s; sign = (if byte_at cs z = 45 then -1 else 1) in
                  Some (t, Some (if secs = 0 then 0 else sign * (secs * 1000000 + us))))
             | _ \<Rightarrow> None))"

definition iso_bytes :: "string \<Rightarrow> nat list" where
  "iso_bytes s = map unat (utf8 s)"

text \<open>\<^verbatim>\<open>datetime.fromisoformat\<close>: the moment as written and its offset; \<open>None\<close> is \<^verbatim>\<open>ValueError\<close>.\<close>

definition from_isoformat :: "string \<Rightarrow> (int \<times> int option) option" where
  "from_isoformat s =
     (let cs = iso_bytes s; n = length cs in
      if n < 7 then None
      else
        (case find_separator cs of
           None \<Rightarrow> None
         | Some sep \<Rightarrow>
             if n < sep then None
             else
               (case parse_iso_date cs sep of
                  None \<Rightarrow> None
                | Some (y, m, d) \<Rightarrow>
                    (case (if n = sep then Some ((0, 0, 0, 0), None)
                           else parse_iso_time cs (sep + (if byte_at cs sep < 128 then 1 else 2))) of
                       None \<Rightarrow> None
                     | Some ((h, mi, se, us), offset) \<Rightarrow>
                         if valid_date y m d \<and> h < 24 \<and> mi < 60 \<and> se < 60 \<and>
                            (case offset of None \<Rightarrow> True | Some z \<Rightarrow> - day_us < z \<and> z < day_us)
                         then Some ((ymd_ordinal y m d - 1) * day_us + ((h * 60 + mi) * 60 + se) * 1000000 + us, offset)
                         else None))))"

section \<open>Reading a timestamp\<close>

text \<open>
  The microseconds of the fraction \<open>r / d\<close> of a second: the product with a million is a float, so
  it is rounded to 53 bits before it is rounded to an integer.
\<close>

definition frac_us :: "nat \<Rightarrow> nat \<Rightarrow> nat" where
  "frac_us r d =
     (if r = 0 then 0
      else
        (let n = r * 1000000;
             k0 = int (bit_length n) - int (bit_length d) - 53;
             k = (if scaled n d k0 < 2 ^ 53 then k0 else k0 + 1);
             q = scaled n d k
         in if 0 \<le> k then q * 2 ^ nat k else round_half_even q (2 ^ nat (- k))))"

definition EPOCH_SECONDS :: int where
  "EPOCH_SECONDS = 62135596800"

definition in_calendar :: "int \<Rightarrow> bool" where
  "in_calendar t \<longleftrightarrow> 0 \<le> t \<and> t < LAST_ORDINAL * day_us"

text \<open>
  \<^verbatim>\<open>datetime.fromtimestamp\<close> in UTC: seconds that do not fit a \<^verbatim>\<open>time_t\<close> overflow, and the C library
  refuses years that do not fit an \<^verbatim>\<open>int\<close>.
\<close>

definition from_timestamp :: "pyfloat \<Rightarrow> exn + int" where
  "from_timestamp f =
     (case f of
        NaN \<Rightarrow> Inl ValueError
      | Infinite _ \<Rightarrow> Inl OverflowError
      | Finite neg q k \<Rightarrow>
          (let whole = (if 0 \<le> k then q * 2 ^ nat k else q div 2 ^ nat (- k));
               us = (if 0 \<le> k then 0 else frac_us (q mod 2 ^ nat (- k)) (2 ^ nat (- k)));
               t = int whole * 1000000 + int us;
               t = (if neg then - t else t);
               secs = t div 1000000;
               moment = t + EPOCH_SECONDS * 1000000
           in if secs < - (2 ^ 63) \<or> 2 ^ 63 \<le> secs then Inl OverflowError
              else if secs < - 67768040609740800 \<or> 67768036191676799 < secs then Inl OSError
              else if \<not> in_calendar moment then Inl ValueError
              else Inr moment))"

section \<open>Printing a moment\<close>

fun padded :: "nat \<Rightarrow> nat \<Rightarrow> string" where
  "padded 0 v = []"
| "padded (Suc w) v = padded w (v div 10) @ [char_of (48 + v mod 10)]"

text \<open>
  \<^verbatim>\<open>isoformat()\<close> of a moment in UTC, without the suffix \<^verbatim>\<open>+00:00\<close>; this suffix is the one that the code
  replaces by \<^verbatim>\<open>Z\<close>.
\<close>

definition clock_text :: "nat \<Rightarrow> string" where
  "clock_text r =
     (let secs = r div 1000000; us = r mod 1000000
      in padded 2 (secs div 3600) @ CHR '':'' # padded 2 (secs div 60 mod 60) @ CHR '':'' # padded 2 (secs mod 60) @
         (if us = 0 then [] else CHR ''.'' # padded 6 us))"

definition isoformat :: "int \<Rightarrow> string" where
  "isoformat t =
     (let (y, m, d) = ordinal_ymd (t div day_us + 1)
      in padded 4 (nat y) @ CHR ''-'' # padded 2 (nat m) @ CHR ''-'' # padded 2 (nat d) @
         CHR ''T'' # clock_text (nat (t mod day_us)))"

definition utc_text :: "int \<Rightarrow> string" where
  "utc_text t = isoformat t @ ''Z''"

section \<open>\<open>to_iso_date\<close>\<close>

definition UTC_OFFSET :: string where
  "UTC_OFFSET = ''+00:00''"

definition spell_zone :: "string \<Rightarrow> string" where
  "spell_zone s = concat (map (\<lambda>c. if c = CHR ''Z'' then UTC_OFFSET else [c]) s)"

text \<open>\<^verbatim>\<open>astimezone\<close> subtracts the offset, and overflows outside the calendar.\<close>

definition moment_of_text :: "string \<Rightarrow> exn + int" where
  "moment_of_text s =
     (case from_isoformat (spell_zone s) of
        None \<Rightarrow> Inl ValueError
      | Some (t, None) \<Rightarrow> Inr t
      | Some (t, Some z) \<Rightarrow> if in_calendar (t - z) then Inr (t - z) else Inl OverflowError)"

text \<open>
  The text of a list or of a dictionary starts with a bracket, which no date does.
\<close>

definition moment_of :: "json \<Rightarrow> exn + int" where
  "moment_of value =
     (case value of
        JBool b \<Rightarrow> from_timestamp (float_of_text (if b then ''1'' else ''0''))
      | JInt n \<Rightarrow> from_timestamp (float_of_text (str_of_int n))
      | JFloat t \<Rightarrow> from_timestamp (float_of_text t)
      | JStr s \<Rightarrow> moment_of_text s
      | _ \<Rightarrow> Inl ValueError)"

definition to_iso_date :: "json \<Rightarrow> exn + string option" where
  "to_iso_date value =
     (if \<not> json_truthy value then Inr None
      else
        (case moment_of value of
           Inr t \<Rightarrow> Inr (Some (utc_text t))
         | Inl e \<Rightarrow> if e = ValueError \<or> e = TypeError then Inr None else Inl e))"

end
