(* ===== verification/Live_Backend.thy ===== *)
theory Live_Backend
  imports Tenant_Config Iso_Date
begin

text \<open>
  \<^verbatim>\<open>services/resourcespace/_live_backend.py\<close>: calls of the ResourceSpace API over pinned connections,
  authentication, folders, the two-phase listing of assets under one time budget, and downloads.
  Times are nanoseconds. A value of an answer that the broker uses as a URL or a file name is taken
  as its text.
\<close>

section \<open>Calls\<close>

definition LIVE_API_READ_TIMEOUT :: int where "LIVE_API_READ_TIMEOUT = 30 * 10 ^ 9"
definition LIVE_FIND_BUDGET :: int where "LIVE_FIND_BUDGET = 18 * 10 ^ 9"
definition LIVE_FIND_MIN_CALL :: int where "LIVE_FIND_MIN_CALL = 10 ^ 8"
definition LIVE_FIND_MAX_LIMIT :: int where "LIVE_FIND_MAX_LIMIT = 100"

text \<open>\<^verbatim>\<open>_httpx_timeout\<close>: the connect timeout that goes with a read timeout.\<close>

definition connect_timeout :: "int \<Rightarrow> int" where
  "connect_timeout read_timeout = min (5 * 10 ^ 9) (max read_timeout (10 ^ 6))"

definition upstream_unavailable :: exn where
  "upstream_unavailable = ResourceSpaceError (rs_err ''UPSTREAM_UNAVAILABLE'' ''ResourceSpace could not be reached.'' 502)"

definition remaining_find_budget :: "int \<Rightarrow> int net_op" where
  "remaining_find_budget deadline =
     op_bind monotonic (\<lambda>now.
       if deadline - now < LIVE_FIND_MIN_CALL then op_raise upstream_unavailable
       else op_return (deadline - now))"

text \<open>The next address is tried only when the connection to the one before failed.\<close>

fun first_reachable :: "pinned list \<Rightarrow> (pinned \<Rightarrow> outcome net_op) \<Rightarrow> http_reply net_op" where
  "first_reachable [] attempt = op_raise HttpxError"
| "first_reachable (u # us) attempt =
     op_bind (attempt u) (\<lambda>o1.
       case o1 of
         Reply r \<Rightarrow> op_return r
       | ConnectFailed \<Rightarrow> first_reachable us attempt
       | TransportFailed \<Rightarrow> op_raise HttpxError)"

definition parse_jsonish_response :: "http_reply \<Rightarrow> exn + json" where
  "parse_jsonish_response r =
     (if hr_status r = 401 \<or> hr_status r = 403 then
        Inl (ResourceSpaceError (rs_err ''UPSTREAM_SESSION_EXPIRED''
          ''ResourceSpace session is no longer valid; re-authentication required.'' 401))
      else if 400 \<le> hr_status r then
        Inl (ResourceSpaceError (rs_err ''UPSTREAM_REQUEST_FAILED''
          (''ResourceSpace API request failed with status '' @ str_of_int (hr_status r) @ ''.'') 502))
      else (case loads (hr_text r) of Some j \<Rightarrow> Inr j | None \<Rightarrow> Inr (JStr (hr_text r))))"

text \<open>One request to the first address that can be reached, an HTTP error of the client mapped.\<close>

definition exchange :: "pin \<Rightarrow> string \<Rightarrow> string option \<Rightarrow> payload \<Rightarrow> int \<Rightarrow> int \<Rightarrow> http_reply net_op" where
  "exchange p meth integration body read_timeout connect =
     op_handle
       (first_reachable (pi_urls p) (\<lambda>u. send
          \<lparr>hc_method = meth, hc_to = u,
           hc_headers = resourcespace_request_headers integration @ pi_headers p,
           hc_sni = pi_sni p, hc_body = body, hc_read_timeout = read_timeout, hc_connect_timeout = connect\<rparr>))
       (\<lambda>e. op_raise (if e = HttpxError then upstream_unavailable else e))"

definition fetch_jsonish_sync :: "string \<Rightarrow> string option \<Rightarrow> int option \<Rightarrow> json net_op" where
  "fetch_jsonish_sync url integration timeout =
     op_bind (pin_request url []) (\<lambda>p.
       let read_timeout = (case timeout of None \<Rightarrow> LIVE_API_READ_TIMEOUT | Some t \<Rightarrow> t) in
       op_bind (exchange p ''GET'' integration NoPayload read_timeout (connect_timeout read_timeout)) (\<lambda>r.
         op_lift (parse_jsonish_response r)))"

definition post_jsonish_sync :: "string \<Rightarrow> string dict \<Rightarrow> string option \<Rightarrow> json net_op" where
  "post_jsonish_sync url data integration =
     op_bind (pin_request url []) (\<lambda>p.
       op_bind (exchange p ''POST'' integration (FormPayload data) LIVE_API_READ_TIMEOUT
           (connect_timeout LIVE_API_READ_TIMEOUT)) (\<lambda>r.
         op_lift (parse_jsonish_response r)))"

definition required :: "string option \<Rightarrow> exn + string" where
  "required x = (case x of Some v \<Rightarrow> Inr v | None \<Rightarrow> Inl KeyError)"

definition call_live_api :: "tenant \<Rightarrow> string \<Rightarrow> string \<Rightarrow> string dict \<Rightarrow> string option \<Rightarrow> int option \<Rightarrow> json net_op" where
  "call_live_api t username session_key params integration timeout =
     op_bind (op_lift (required (tn_apiUrl t))) (\<lambda>api_url.
       fetch_jsonish_sync (build_signed_api_url api_url username session_key params) integration timeout)"

text \<open>The same call in the name of a session.\<close>

definition call_session_api :: "session \<Rightarrow> string dict \<Rightarrow> int option \<Rightarrow> json net_op" where
  "call_session_api s params timeout =
     op_bind (op_lift (required (up_sessionKey (ss_upstream s)))) (\<lambda>key.
       call_live_api (ss_tenant s) (us_username (ss_user s)) key params (broker_integration_from_session s) timeout)"

section \<open>Authentication\<close>

text \<open>\<^verbatim>\<open>j in (False, "false", "", None)\<close>: zero equals \<^verbatim>\<open>False\<close>.\<close>

definition falsy_answer :: "json \<Rightarrow> bool" where
  "falsy_answer j \<longleftrightarrow>
     (case j of
        JBool b \<Rightarrow> \<not> b
      | JInt n \<Rightarrow> n = 0
      | JFloat t \<Rightarrow> \<not> float_nonzero (float_of_text t)
      | JStr t \<Rightarrow> t = ''false'' \<or> t = []
      | JNull \<Rightarrow> True
      | _ \<Rightarrow> False)"

definition live_session :: "tenant \<Rightarrow> string \<Rightarrow> string \<Rightarrow> string \<Rightarrow> session" where
  "live_session t username session_key stamp = \<lparr>ss_tenant = t,
     ss_user = \<lparr>us_id = tn_id t @ '':'' @ py_lower username, us_username = username,
       us_displayName = Some username, us_role = Some ''member'', us_email = None\<rparr>,
     ss_upstream = \<lparr>up_mode = ''live'', up_sessionKey = Some session_key, up_authenticatedAt = stamp\<rparr>,
     ss_broker = None\<rparr>"

definition authenticate_live_tenant :: "app_config \<Rightarrow> string option \<Rightarrow> string \<Rightarrow> string \<Rightarrow> string option \<Rightarrow> session net_op" where
  "authenticate_live_tenant cfg url username password integration =
     op_bind (get_configured_tenant cfg url) (\<lambda>t.
     op_bind (op_lift (required (tn_apiUrl t))) (\<lambda>api_url.
     op_bind (post_jsonish_sync api_url
         [(''query'', urlencode [(''function'', ''login''), (''username'', username), (''password'', password)])]
         integration) (\<lambda>result.
       if falsy_answer result then
         op_raise (ResourceSpaceError (rs_err ''INVALID_CREDENTIALS'' ''Invalid ResourceSpace credentials.'' 401))
       else
         op_bind (op_ask nt_str) (\<lambda>other.
         op_bind now_iso (\<lambda>stamp.
           op_return (live_session t username (json_text other result) stamp))))))"

definition validate_live_sessionkey :: "tenant \<Rightarrow> string \<Rightarrow> string \<Rightarrow> string option \<Rightarrow> session net_op" where
  "validate_live_sessionkey t session_key username integration =
     op_bind (call_live_api t username session_key [(''function'', ''get_resource_types'')] integration None) (\<lambda>result.
       case result of
         JArr _ \<Rightarrow> op_bind now_iso (\<lambda>stamp. op_return (live_session t username session_key stamp))
       | _ \<Rightarrow> op_raise (ResourceSpaceError (rs_err ''UPSTREAM_SESSION_EXPIRED''
           ''ResourceSpace session key did not validate.'' 401)))"

section \<open>Folders\<close>

definition collection_label :: "(json \<Rightarrow> string) \<Rightarrow> json \<Rightarrow> string" where
  "collection_label other ref = ''Collection '' @ json_text other ref"

definition build_live_collection_container :: "(json \<Rightarrow> string) \<Rightarrow> json dict \<Rightarrow> tenant \<Rightarrow> nat \<Rightarrow> container_item" where
  "build_live_collection_container other c t child_count =
     (let ref = json_get c ''ref'' in
      \<lparr>ci_id = encode_collection_container_id other ref,
       ci_name = json_or (json_get c ''name'') (JStr (collection_label other ref)),
       ci_description = (if tn_rootCollections t \<noteq> [] then Some (collection_label other ref) else None),
       ci_numContainers = child_count, ci_access = ''read-write''\<rparr>)"

text \<open>A collection that is no object has no \<^verbatim>\<open>get\<close>.\<close>

definition as_dict :: "json \<Rightarrow> exn + json dict" where
  "as_dict j = (case j of JObj d \<Rightarrow> Inr d | _ \<Rightarrow> Inl AttributeError)"

definition children_of :: "tenant \<Rightarrow> string \<Rightarrow> string list" where
  "children_of t ref = (case dict_get (tn_collectionChildren t) ref of Some cs \<Rightarrow> cs | None \<Rightarrow> [])"

definition apply_configured_collection_tree ::
  "(json \<Rightarrow> string) \<Rightarrow> tenant \<Rightarrow> json dict list \<Rightarrow> string option \<Rightarrow> json dict list"
where
  "apply_configured_collection_tree other t collections parent_id =
     (let lookup = dict_of (map (\<lambda>c. (json_text other (json_get c ''ref''), c)) collections) in
      if tn_rootCollections t \<noteq> [] then
        (let current_ids = (case parent_id of None \<Rightarrow> tn_rootCollections t | Some p \<Rightarrow> children_of t p) in
         map (\<lambda>ref. case dict_get lookup ref of
                Some c \<Rightarrow> c
              | None \<Rightarrow> [(''ref'', JStr ref), (''name'', JStr (''Collection '' @ ref))]) current_ids)
      else if parent_id \<noteq> None then []
      else collections)"

text \<open>\<^verbatim>\<open>_sort_collections\<close>: by the text of the name, a missing name as the empty text.\<close>

definition sort_collections :: "(json \<Rightarrow> string) \<Rightarrow> json dict list \<Rightarrow> json dict list" where
  "sort_collections other cs =
     sort_key (\<lambda>c. case dict_get c ''name'' of None \<Rightarrow> [] | Some n \<Rightarrow> json_text other n) cs"

definition list_live_containers :: "session \<Rightarrow> json \<Rightarrow> container_item list net_op" where
  "list_live_containers s parent_id =
     op_bind (call_session_api s [(''function'', ''get_user_collections'')] None) (\<lambda>answer.
     op_bind (op_lift (container_ref decode_collection_container_id parent_id)) (\<lambda>parent_ref.
     op_bind (op_lift (map_exn as_dict (case answer of JArr js \<Rightarrow> js | _ \<Rightarrow> []))) (\<lambda>collections.
     op_bind (op_ask nt_str) (\<lambda>other.
       let scoped = apply_configured_collection_tree other (ss_tenant s) collections parent_ref in
       op_return (map (\<lambda>c. build_live_collection_container other c (ss_tenant s)
           (length (children_of (ss_tenant s) (json_text other (json_get c ''ref''))))) (sort_collections other scoped))))))"

definition search_live_containers :: "session \<Rightarrow> json \<Rightarrow> json \<Rightarrow> container_item list net_op" where
  "search_live_containers s parent_id query =
     op_bind (list_live_containers s parent_id) (\<lambda>cs.
     op_bind (op_lift (json_method query)) (\<lambda>q.
       op_lift (name_filter q cs)))"

section \<open>Search strings\<close>

definition LIVE_UNSUPPORTED_EXTENSION_FILTER :: string where
  "LIVE_UNSUPPORTED_EXTENSION_FILTER = ''!propertiesfext:-tif;fext:-tiff''"

definition build_live_search_string :: "json \<Rightarrow> json \<Rightarrow> exn + string" where
  "build_live_search_string query container_id =
     (case json_method (json_or query (JStr [])) of
        Inl e \<Rightarrow> Inl e
      | Inr q \<Rightarrow>
          (let search = py_strip q in
           case container_ref decode_collection_container_id container_id of
             Inl e \<Rightarrow> Inl e
           | Inr collection_ref \<Rightarrow>
               Inr (if truthy_str collection_ref \<and> search \<noteq> [] then ''!collection'' @ the collection_ref @ '' '' @ search
                 else if truthy_str collection_ref then ''!collection'' @ the collection_ref
                 else if py_isdigit search then ''!resource'' @ search
                 else if search \<noteq> [] then LIVE_UNSUPPORTED_EXTENSION_FILTER @ '' '' @ search
                 else LIVE_UNSUPPORTED_EXTENSION_FILTER)))"

definition build_live_preview_list_search :: "string list \<Rightarrow> string" where
  "build_live_preview_list_search refs = ''!list'' @ join_with '':'' refs"

section \<open>Records\<close>

definition live_search_records :: "json \<Rightarrow> exn + int \<times> json dict list" where
  "live_search_records response =
     (let dicts = List.map_filter (\<lambda>j. case j of JObj d \<Rightarrow> Some d | _ \<Rightarrow> None) in
      case response of
        JObj d \<Rightarrow>
          (case int_of_json (json_or (case dict_get d ''total'' of Some v \<Rightarrow> v | None \<Rightarrow> JInt 0) (JInt 0)) of
             Inl e \<Rightarrow> Inl e
           | Inr all \<Rightarrow> Inr (all, dicts (case json_get d ''data'' of JArr js \<Rightarrow> js | _ \<Rightarrow> [])))
      | JArr js \<Rightarrow> Inr (int (length js), dicts js)
      | _ \<Rightarrow> Inr (0, []))"

definition record_extension :: "(json \<Rightarrow> string) \<Rightarrow> json dict \<Rightarrow> string" where
  "record_extension other record =
     py_lower (json_text other (json_or (json_get record ''file_extension'')
       (json_or (json_get record ''preview_extension'') (JStr ''jpg''))))"

definition supported_live_record :: "(json \<Rightarrow> string) \<Rightarrow> json dict \<Rightarrow> bool" where
  "supported_live_record other record \<longleftrightarrow>
     (case mime_type_from_extension (JStr (record_extension other record)) of
        Inr m \<Rightarrow> m \<in> set SUPPORTED_IMAGE_MIME_TYPES | Inl _ \<Rightarrow> False)"

text \<open>\<^verbatim>\<open>int(value or 0) or None\<close>\<close>

definition size_field :: "json \<Rightarrow> exn + json" where
  "size_field j =
     (case int_of_json (json_or j (JInt 0)) of
        Inl e \<Rightarrow> Inl e | Inr n \<Rightarrow> Inr (if n = 0 then JNull else JInt n))"

text \<open>The picture behind a URL of the record, if there is one.\<close>

definition live_media :: "(json \<Rightarrow> string) \<Rightarrow> json dict \<Rightarrow> json \<Rightarrow> exn + media_source option" where
  "live_media other record url =
     (if \<not> json_truthy url then Inr None
      else
        (case mime_type_from_extension (json_or (json_get record ''preview_extension'') (JStr ''jpg'')) of
           Inl e \<Rightarrow> Inl e
         | Inr m \<Rightarrow>
             (case size_field (json_get record ''thumb_width'') of
                Inl e \<Rightarrow> Inl e
              | Inr w \<Rightarrow>
                  (case size_field (json_get record ''thumb_height'') of
                     Inl e \<Rightarrow> Inl e
                   | Inr h \<Rightarrow> Inr (Some \<lparr>ms_source = ProxySource (json_text other url) m, ms_width = w, ms_height = h\<rparr>)))))"

definition build_live_asset :: "(json \<Rightarrow> string) \<Rightarrow> json dict \<Rightarrow> exn + asset_item" where
  "build_live_asset other record =
     (let extension = record_extension other record; ref = json_text other (json_get record ''ref'') in
      case mime_type_from_extension (JStr extension) of
        Inl e \<Rightarrow> Inl e
      | Inr mime_type \<Rightarrow>
          (case size_field (json_or (json_get record ''thumb_width'') (json_get record ''image_width'')) of
             Inl e \<Rightarrow> Inl e
           | Inr width \<Rightarrow>
               (case size_field (json_or (json_get record ''thumb_height'') (json_get record ''image_height'')) of
                  Inl e \<Rightarrow> Inl e
                | Inr height \<Rightarrow>
                    (case live_media other record (json_get record ''url_thm'') of
                       Inl e \<Rightarrow> Inl e
                     | Inr thumbnail \<Rightarrow>
                         (case live_media other record (json_or (json_get record ''url_pre'') (json_get record ''url_thm'')) of
                            Inl e \<Rightarrow> Inl e
                          | Inr preview \<Rightarrow>
                              (case to_iso_date (json_get record ''creation_date'') of
                                 Inl e \<Rightarrow> Inl e
                               | Inr created \<Rightarrow>
                                   (case to_iso_date (json_get record ''file_modified'') of
                                      Inl e \<Rightarrow> Inl e
                                    | Inr updated \<Rightarrow>
                                        Inr \<lparr>ai_id = ref, ai_name = pick_asset_name other record,
                                          ai_description = pick_asset_description record, ai_mimeType = mime_type,
                                          ai_filename = json_text other (json_or (json_get record ''original_filename'')
                                            (JStr (ref @ ''.'' @ extension))),
                                          ai_width = width, ai_height = height,
                                          ai_createdAt = json_of_opt created, ai_updatedAt = json_of_opt updated,
                                          ai_thumbnail = thumbnail, ai_preview = preview\<rparr>)))))))"

definition normalize_live_asset_page ::
  "(json \<Rightarrow> string) \<Rightarrow> json \<Rightarrow> exn + int \<times> asset_item list"
where
  "normalize_live_asset_page other response =
     (case live_search_records response of
        Inl e \<Rightarrow> Inl e
      | Inr (all, items) \<Rightarrow>
          (case map_exn (build_live_asset other) items of
             Inl e \<Rightarrow> Inl e
           | Inr assets \<Rightarrow>
               Inr (all, filter (\<lambda>a. ai_mimeType a \<in> set SUPPORTED_IMAGE_MIME_TYPES \<and> ai_thumbnail a \<noteq> None) assets)))"

definition require_live_search_payload :: "json \<Rightarrow> exn + unit" where
  "require_live_search_payload response =
     (case response of
        JObj _ \<Rightarrow> Inr ()
      | JArr _ \<Rightarrow> Inr ()
      | _ \<Rightarrow> Inl (ResourceSpaceError (rs_err ''UPSTREAM_REQUEST_FAILED''
          ''ResourceSpace preview listing did not return search results.'' 502)))"

section \<open>Listing and download\<close>

definition listing_params :: "json \<Rightarrow> string dict" where
  "listing_params sorting =
     [(''order_by'', if sorting = JStr ''name_asc'' then ''title'' else ''date''),
      (''sort'', if sorting = JStr ''updated_asc'' then ''asc'' else ''desc''),
      (''archive'', ''0''), (''previewext'', ''jpg'')]"

text \<open>
  First the page without preview URLs, then the previews of the supported originals; both calls
  share the budget, and each is refused when too little of it is left. The second phase:
\<close>

definition resolve_previews :: "session \<Rightarrow> int \<Rightarrow> json \<Rightarrow> string list \<Rightarrow> int \<Rightarrow> nat \<Rightarrow> asset_page net_op" where
  "resolve_previews s deadline sorting refs all scanned =
     op_bind (op_lift (required (up_sessionKey (ss_upstream s)))) (\<lambda>_.
     op_bind (remaining_find_budget deadline) (\<lambda>budget.
     op_bind (call_session_api s
         ([(''function'', ''search_get_previews''), (''search'', build_live_preview_list_search refs),
           (''fetchrows'', ''0,'' @ str_of_int (int (length refs))), (''getsizes'', ''thm,pre'')] @
          listing_params sorting) (Some budget)) (\<lambda>previews.
     op_bind (op_lift (require_live_search_payload previews)) (\<lambda>_.
     op_bind (op_ask nt_str) (\<lambda>other.
     op_bind (op_lift (normalize_live_asset_page other previews)) (\<lambda>(_, items).
       let by_id = dict_of (map (\<lambda>a. (ai_id a, a)) items) in
       op_return \<lparr>ap_items = List.map_filter (dict_get by_id) refs, ap_total = all, ap_scanned = scanned\<rparr>))))))"

definition list_live_assets :: "session \<Rightarrow> json \<Rightarrow> json \<Rightarrow> int \<Rightarrow> int \<Rightarrow> json \<Rightarrow> asset_page net_op" where
  "list_live_assets s query container_id offset limit sorting =
     op_bind (op_lift (build_live_search_string query container_id)) (\<lambda>search.
     let offset = max 0 offset; limit = max 1 (min limit LIVE_FIND_MAX_LIMIT) in
     op_bind monotonic (\<lambda>start.
     let deadline = start + LIVE_FIND_BUDGET in
     op_bind (op_lift (required (up_sessionKey (ss_upstream s)))) (\<lambda>_.
     op_bind (remaining_find_budget deadline) (\<lambda>budget.
     op_bind (call_session_api s
         ([(''function'', ''search_get_previews''), (''search'', search),
           (''fetchrows'', str_of_int offset @ '','' @ str_of_int limit)] @ listing_params sorting)
         (Some budget)) (\<lambda>listing.
     op_bind (op_lift (require_live_search_payload listing)) (\<lambda>_.
     op_bind (op_lift (live_search_records listing)) (\<lambda>(all, records).
     op_bind (op_ask nt_str) (\<lambda>other.
       let refs = map (\<lambda>r. json_text other (json_get r ''ref''))
             (filter (\<lambda>r. json_get r ''ref'' \<noteq> JNull \<and> supported_live_record other r) records)
       in if refs = [] then
            op_return \<lparr>ap_items = [], ap_total = all, ap_scanned = length records\<rparr>
          else resolve_previews s deadline sorting refs all (length records)))))))))"

text \<open>\<^verbatim>\<open>not j or j in (False, "false")\<close>\<close>

definition no_answer :: "json \<Rightarrow> bool" where
  "no_answer j \<longleftrightarrow> \<not> json_truthy j \<or> j = JStr ''false''"

definition get_live_download_source :: "session \<Rightarrow> string \<Rightarrow> download net_op" where
  "get_live_download_source s asset_id =
     op_bind (call_session_api s [(''function'', ''get_resource_data''), (''resource'', asset_id)] None) (\<lambda>answer.
       if no_answer answer then
         op_raise (ResourceSpaceError (rs_err ''NOT_FOUND'' ''Asset not found.'' 404))
       else
         op_bind (op_lift (as_dict answer)) (\<lambda>resource.
         let extension = json_or (json_get resource ''file_extension'')
               (json_or (json_get resource ''preview_extension'') (JStr ''jpg''))
         in op_bind (op_lift (mime_type_from_extension extension)) (\<lambda>mime_type.
         if mime_type \<notin> set SUPPORTED_IMAGE_MIME_TYPES then
           op_raise (ResourceSpaceError (rs_err ''UNSUPPORTED_FORMAT'' ''Unsupported asset format.'' 409))
         else
           op_bind (op_ask nt_str) (\<lambda>other.
           op_bind (call_session_api s
               [(''function'', ''get_resource_path''), (''ref'', asset_id), (''extension'', json_text other extension),
                (''page'', ''1''), (''watermarked'', ''0'')] None) (\<lambda>original_url.
             if no_answer original_url then
               op_raise (ResourceSpaceError (rs_err ''NOT_FOUND'' ''Asset download URL was not available.'' 404))
             else
               op_return \<lparr>dl_source = ProxySource (json_text other original_url) mime_type, dl_mimeType = mime_type,
                 dl_filename = json_text other (json_or (json_get resource ''original_filename'')
                   (JStr (asset_id @ ''.'' @ json_text other extension)))\<rparr>)))))"

section \<open>Facts\<close>

text \<open>
  The calls of the backend keep every discipline that permits requests to public addresses over
  https with the host they were resolved for.
\<close>

definition pinned_call :: "http_call \<Rightarrow> bool" where
  "pinned_call c \<longleftrightarrow>
     public_address (pn_address (hc_to c)) \<and> hu_scheme (pn_url (hc_to c)) = ''https'' \<and>
     hu_raw_host (pn_url (hc_to c)) = hc_sni c"

locale pinned_discipline = request_discipline +
  assumes pinned_permitted: "pinned_call c \<Longrightarrow> permitted c"
begin

lemma first_reachable_keeps:
  "(\<And>u. u \<in> set us \<Longrightarrow> keeps inv (attempt u)) \<Longrightarrow> keeps inv (first_reachable us attempt)"
  by (induction us) (auto intro!: net_intros)

lemma exchange_keeps: "pin_safe allowed p \<Longrightarrow> keeps inv (exchange p meth integration body rt ct)"
  unfolding exchange_def
  by (intro delivers_handle first_reachable_keeps send_keeps pinned_permitted net_intros)
    (auto simp: pin_safe_def pinned_call_def)

lemma fetch_keeps [net_intros]: "keeps inv (fetch_jsonish_sync url integration timeout)"
  unfolding fetch_jsonish_sync_def Let_def
  by (rule delivers_bind [OF pin_request_delivers], rule keeps_bind, rule exchange_keeps, assumption)
    (intro net_intros; simp)

lemma post_keeps [net_intros]: "keeps inv (post_jsonish_sync url data integration)"
  unfolding post_jsonish_sync_def Let_def
  by (rule delivers_bind [OF pin_request_delivers], rule keeps_bind, rule exchange_keeps, assumption)
    (intro net_intros; simp)

lemma call_live_api_keeps [net_intros]: "keeps inv (call_live_api t u k ps i timeout)"
  unfolding call_live_api_def by (rule net_intros | simp)+

lemma call_session_api_keeps [net_intros]: "keeps inv (call_session_api s ps timeout)"
  unfolding call_session_api_def by (rule net_intros | simp)+

lemma authenticate_live_keeps [net_intros]: "keeps inv (authenticate_live_tenant cfg url u p i)"
  unfolding authenticate_live_tenant_def Let_def by (rule net_intros interaction_keeps | simp)+

lemma validate_live_keeps [net_intros]: "keeps inv (validate_live_sessionkey t k u i)"
proof -
  have "keeps inv (case j of
      JArr _ \<Rightarrow> op_bind now_iso (\<lambda>stamp. op_return (live_session t u k stamp))
    | _ \<Rightarrow> op_raise e)" for j e
    by (cases j) (auto intro!: net_intros interaction_keeps)
  then show ?thesis unfolding validate_live_sessionkey_def by (intro net_intros)
qed

lemma list_live_containers_keeps [net_intros]: "keeps inv (list_live_containers s parent)"
  unfolding list_live_containers_def Let_def by (rule net_intros | simp)+

lemma search_live_containers_keeps [net_intros]: "keeps inv (search_live_containers s parent q)"
  unfolding search_live_containers_def by (rule net_intros | simp)+

lemma remaining_keeps [net_intros]: "keeps inv (remaining_find_budget d)"
  unfolding remaining_find_budget_def by (rule net_intros interaction_keeps | simp)+

lemma list_live_assets_keeps [net_intros]: "keeps inv (list_live_assets s q c off lim srt)"
  unfolding list_live_assets_def resolve_previews_def Let_def by (rule net_intros interaction_keeps | simp)+

lemma get_live_download_keeps [net_intros]: "keeps inv (get_live_download_source s a)"
  unfolding get_live_download_source_def Let_def by (rule net_intros | simp)+

end

end
