(* ===== verification/Rs_Upload.thy ===== *)
theory Rs_Upload
  imports Live_Backend
begin

text \<open>
  \<^verbatim>\<open>services/resourcespace/_upload.py\<close>: the download of an export URL that Canva supplies, hop by hop
  and with a limit on its size, and its upload into a collection with a locally generated preview.
  The loop over redirects is a recursion on the redirects that remain.
\<close>

section \<open>The export URL\<close>

definition invalid_request :: "string \<Rightarrow> int \<Rightarrow> exn" where
  "invalid_request message status = ResourceSpaceError (rs_err ''INVALID_REQUEST'' message status)"

definition request_failed :: "string \<Rightarrow> exn" where
  "request_failed message = ResourceSpaceError (rs_err ''UPSTREAM_REQUEST_FAILED'' message 502)"

definition validate_export_url :: "string \<Rightarrow> app_config \<Rightarrow> unit net_op" where
  "validate_export_url url cfg =
     op_bind (op_lift (urlparse url)) (\<lambda>parsed.
       if ur_scheme parsed \<noteq> ''https'' then op_raise (invalid_request ''Export URLs must use https.'' 400)
       else
         op_bind (op_ask nt_idna) (\<lambda>idna.
         op_bind (op_lift (canonical_ascii_host idna (str_or (hostname parsed) []))) (\<lambda>host.
           if host = [] then op_raise (invalid_request ''Export URL is missing a hostname.'' 400)
           else if upload_allowed_hosts (upload cfg) \<noteq> [] \<and>
               \<not> list_ex (host_matches_strict idna host) (upload_allowed_hosts (upload cfg)) then
             op_raise (ResourceSpaceError (rs_err ''FORBIDDEN''
               ''Export URL host is not in CANVA_UPLOAD_ALLOWED_HOSTS.'' 403))
           else
             op_bind (is_private_ip host) (\<lambda>internal.
               if internal then
                 op_raise (ResourceSpaceError (rs_err ''FORBIDDEN''
                   ''Export URL resolves to a private network address.'' 403))
               else op_return ()))))"

section \<open>One hop\<close>

datatype hop = Redirect "string option" | Body "byte list" string

definition export_too_large :: "int \<Rightarrow> exn" where
  "export_too_large max_bytes =
     invalid_request (''Export exceeds CANVA_UPLOAD_MAX_BYTES ('' @ str_of_int max_bytes @ '').'') 413"

text \<open>The chunks are counted while they arrive.\<close>

fun read_chunks :: "int \<Rightarrow> int \<Rightarrow> byte list list \<Rightarrow> bool \<Rightarrow> exn + byte list" where
  "read_chunks received max_bytes [] complete = (if complete then Inr [] else Inl HttpxError)"
| "read_chunks received max_bytes (c # cs) complete =
     (if max_bytes < received + int (length c) then Inl (export_too_large max_bytes)
      else
        (case read_chunks (received + int (length c)) max_bytes cs complete of
           Inl e \<Rightarrow> Inl e | Inr bs \<Rightarrow> Inr (c @ bs)))"

definition read_export_reply :: "int \<Rightarrow> http_reply \<Rightarrow> exn + hop" where
  "read_export_reply max_bytes r =
     (if hr_status r \<in> {301, 302, 303, 307, 308} then Inr (Redirect (dict_get (hr_headers r) ''location''))
      else if 400 \<le> hr_status r then
        Inl (request_failed (''Export URL returned HTTP '' @ str_of_int (hr_status r)))
      else if (case Option.bind (dict_get (hr_headers r) ''content-length'') py_int of
          Some n \<Rightarrow> max_bytes < n | None \<Rightarrow> False) then Inl (export_too_large max_bytes)
      else
        (case read_chunks 0 max_bytes (hr_chunks r) (hr_complete r) of
           Inl e \<Rightarrow> Inl e
         | Inr body \<Rightarrow>
             Inr (Body body (py_strip (before (CHR '';'')
               (case dict_get (hr_headers r) ''content-type'' of Some t \<Rightarrow> t | None \<Rightarrow> ''application/octet-stream''))))))"

text \<open>\<^verbatim>\<open>_read_export_hop\<close>: the addresses in turn, as long as the connection fails.\<close>

definition read_export_hop :: "pin \<Rightarrow> int \<Rightarrow> hop net_op" where
  "read_export_hop p max_bytes =
     op_bind (first_reachable (pi_urls p) (\<lambda>u. send
         \<lparr>hc_method = ''GET'', hc_to = u, hc_headers = pi_headers p, hc_sni = pi_sni p, hc_body = NoPayload,
          hc_read_timeout = 60 * 10 ^ 9, hc_connect_timeout = 5 * 10 ^ 9\<rparr>))
       (\<lambda>r. op_lift (read_export_reply max_bytes r))"

section \<open>The download\<close>

definition EXPORT_EXT_MAP :: "string dict" where
  "EXPORT_EXT_MAP =
     [(''image/jpeg'', ''jpg''), (''image/png'', ''png''), (''image/webp'', ''webp''), (''image/gif'', ''gif''),
      (''image/svg+xml'', ''svg''), (''application/pdf'', ''pdf''), (''video/mp4'', ''mp4'')]"

record export =
  ex_bytes :: "byte list"
  ex_filename :: string
  ex_contentType :: string

text \<open>
  One turn of the loop: the URL is validated and pinned before anything is sent; a redirect goes to
  \<open>follow\<close>. The text of the exception behind a failed download is left out of the message.
\<close>

definition download_turn :: "app_config \<Rightarrow> string \<Rightarrow> (string option \<Rightarrow> export net_op) \<Rightarrow> export net_op" where
  "download_turn cfg url follow =
     op_bind (validate_export_url url cfg) (\<lambda>_.
     op_bind (pin_request url []) (\<lambda>p.
     op_bind (op_handle (read_export_hop p (upload_max_bytes (upload cfg)))
         (\<lambda>e. op_raise (if e = HttpxError then
            ResourceSpaceError (rs_err ''UPSTREAM_UNAVAILABLE'' ''Failed to download export: '' 502) else e))) (\<lambda>h.
       case h of
         Redirect location \<Rightarrow> follow location
       | Body bytes content_type \<Rightarrow>
           op_return \<lparr>ex_bytes = bytes,
             ex_filename = ''canva-export.'' @ (case dict_get EXPORT_EXT_MAP content_type of Some x \<Rightarrow> x | None \<Rightarrow> ''bin''),
             ex_contentType = content_type\<rparr>)))"

primrec download_hops :: "nat \<Rightarrow> app_config \<Rightarrow> string \<Rightarrow> export net_op" where
  "download_hops 0 cfg url =
     download_turn cfg url (\<lambda>_. op_raise (request_failed ''Too many redirects fetching export URL.''))"
| "download_hops (Suc redirects_remaining) cfg url =
     download_turn cfg url (\<lambda>location.
       if \<not> truthy_str location then op_raise (request_failed ''Redirect missing Location header.'')
       else
         op_bind (op_ask nt_join) (\<lambda>join_url.
           case join_url url (the location) of
             None \<Rightarrow> op_raise InvalidURL
           | Some next_url \<Rightarrow> download_hops redirects_remaining cfg next_url))"

definition download_bytes :: "string \<Rightarrow> app_config \<Rightarrow> export net_op" where
  "download_bytes url cfg = download_hops 5 cfg url"

section \<open>The upload\<close>

text \<open>
  \<^verbatim>\<open>_post_multipart_live_api\<close>: an HTTP error with \<^verbatim>\<open>{"error": true}\<close> is a failed preview, not a failed upload.
\<close>

definition post_multipart_live_api ::
  "tenant \<Rightarrow> string \<Rightarrow> string \<Rightarrow> string dict \<Rightarrow> byte list \<Rightarrow> string \<Rightarrow> string \<Rightarrow> string option \<Rightarrow> json net_op"
where
  "post_multipart_live_api t username session_key params bytes filename content_type integration =
     op_bind (op_lift (required (tn_apiUrl t))) (\<lambda>api_url.
     op_bind (pin_request (build_signed_api_url api_url username session_key params) []) (\<lambda>p.
     op_bind (exchange p ''POST'' integration (FilePayload filename bytes content_type)
         (120 * 10 ^ 9) (5 * 10 ^ 9)) (\<lambda>r.
     op_bind (op_ask nt_str) (\<lambda>other.
       let body = (case loads (hr_text r) of Some j \<Rightarrow> j | None \<Rightarrow> JStr (hr_text r)) in
       if 400 \<le> hr_status r then
         (case body of
            JObj d \<Rightarrow>
              if json_get d ''error'' = JBool True then
                op_return (JObj [(''uploaded'', JBool True), (''previewError'', json_get d ''error_note'')])
              else op_raise (request_failed (''ResourceSpace upload returned HTTP '' @ str_of_int (hr_status r) @ '': '' @
                take 200 (json_text other body)))
          | _ \<Rightarrow> op_raise (request_failed (''ResourceSpace upload returned HTTP '' @ str_of_int (hr_status r) @ '': '' @
              take 200 (json_text other body))))
       else op_return body))))"

definition bad_resource_ref :: "json \<Rightarrow> bool" where
  "bad_resource_ref j \<longleftrightarrow>
     falsy_answer j \<or>
     (case j of JStr s \<Rightarrow> \<not> py_isdigit (dropWhile (\<lambda>c. c = CHR ''-'') (py_strip s)) | _ \<Rightarrow> False)"

text \<open>The preview is a courtesy: its failure is not one of the upload.\<close>

definition upload_preview :: "session \<Rightarrow> string \<Rightarrow> app_config \<Rightarrow> string \<Rightarrow> byte list \<Rightarrow> unit net_op" where
  "upload_preview s key cfg ref bytes =
     op_bind (op_ask nt_preview) (\<lambda>build_jpeg_preview.
       case build_jpeg_preview bytes (upload_max_image_pixels (upload cfg)) of
         None \<Rightarrow> op_return ()
       | Some preview \<Rightarrow>
           if preview = [] then op_return ()
           else
             op_handle
               (op_bind (post_multipart_live_api (ss_tenant s) (us_username (ss_user s)) key
                   [(''function'', ''upload_multipart''), (''ref'', ref), (''no_exif'', ''1''), (''revert'', ''0''),
                    (''previewonly'', ''1'')]
                   preview ''preview.jpg'' ''image/jpeg'' (broker_integration_from_session s)) (\<lambda>_. op_return ()))
               (\<lambda>e. case e of ResourceSpaceError _ \<Rightarrow> op_return () | _ \<Rightarrow> op_raise e))"

definition upload_live_resource :: "session \<Rightarrow> app_config \<Rightarrow> string \<Rightarrow> string \<Rightarrow> string option \<Rightarrow> string net_op" where
  "upload_live_resource s cfg collection_ref source_url title =
     op_bind (op_lift (required (up_sessionKey (ss_upstream s)))) (\<lambda>key.
     op_bind (call_session_api s
         [(''function'', ''create_resource''), (''resource_type'', ''1''), (''archive'', ''0'')] None) (\<lambda>new_ref.
     op_bind (op_ask (\<lambda>n. (nt_str n, nt_repr n))) (\<lambda>(other, repr).
       if bad_resource_ref new_ref then
         op_raise (ResourceSpaceError (rs_err ''UPLOAD_FAILED''
           (''ResourceSpace create_resource returned: '' @ repr new_ref) 502))
       else
         (let ref = py_strip (json_text other new_ref) in
          op_bind (download_bytes source_url cfg) (\<lambda>ex.
          op_bind (post_multipart_live_api (ss_tenant s) (us_username (ss_user s)) key
              [(''function'', ''upload_multipart''), (''ref'', ref), (''no_exif'', ''0''), (''revert'', ''0'')]
              (ex_bytes ex) (ex_filename ex) (ex_contentType ex) (broker_integration_from_session s)) (\<lambda>upload_result.
            if falsy_answer upload_result then
              op_raise (ResourceSpaceError (rs_err ''UPLOAD_FAILED''
                (''ResourceSpace upload_multipart returned: '' @ repr upload_result @
                 '' (resource ref '' @ ref @ '')'') 502))
            else
              op_bind (upload_preview s key cfg ref (ex_bytes ex)) (\<lambda>_.
              op_bind (if truthy_str title then
                  op_bind (call_session_api s
                    [(''function'', ''update_field''), (''resource'', ref), (''field'', ''8''), (''value'', the title)] None)
                    (\<lambda>_. op_return ())
                else op_return ()) (\<lambda>_.
              op_bind (call_session_api s
                  [(''function'', ''add_resource_to_collection''), (''resource'', ref), (''collection'', collection_ref)]
                  None) (\<lambda>link_result.
                if falsy_answer link_result \<and> link_result \<noteq> JStr [] \<and> link_result \<noteq> JNull then
                  op_raise (ResourceSpaceError (rs_err ''LINK_FAILED''
                    ''Resource was created but could not be added to the collection.'' 502))
                else op_return ref))))))))) "

section \<open>Facts\<close>

text \<open>What is read has at most the permitted size.\<close>

lemma read_chunks_length:
  "read_chunks received max_bytes cs complete = Inr bs \<Longrightarrow> received \<le> max_bytes \<Longrightarrow>
     bs = concat cs \<and> complete \<and> received + int (length bs) \<le> max_bytes"
  by (induction received max_bytes cs complete arbitrary: bs rule: read_chunks.induct) (auto split: if_splits sum.splits)

context pinned_discipline
begin

lemma validate_export_keeps [net_intros]: "keeps inv (validate_export_url url cfg)"
  unfolding validate_export_url_def by (rule net_intros interaction_keeps | simp)+

lemma read_export_hop_keeps: "pin_safe allowed p \<Longrightarrow> keeps inv (read_export_hop p m)"
  unfolding read_export_hop_def
  by (intro keeps_bind first_reachable_keeps send_keeps pinned_permitted net_intros)
    (auto simp: pin_safe_def pinned_call_def)

lemma download_turn_keeps: "(\<And>l. keeps inv (follow l)) \<Longrightarrow> keeps inv (download_turn cfg url follow)"
proof -
  assume follow: "\<And>l. keeps inv (follow l)"
  have "keeps inv (case h of Redirect l \<Rightarrow> follow l | Body b t \<Rightarrow> op_return (f b t))" for h f
    by (cases h) (auto intro!: follow net_intros)
  then show ?thesis
    unfolding download_turn_def
    by (intro keeps_bind [OF validate_export_keeps] delivers_bind [OF pin_request_delivers] keeps_bind delivers_handle
        read_export_hop_keeps net_intros)
qed

lemma download_hops_keeps: "keeps inv (download_hops k cfg url)"
  by (induction k arbitrary: url) (auto intro!: download_turn_keeps net_intros)

lemma post_multipart_keeps [net_intros]: "keeps inv (post_multipart_live_api t u k ps b f c i)"
proof -
  have "keeps inv (case body of JObj d \<Rightarrow> if P d then op_return (f d) else op_raise e | _ \<Rightarrow> op_raise e)" for body P f e
    by (cases body) (auto intro!: net_intros)
  then show ?thesis
    unfolding post_multipart_live_api_def Let_def
    by (intro keeps_bind [OF delivers_lift] delivers_bind [OF pin_request_delivers] keeps_bind [OF exchange_keeps]
        keeps_bind [OF delivers_ask] delivers_if net_intros; simp)
qed

lemma upload_preview_keeps [net_intros]: "keeps inv (upload_preview s k cfg ref b)"
proof -
  have "keeps inv (case e of ResourceSpaceError _ \<Rightarrow> op_return () | _ \<Rightarrow> op_raise e)" for e
    by (cases e) (auto intro!: net_intros)
  then show ?thesis unfolding upload_preview_def by (intro net_intros; simp)
qed

lemma upload_live_resource_keeps [net_intros]: "keeps inv (upload_live_resource s cfg c url title)"
  unfolding upload_live_resource_def download_bytes_def Let_def
  by (rule download_hops_keeps net_intros | simp)+

end

end
