(* ===== verification/Rs_Service.thy ===== *)
theory Rs_Service
  imports Rs_Upload
begin

text \<open>
  \<^verbatim>\<open>services/resourcespace/service.py\<close>: the facade over the fixture and the live backend. Signing in
  chooses the backend by the configured mode; everything after by the mode recorded in the session.
  The discipline of pinned requests is interpreted here on the network itself.
\<close>

section \<open>Dispatch\<close>

definition authenticate :: "app_config \<Rightarrow> string option \<Rightarrow> string \<Rightarrow> string \<Rightarrow> string option \<Rightarrow> session net_op" where
  "authenticate cfg tenant_base_url username password integration =
     (if rs_mode (resource_space cfg) = ''fixture'' then
        authenticate_fixture_tenant tenant_base_url username password
      else authenticate_live_tenant cfg tenant_base_url username password integration)"

definition sso_handoff_failed :: "string \<Rightarrow> exn" where
  "sso_handoff_failed message = ResourceSpaceError (rs_err ''SSO_HANDOFF_FAILED'' message 400)"

definition authenticate_with_session_key ::
  "app_config \<Rightarrow> tenant \<Rightarrow> string \<Rightarrow> string \<Rightarrow> string option \<Rightarrow> session net_op"
where
  "authenticate_with_session_key cfg t session_key username integration =
     (if username = [] \<or> py_strip username = [] then
        op_raise (sso_handoff_failed ''ResourceSpace callback did not provide a username.'')
      else if session_key = [] \<or> py_strip session_key = [] then
        op_raise (sso_handoff_failed ''ResourceSpace callback did not provide a session key.'')
      else if rs_mode (resource_space cfg) = ''fixture'' then authenticate_fixture_sso t session_key username
      else validate_live_sessionkey t session_key username integration)"

definition fixture_mode :: "session \<Rightarrow> bool" where
  "fixture_mode s \<longleftrightarrow> up_mode (ss_upstream s) = ''fixture''"

definition list_containers :: "session \<Rightarrow> json \<Rightarrow> container_item list net_op" where
  "list_containers s parent_id =
     (if fixture_mode s then op_lift (list_fixture_containers s parent_id)
      else list_live_containers s parent_id)"

definition search_containers :: "session \<Rightarrow> json \<Rightarrow> json \<Rightarrow> container_item list net_op" where
  "search_containers s parent_id query =
     (if fixture_mode s then op_lift (search_fixture_containers s parent_id query)
      else search_live_containers s parent_id query)"

definition list_assets :: "session \<Rightarrow> json \<Rightarrow> json \<Rightarrow> int \<Rightarrow> int \<Rightarrow> json \<Rightarrow> asset_page net_op" where
  "list_assets s query container_id offset limit sorting =
     (if fixture_mode s then op_lift (list_fixture_assets s query container_id offset limit sorting)
      else list_live_assets s query container_id offset limit sorting)"

definition get_download_source :: "session \<Rightarrow> string \<Rightarrow> download net_op" where
  "get_download_source s asset_id =
     (if fixture_mode s then op_lift (get_fixture_download_source s asset_id)
      else get_live_download_source s asset_id)"

definition upload_resource :: "app_config \<Rightarrow> session \<Rightarrow> string \<Rightarrow> string \<Rightarrow> string option \<Rightarrow> string net_op" where
  "upload_resource cfg s container_id source_url title =
     (let collection_ref = decode_collection_container_id (Some container_id) in
      if \<not> truthy_str collection_ref then
        op_raise (ResourceSpaceError (rs_err ''INVALID_REQUEST'' ''Unsupported container id for upload.'' 400))
      else if fixture_mode s then
        op_raise (ResourceSpaceError (rs_err ''FORBIDDEN''
          ''Uploads are not available against fixture tenants.'' 403))
      else upload_live_resource s cfg (the collection_ref) source_url title)"

text \<open>\<^verbatim>\<open>map_error\<close>: \<^verbatim>\<open>httpx.InvalidURL\<close> is no \<^verbatim>\<open>httpx.HTTPError\<close>.\<close>

definition map_error :: "exn \<Rightarrow> rs_error" where
  "map_error e =
     (case e of
        ResourceSpaceError r \<Rightarrow> r
      | HttpxError \<Rightarrow> rs_err ''UPSTREAM_UNAVAILABLE'' ''ResourceSpace could not be reached.'' 502
      | _ \<Rightarrow> rs_err ''INTERNAL_ERROR'' ''Unexpected ResourceSpace integration failure.'' 500)"

section \<open>The request discipline\<close>

text \<open>From one state of the network to a later one, only pinned requests were sent.\<close>

definition net_ahead :: "net \<Rightarrow> net \<Rightarrow> bool" where
  "net_ahead n m \<longleftrightarrow> (\<exists>cs. nt_sent m = nt_sent n @ cs \<and> list_all pinned_call cs)"

interpretation pinned_net: pinned_discipline pinned_call "net_ahead n" for n
  by unfold_locales (auto simp: net_ahead_def)

lemma net_ahead_refl [simp]: "net_ahead n n"
  by (simp add: net_ahead_def)

lemma net_ahead_trans: "net_ahead n m \<Longrightarrow> net_ahead m k \<Longrightarrow> net_ahead n k"
  by (auto simp: net_ahead_def)

lemma fixture_auth_keeps [net_intros]:
  "keeps (net_ahead n) (authenticate_fixture_tenant url u p)" "keeps (net_ahead n) (authenticate_fixture_sso t k u)"
  unfolding authenticate_fixture_tenant_def authenticate_fixture_sso_def Let_def
  by (rule net_intros pinned_net.interaction_keeps | simp)+

named_theorems service_keeps \<open>the operations of the service send pinned requests only\<close>

lemma authenticate_keeps [service_keeps]: "keeps (net_ahead n) (authenticate cfg url u p i)"
  unfolding authenticate_def by (intro net_intros pinned_net.authenticate_live_keeps)

lemma authenticate_key_keeps [service_keeps]: "keeps (net_ahead n) (authenticate_with_session_key cfg t k u i)"
  unfolding authenticate_with_session_key_def by (intro net_intros pinned_net.validate_live_keeps)

lemma listing_keeps [service_keeps]:
  "keeps (net_ahead n) (list_containers s p)"
  "keeps (net_ahead n) (search_containers s p q)"
  "keeps (net_ahead n) (list_assets s q c off lim srt)"
  "keeps (net_ahead n) (get_download_source s a)"
  unfolding list_containers_def search_containers_def list_assets_def get_download_source_def
  by (intro delivers_if delivers_lift TrueI pinned_net.list_live_containers_keeps pinned_net.search_live_containers_keeps
      pinned_net.list_live_assets_keeps pinned_net.get_live_download_keeps)+

lemma upload_keeps [service_keeps]: "keeps (net_ahead n) (upload_resource cfg s c url t)"
  unfolding upload_resource_def Let_def by (intro net_intros pinned_net.upload_live_resource_keeps)

lemma configured_tenant_keeps [service_keeps]: "keeps (net_ahead n) (get_configured_tenant cfg url)"
  by (rule pinned_net.get_configured_tenant_keeps)

text \<open>What an operation adds to the record of requests, as a fact about its run.\<close>

lemma keeps_ahead: "(\<And>n. keeps (net_ahead n) m) \<Longrightarrow> net_ahead n (snd (m n))"
  by (meson deliversD(1) net_ahead_refl)

text \<open>Every picture that a listing answers has a source.\<close>

lemma fixture_assets_have_source:
  "list_fixture_assets s q c off lim srt = Inr p \<Longrightarrow> a \<in> set (ap_items p) \<Longrightarrow> ai_preview a \<noteq> None"
  by (auto simp: list_fixture_assets_def Let_def build_fixture_asset_def split: sum.splits)

end
