(* ===== verification/Http_Utils.thy ===== *)
theory Http_Utils
  imports Broker_Config Json_Values Sha256 Ip_Address
begin

text \<open>
  \<^verbatim>\<open>trusted_proxy.py\<close> and \<^verbatim>\<open>http_utils.py\<close>: requests and responses as the routes see them, the CORS
  and error helpers, bearer tokens and scopes, and the resolution of the client address behind
  proxies. A request holds what FastAPI has parsed: header names in lower case, the pairs of the
  query in their order, and the last value of each form field. File parts of a form are not modelled.
\<close>

section \<open>Requests and responses\<close>

record http_request =
  rq_peer :: "string option"
  rq_headers :: "string dict"
  rq_query_items :: "(string \<times> string) list"
  rq_form :: "string dict"
  rq_path :: string
  rq_body :: string

text \<open>What the authorize page is rendered from.\<close>

record authorize_page =
  pg_hidden_fields :: "(string \<times> string) list"
  pg_error_code :: "string option"
  pg_error_message :: "string option"
  pg_tenant_url :: string
  pg_username :: string
  pg_client_id :: string
  pg_manual_test_mode :: bool
  pg_sso_enabled :: bool

text \<open>A redirect holds the target as it is handed to \<^verbatim>\<open>RedirectResponse\<close>.\<close>

datatype http_body = JsonBody json | AuthorizePage authorize_page | NoBody | BytesBody "byte list" | RedirectTo string

record http_response =
  rp_status :: int
  rp_body :: http_body
  rp_headers :: "string dict"

definition header_get :: "http_request \<Rightarrow> string \<Rightarrow> string option" where
  "header_get rq name = dict_get (rq_headers rq) (py_lower name)"

text \<open>\<^verbatim>\<open>request.query_params\<close> as a mapping: the last value of a key counts.\<close>

definition query_params :: "http_request \<Rightarrow> string dict" where
  "query_params rq = dict_of (rq_query_items rq)"

definition CANVA_SIGNATURE_HEADERS :: string where
  "CANVA_SIGNATURE_HEADERS = ''authorization, content-type, x-canva-signatures, x-canva-timestamp''"

definition dict_update :: "'v dict \<Rightarrow> 'v dict \<Rightarrow> 'v dict" where
  "dict_update d extra = fold (\<lambda>(k, v) d. AList.update k v d) extra d"

definition cors_headers :: "string dict \<Rightarrow> string dict" where
  "cors_headers extra =
     dict_update [(''Access-Control-Allow-Headers'', CANVA_SIGNATURE_HEADERS),
                  (''Access-Control-Allow-Methods'', ''GET, POST, OPTIONS'')] extra"

definition error_envelope :: "string \<Rightarrow> string \<Rightarrow> json" where
  "error_envelope code message = JObj [(''error'', JObj [(''code'', JStr code), (''message'', JStr message)])]"

definition json_response :: "int \<Rightarrow> json \<Rightarrow> string dict \<Rightarrow> http_response" where
  "json_response status content headers = \<lparr>rp_status = status, rp_body = JsonBody content, rp_headers = headers\<rparr>"

definition json_error :: "int \<Rightarrow> string \<Rightarrow> string \<Rightarrow> string dict \<Rightarrow> http_response" where
  "json_error status code message headers =
     json_response status (error_envelope code message) (cors_headers headers)"

section \<open>Bearer tokens and scopes\<close>

definition read_bearer_token :: "http_request \<Rightarrow> string option" where
  "read_bearer_token rq =
     (let header = str_or (header_get rq ''authorization'') [] in
      if \<not> startswith header ''Bearer '' then None else Some (drop 7 header))"

definition token_has_scope :: "string option \<Rightarrow> string \<Rightarrow> bool" where
  "token_has_scope scope required_scope \<longleftrightarrow> required_scope \<in> set (split_ws (str_or scope []))"

section \<open>Trusted proxies\<close>

text \<open>One pattern of the list against a host that parses as an address.\<close>

definition pattern_matches :: "string \<Rightarrow> ip_address \<Rightarrow> string \<Rightarrow> bool" where
  "pattern_matches host address pattern \<longleftrightarrow>
     pattern \<noteq> [] \<and>
     (if CHR ''/'' \<in> set pattern then
        (case parse_ip_network pattern of Some net \<Rightarrow> in_network address net | None \<Rightarrow> host = pattern)
      else
        (case parse_ip_address pattern of Some a \<Rightarrow> address = a | None \<Rightarrow> host = pattern))"

definition host_matches_trusted_proxy :: "string \<Rightarrow> string list \<Rightarrow> bool" where
  "host_matches_trusted_proxy host patterns \<longleftrightarrow>
     host \<noteq> [] \<and> patterns \<noteq> [] \<and>
     (case parse_ip_address host of
        None \<Rightarrow> host \<in> set patterns
      | Some address \<Rightarrow> list_ex (pattern_matches host address) patterns)"

definition client_ip_from_x_forwarded_for :: "string \<Rightarrow> string list \<Rightarrow> string option" where
  "client_ip_from_x_forwarded_for raw trusted_proxies =
     List.find (\<lambda>hop. \<not> host_matches_trusted_proxy hop trusted_proxies) (rev (comma_fields raw))"

section \<open>The client address\<close>

record client_resolution =
  cr_host :: string
  cr_transport_peer :: string
  cr_client_ip_header :: string
  cr_header_trusted :: bool
  cr_header_present :: bool

definition resolve_client_host :: "http_request \<Rightarrow> app_config \<Rightarrow> client_resolution" where
  "resolve_client_host rq cfg =
     (let peer = str_or (rq_peer rq) [];
          header_name = client_ip_header cfg;
          trusted_proxies = trusted_proxy_hosts cfg;
          raw_header = (if header_name \<noteq> [] then py_strip (str_or (header_get rq header_name) []) else []);
          header_present = (raw_header \<noteq> []);
          header_trusted = (header_name \<noteq> [] \<and> peer \<noteq> [] \<and> host_matches_trusted_proxy peer trusted_proxies);
          resolution = (\<lambda>host trusted present.
            \<lparr>cr_host = host, cr_transport_peer = peer, cr_client_ip_header = header_name,
             cr_header_trusted = trusted, cr_header_present = present\<rparr>);
          fallback = resolution (if peer = [] then ''unknown'' else peer) header_trusted header_present
      in if header_trusted \<and> header_present then
           (if header_name = ''x-forwarded-for'' then
              (case client_ip_from_x_forwarded_for raw_header trusted_proxies of
                 Some resolved \<Rightarrow> if resolved = [] then fallback else resolution resolved True True
               | None \<Rightarrow> fallback)
            else resolution raw_header True True)
         else fallback)"

definition client_host :: "http_request \<Rightarrow> app_config \<Rightarrow> string" where
  "client_host rq cfg = cr_host (resolve_client_host rq cfg)"

text \<open>What is logged about a client is a keyed digest.\<close>

definition client_ip_log_key_of :: "app_config \<Rightarrow> string" where
  "client_ip_log_key_of cfg =
     (if client_ip_log_key cfg \<noteq> [] then client_ip_log_key cfg
      else if asset_secret (signing cfg) \<noteq> [] then asset_secret (signing cfg)
      else ''development-client-ip-log-key'')"

definition pseudonymize_client_ip :: "string \<Rightarrow> string \<Rightarrow> string option" where
  "pseudonymize_client_ip ip key =
     (if ip = [] \<or> ip = ''unknown'' then None
      else Some (take 12 (hexdigest (hmac_sha256 (utf8 key) (utf8 ip)))))"

text \<open>\<^verbatim>\<open>value or None\<close> in a dict that is logged.\<close>

definition str_or_null :: "string \<Rightarrow> json" where
  "str_or_null s = (if s = [] then JNull else JStr s)"

definition log_context_of :: "client_resolution \<Rightarrow> app_config \<Rightarrow> json dict" where
  "log_context_of r cfg =
     (let log_key = client_ip_log_key_of cfg in
      [(''transportPeerHash'', json_of_opt (pseudonymize_client_ip (cr_transport_peer r) log_key)),
       (''resolvedClientHostHash'', json_of_opt (pseudonymize_client_ip (cr_host r) log_key)),
       (''clientIpHeader'', str_or_null (cr_client_ip_header r)),
       (''clientIpHeaderTrusted'', JBool (cr_header_trusted r)),
       (''clientIpHeaderPresent'', JBool (cr_header_present r))] @
      (if client_ip_log_diagnostics cfg then [(''transportPeer'', str_or_null (cr_transport_peer r))] else []))"

section \<open>Facts\<close>

lemma find_append: "List.find P (xs @ ys) = (case List.find P xs of Some x \<Rightarrow> Some x | None \<Rightarrow> List.find P ys)"
  by (induction xs) auto

lemma find_none_all: "(\<And>x. x \<in> set xs \<Longrightarrow> \<not> P x) \<Longrightarrow> List.find P xs = None"
  by (simp add: find_None_iff)

text \<open>The rightmost hop that is not a trusted proxy.\<close>

lemma xff_rightmost:
  assumes "comma_fields raw = xs @ hop # ps" and "\<not> host_matches_trusted_proxy hop trusted"
    and "\<And>p. p \<in> set ps \<Longrightarrow> host_matches_trusted_proxy p trusted"
  shows "client_ip_from_x_forwarded_for raw trusted = Some hop"
proof -
  have "List.find (\<lambda>hop. \<not> host_matches_trusted_proxy hop trusted) (rev ps) = None"
    using assms(3) by (intro find_none_all) auto
  with assms(1,2) show ?thesis by (simp add: client_ip_from_x_forwarded_for_def find_append)
qed

text \<open>What a client puts before the text the proxies appended has no influence.\<close>

lemma xff_prefix_ignored:
  assumes "client_ip_from_x_forwarded_for rest trusted = Some hop"
  shows "client_ip_from_x_forwarded_for (spoofed @ CHR '','' # rest) trusted = Some hop"
  using assms by (simp add: client_ip_from_x_forwarded_for_def comma_fields_append find_append)

lemma resolve_untrusted:
  assumes "\<not> host_matches_trusted_proxy (str_or (rq_peer rq) []) (trusted_proxy_hosts cfg)"
  shows "client_host rq cfg = (if str_or (rq_peer rq) [] = [] then ''unknown'' else str_or (rq_peer rq) [])"
  using assms by (simp add: client_host_def resolve_client_host_def Let_def)

lemma scope_mem: "token_has_scope (Some s) t \<longleftrightarrow> t \<in> set (split_ws s)"
  by (cases s) (auto simp: token_has_scope_def str_or_def)

end
