(* ===== verification/Asset_Delivery.thy ===== *)
theory Asset_Delivery
  imports Rs_Service Asset_Service Http_Utils
begin

text \<open>
  The delivery of an asset in \<^verbatim>\<open>services/asset_service.py\<close>: the race of connections to the pinned
  addresses of the source, the bounded reading of the winner, and the response for a grant. When and
  in which order the attempts of a race end is up to the network, within the connect deadline.
\<close>

section \<open>The race\<close>

text \<open>One group of attempts that ended together.\<close>

definition accepted :: "(nat \<times> attempt) list \<Rightarrow> (nat \<times> http_reply) list" where
  "accepted batch = List.map_filter
     (\<lambda>(i, a). case a of Opened r \<Rightarrow> if hr_status r < 400 then Some (i, r) else None | _ \<Rightarrow> None) batch"

definition saw_reject :: "(nat \<times> attempt) list \<Rightarrow> bool" where
  "saw_reject batch \<longleftrightarrow> list_ex (\<lambda>(i, a). case a of Opened r \<Rightarrow> 400 \<le> hr_status r | _ \<Rightarrow> False) batch"

definition first_unexpected :: "(nat \<times> attempt) list \<Rightarrow> exn option" where
  "first_unexpected batch =
     (case List.map_filter (\<lambda>(i, a). case a of AttemptRaised e \<Rightarrow> Some e | _ \<Rightarrow> None) batch of
        [] \<Rightarrow> None | e # es \<Rightarrow> Some e)"

text \<open>
  The groups in turn: an acceptable answer wins, the one of the first address among those that came
  together; else an unexpected error surfaces; else an error status gives up.
\<close>

fun race :: "(nat \<times> attempt) list list \<Rightarrow> exn + (nat \<times> http_reply) option" where
  "race [] = Inr None"
| "race (batch # batches) =
     (case sort_key fst (accepted batch) of
        winner # losers \<Rightarrow> Inr (Some winner)
      | [] \<Rightarrow>
          (case first_unexpected batch of
             Some e \<Rightarrow> Inl e
           | None \<Rightarrow> if saw_reject batch then Inr None else race batches))"

definition race_call :: "pin \<Rightarrow> string option \<Rightarrow> pinned \<Rightarrow> http_call" where
  "race_call p integration u =
     \<lparr>hc_method = ''GET'', hc_to = u, hc_headers = resourcespace_request_headers integration @ pi_headers p,
      hc_sni = pi_sni p, hc_body = NoPayload, hc_read_timeout = 30 * 10 ^ 9, hc_connect_timeout = 5 * 10 ^ 9\<rparr>"

definition race_pinned_connection :: "pin \<Rightarrow> string option \<Rightarrow> http_reply option net_op" where
  "race_pinned_connection p integration =
     op_bind (start_race (map (race_call p integration) (pi_urls p))) (\<lambda>batches.
     op_bind (op_lift (race batches)) (\<lambda>winner. op_return (map_option snd winner)))"

text \<open>A body that is too long, announced or not, and one that breaks off are no body.\<close>

definition read_winner :: "int \<Rightarrow> http_reply \<Rightarrow> (byte list \<times> string option) option" where
  "read_winner max_bytes r =
     (if (case Option.bind (dict_get (hr_headers r) ''content-length'') py_int of
         Some declared \<Rightarrow> max_bytes < declared | None \<Rightarrow> False) then None
      else
        (case read_chunks 0 max_bytes (hr_chunks r) (hr_complete r) of
           Inl _ \<Rightarrow> None
         | Inr body \<Rightarrow> Some (body, dict_get (hr_headers r) ''content-type'')))"

definition race_pinned_fetch :: "pin \<Rightarrow> int \<Rightarrow> string option \<Rightarrow> (byte list \<times> string option) option net_op" where
  "race_pinned_fetch p max_bytes integration =
     op_bind (race_pinned_connection p integration) (\<lambda>winner.
       op_return (Option.bind winner (read_winner max_bytes)))"

section \<open>The response for a grant\<close>

definition fixture_response :: "asset_grant \<Rightarrow> string dict \<Rightarrow> string \<Rightarrow> string \<Rightarrow> http_response option" where
  "fixture_response g combined asset_id variant =
     (case get_asset_by_id asset_id of
        None \<Rightarrow> None
      | Some a \<Rightarrow>
          (let content_type = str_or (ag_mimeType g) ''image/svg+xml; charset=utf-8'' in
           Some \<lparr>rp_status = 200, rp_body = BytesBody (utf8 (render_fixture_svg a variant)),
                 rp_headers = harden_asset_response_headers (AList.update ''Content-Type'' content_type combined)
                   content_type (ag_filename g) False\<rparr>))"

definition proxy_response :: "asset_grant \<Rightarrow> string dict \<Rightarrow> byte list \<Rightarrow> string option \<Rightarrow> http_response" where
  "proxy_response g combined body content_type_header =
     (let content_type =
            str_or (ag_mimeType g) (str_or content_type_header ''application/octet-stream'');
          combined = AList.update ''Content-Type'' content_type combined;
          combined = (if truthy_str (ag_filename g)
            then AList.update ''Content-Disposition'' (content_disposition (the (ag_filename g))) combined else combined)
      in \<lparr>rp_status = 200, rp_body = BytesBody body,
          rp_headers = harden_asset_response_headers combined content_type (ag_filename g) True\<rparr>)"

definition build_grant_response :: "app_config \<Rightarrow> asset_grant \<Rightarrow> string dict \<Rightarrow> http_response option net_op" where
  "build_grant_response cfg g headers =
     (let combined = dict_update [(''Cache-Control'', ''private, max-age=60'')] headers in
      case ag_source g of
        FixtureSource asset_id variant _ _ _ \<Rightarrow> op_return (fixture_response g combined asset_id variant)
      | ProxySource url _ \<Rightarrow>
          op_bind
            (op_handle
              (op_bind (pin_request url (asset_allowed_hosts (resource_space cfg))) (\<lambda>p. op_return (Some p)))
              (\<lambda>e. case e of ResourceSpaceError _ \<Rightarrow> op_return None | _ \<Rightarrow> op_raise e))
            (\<lambda>pinned.
              case pinned of
                None \<Rightarrow> op_return None
              | Some p \<Rightarrow>
                  op_bind (race_pinned_fetch p (asset_proxy_max_bytes (resource_space cfg)) (ag_integration g)) (\<lambda>fetched.
                    op_return (map_option (\<lambda>(body, content_type). proxy_response g combined body content_type) fetched))))"

section \<open>Facts\<close>

lemma accepted_set: "(i, r) \<in> set (accepted batch) \<longleftrightarrow> (i, Opened r) \<in> set batch \<and> hr_status r < 400"
  by (force simp: accepted_def List.map_filter_def split: attempt.splits if_splits)

text \<open>The winner is an acceptable answer of the first group that has one, from its first address.\<close>

lemma race_winner:
  "race batches = Inr (Some (i, r)) \<Longrightarrow>
     \<exists>before batch after. batches = before @ batch # after \<and> (i, Opened r) \<in> set batch \<and> hr_status r < 400 \<and>
       (\<forall>b \<in> set before. accepted b = []) \<and>
       (\<forall>j r'. (j, Opened r') \<in> set batch \<and> hr_status r' < 400 \<longrightarrow> i \<le> j)"
proof (induction batches)
  case (Cons batch batches)
  show ?case
  proof (cases "sort_key fst (accepted batch)")
    case Nil
    then have none: "accepted batch = []" by (metis length_0_conv length_sort)
    with Cons.prems have "race batches = Inr (Some (i, r))" by (simp split: option.splits if_splits)
    from Cons.IH [OF this] none show ?thesis by (metis append_Cons set_ConsD)
  next
    case (Cons w ws)
    with Cons.prems have w: "w = (i, r)" by simp
    have "sorted (map fst (sort_key fst (accepted batch)))" by simp
    with Cons w have least: "\<forall>x \<in> set ws. i \<le> fst x" by simp
    have set: "set (accepted batch) = insert (i, r) (set ws)" using Cons w by (metis list.simps(15) set_sort)
    then have "(i, r) \<in> set (accepted batch)" by simp
    then have "(i, Opened r) \<in> set batch \<and> hr_status r < 400" by (simp add: accepted_set)
    moreover have "i \<le> j" if "(j, Opened r') \<in> set batch \<and> hr_status r' < 400" for j r'
      using that least set accepted_set [of j r' batch] by auto
    ultimately show ?thesis by (intro exI [of _ "[]"] exI [of _ batch] exI [of _ batches]) auto
  qed
qed simp

lemma read_winner_bound:
  "read_winner m r = Some (body, t) \<Longrightarrow> 0 \<le> m \<Longrightarrow> int (length body) \<le> m \<and> body = concat (hr_chunks r) \<and> hr_complete r"
  by (auto simp: read_winner_def dest!: read_chunks_length split: if_splits sum.splits option.splits)

lemma race_keeps: "pin_safe allowed p \<Longrightarrow> keeps (net_ahead n) (race_pinned_fetch p m i)"
proof -
  assume "pin_safe allowed p"
  then have "list_all pinned_call (map (race_call p i) (pi_urls p))"
    by (auto simp: list_all_iff pin_safe_def pinned_call_def race_call_def)
  then show ?thesis
    unfolding race_pinned_fetch_def race_pinned_connection_def
    by (intro keeps_bind pinned_net.start_race_keeps net_intros TrueI)
qed

lemma build_grant_keeps [service_keeps]: "keeps (net_ahead n) (build_grant_response cfg g h)"
proof -
  define safe where "safe x \<longleftrightarrow> (case x of None \<Rightarrow> True | Some p \<Rightarrow> pin_safe (asset_allowed_hosts (resource_space cfg)) p)"
    for x :: "pin option"
  have pin: "delivers (net_ahead n)
      (op_handle (op_bind (pin_request url (asset_allowed_hosts (resource_space cfg))) (\<lambda>p. op_return (Some p)))
        (\<lambda>e. case e of ResourceSpaceError _ \<Rightarrow> op_return None | _ \<Rightarrow> op_raise e)) safe" for url
  proof (rule delivers_handle)
    show "delivers (net_ahead n)
        (op_bind (pin_request url (asset_allowed_hosts (resource_space cfg))) (\<lambda>p. op_return (Some p))) safe"
      by (rule delivers_bind [OF pinned_net.pin_request_delivers]) (auto intro!: net_intros simp: safe_def)
    show "delivers (net_ahead n) (case e of ResourceSpaceError _ \<Rightarrow> op_return None | _ \<Rightarrow> op_raise e) safe" for e
      by (cases e) (auto intro!: net_intros simp: safe_def)
  qed
  show ?thesis
    unfolding build_grant_response_def Let_def
    by (cases "ag_source g"; simp)
      (auto intro!: net_intros delivers_bind [OF pin] keeps_bind [OF race_keeps] simp: safe_def)
qed

end
