(* ===== verification/Logger.thy ===== *)
theory Logger
  imports Json_Layout Iso_Date Effect_Monad
begin

text \<open>
  \<^verbatim>\<open>logger.py\<close>: a call of the logger and the line it prints, one JSON object with the time, the level
  and the name of the event, and the context merged over them. The handlers record their calls in the
  state of the application; this theory says what line each of them becomes, and why whatever is
  logged stays on one line of printable ASCII.
\<close>

section \<open>A call of the logger\<close>

text \<open>
  A value of the context is JSON, or the text of an exception (\<^verbatim>\<open>str(exc)\<close>), which the runtime gives.
\<close>

datatype log_value = LvJson json | LvExn exn

abbreviation LvStr :: "string \<Rightarrow> log_value" where
  "LvStr s \<equiv> LvJson (JStr s)"

record log_call =
  lg_level :: string
  lg_message :: string
  lg_context :: "log_value dict"

definition log_info :: "string \<Rightarrow> log_value dict \<Rightarrow> log_call" where
  "log_info message context = \<lparr>lg_level = ''info'', lg_message = message, lg_context = context\<rparr>"

definition log_warn :: "string \<Rightarrow> log_value dict \<Rightarrow> log_call" where
  "log_warn message context = \<lparr>lg_level = ''warn'', lg_message = message, lg_context = context\<rparr>"

definition log_error :: "string \<Rightarrow> log_value dict \<Rightarrow> log_call" where
  "log_error message context = \<lparr>lg_level = ''error'', lg_message = message, lg_context = context\<rparr>"

section \<open>The line it prints\<close>

fun log_json :: "(exn \<Rightarrow> string) \<Rightarrow> log_value \<Rightarrow> json" where
  "log_json exn_text (LvJson j) = j"
| "log_json exn_text (LvExn e) = JStr (exn_text e)"

text \<open>\<^verbatim>\<open>entry.update(context)\<close>: a key of the context that the entry has already replaces its value.\<close>

definition log_entry :: "(exn \<Rightarrow> string) \<Rightarrow> int \<Rightarrow> log_call \<Rightarrow> json dict" where
  "log_entry exn_text now c =
     fold (\<lambda>(k, v) d. AList.update k (log_json exn_text v) d) (lg_context c)
       [(''ts'', JStr (utc_text now)), (''level'', JStr (lg_level c)), (''message'', JStr (lg_message c))]"

datatype output_stream = Stdout | Stderr

definition newline :: char where
  "newline = CHR 0x0A"

definition emit_line :: "(exn \<Rightarrow> string) \<Rightarrow> int \<Rightarrow> log_call \<Rightarrow> string" where
  "emit_line exn_text now c = dump_spaced (JObj (log_entry exn_text now c))"

definition emit :: "(exn \<Rightarrow> string) \<Rightarrow> int \<Rightarrow> log_call \<Rightarrow> output_stream \<times> string" where
  "emit exn_text now c =
     (if lg_level c = ''error'' then Stderr else Stdout, emit_line exn_text now c @ [newline])"

section \<open>Printable text\<close>

definition printable_char :: "char \<Rightarrow> bool" where
  "printable_char c \<longleftrightarrow> 32 \<le> char_code c \<and> char_code c \<le> 126"

definition printable_text :: "string \<Rightarrow> bool" where
  "printable_text s \<longleftrightarrow> list_all printable_char s"

lemma printable_simps [simp]:
  "printable_text []" "printable_text (c # s) \<longleftrightarrow> printable_char c \<and> printable_text s"
  "printable_text (s @ t) \<longleftrightarrow> printable_text s \<and> printable_text t"
  by (simp_all add: printable_text_def)

lemma printable_punctuation [simp]:
  "printable_char (CHR ''['')" "printable_char (CHR '']'')" "printable_char (CHR ''{'')" "printable_char (CHR ''}'')"
  "printable_char (CHR '','')" "printable_char (CHR '':'')" "printable_char (CHR '' '')" "printable_char (CHR 0x22)"
  "printable_char (CHR ''-'')" "printable_char (CHR ''+'')" "printable_char (CHR ''.'')" "printable_char (CHR 0x5C)"
  "printable_char (CHR ''e'')" "printable_char (CHR ''E'')"
  by (simp_all add: printable_char_def)

lemma printable_decimal: "is_decimal c \<Longrightarrow> printable_char c"
  by (auto simp: is_decimal_def printable_char_def)

lemma printable_decimals: "list_all is_decimal s \<Longrightarrow> printable_text s"
  by (simp add: printable_text_def list_all_iff printable_decimal)

lemma printable_join: "list_all printable_text xs \<Longrightarrow> printable_text sep \<Longrightarrow> printable_text (join sep xs)"
  by (induction sep xs rule: join.induct) simp_all

lemma printable_hex: "n < 16 \<Longrightarrow> printable_char (hex_digit n)"
  by (simp add: hex_digit_def printable_char_def of_char_of)

lemma printable_hex4: "n < 65536 \<Longrightarrow> printable_text (hex4 n)"
  by (simp add: hex4_def printable_hex less_mult_imp_div_less)

lemma printable_dump_char: "printable_text (dump_char c)"
proof -
  have "char_code c < 256" using of_char_mod_256 [of c, where ?'a = nat] mod_less_divisor [of 256 "char_code c"] by simp
  then have "char_code c < 65536" by (rule less_trans) simp
  then show ?thesis by (simp add: dump_char_def Let_def printable_hex4) (simp add: printable_char_def)
qed

lemma printable_dump_string: "printable_text (dump_string s)"
  using printable_dump_char by (induction s) (auto simp: dump_string_def)

lemma printable_int: "printable_text (str_of_int n)"
  using nat_digits_decimal printable_decimals by (auto simp: str_of_int_def list_all_iff)

text \<open>The only text that is printed as it stands is that of a float.\<close>

fun json_printable :: "json \<Rightarrow> bool" where
  "json_printable (JFloat t) = printable_text t"
| "json_printable (JArr js) = list_all json_printable js"
| "json_printable (JObj kvs) = list_all (\<lambda>(k, v). json_printable v) kvs"
| "json_printable _ = True"

text \<open>A layout whose white space stays on the line.\<close>

locale line_layout = json_layout +
  assumes col_line: "printable_text col" and pad_line: "printable_text (pad d)" and sep_line: "printable_text (sep d)"
begin

lemma layout_printable: "json_printable j \<Longrightarrow> printable_text (show_json d j)"
proof (induction j arbitrary: d)
  case (JBool b)
  show ?case by (cases b) (simp_all add: printable_char_def)
next
  case (JArr js)
  then have "printable_text (join (CHR '','' # sep (d + 2)) (map (show_json (d + 2)) js))"
    by (intro printable_join) (simp_all add: list_all_iff sep_line)
  then show ?case by (cases js) (simp_all add: pad_line)
next
  case (JObj kvs)
  have "printable_text (show_member (d + 2) (k, v))" if "(k, v) \<in> set kvs" for k v
    using JObj.IH [OF that, of v] JObj.prems that by (auto simp: list_all_iff printable_dump_string col_line)
  then have "printable_text (join (CHR '','' # sep (d + 2)) (map (show_member (d + 2)) kvs))"
    by (intro printable_join) (auto simp: list_all_iff sep_line)
  then show ?case by (cases kvs) (simp_all add: pad_line)
qed (simp_all add: printable_dump_string printable_int printable_char_def)

end

interpretation spaced: line_layout "'' ''" "\<lambda>_. []" "\<lambda>_. '' ''"
  by unfold_locales simp_all

section \<open>What the parser reads is printable\<close>

lemma printable_take_decimal: "printable_text (takeWhile is_decimal s)"
  by (rule printable_decimals) (auto simp: list_all_iff dest: set_takeWhileD)

lemma printable_scan_number: "scan_number s = Some (j, rest) \<Longrightarrow> json_printable j"
proof -
  assume scan: "scan_number s = Some (j, rest)"
  have sign: "printable_text (fst (split_sign s))" by (auto simp: split_sign_def split: list.splits)
  have ip: "printable_text (int_part_of r)" for r
    using printable_take_decimal [of r] by (cases "takeWhile is_decimal r") (auto simp: int_part_of_def Let_def)
  have frac: "printable_text (fst (scan_frac r))" for r
    by (auto simp: scan_frac_def printable_take_decimal split: list.splits)
  have ex: "printable_text (fst (scan_exp r))" for r
    by (auto simp: scan_exp_def Let_def printable_take_decimal printable_decimal split: list.splits)
  from scan sign ip frac ex show ?thesis
    by (auto simp: scan_number_def Let_def split: prod.splits option.splits if_splits; metis fst_conv)
qed

lemma printable_scan_literal: "scan_literal s = Some (j, rest) \<Longrightarrow> json_printable j"
  by (auto simp: scan_literal_def printable_char_def dest: printable_scan_number split: if_splits)

lemma printable_update:
  "list_all (\<lambda>(k, v). json_printable v) d \<Longrightarrow> json_printable v \<Longrightarrow>
   list_all (\<lambda>(k, v). json_printable v) (AList.update k v d)"
  by (induction d) auto

lemma printable_dict_of: "list_all (\<lambda>(k, v). json_printable v) kvs \<Longrightarrow> list_all (\<lambda>(k, v). json_printable v) (dict_of kvs)"
proof -
  have "list_all (\<lambda>(k, v). json_printable v) kvs \<Longrightarrow> list_all (\<lambda>(k, v). json_printable v) d \<Longrightarrow>
      list_all (\<lambda>(k, v). json_printable v) (fold (\<lambda>(k, v) d. AList.update k v d) kvs d)" for d
    by (induction kvs arbitrary: d) (auto simp: printable_update)
  then show "list_all (\<lambda>(k, v). json_printable v) kvs \<Longrightarrow> list_all (\<lambda>(k, v). json_printable v) (dict_of kvs)"
    by (simp add: dict_of_def)
qed

lemma parse_printable:
  "parse_value n s = Some (j, rest) \<Longrightarrow> json_printable j"
  "parse_items n s = Some (js, rest) \<Longrightarrow> list_all json_printable js"
  "parse_members n s = Some (kvs, rest) \<Longrightarrow> list_all (\<lambda>(k, v). json_printable v) kvs"
proof (induction n s and n s and n s arbitrary: j rest and js rest and kvs rest
    rule: parse_value_parse_items_parse_members.induct)
  case (2 n s)
  then show ?case
    by (fastforce simp: printable_dict_of dest: printable_scan_literal split: list.splits if_splits)
next
  case (4 n s)
  then show ?case by (fastforce split: list.splits option.splits if_splits)
next
  case (6 n s)
  then show ?case by (fastforce split: list.splits option.splits if_splits)
qed simp_all

lemma loads_printable: "loads s = Some j \<Longrightarrow> json_printable j"
  by (auto simp: loads_def simp del: parse_value.simps dest: parse_printable split: option.splits prod.splits if_splits)

section \<open>Contexts that can be printed\<close>

fun log_value_printable :: "log_value \<Rightarrow> bool" where
  "log_value_printable (LvJson j) = json_printable j"
| "log_value_printable (LvExn e) = True"

fun log_value_exact :: "log_value \<Rightarrow> bool" where
  "log_value_exact (LvJson j) = json_ok j"
| "log_value_exact (LvExn e) = True"

text \<open>
  The contexts of the handlers hold texts and flags. The only one with other values is that of the
  uninstall notification: the ids as they stand in its body, which may be numbers.
\<close>

definition context_printable :: "log_value dict \<Rightarrow> bool" where
  "context_printable ctx \<longleftrightarrow> list_all (\<lambda>(k, v). log_value_printable v) ctx"

definition context_exact :: "log_value dict \<Rightarrow> bool" where
  "context_exact ctx \<longleftrightarrow> list_all (\<lambda>(k, v). log_value_exact v) ctx"

definition loggable :: "string \<Rightarrow> log_value dict \<Rightarrow> bool" where
  "loggable message ctx \<longleftrightarrow> context_printable ctx \<and> (message = ''canva_user_uninstall'' \<or> context_exact ctx)"

lemma loggable_intros [net_intros]:
  "loggable m []" "loggable m ctx \<Longrightarrow> loggable m ((k, LvStr s) # ctx)" "loggable m ctx \<Longrightarrow> loggable m ((k, LvExn e) # ctx)"
  "loggable m ctx \<Longrightarrow> loggable m ((k, LvJson (JBool flag)) # ctx)"
  "loggable m a \<Longrightarrow> loggable m b \<Longrightarrow> loggable m (a @ b)"
  by (auto simp: loggable_def context_printable_def context_exact_def)

lemma entry_printable: "context_printable (lg_context c) \<Longrightarrow> json_printable (JObj (log_entry exn_text now c))"
proof -
  have val: "log_value_printable v \<Longrightarrow> json_printable (log_json exn_text v)" for v by (cases v) simp_all
  have upd: "list_all (\<lambda>(k, v). log_value_printable v) ctx \<Longrightarrow> list_all (\<lambda>(k, v). json_printable v) d \<Longrightarrow>
      list_all (\<lambda>(k, v). json_printable v) (fold (\<lambda>(k, v) d. AList.update k (log_json exn_text v) d) ctx d)" for ctx d
    by (induction ctx arbitrary: d) (auto simp: printable_update val)
  show "context_printable (lg_context c) \<Longrightarrow> ?thesis"
    unfolding log_entry_def context_printable_def json_printable.simps by (rule upd) simp_all
qed

lemma emit_line_printable: "context_printable (lg_context c) \<Longrightarrow> printable_text (emit_line exn_text now c)"
  unfolding emit_line_def dump_spaced_def by (intro spaced.layout_printable entry_printable)

end
