(* ===== verification/Broker_App.thy ===== *)
theory Broker_App
  imports Broker_System Rate_Limiter Asset_Delivery Logger
begin

text \<open>
  The application that serves requests: \<^verbatim>\<open>dependencies.py\<close> and the parts of \<^verbatim>\<open>main.py\<close> that wire it.
  Its state is the file of the store, the clock and randomness, the network, the rate limiter and the
  calls of the logger so far; a handler is an operation over that state. A service operation is lifted from its own component. The
  discipline at the end says what every handler built this way keeps.
\<close>

section \<open>State and lifting\<close>

record app_state =
  bk_disk :: "broker_store option"
  bk_world :: world
  bk_net :: net
  bk_limiter :: rate_limiter
  bk_log :: "log_call list"

type_synonym 'a app_op = "(app_state, 'a) op"

text \<open>
  \<^verbatim>\<open>build_dependencies\<close>: every service is built from the one configuration; the limiter is empty.
\<close>

definition build_service :: "(string \<Rightarrow> fernet option) \<Rightarrow> app_config \<Rightarrow> exn + auth_service" where
  "build_service fernet_of_key cfg =
     (case create_field_cipher fernet_of_key (Some (storage_encryption_key cfg)) of
        None \<Rightarrow> Inl ValueError
      | Some cipher \<Rightarrow> Inr \<lparr>sv_config = cfg, sv_cipher = cipher\<rparr>)"

definition fresh_app :: "app_config \<Rightarrow> broker_store option \<Rightarrow> world \<Rightarrow> net \<Rightarrow> app_state" where
  "fresh_app cfg disk w n =
     \<lparr>bk_disk = disk, bk_world = w, bk_net = n,
      bk_limiter = create_rate_limiter (rl_max_requests (rate_limit cfg)) (rl_window_ms (rate_limit cfg)),
      bk_log = []\<rparr>"

definition on_store ::
  "(broker_store option \<Rightarrow> world \<Rightarrow> (exn + 'a) \<times> broker_store option \<times> world) \<Rightarrow> 'a app_op"
where
  "on_store f = (\<lambda>s. case f (bk_disk s) (bk_world s) of (r, d, w) \<Rightarrow> (r, s\<lparr>bk_disk := d, bk_world := w\<rparr>))"

text \<open>A reading of the store that does not write it.\<close>

definition on_disk :: "(broker_store option \<Rightarrow> world \<Rightarrow> 'a \<times> world) \<Rightarrow> 'a app_op" where
  "on_disk f = (\<lambda>s. case f (bk_disk s) (bk_world s) of (x, w) \<Rightarrow> (Inr x, s\<lparr>bk_world := w\<rparr>))"

definition on_world :: "(world \<Rightarrow> 'a \<times> world) \<Rightarrow> 'a app_op" where
  "on_world f = (\<lambda>s. case f (bk_world s) of (x, w) \<Rightarrow> (Inr x, s\<lparr>bk_world := w\<rparr>))"

definition on_net :: "'a net_op \<Rightarrow> 'a app_op" where
  "on_net m = (\<lambda>s. case m (bk_net s) of (r, n) \<Rightarrow> (r, s\<lparr>bk_net := n\<rparr>))"

definition consume_rate :: "string \<Rightarrow> rate_result app_op" where
  "consume_rate key = (\<lambda>s. case consume (bk_limiter s) key (bk_world s) of
     (r, l, w) \<Rightarrow> (Inr r, s\<lparr>bk_limiter := l, bk_world := w\<rparr>))"

text \<open>\<^verbatim>\<open>log.info\<close>, \<^verbatim>\<open>log.warn\<close> and \<^verbatim>\<open>log.error\<close>: what is written is \<open>emit\<close> of the call.\<close>

definition log_op :: "log_call \<Rightarrow> unit app_op" where
  "log_op c = (\<lambda>s. (Inr (), s\<lparr>bk_log := bk_log s @ [c]\<rparr>))"

lemmas app_defs = op_defs on_store_def on_disk_def on_world_def on_net_def consume_rate_def log_op_def

section \<open>Guards that the handlers share\<close>

definition rate_limited :: "string \<Rightarrow> http_response app_op \<Rightarrow> http_response app_op" where
  "rate_limited key handler =
     op_bind (consume_rate key) (\<lambda>rate.
       if \<not> allowed rate then
         op_return (json_error 429 ''RATE_LIMITED'' ''Too many requests.''
           [(''Retry-After'', str_of_int (max 1 (retry_after_ms rate div 1000)))])
       else handler)"

text \<open>\<^verbatim>\<open>request.client.host if request.client else 'unknown'\<close>\<close>

definition peer_or_unknown :: "http_request \<Rightarrow> string" where
  "peer_or_unknown rq = (case rq_peer rq of Some p \<Rightarrow> p | None \<Rightarrow> ''unknown'')"

text \<open>
  The bearer token must be present, readable, and have the scope. The content endpoints log why they
  refused a token, except that the one for download links does not log a missing scope; the session
  endpoint logs nothing.
\<close>

definition auth_rejected :: "http_request \<Rightarrow> string \<Rightarrow> log_value dict \<Rightarrow> unit app_op" where
  "auth_rejected rq reason extra =
     log_op (log_warn ''auth_rejected'' ([(''path'', LvStr (rq_path rq)), (''reason'', LvStr reason)] @ extra))"

definition with_token ::
  "auth_service \<Rightarrow> http_request \<Rightarrow> (string \<Rightarrow> unit app_op) \<Rightarrow> (access_record \<Rightarrow> http_response app_op) \<Rightarrow>
   http_response app_op"
where
  "with_token sv rq note handler =
     (let token = read_bearer_token rq in
      if \<not> truthy_str token then
        op_bind (note ''missing_bearer_token'') (\<lambda>_.
          op_return (json_error 401 ''MISSING_BEARER_TOKEN'' ''Missing bearer token.'' []))
      else
        op_bind (on_store (read_access_token sv (the token))) (\<lambda>record.
          case record of
            None \<Rightarrow> op_bind (note ''session_expired'') (\<lambda>_.
              op_return (json_error 401 ''SESSION_EXPIRED'' ''Access token is invalid or expired.'' []))
          | Some r \<Rightarrow> handler r))"

definition with_scope ::
  "auth_service \<Rightarrow> http_request \<Rightarrow> string \<Rightarrow> bool \<Rightarrow> (session \<Rightarrow> http_response app_op) \<Rightarrow> http_response app_op"
where
  "with_scope sv rq scope logged handler =
     with_token sv rq (\<lambda>reason. auth_rejected rq reason []) (\<lambda>r.
       if \<not> token_has_scope (Some (at_scope r)) scope then
         op_bind (if logged then auth_rejected rq ''insufficient_scope'' [(''required'', LvStr scope)] else op_return ())
           (\<lambda>_. op_return (json_error 403 ''INSUFFICIENT_SCOPE'' (''Token is missing the '' @ scope @ '' scope.'') []))
       else handler (at_session r))"

text \<open>\<^verbatim>\<open>_unexpected\<close>: what a handler raises is logged and answered with status 500.\<close>

definition serve :: "http_request \<Rightarrow> http_response app_op \<Rightarrow> app_state \<Rightarrow> http_response \<times> app_state" where
  "serve rq handler s =
     (case handler s of
        (Inr response, s') \<Rightarrow> (response, s')
      | (Inl e, s') \<Rightarrow>
          (json_response 500 (error_envelope ''INTERNAL_ERROR'' ''Unexpected server error.'') (cors_headers []),
           s'\<lparr>bk_log := bk_log s' @ [log_error ''request_failed'' [(''path'', LvStr (rq_path rq)), (''error'', LvExn e)]]\<rparr>))"

text \<open>\<^verbatim>\<open>json.loads(raw_body) if raw_body else {}\<close>\<close>

definition parse_body :: "string \<Rightarrow> exn + json" where
  "parse_body raw = (if raw = [] then Inr (JObj []) else case loads raw of Some j \<Rightarrow> Inr j | None \<Rightarrow> Inl ValueError)"

lemma rate_limited_run:
  "consume (bk_limiter s) key (bk_world s) = (r, l, w) \<Longrightarrow>
   rate_limited key handler s =
     (if \<not> allowed r then
        (Inr (json_error 429 ''RATE_LIMITED'' ''Too many requests.''
           [(''Retry-After'', str_of_int (max 1 (retry_after_ms r div 1000)))]), s\<lparr>bk_limiter := l, bk_world := w\<rparr>)
      else handler (s\<lparr>bk_limiter := l, bk_world := w\<rparr>))"
  by (simp add: rate_limited_def op_bind_def consume_rate_def op_return_def)

lemma serve_keeps_parts [simp]:
  "bk_disk (snd (serve rq handler s)) = bk_disk (snd (handler s))"
  "bk_world (snd (serve rq handler s)) = bk_world (snd (handler s))"
  "bk_net (snd (serve rq handler s)) = bk_net (snd (handler s))"
  "bk_limiter (snd (serve rq handler s)) = bk_limiter (snd (handler s))"
  by (simp_all add: serve_def split: prod.splits sum.splits)

lemma log_op_bind [simp]: "op_bind (log_op c) f s = f () (s\<lparr>bk_log := bk_log s @ [c]\<rparr>)"
  by (simp add: op_bind_def log_op_def)

section \<open>JSON of a session\<close>

definition session_summary_json :: "session_summary \<Rightarrow> json" where
  "session_summary_json m =
     JObj [(''mode'', JStr (sm_mode m)),
       (''tenant'', JObj [(''id'', JStr (sm_tenant_id m)), (''slug'', json_of_opt (sm_tenant_slug m)),
          (''name'', json_of_opt (sm_tenant_name m)), (''baseUrl'', json_of_opt (sm_tenant_baseUrl m))]),
       (''user'', JObj ([(''id'', JStr (sm_user_id m)), (''username'', JStr (sm_username m)),
          (''displayName'', json_of_opt (sm_displayName m)), (''role'', json_of_opt (sm_role m))] @
          (case sm_email m of Some e \<Rightarrow> [(''email'', JStr e)] | None \<Rightarrow> [])))]"

definition token_json :: "token_response \<Rightarrow> json" where
  "token_json t =
     JObj [(''access_token'', JStr (tr_access_token t)), (''token_type'', JStr (tr_token_type t)),
       (''expires_in'', JInt (tr_expires_in t)), (''refresh_token'', json_of_opt (tr_refresh_token t)),
       (''scope'', JStr (tr_scope t))]"

definition oauth_error_json :: "string \<Rightarrow> string \<Rightarrow> json" where
  "oauth_error_json e d = JObj [(''error'', JStr e), (''description'', JStr d)]"

section \<open>A discipline of handlers\<close>

lemma same_disk [simp]: "s\<lparr>bk_disk := bk_disk s, bk_world := w\<rparr> = s\<lparr>bk_world := w\<rparr>"
  by (cases s) simp

text \<open>
  An invariant of the application that every operation of the services keeps, every interaction with
  the network that sends pinned requests only, every consumption of the limiter and every call of the
  logger whose values can be printed on a line.
\<close>

locale app_discipline =
  fixes sv :: auth_service and inv :: "app_state \<Rightarrow> bool"
  assumes store_kept:
      "inv s \<Longrightarrow> broker_step sv (bk_disk s, bk_world s) (d, w) \<Longrightarrow> inv (s\<lparr>bk_disk := d, bk_world := w\<rparr>)"
    and net_kept: "inv s \<Longrightarrow> net_ahead (bk_net s) n \<Longrightarrow> inv (s\<lparr>bk_net := n\<rparr>)"
    and limiter_kept:
      "inv s \<Longrightarrow> consume (bk_limiter s) key (bk_world s) = (r, l, w) \<Longrightarrow> inv (s\<lparr>bk_limiter := l, bk_world := w\<rparr>)"
    and log_kept: "inv s \<Longrightarrow> loggable (lg_message c) (lg_context c) \<Longrightarrow> inv (s\<lparr>bk_log := bk_log s @ [c]\<rparr>)"
begin

lemma log_keeps [net_intros]:
  "loggable m ctx \<Longrightarrow> keeps inv (log_op (log_info m ctx))"
  "loggable m ctx \<Longrightarrow> keeps inv (log_op (log_warn m ctx))"
  "loggable m ctx \<Longrightarrow> keeps inv (log_op (log_error m ctx))"
  using log_kept by (simp_all add: delivers_def log_op_def log_info_def log_warn_def log_error_def)

lemma auth_rejected_keeps [net_intros]: "loggable ''auth_rejected'' extra \<Longrightarrow> keeps inv (auth_rejected rq reason extra)"
  unfolding auth_rejected_def by (intro net_intros)

lemma serve_keeps: "keeps inv handler \<Longrightarrow> inv s \<Longrightarrow> inv (snd (serve rq handler s))"
proof -
  assume h: "keeps inv handler" and s: "inv s"
  have "inv (snd (handler s))" by (rule deliversD(1) [OF h s])
  then show ?thesis
    by (cases "handler s") (auto simp: serve_def log_error_def split: sum.splits intro!: log_kept loggable_intros)
qed

lemma on_store_keeps:
  assumes "\<And>d w r d' w'. f d w = (r, d', w') \<Longrightarrow> broker_step sv (d, w) (d', w')"
  shows "keeps inv (on_store f)"
  using assms store_kept by (auto simp: delivers_def on_store_def split: prod.splits)

lemma on_disk_keeps:
  assumes "\<And>d w x w'. f d w = (x, w') \<Longrightarrow> later w w'"
  shows "keeps inv (on_disk f)"
proof -
  have "inv (s\<lparr>bk_world := w'\<rparr>)" if "inv s" "later (bk_world s) w'" for s w'
    using store_kept [OF that(1) step_world [OF that(2)]] by simp
  then show ?thesis using assms by (auto simp: delivers_def on_disk_def split: prod.splits)
qed

lemma on_world_keeps: "(\<And>w x w'. f w = (x, w') \<Longrightarrow> later w w') \<Longrightarrow> keeps inv (on_world f)"
  using on_disk_keeps [of "\<lambda>_. f"] by (simp add: on_disk_def on_world_def)

lemma on_net_keeps:
  assumes "\<And>n. keeps (net_ahead n) m"
  shows "keeps inv (on_net m)"
proof -
  have "inv (s\<lparr>bk_net := n'\<rparr>)" if "inv s" "m (bk_net s) = (r, n')" for s r n'
    using net_kept [OF that(1)] keeps_ahead [OF assms, of "bk_net s"] that(2) by simp
  then show ?thesis by (auto simp: delivers_def on_net_def split: prod.splits)
qed

lemma consume_rate_keeps [net_intros]: "keeps inv (consume_rate key)"
  using limiter_kept by (auto simp: delivers_def consume_rate_def split: prod.splits)

lemma rate_limited_keeps: "keeps inv handler \<Longrightarrow> keeps inv (rate_limited key handler)"
  unfolding rate_limited_def by (intro net_intros consume_rate_keeps)

lemma read_keeps: "keeps inv (on_store (read_access_token sv t))"
  by (intro on_store_keeps step_read)

lemma with_token_keeps:
  "(\<And>x. keeps inv (note x)) \<Longrightarrow> (\<And>r. keeps inv (handler r)) \<Longrightarrow> keeps inv (with_token sv rq note handler)"
  unfolding with_token_def Let_def by (intro net_intros read_keeps)

lemma with_scope_keeps: "(\<And>s. keeps inv (handler s)) \<Longrightarrow> keeps inv (with_scope sv rq scope logged handler)"
  unfolding with_scope_def by (intro with_token_keeps net_intros)

end

end
