(* ===== verification/Oauth_Routes.thy ===== *)
theory Oauth_Routes
  imports Broker_App
begin

text \<open>
  \<^verbatim>\<open>routes/oauth.py\<close>: the authorize page and its submission, the hosted sign-on and its callback, the
  manual callback of development, the token endpoint, revocation and user information. Handlers are
  operations of the application in the order of the source, with their calls of the logger.
\<close>

section \<open>PKCE challenges\<close>

definition challenge_char :: "char \<Rightarrow> bool" where
  "challenge_char c \<longleftrightarrow>
     (let n = char_code c in
      (65 \<le> n \<and> n \<le> 90) \<or> (97 \<le> n \<and> n \<le> 122) \<or> (48 \<le> n \<and> n \<le> 57) \<or> c = CHR ''_'' \<or> c = CHR ''-'')"

definition is_valid_s256_code_challenge :: "string \<Rightarrow> bool" where
  "is_valid_s256_code_challenge challenge \<longleftrightarrow>
     (length challenge = 43 \<and> list_all challenge_char challenge) \<and>
     (case urlsafe_b64decode (challenge @ b64_padding challenge) of
        None \<Rightarrow> False
      | Some digest \<Rightarrow> length digest = 32 \<and> b64url_nopad digest = challenge)"

section \<open>Clients, redirect URIs, the manual mode\<close>

definition MANUAL_TEST_STATE :: string where
  "MANUAL_TEST_STATE = ''manual-fixture-auth''"

definition MANUAL_TEST_VERIFIER :: string where
  "MANUAL_TEST_VERIFIER = ''manual-test-verifier-123456789''"

definition manual_redirect_uri :: "app_config \<Rightarrow> string" where
  "manual_redirect_uri cfg = rstrip_char (CHR ''/'') (base_url cfg) @ ''/oauth/manual/callback''"

definition manual_authorize_defaults :: "app_config \<Rightarrow> string dict" where
  "manual_authorize_defaults cfg =
     [(''client_id'', oauth_client_id (oauth cfg)),
      (''redirect_uri'', manual_redirect_uri cfg),
      (''response_type'', ''code''), (''state'', MANUAL_TEST_STATE), (''scope'', ''openid dam:read''),
      (''code_challenge'', sha256_b64url MANUAL_TEST_VERIFIER), (''code_challenge_method'', ''S256'')]"

definition manual_test_mode_enabled :: "app_config \<Rightarrow> bool" where
  "manual_test_mode_enabled cfg \<longleftrightarrow> dev_like cfg"

definition should_use_manual_test_mode :: "app_config \<Rightarrow> string dict \<Rightarrow> bool" where
  "should_use_manual_test_mode cfg values \<longleftrightarrow>
     manual_test_mode_enabled cfg \<and>
     \<not> list_ex (\<lambda>key. truthy_str (dict_get values key)) [''client_id'', ''redirect_uri'', ''response_type'', ''state'']"

definition is_oauth_client_allowed :: "app_config \<Rightarrow> string \<Rightarrow> bool" where
  "is_oauth_client_allowed cfg client_id \<longleftrightarrow> client_id \<in> dict_keys (clients (oauth cfg))"

definition is_redirect_uri_allowed :: "app_config \<Rightarrow> string \<Rightarrow> string \<Rightarrow> bool" where
  "is_redirect_uri_allowed cfg client_id redirect_uri \<longleftrightarrow>
     (case dict_get (clients (oauth cfg)) client_id of
        None \<Rightarrow> False
      | Some client \<Rightarrow>
          if oc_redirect_uri_allowlist client = [] then manual_test_mode_enabled cfg
          else redirect_uri \<in> set (oc_redirect_uri_allowlist client))"

section \<open>The authorize page\<close>

definition HIDDEN_KEYS :: "string list" where
  "HIDDEN_KEYS = [''client_id'', ''redirect_uri'', ''response_type'', ''state'', ''scope'', ''code_challenge'',
     ''code_challenge_method'']"

text \<open>\<^verbatim>\<open>d.get(key, "")\<close>\<close>

definition get_or_empty :: "string dict \<Rightarrow> string \<Rightarrow> string" where
  "get_or_empty d key = (case dict_get d key of Some v \<Rightarrow> v | None \<Rightarrow> [])"

definition render_authorize ::
  "app_config \<Rightarrow> string dict \<Rightarrow> string option \<Rightarrow> string option \<Rightarrow> string dict \<Rightarrow> bool \<Rightarrow> authorize_page"
where
  "render_authorize cfg query error_code error_message values manual =
     (let resolved = (if manual then dict_update (manual_authorize_defaults cfg) query else query) in
      \<lparr>pg_hidden_fields = map (\<lambda>key. (key, str_or (dict_get values key) (get_or_empty resolved key))) HIDDEN_KEYS,
       pg_error_code = error_code, pg_error_message = error_message,
       pg_tenant_url = get_or_empty values ''tenant_url'', pg_username = get_or_empty values ''username'',
       pg_client_id = oauth_client_id (oauth cfg), pg_manual_test_mode = manual,
       pg_sso_enabled = sso_enabled (resource_space cfg)\<rparr>)"

definition page_response :: "int \<Rightarrow> authorize_page \<Rightarrow> http_response" where
  "page_response status page = \<lparr>rp_status = status, rp_body = AuthorizePage page, rp_headers = cors_headers []\<rparr>"

definition redirect_response :: "int \<Rightarrow> string \<Rightarrow> string dict \<Rightarrow> http_response" where
  "redirect_response status url headers = \<lparr>rp_status = status, rp_body = RedirectTo url, rp_headers = headers\<rparr>"

text \<open>\<^verbatim>\<open>mapped.status_code or 400\<close>\<close>

definition error_status :: "rs_error \<Rightarrow> int \<Rightarrow> int" where
  "error_status e fallback = (if err_status e = 0 then fallback else err_status e)"

definition error_page :: "app_config \<Rightarrow> http_request \<Rightarrow> string dict \<Rightarrow> bool \<Rightarrow> rs_error \<Rightarrow> http_response" where
  "error_page cfg rq body manual e =
     page_response (error_status e 400)
       (render_authorize cfg (query_params rq) (Some (err_code e)) (Some (err_message e)) body manual)"

definition oauth_authorize_legacy_get :: "http_request \<Rightarrow> http_response app_op" where
  "oauth_authorize_legacy_get rq =
     (let query = urlencode (rq_query_items rq);
          suffix = (if query = [] then [] else CHR ''?'' # query)
      in op_return (redirect_response 307 (''/oauth/authorise'' @ suffix) (cors_headers [])))"

definition oauth_authorise_get :: "auth_service \<Rightarrow> http_request \<Rightarrow> http_response app_op" where
  "oauth_authorise_get sv rq =
     (let cfg = sv_config sv; query = query_params rq; manual = should_use_manual_test_mode cfg query in
      op_return (page_response 200 (render_authorize cfg query None None [] manual)))"

section \<open>The hosted sign-on: its begin\<close>

definition host_of :: "string option \<Rightarrow> exn + string" where
  "host_of url = (case urlparse (str_or url []) of Inl e \<Rightarrow> Inl e | Inr p \<Rightarrow> Inr (py_lower (str_or (hostname p) [])))"

definition sso_headers :: "string dict" where
  "sso_headers = dict_update (cors_headers []) [(''Referrer-Policy'', ''no-referrer''), (''Cache-Control'', ''no-store'')]"

definition sso_json :: "int \<Rightarrow> string \<Rightarrow> string option \<Rightarrow> string option \<Rightarrow> http_response" where
  "sso_json status message reason redirect_url =
     json_response status
       (JObj ([(''message'', JStr message)] @
          (if truthy_str reason then [(''reason'', JStr (the reason))] else []) @
          (if truthy_str redirect_url then [(''redirectUrl'', JStr (the redirect_url))] else [])))
       sso_headers"

text \<open>\<^verbatim>\<open>secrets.token_urlsafe(12)\<close>\<close>

definition token_urlsafe :: "world \<Rightarrow> string \<times> world" where
  "token_urlsafe w = (rand w (draws w), w\<lparr>draws := Suc (draws w)\<rparr>)"

text \<open>What the submission asks for, after its validation.\<close>

record authorize_request =
  az_client_id :: string
  az_redirect_uri :: string
  az_scope :: string
  az_state :: string
  az_code_challenge :: string
  az_code_challenge_method :: string

definition sso_page :: "app_config \<Rightarrow> http_request \<Rightarrow> string dict \<Rightarrow> string \<Rightarrow> http_response" where
  "sso_page cfg rq body code =
     page_response 400 (render_authorize cfg (query_params rq) (Some code) None body False)"

definition sso_login_url :: "app_config \<Rightarrow> tenant \<Rightarrow> string \<Rightarrow> exn + string" where
  "sso_login_url cfg t handoff_state =
     (case tn_baseUrl t of
        None \<Rightarrow> Inl KeyError
      | Some base \<Rightarrow>
          Inr (rstrip_char (CHR ''/'') base @ ''/pages/user/user_api_session.php?'' @
            urlencode [(''system'', sso_system_key (resource_space cfg)), (''state'', handoff_state)]))"

text \<open>What is logged about the address of a client.\<close>

definition client_log :: "http_request \<Rightarrow> app_config \<Rightarrow> log_value dict" where
  "client_log rq cfg = map (\<lambda>(k, v). (k, LvJson v)) (log_context_of (resolve_client_host rq cfg) cfg)"

text \<open>The state is recorded for the tenant, and the browser is sent to its login page.\<close>

definition start_sso :: "auth_service \<Rightarrow> http_request \<Rightarrow> authorize_request \<Rightarrow> tenant \<Rightarrow> http_response app_op" where
  "start_sso sv rq az t =
     op_bind (on_world token_urlsafe) (\<lambda>correlation_id.
     op_bind
       (op_handle
         (op_bind
           (on_store (begin_sso_authorization sv
             \<lparr>sr_client_id = az_client_id az, sr_redirect_uri = az_redirect_uri az, sr_scope = az_scope az,
              sr_code_challenge = Some (az_code_challenge az),
              sr_code_challenge_method = Some (az_code_challenge_method az),
              sr_canva_state = az_state az, sr_tenant = t, sr_correlation_id = correlation_id,
              sr_initiator_key = ''oauth_sso_init:'' @ client_host rq (sv_config sv)\<rparr>))
           (\<lambda>handoff_state. op_return (Inr handoff_state)))
         (\<lambda>e. case e of ResourceSpaceError r \<Rightarrow> op_return (Inl r) | _ \<Rightarrow> op_raise e))
       (\<lambda>outcome.
         case outcome of
           Inl r \<Rightarrow> op_return (json_error (error_status r 503) (err_code r) (err_message r) [])
         | Inr handoff_state \<Rightarrow>
             op_bind (op_lift (host_of (tn_baseUrl t))) (\<lambda>tenant_host.
             op_bind (log_op (log_info ''oauth_sso_initiated''
               ([(''correlationId'', LvStr correlation_id), (''clientId'', LvStr (az_client_id az)),
                 (''tenantHost'', LvStr tenant_host)] @ client_log rq (sv_config sv)))) (\<lambda>_.
             op_bind (op_lift (sso_login_url (sv_config sv) t handoff_state)) (\<lambda>target.
               op_return (redirect_response 302 target sso_headers))))))"

definition begin_sso_authorize ::
  "auth_service \<Rightarrow> http_request \<Rightarrow> string dict \<Rightarrow> authorize_request \<Rightarrow> http_response app_op"
where
  "begin_sso_authorize sv rq body az =
     (let cfg = sv_config sv in
      if \<not> sso_enabled (resource_space cfg) then op_return (sso_page cfg rq body ''SSO_DISABLED'')
      else
        (let requested = py_strip (str_or (dict_get body ''tenant_url'') []) in
         op_bind (op_lift (urlparse requested)) (\<lambda>parsed.
           if py_lower (ur_scheme parsed) = ''http'' then op_return (sso_page cfg rq body ''TENANT_NOT_HTTPS'')
           else
             op_bind
               (op_handle
                 (op_bind (on_net (get_configured_tenant cfg (Some requested))) (\<lambda>t. op_return (Inr t)))
                 (\<lambda>e. op_return (Inl (map_error e))))
               (\<lambda>outcome.
                 case outcome of
                   Inl e \<Rightarrow> op_return (error_page cfg rq body False e)
                 | Inr t \<Rightarrow>
                     if \<not> startswith (py_lower (str_or (tn_baseUrl t) [])) ''https://''
                     then op_return (sso_page cfg rq body ''TENANT_NOT_HTTPS'')
                     else start_sso sv rq az t))))"

section \<open>The submission of the authorize page\<close>

text \<open>Bounds on what the client controls and the store will hold.\<close>

definition MAX_STATE_LEN :: nat where
  "MAX_STATE_LEN = 512"

definition MAX_SCOPE_LEN :: nat where
  "MAX_SCOPE_LEN = 256"

definition MAX_CODE_CHALLENGE_LEN :: nat where
  "MAX_CODE_CHALLENGE_LEN = 128"

definition MAX_TENANT_URL_LEN :: nat where
  "MAX_TENANT_URL_LEN = 2048"

text \<open>The validation common to both ways of signing in.\<close>

definition validate_authorize :: "app_config \<Rightarrow> string dict \<Rightarrow> http_response + authorize_request" where
  "validate_authorize cfg body =
     (let client_id = dict_get body ''client_id''; redirect_uri = dict_get body ''redirect_uri'';
          state = dict_get body ''state'';
          scope = str_or (dict_get body ''scope'') ''openid dam:read'';
          code_challenge_method = str_or (dict_get body ''code_challenge_method'') ''S256'';
          code_challenge = dict_get body ''code_challenge''
      in if dict_get body ''response_type'' \<noteq> Some ''code'' \<or> \<not> truthy_str client_id \<or> \<not> truthy_str redirect_uri \<or>
            \<not> truthy_str state then
           Inl (json_error 400 ''INVALID_REQUEST'' ''Missing OAuth parameters.'' [])
         else if \<not> is_oauth_client_allowed cfg (the client_id) then
           Inl (json_error 400 ''INVALID_CLIENT'' ''Unknown OAuth client_id.'' [])
         else if \<not> is_redirect_uri_allowed cfg (the client_id) (the redirect_uri) then
           Inl (json_error 400 ''INVALID_REDIRECT_URI'' ''redirect_uri is not in OAUTH_REDIRECT_URI_ALLOWLIST.'' [])
         else if code_challenge_method \<noteq> ''S256'' then
           Inl (json_error 400 ''INVALID_REQUEST''
             (''Only S256 PKCE is supported (code_challenge_method must be '' @ [CHR 0x27] @ ''S256'' @ [CHR 0x27] @ '').'') [])
         else if MAX_STATE_LEN < length (the state) \<or> MAX_SCOPE_LEN < length scope \<or>
             MAX_CODE_CHALLENGE_LEN < length (str_or code_challenge []) \<or>
             MAX_TENANT_URL_LEN < length (str_or (dict_get body ''tenant_url'') []) then
           Inl (json_error 400 ''INVALID_REQUEST'' ''OAuth request parameters exceed length limits.'' [])
         else if \<not> truthy_str code_challenge \<or> \<not> is_valid_s256_code_challenge (the code_challenge) then
           Inl (json_error 400 ''INVALID_REQUEST'' ''A valid S256 code_challenge is required.'' [])
         else
           Inr \<lparr>az_client_id = the client_id, az_redirect_uri = the redirect_uri, az_scope = scope,
                az_state = the state, az_code_challenge = the code_challenge,
                az_code_challenge_method = code_challenge_method\<rparr>)"

text \<open>
  \<^verbatim>\<open>begin_authorization\<close> with the ResourceSpace service as its authenticator: the answer of the service
  is fetched over the network, then the code is minted in the store.
\<close>

definition password_authorization :: "auth_service \<Rightarrow> string dict \<Rightarrow> authorize_request \<Rightarrow> string app_op" where
  "password_authorization sv body az = (\<lambda>s.
     case authenticate (sv_config sv) (dict_get body ''tenant_url'') (get_or_empty body ''username'')
            (get_or_empty body ''password'') (integration_for_client_id (sv_config sv) (az_client_id az)) (bk_net s) of
       (session, n) \<Rightarrow>
         on_store (begin_authorization sv (\<lambda>_ _ _ _ w. (session, w)) (az_client_id az) (az_redirect_uri az)
             (az_scope az) (Some (az_code_challenge az)) (Some (az_code_challenge_method az))
             (dict_get body ''tenant_url'') (get_or_empty body ''username'') (get_or_empty body ''password''))
           (s\<lparr>bk_net := n\<rparr>))"

text \<open>Only the host of the tenant is logged; parsing its URL may raise.\<close>

definition tenant_for_log :: "string dict \<Rightarrow> string" where
  "tenant_for_log body =
     (let raw = str_or (dict_get body ''tenant_url'') [] in
      if substring ''://'' raw then raw else ''//'' @ raw)"

definition complete_password ::
  "auth_service \<Rightarrow> http_request \<Rightarrow> string dict \<Rightarrow> bool \<Rightarrow> authorize_request \<Rightarrow> http_response app_op"
where
  "complete_password sv rq body manual az =
     op_handle
       (op_bind (password_authorization sv body az) (\<lambda>code.
        op_bind (op_lift (urlparse (tenant_for_log body))) (\<lambda>parsed_tenant.
        op_bind (log_op (log_info ''oauth_authorize_completed''
          [(''clientId'', LvStr (az_client_id az)),
           (''tenantHost'', LvStr (py_lower (str_or (hostname parsed_tenant) [])))])) (\<lambda>_.
        op_bind (op_lift (append_query (az_redirect_uri az) [(''code'', code), (''state'', az_state az)])) (\<lambda>target.
          op_return (redirect_response 302 target (cors_headers [])))))))
       (\<lambda>e. op_return (error_page (sv_config sv) rq body manual (map_error e)))"

definition authorize_body :: "app_config \<Rightarrow> http_request \<Rightarrow> string dict" where
  "authorize_body cfg rq =
     (if should_use_manual_test_mode cfg (rq_form rq)
      then rq_form rq @ filter (\<lambda>(k, v). k \<notin> dict_keys (rq_form rq)) (manual_authorize_defaults cfg)
      else rq_form rq)"

definition oauth_authorize_post :: "auth_service \<Rightarrow> http_request \<Rightarrow> http_response app_op" where
  "oauth_authorize_post sv rq =
     (let cfg = sv_config sv in
      rate_limited (''oauth_authorize:'' @ client_host rq cfg)
        (let body = authorize_body cfg rq in
         case validate_authorize cfg body of
           Inl response \<Rightarrow> op_return response
         | Inr az \<Rightarrow>
             if py_lower (py_strip (str_or (dict_get body ''auth_method'') ''password'')) = ''sso''
             then begin_sso_authorize sv rq body az
             else complete_password sv rq body (should_use_manual_test_mode cfg (rq_form rq)) az))"

section \<open>The hosted sign-on: its callback\<close>

definition sso_state_invalid :: http_response where
  "sso_state_invalid = sso_json 400 ''This sign-in link is not valid. Please start again from Canva.''
     (Some ''sso_state_invalid'') None"

definition sso_state_expired :: http_response where
  "sso_state_expired = sso_json 400 ''This sign-in link has expired. Please start again from Canva.''
     (Some ''sso_state_expired'') None"

definition sso_state_replay :: http_response where
  "sso_state_replay = sso_json 400 ''This sign-in link has already been used. Please start again from Canva.''
     (Some ''sso_state_replay'') None"

text \<open>What the callback logs: always the correlation id, then what is known of the sign-on.\<close>

definition sso_note :: "string \<Rightarrow> string \<Rightarrow> log_value dict \<Rightarrow> unit app_op" where
  "sso_note event correlation_id details =
     log_op (log_info event ((''correlationId'', LvStr correlation_id) # details))"

definition sso_details :: "pending_sso \<Rightarrow> string \<Rightarrow> log_value dict" where
  "sso_details r tenant_host = [(''clientId'', LvStr (ps_clientId r)), (''tenantHost'', LvStr tenant_host)]"

definition sso_status_text :: "sso_status \<Rightarrow> string" where
  "sso_status_text st =
     (case st of SsoInvalid \<Rightarrow> ''invalid'' | SsoReplayed _ \<Rightarrow> ''replayed'' | SsoExpired _ \<Rightarrow> ''expired''
      | SsoActive _ \<Rightarrow> ''active'')"

text \<open>The session that ResourceSpace handed over is validated, then the sign-on is completed.\<close>

definition finish_sso ::
  "auth_service \<Rightarrow> string \<Rightarrow> string \<Rightarrow> string \<Rightarrow> pending_sso \<Rightarrow> session \<Rightarrow> http_response app_op"
where
  "finish_sso sv cid tenant_host handoff_state r session =
     op_bind (on_store (complete_sso_authorization sv handoff_state session)) (\<lambda>completed.
       case completed of
         SsoRejected st \<Rightarrow>
           (if sso_status_text st = ''replayed'' then
              op_bind (sso_note ''oauth_sso_state_replay'' cid []) (\<lambda>_. op_return sso_state_replay)
            else
              op_bind (sso_note ''oauth_sso_state_invalid'' cid [(''reason'', LvStr (sso_status_text st))])
                (\<lambda>_. op_return sso_state_invalid))
       | SsoValid code _ \<Rightarrow>
           op_bind (op_lift (append_query (ps_redirectUri r) [(''code'', code), (''state'', ps_canvaState r)]))
             (\<lambda>completion_url.
           op_bind (sso_note ''oauth_sso_token_validation_succeeded'' cid (sso_details r tenant_host)) (\<lambda>_.
           op_bind (sso_note ''oauth_sso_callback_completed'' cid
             (sso_details r tenant_host @ [(''usernameProvided'', LvJson (JBool True))])) (\<lambda>_.
             op_return
               (sso_json 200 ''Signed in to ResourceSpace. You can return to Canva to continue.'' None
                 (Some completion_url))))))"

definition validate_sso ::
  "auth_service \<Rightarrow> string \<Rightarrow> string \<Rightarrow> string \<Rightarrow> string \<Rightarrow> pending_sso \<Rightarrow> http_response app_op"
where
  "validate_sso sv cid handoff_state session_key username r =
     op_bind (op_lift (host_of (tn_baseUrl (ps_tenant r)))) (\<lambda>tenant_host.
       if username = [] then
         op_bind (sso_note ''oauth_sso_handoff_failed'' cid [(''reason'', LvStr ''missing_username'')]) (\<lambda>_.
         op_return (sso_json 400 ''ResourceSpace did not provide a username for this sign-in.''
           (Some ''sso_handoff_failed'') None))
       else if session_key = [] then
         op_bind (sso_note ''oauth_sso_token_validation_failed'' cid
           (sso_details r tenant_host @ [(''reason'', LvStr ''missing_sessionkey'')])) (\<lambda>_.
         op_return (sso_json 401 ''ResourceSpace did not provide a valid session.''
           (Some ''resourcespace_token_validation_failed'') None))
       else
         op_bind
           (op_handle
             (op_bind (on_net (authenticate_with_session_key (sv_config sv) (ps_tenant r) session_key username
                 (integration_for_client_id (sv_config sv) (ps_clientId r)))) (\<lambda>session. op_return (Inr session)))
             (\<lambda>e. case e of ResourceSpaceError x \<Rightarrow> op_return (Inl x) | _ \<Rightarrow> op_raise e))
           (\<lambda>outcome.
             case outcome of
               Inl x \<Rightarrow>
                 op_bind (sso_note ''oauth_sso_token_validation_failed'' cid
                   (sso_details r tenant_host @ [(''reason'', LvStr (err_code x))])) (\<lambda>_.
                 op_return (sso_json (if err_status x \<in> {400, 401, 403} then 401 else 502)
                   ''ResourceSpace session validation failed.'' (Some ''resourcespace_token_validation_failed'') None))
             | Inr session \<Rightarrow> finish_sso sv cid tenant_host handoff_state r session))"

text \<open>\<^verbatim>\<open>record.get("correlationId") or correlation_id\<close>\<close>

definition correlation_of :: "pending_sso \<Rightarrow> string \<Rightarrow> string" where
  "correlation_of r cid = (if ps_correlationId r = [] then cid else ps_correlationId r)"

definition oauth_sso_callback :: "auth_service \<Rightarrow> http_request \<Rightarrow> http_response app_op" where
  "oauth_sso_callback sv rq =
     (if \<not> sso_enabled (resource_space (sv_config sv)) then op_return (json_error 404 ''NOT_FOUND'' ''Not found.'' [])
      else
        op_bind (on_world token_urlsafe) (\<lambda>cid.
        op_bind (sso_note ''oauth_sso_callback_received'' cid (client_log rq (sv_config sv))) (\<lambda>_.
        rate_limited (''oauth_sso_callback:'' @ client_host rq (sv_config sv))
          (let handoff_state = get_or_empty (rq_form rq) ''state'';
               session_key = get_or_empty (rq_form rq) ''sessionkey'';
               username = get_or_empty (rq_form rq) ''username''
           in if handoff_state = [] then
                op_bind (sso_note ''oauth_sso_state_invalid'' cid [(''reason'', LvStr ''missing_state'')])
                  (\<lambda>_. op_return sso_state_invalid)
              else
                op_bind (on_disk (inspect_pending_sso_state handoff_state)) (\<lambda>status.
                  case status of
                    SsoInvalid \<Rightarrow> op_bind (sso_note ''oauth_sso_state_invalid'' cid [(''reason'', LvStr ''unknown_state'')])
                      (\<lambda>_. op_return sso_state_invalid)
                  | SsoExpired r \<Rightarrow> op_bind (sso_note ''oauth_sso_state_expired'' (correlation_of r cid) [])
                      (\<lambda>_. op_return sso_state_expired)
                  | SsoReplayed r \<Rightarrow> op_bind (sso_note ''oauth_sso_state_replay'' (correlation_of r cid) [])
                      (\<lambda>_. op_return sso_state_replay)
                  | SsoActive r \<Rightarrow> validate_sso sv (correlation_of r cid) handoff_state session_key username r)))))"

section \<open>Tokens\<close>

text \<open>The answer to an OAuth error is an envelope of its own.\<close>

definition oauth_response :: "oauth_result \<Rightarrow> http_response" where
  "oauth_response payload =
     (case payload of
        OAuthError e d \<Rightarrow> json_response 400 (oauth_error_json e d) (cors_headers [])
      | OAuthTokens t \<Rightarrow> json_response 200 (token_json t) (cors_headers []))"

definition oauth_token :: "auth_service \<Rightarrow> http_request \<Rightarrow> http_response app_op" where
  "oauth_token sv rq =
     rate_limited (''oauth_token:'' @ client_host rq (sv_config sv))
       (let body = rq_form rq; grant_type = dict_get body ''grant_type''
        in op_bind
          (if grant_type = Some ''authorization_code'' then
             on_store (exchange_authorization_code sv (get_or_empty body ''client_id'')
               (get_or_empty body ''redirect_uri'') (get_or_empty body ''code'') (dict_get body ''code_verifier''))
           else if grant_type = Some ''refresh_token'' then
             on_store (refresh_access_token sv (get_or_empty body ''client_id'') (get_or_empty body ''refresh_token''))
           else op_return (OAuthError ''unsupported_grant_type'' ''Unsupported grant type.''))
          (\<lambda>payload.
            op_bind (case payload of
                OAuthError e d \<Rightarrow> log_op (log_warn ''oauth_token_failed'' [(''error'', LvStr e)])
              | OAuthTokens t \<Rightarrow> op_return ())
              (\<lambda>_. op_return (oauth_response payload))))"

definition oauth_manual_callback :: "auth_service \<Rightarrow> http_request \<Rightarrow> http_response app_op" where
  "oauth_manual_callback sv rq =
     (let cfg = sv_config sv; code = dict_get (query_params rq) ''code''; state = dict_get (query_params rq) ''state'' in
      if \<not> manual_test_mode_enabled cfg then op_return (json_error 404 ''NOT_FOUND'' ''Not found.'' [])
      else if \<not> truthy_str code \<or> state \<noteq> Some MANUAL_TEST_STATE then
        op_return (json_error 400 ''INVALID_REQUEST'' ''Missing or invalid manual callback parameters.'' [])
      else
        op_bind (on_store (exchange_authorization_code sv (oauth_client_id (oauth cfg)) (manual_redirect_uri cfg)
            (the code) (Some MANUAL_TEST_VERIFIER))) (\<lambda>payload.
          case payload of
            OAuthError e d \<Rightarrow> op_return (oauth_response payload)
          | OAuthTokens t \<Rightarrow>
              op_bind (on_store (read_access_token sv (tr_access_token t))) (\<lambda>record.
                op_return (json_response 200
                  (JObj [(''type'', JStr ''SUCCESS''), (''message'', JStr ''Manual OAuth flow completed.''),
                     (''token'', token_json t),
                     (''session'', (case record of None \<Rightarrow> JNull
                        | Some r \<Rightarrow> session_summary_json (get_session_summary (at_session r))))])
                  (cors_headers [])))))"

definition oauth_revoke :: "auth_service \<Rightarrow> http_request \<Rightarrow> http_response app_op" where
  "oauth_revoke sv rq =
     op_bind (on_store (revoke_token sv (get_or_empty (rq_form rq) ''token''))) (\<lambda>_.
       op_return \<lparr>rp_status = 200, rp_body = NoBody, rp_headers = cors_headers []\<rparr>)"

definition userinfo_json :: "userinfo \<Rightarrow> json" where
  "userinfo_json u =
     JObj ([(''sub'', JStr (ui_sub u)), (''preferred_username'', JStr (ui_preferred_username u)),
        (''name'', json_of_opt (ui_name u)), (''tenant_id'', JStr (ui_tenant_id u)),
        (''tenant_slug'', json_of_opt (ui_tenant_slug u)), (''tenant_name'', json_of_opt (ui_tenant_name u)),
        (''role'', json_of_opt (ui_role u)), (''scope'', JStr (ui_scope u))] @
       (case ui_email u of Some e \<Rightarrow> [(''email'', JStr e)] | None \<Rightarrow> []))"

definition oauth_userinfo :: "auth_service \<Rightarrow> http_request \<Rightarrow> http_response app_op" where
  "oauth_userinfo sv rq =
     (let unauthorized = json_error 401 ''UNAUTHORIZED'' ''Unauthorized.'' []; token = read_bearer_token rq in
      if \<not> truthy_str token then op_return unauthorized
      else
        op_bind (on_store (read_user_info_from_access_token sv (the token))) (\<lambda>payload.
          op_return (case payload of None \<Rightarrow> unauthorized
            | Some u \<Rightarrow> json_response 200 (userinfo_json u) (cors_headers []))))"

section \<open>The discipline of the handlers\<close>

lemma classify_handoff_later: "classify_pending_sso_record x w = (r, w') \<Longrightarrow> later w w'"
  by (auto simp: classify_pending_sso_record_def later_def split: option.splits if_splits)

lemma userinfo_step:
  "read_user_info_from_access_token sv t d w = (r, d', w') \<Longrightarrow> broker_step sv (d, w) (d', w')"
  by (auto simp: read_user_info_from_access_token_def intro: step_read split: prod.splits sum.splits)

lemma delivers_sso_status [net_intros]:
  "(st = SsoInvalid \<Longrightarrow> delivers P a Q) \<Longrightarrow> (\<And>r. st = SsoReplayed r \<Longrightarrow> delivers P (b r) Q) \<Longrightarrow>
   (\<And>r. st = SsoExpired r \<Longrightarrow> delivers P (c r) Q) \<Longrightarrow> (\<And>r. st = SsoActive r \<Longrightarrow> delivers P (d r) Q) \<Longrightarrow>
   delivers P (case st of SsoInvalid \<Rightarrow> a | SsoReplayed r \<Rightarrow> b r | SsoExpired r \<Rightarrow> c r | SsoActive r \<Rightarrow> d r) Q"
  by (cases st) auto

lemma delivers_sso_completion [net_intros]:
  "(\<And>st. x = SsoRejected st \<Longrightarrow> delivers P (a st) Q) \<Longrightarrow> (\<And>c r. x = SsoValid c r \<Longrightarrow> delivers P (b c r) Q) \<Longrightarrow>
   delivers P (case x of SsoRejected st \<Rightarrow> a st | SsoValid c r \<Rightarrow> b c r) Q"
  by (cases x) auto

lemma delivers_oauth_result [net_intros]:
  "(\<And>e d. x = OAuthError e d \<Longrightarrow> delivers P (a e d) Q) \<Longrightarrow> (\<And>t. x = OAuthTokens t \<Longrightarrow> delivers P (b t) Q) \<Longrightarrow>
   delivers P (case x of OAuthError e d \<Rightarrow> a e d | OAuthTokens t \<Rightarrow> b t) Q"
  by (cases x) auto

context app_discipline
begin

lemma token_urlsafe_keeps [net_intros]: "keeps inv (on_world token_urlsafe)"
  by (rule on_world_keeps) (auto simp: token_urlsafe_def later_def)

lemma client_log_ok [net_intros]: "loggable m (client_log rq cfg)"
proof -
  have "json_printable (json_of_opt x) \<and> json_ok (json_of_opt x)" "json_printable (str_or_null s) \<and> json_ok (str_or_null s)" for x s
    by (cases x; simp add: json_of_opt_def) (simp add: str_or_null_def)
  then show ?thesis by (simp add: loggable_def context_printable_def context_exact_def client_log_def log_context_of_def Let_def)
qed

lemma sso_note_keeps [net_intros]: "loggable event details \<Longrightarrow> keeps inv (sso_note event cid details)"
  unfolding sso_note_def by (intro net_intros)

lemma sso_details_ok [net_intros]: "loggable m (sso_details r host)"
  unfolding sso_details_def by (intro net_intros)

lemma start_sso_keeps: "keeps inv (start_sso sv rq az t)"
proof -
  have "keeps inv (case e of ResourceSpaceError r \<Rightarrow> op_return (f r) | _ \<Rightarrow> op_raise e)" for e f
    by (cases e) (auto intro!: net_intros)
  then show ?thesis
    unfolding start_sso_def by (intro net_intros on_store_keeps step_begin_sso)
qed

lemma begin_sso_authorize_keeps: "keeps inv (begin_sso_authorize sv rq body az)"
  unfolding begin_sso_authorize_def Let_def
  by (intro net_intros on_net_keeps service_keeps start_sso_keeps)

lemma password_authorization_keeps: "keeps inv (password_authorization sv body az)"
proof -
  have "keeps inv (on_store (begin_authorization sv (\<lambda>_ _ _ _ w. (x, w)) cid uri scope ch meth base u p))" for x cid uri scope ch meth base u p
    by (rule on_store_keeps, rule step_login [where authenticate = "\<lambda>_ _ _ _ w. (x, w)"]) auto
  moreover have "inv (s\<lparr>bk_net := n\<rparr>)" if "inv s" "authenticate cfg url u p i (bk_net s) = (r, n)" for s n cfg url u p i r
    using net_kept [OF that(1)] keeps_ahead [OF authenticate_keeps, of "bk_net s" cfg url u p i] that(2) by simp
  ultimately show ?thesis
    by (auto simp: delivers_def password_authorization_def split: prod.splits)
qed

lemma oauth_authorize_post_keeps: "keeps inv (oauth_authorize_post sv rq)"
  unfolding oauth_authorize_post_def complete_password_def Let_def
  by (intro rate_limited_keeps net_intros begin_sso_authorize_keeps password_authorization_keeps)

lemma finish_sso_keeps: "keeps inv (finish_sso sv cid host h r s)"
  unfolding finish_sso_def by (intro net_intros on_store_keeps step_complete_sso)

lemma validate_sso_keeps: "keeps inv (validate_sso sv cid h k u r)"
proof -
  have "keeps inv (case e of ResourceSpaceError r \<Rightarrow> op_return (f r) | _ \<Rightarrow> op_raise e)" for e f
    by (cases e) (auto intro!: net_intros)
  then show ?thesis
    unfolding validate_sso_def by (intro net_intros on_net_keeps service_keeps finish_sso_keeps)
qed

lemma oauth_sso_callback_keeps: "keeps inv (oauth_sso_callback sv rq)"
proof -
  have "keeps inv (on_disk (inspect_pending_sso_state h))" for h
    by (rule on_disk_keeps) (auto simp: inspect_pending_sso_state_def dest: classify_handoff_later)
  then show ?thesis
    unfolding oauth_sso_callback_def Let_def by (intro net_intros rate_limited_keeps validate_sso_keeps)
qed

lemma exchange_keeps: "keeps inv (on_store (exchange_authorization_code sv cid uri code verifier))"
  by (intro on_store_keeps step_exchange)

lemma refresh_keeps: "keeps inv (on_store (refresh_access_token sv cid token))"
  by (intro on_store_keeps step_refresh)

lemma oauth_token_keeps: "keeps inv (oauth_token sv rq)"
  unfolding oauth_token_def Let_def
  by (intro rate_limited_keeps net_intros exchange_keeps refresh_keeps)

lemma oauth_manual_callback_keeps: "keeps inv (oauth_manual_callback sv rq)"
  unfolding oauth_manual_callback_def Let_def by (intro net_intros exchange_keeps read_keeps)

lemma oauth_simple_keeps:
  "keeps inv (oauth_revoke sv rq)" "keeps inv (oauth_userinfo sv rq)"
  "keeps inv (oauth_authorise_get sv rq)" "keeps inv (oauth_authorize_legacy_get rq)"
  unfolding oauth_revoke_def oauth_userinfo_def oauth_authorise_get_def oauth_authorize_legacy_get_def Let_def
  by (rule net_intros on_store_keeps step_revoke userinfo_step | assumption)+

lemmas oauth_keeps = oauth_authorize_post_keeps oauth_sso_callback_keeps oauth_token_keeps
  oauth_manual_callback_keeps oauth_simple_keeps

end

end
