(* ===== verification/Content_Routes.thy ===== *)
theory Content_Routes
  imports Broker_App
begin

text \<open>
  \<^verbatim>\<open>routes/content.py\<close>: finding folders and images with a paging cursor, uploading an export, and
  issuing a download link. A request body is any JSON value; the conversions that may raise outside
  the \<^verbatim>\<open>try\<close> of the handler raise here too.
\<close>

section \<open>Shapes of the answers\<close>

definition container_json :: "container_item \<Rightarrow> json" where
  "container_json c =
     JObj [(''id'', JStr (ci_id c)), (''type'', JStr ''CONTAINER''), (''name'', ci_name c),
       (''containerType'', JStr ''folder''), (''description'', json_of_opt (ci_description c)),
       (''numContainers'', JInt (int (ci_numContainers c))), (''access'', JStr (ci_access c))]"

definition media_width :: "media_source option \<Rightarrow> json" where
  "media_width m = (case m of None \<Rightarrow> JNull | Some x \<Rightarrow> ms_width x)"

definition media_height :: "media_source option \<Rightarrow> json" where
  "media_height m = (case m of None \<Rightarrow> JNull | Some x \<Rightarrow> ms_height x)"

definition build_image_response :: "asset_item \<Rightarrow> grant_link \<Rightarrow> json" where
  "build_image_response a g =
     JObj [(''id'', JStr (ai_id a)), (''type'', JStr ''IMAGE''), (''name'', JStr (ai_name a)),
       (''description'', JStr (ai_description a)), (''mimeType'', JStr (ai_mimeType a)),
       (''filename'', JStr (ai_filename a)), (''width'', ai_width a), (''height'', ai_height a),
       (''createdAt'', ai_createdAt a), (''updatedAt'', ai_updatedAt a),
       (''thumbnail'', JObj [(''url'', JStr (gl_url g)), (''width'', media_width (ai_thumbnail a)),
          (''height'', media_height (ai_thumbnail a))]),
       (''dragAndDropPreview'', JObj [(''url'', JStr (gl_url g)),
          (''width'', json_or (media_width (ai_preview a)) (ai_width a)),
          (''height'', json_or (media_height (ai_preview a)) (ai_height a))]),
       (''downloadPath'', JStr (''/content/resources/'' @ ai_id a @ ''/download-url''))]"

definition advance_asset_offset :: "int \<Rightarrow> asset_page \<Rightarrow> int \<Rightarrow> int" where
  "advance_asset_offset current page total_count =
     (let consumed = max 0 (int (ap_scanned page)) in
      if consumed \<le> 0 then max current total_count else current + consumed)"

definition error_json :: "string \<Rightarrow> json" where
  "error_json code = JObj [(''type'', JStr ''ERROR''), (''errorCode'', JStr code)]"

definition map_find_error :: "rs_error \<Rightarrow> json" where
  "map_find_error e = error_json
     (let code = err_code e in
      if code = ''UPSTREAM_SESSION_EXPIRED'' then ''CONFIGURATION_REQUIRED''
      else if code \<in> {''FORBIDDEN'', ''UNKNOWN_TENANT''} then ''FORBIDDEN''
      else if code = ''NOT_FOUND'' then ''NOT_FOUND''
      else if code = ''INVALID_TENANT_URL'' then ''INVALID_REQUEST''
      else if code = ''UPSTREAM_UNAVAILABLE'' then ''TIMEOUT''
      else ''INTERNAL_ERROR'')"

definition map_upload_error :: "rs_error \<Rightarrow> int \<times> json" where
  "map_upload_error e =
     (let code = err_code e in
      if code = ''UPSTREAM_SESSION_EXPIRED'' then (401, error_json ''CONFIGURATION_REQUIRED'')
      else if code \<in> {''FORBIDDEN'', ''UNKNOWN_TENANT''} then (403, error_json ''FORBIDDEN'')
      else if code = ''NOT_FOUND'' then (404, error_json ''NOT_FOUND'')
      else if code \<in> {''INVALID_TENANT_URL'', ''INVALID_REQUEST''} then (400, error_json ''INVALID_REQUEST'')
      else if code = ''UPSTREAM_UNAVAILABLE'' then (502, error_json ''TIMEOUT'')
      else (502, error_json ''INTERNAL_ERROR''))"

section \<open>The request of a page\<close>

record find_request =
  fr_types :: json
  fr_query :: json
  fr_sort :: json
  fr_container :: json
  fr_limit :: int
  fr_scope :: string
  fr_cursor :: cursor

text \<open>\<open>None\<close> is the answer that the request is invalid: no cursor, or one of another scope.\<close>

definition read_find_request :: "string \<Rightarrow> exn + find_request option" where
  "read_find_request raw =
     (case parse_body raw of
        Inl e \<Rightarrow> Inl e
      | Inr (JObj body) \<Rightarrow>
          (case decode_continuation (json_get body ''continuation'') of
             Inl e \<Rightarrow> Inl e
           | Inr None \<Rightarrow> Inr None
           | Inr (Some cur) \<Rightarrow>
               (let types = json_or (json_get body ''types'') (JArr [JStr ''IMAGE'', JStr ''CONTAINER'']);
                    query = json_or (json_get body ''query'') (JStr []);
                    sorting = json_or (json_get body ''sort'') (JStr ''updated_desc'');
                    container_id = json_get body ''containerId''
                in case int_of_json (json_or (json_get body ''limit'') (JInt 50)) of
                     Inl e \<Rightarrow> Inl e
                   | Inr limit \<Rightarrow>
                       (let current_scope = scope_key container_id query sorting types in
                        if json_truthy (cu_scopeKey cur) \<and> cu_scopeKey cur \<noteq> JStr current_scope then Inr None
                        else Inr (Some \<lparr>fr_types = types, fr_query = query, fr_sort = sorting,
                          fr_container = container_id, fr_limit = limit, fr_scope = current_scope,
                          fr_cursor = cur\<rparr>))))
      | Inr _ \<Rightarrow> Inl AttributeError)"

section \<open>The page\<close>

definition picture_source :: "asset_item \<Rightarrow> media_source option" where
  "picture_source a = (case ai_preview a of Some m \<Rightarrow> Some m | None \<Rightarrow> ai_thumbnail a)"

text \<open>
  Every listed asset has a picture (\<open>listed_have_picture\<close> below), so the last case does not arise.
\<close>

definition image_resource :: "auth_service \<Rightarrow> session \<Rightarrow> asset_item \<Rightarrow> json app_op" where
  "image_resource sv s a =
     (case picture_source a of
        Some m \<Rightarrow>
          op_bind (on_store (create_preview_grant (sv_config sv) s (ms_source m) (Some (src_mime (ms_source m)))
              (Some (ai_filename a)))) (\<lambda>g. op_return (build_image_response a g))
      | None \<Rightarrow> op_raise TypeError)"

definition find_containers :: "session \<Rightarrow> find_request \<Rightarrow> container_item list app_op" where
  "find_containers s fr =
     op_bind (op_lift (json_contains (fr_types fr) ''CONTAINER'')) (\<lambda>includes_containers.
       if \<not> includes_containers then op_return []
       else if json_truthy (fr_query fr) then on_net (search_containers s (fr_container fr) (fr_query fr))
       else on_net (list_containers s (fr_container fr)))"

text \<open>
  The images of the page, the offset of the next one and the number of assets: the images are listed
  when the folders left room, else only their number is asked for.
\<close>

definition find_images ::
  "auth_service \<Rightarrow> session \<Rightarrow> find_request \<Rightarrow> int \<Rightarrow> (json list \<times> int \<times> int) app_op"
where
  "find_images sv s fr remaining =
     op_bind (op_lift (json_contains (fr_types fr) ''IMAGE'')) (\<lambda>includes_images.
       let asset_offset = cu_assetOffset (fr_cursor fr) in
       if includes_images \<and> 0 < remaining then
         op_bind (on_net (list_assets s (fr_query fr) (fr_container fr) asset_offset remaining (fr_sort fr))) (\<lambda>page.
         op_bind (op_map (image_resource sv s) (ap_items page)) (\<lambda>images.
           op_return (images, advance_asset_offset asset_offset page (ap_total page), ap_total page)))
       else if includes_images then
         op_bind (on_net (list_assets s (fr_query fr) (fr_container fr) 0 1 (fr_sort fr))) (\<lambda>page.
           op_return ([], asset_offset, ap_total page))
       else op_return ([], asset_offset, 0))"

definition success_page :: "json list \<Rightarrow> string option \<Rightarrow> json" where
  "success_page resources next_cursor =
     JObj ([(''type'', JStr ''SUCCESS''), (''resources'', JArr resources)] @
       (if truthy_str next_cursor then [(''continuation'', JStr (the next_cursor))] else []))"

definition next_continuation :: "find_request \<Rightarrow> int \<Rightarrow> int \<Rightarrow> int \<Rightarrow> int \<Rightarrow> string option" where
  "next_continuation fr new_container_offset container_count asset_offset asset_total =
     (if new_container_offset < container_count \<or> asset_offset < asset_total
      then Some (encode_continuation (cursor_json (fr_scope fr) new_container_offset asset_offset)) else None)"

text \<open>Whether the types can be searched at all is decided before anything is asked.\<close>

definition find_page :: "auth_service \<Rightarrow> session \<Rightarrow> find_request \<Rightarrow> json app_op" where
  "find_page sv s fr =
     op_bind (op_lift (json_contains (fr_types fr) ''IMAGE'')) (\<lambda>_.
     op_bind (find_containers s fr) (\<lambda>containers.
       let first = cu_containerOffset (fr_cursor fr);
           sliced = py_slice containers first (first + fr_limit fr);
           remaining = fr_limit fr - int (length sliced)
       in op_bind (find_images sv s fr remaining) (\<lambda>(images, asset_offset, asset_total).
            op_return (success_page (map container_json sliced @ images)
              (next_continuation fr (first + int (length sliced)) (int (length containers)) asset_offset asset_total)))))"

text \<open>
  The two failures that are logged put the message of the error under the key of the event itself.
\<close>

definition log_failure :: "string \<Rightarrow> rs_error \<Rightarrow> unit app_op" where
  "log_failure event e = log_op (log_warn event [(''code'', LvStr (err_code e)), (''message'', LvStr (err_message e))])"

definition content_resources_find :: "auth_service \<Rightarrow> http_request \<Rightarrow> http_response app_op" where
  "content_resources_find sv rq =
     rate_limited (''content_find:'' @ peer_or_unknown rq)
       (with_scope sv rq ''dam:read'' True (\<lambda>s.
          op_bind (op_lift (read_find_request (rq_body rq))) (\<lambda>request.
            case request of
              None \<Rightarrow> op_return (json_response 400 (error_json ''INVALID_REQUEST'') (cors_headers []))
            | Some fr \<Rightarrow>
                op_handle
                  (op_bind (find_page sv s fr) (\<lambda>body. op_return (json_response 200 body (cors_headers []))))
                  (\<lambda>e. op_bind (log_failure ''content_find_failed'' (map_error e)) (\<lambda>_.
                    op_return (json_response 200 (map_find_error (map_error e)) (cors_headers [])))))))"

section \<open>Upload\<close>

definition bad_upload :: "string \<Rightarrow> http_response" where
  "bad_upload message = json_response 400 (error_envelope ''INVALID_REQUEST'' message) (cors_headers [])"

definition web_url :: "json \<Rightarrow> bool" where
  "web_url j \<longleftrightarrow> (case j of JStr u \<Rightarrow> startswith u ''http://'' \<or> startswith u ''https://'' | _ \<Rightarrow> False)"

definition content_resources_upload :: "auth_service \<Rightarrow> http_request \<Rightarrow> http_response app_op" where
  "content_resources_upload sv rq =
     rate_limited (''content_upload:'' @ peer_or_unknown rq)
       (with_scope sv rq ''dam:write'' True (\<lambda>s.
          case parse_body (rq_body rq) of
            Inl _ \<Rightarrow> op_return (bad_upload ''Request body was not valid JSON.'')
          | Inr parsed \<Rightarrow>
              op_bind (op_lift (as_dict parsed)) (\<lambda>body.
                let source_url = json_get body ''url''; container_id = json_get body ''containerId'';
                    title = json_or (json_get body ''title'') (json_get body ''designTitle'')
                in if \<not> web_url source_url then op_return (bad_upload ''A valid `url` is required.'')
                   else if \<not> truthy_str (json_str_opt container_id) then
                     op_return (bad_upload ''A valid `containerId` is required.'')
                   else
                     op_handle
                       (op_bind (on_net (upload_resource (sv_config sv) s (the (json_str_opt container_id))
                           (the (json_str_opt source_url)) (json_str_opt title))) (\<lambda>ref.
                         op_return (json_response 200
                           (JObj [(''type'', JStr ''SUCCESS''), (''id'', JStr ref)]) (cors_headers []))))
                       (\<lambda>e. op_bind (log_failure ''content_upload_failed'' (map_error e)) (\<lambda>_.
                          case map_upload_error (map_error e) of
                            (status, envelope) \<Rightarrow> op_return (json_response status envelope (cors_headers [])))))))"

section \<open>Download links\<close>

definition content_resources_download_url :: "auth_service \<Rightarrow> string \<Rightarrow> http_request \<Rightarrow> http_response app_op" where
  "content_resources_download_url sv asset_id rq =
     rate_limited (''content_download:'' @ peer_or_unknown rq)
       (with_scope sv rq ''dam:read'' False (\<lambda>s.
          op_bind
            (op_handle (op_bind (on_net (get_download_source s asset_id)) (\<lambda>d. op_return (Inr d)))
              (\<lambda>e. op_return (Inl (map_error e))))
            (\<lambda>outcome.
              case outcome of
                Inl e \<Rightarrow> op_return (json_response (if err_status e = 0 then 500 else err_status e)
                  (error_envelope (err_code e) (err_message e)) (cors_headers []))
              | Inr d \<Rightarrow>
                  op_bind (on_store (create_download_grant (sv_config sv) s (dl_source d) (Some (dl_mimeType d))
                      (Some (dl_filename d)))) (\<lambda>g.
                    op_return (json_response 200
                      (JObj [(''type'', JStr ''SUCCESS''), (''url'', JStr (gl_url g)),
                         (''expiresAt'', JStr (gl_expiresAt g)), (''mimeType'', JStr (dl_mimeType d))])
                      (cors_headers []))))))"

section \<open>Listed assets have a picture\<close>

lemma keeps_anything: "keeps (\<lambda>_. True) m"
  by (simp add: delivers_def)

lemma dict_of_in: "dict_get (dict_of kvs) k = Some v \<Longrightarrow> v \<in> snd ` set kvs"
proof -
  have "dict_get (fold (\<lambda>(k, v) d. AList.update k v d) kvs d) k = Some v \<Longrightarrow>
      v \<in> snd ` set kvs \<or> dict_get d k = Some v" for d
    by (induction kvs arbitrary: d) (fastforce simp: update_conv' split: if_splits)+
  then show "dict_get (dict_of kvs) k = Some v \<Longrightarrow> v \<in> snd ` set kvs" by (fastforce simp: dict_of_def)
qed

lemma live_page_thumbnails:
  "normalize_live_asset_page other j = Inr (n, items) \<Longrightarrow> a \<in> set items \<Longrightarrow> ai_thumbnail a \<noteq> None"
  by (auto simp: normalize_live_asset_page_def split: sum.splits prod.splits)

lemma live_listing_pictures:
  "delivers (\<lambda>_. True) (list_live_assets s q c off lim srt) (\<lambda>p. \<forall>a \<in> set (ap_items p). picture_source a \<noteq> None)"
proof -
  have pick: "delivers (\<lambda>_. True) (op_bind (op_lift (normalize_live_asset_page other j)) (\<lambda>(_, items).
      op_return \<lparr>ap_items = List.map_filter (dict_get (dict_of (map (\<lambda>a. (ai_id a, a)) items))) refs,
        ap_total = all, ap_scanned = k\<rparr>)) (\<lambda>p. \<forall>a \<in> set (ap_items p). picture_source a \<noteq> None)"
    for other j refs all k
  proof (rule delivers_bind [where Q = "\<lambda>(_, items). \<forall>a \<in> set items. ai_thumbnail a \<noteq> None"])
    show "delivers (\<lambda>_. True) (op_lift (normalize_live_asset_page other j))
        (\<lambda>(_, items). \<forall>a \<in> set items. ai_thumbnail a \<noteq> None)"
      by (rule delivers_lift) (use live_page_thumbnails in fastforce)
  next
    fix x :: "int \<times> asset_item list"
    assume ok: "case x of (_, items) \<Rightarrow> \<forall>a \<in> set items. ai_thumbnail a \<noteq> None"
    obtain n items where x: "x = (n, items)" by (cases x)
    have "a \<in> set items" if "dict_get (dict_of (map (\<lambda>a. (ai_id a, a)) items)) r = Some a" for r a
      using dict_of_in [OF that] by auto
    then have "\<forall>a \<in> set (List.map_filter (dict_get (dict_of (map (\<lambda>a. (ai_id a, a)) items))) refs).
        picture_source a \<noteq> None"
      using ok by (fastforce simp: x List.map_filter_def picture_source_def split: option.splits)
    then show "delivers (\<lambda>_. True) (case x of (_, items) \<Rightarrow>
        op_return \<lparr>ap_items = List.map_filter (dict_get (dict_of (map (\<lambda>a. (ai_id a, a)) items))) refs,
          ap_total = all, ap_scanned = k\<rparr>) (\<lambda>p. \<forall>a \<in> set (ap_items p). picture_source a \<noteq> None)"
      by (simp add: x delivers_return)
  qed
  have "delivers (\<lambda>_. True) (resolve_previews s d srt refs all k) (\<lambda>p. \<forall>a \<in> set (ap_items p). picture_source a \<noteq> None)"
    for d refs all k
    unfolding resolve_previews_def Let_def
    by (intro keeps_bind [OF keeps_anything] delivers_prod pick)
  then show ?thesis
    unfolding list_live_assets_def Let_def
    by (intro keeps_bind [OF keeps_anything] delivers_prod delivers_if delivers_return) auto
qed

lemma listed_have_picture:
  assumes "fst (list_assets s q c off lim srt n) = Inr p" and "a \<in> set (ap_items p)"
  shows "picture_source a \<noteq> None"
proof (cases "fixture_mode s")
  case True
  with assms fixture_assets_have_source [of s q c off lim srt p a] show ?thesis
    by (auto simp: list_assets_def op_lift_def picture_source_def split: option.splits)
next
  case False
  then show ?thesis
    using deliversD(2) [OF live_listing_pictures, where n = n and x = p] assms by (auto simp: list_assets_def)
qed

section \<open>The discipline of the handlers\<close>

context app_discipline
begin

lemma log_failure_keeps [net_intros]: "keeps inv (log_failure event e)"
  unfolding log_failure_def by (intro net_intros)

lemma image_resource_keeps: "keeps inv (image_resource sv s a)"
  unfolding image_resource_def create_preview_grant_def
  by (auto intro!: net_intros on_store_keeps step_create_grant split: option.splits)

lemma find_page_keeps: "keeps inv (find_page sv s fr)"
  unfolding find_page_def find_containers_def find_images_def Let_def
  by (intro net_intros on_net_keeps service_keeps image_resource_keeps)

lemma content_find_keeps: "keeps inv (content_resources_find sv rq)"
  unfolding content_resources_find_def
  by (intro rate_limited_keeps with_scope_keeps net_intros find_page_keeps)

lemma content_upload_keeps: "keeps inv (content_resources_upload sv rq)"
  unfolding content_resources_upload_def Let_def
  by (intro rate_limited_keeps with_scope_keeps net_intros on_net_keeps service_keeps)

lemma content_download_keeps: "keeps inv (content_resources_download_url sv a rq)"
  unfolding content_resources_download_url_def create_download_grant_def
  by (intro rate_limited_keeps with_scope_keeps net_intros on_net_keeps service_keeps on_store_keeps step_create_grant)

lemmas content_keeps = content_find_keeps content_upload_keeps content_download_keeps

end

end
