(* ===== verification/Canva_Verifier.thy ===== *)
theory Canva_Verifier
  imports Http_Utils
begin

text \<open>
  \<^verbatim>\<open>services/canva_verifier.py\<close>: verification of the signatures Canva puts on its requests. The
  secret is decoded with the standard base64 alphabet, a signature is the hexadecimal HMAC of the
  signed fields, and a list of signatures is accepted when one of them matches.
\<close>

record verification_result =
  vr_ok :: bool
  vr_reason :: "string option"
  vr_skipped :: bool

definition verified :: verification_result where
  "verified = \<lparr>vr_ok = True, vr_reason = None, vr_skipped = False\<rparr>"

definition verification_skipped :: verification_result where
  "verification_skipped = \<lparr>vr_ok = True, vr_reason = None, vr_skipped = True\<rparr>"

definition rejected :: "string \<Rightarrow> verification_result" where
  "rejected reason = \<lparr>vr_ok = False, vr_reason = Some reason, vr_skipped = False\<rparr>"

definition split_signatures :: "string option \<Rightarrow> string list" where
  "split_signatures raw = (if \<not> truthy_str raw then [] else comma_fields (the raw))"

definition is_valid_timestamp :: "int \<Rightarrow> int \<Rightarrow> int \<Rightarrow> bool" where
  "is_valid_timestamp sent received leniency \<longleftrightarrow> \<bar>sent - received\<bar> < leniency"

definition calculate_signature :: "byte list \<Rightarrow> string \<Rightarrow> string" where
  "calculate_signature secret message = hexdigest (hmac_sha256 secret (utf8 message))"

text \<open>The guards come before \<^verbatim>\<open>compare_digest\<close>, so it is only called on ASCII of equal length.\<close>

definition signature_matches :: "string \<Rightarrow> string \<Rightarrow> bool" where
  "signature_matches expected candidate \<longleftrightarrow>
     length candidate = length expected \<and> py_isascii candidate \<and> expected = candidate"

definition should_verify :: "string \<Rightarrow> bool \<Rightarrow> bool" where
  "should_verify mode marker_present =
     (if mode = ''off'' then False else if mode = ''required'' then True else marker_present)"

text \<open>
  \<^verbatim>\<open>base64.b64decode\<close>: the standard alphabet. The decoder skips what is not in the alphabet, so it
  is the URL-safe one after the two characters particular to that are dropped.
\<close>

definition b64decode :: "string \<Rightarrow> byte list option" where
  "b64decode s =
     (if py_isascii s then a2b_base64 0 0 0 (filter (\<lambda>c. c \<noteq> CHR ''-'' \<and> c \<noteq> CHR ''_'') s) else None)"

definition decode_secret :: "app_config \<Rightarrow> byte list option" where
  "decode_secret cfg =
     (let secret = canva_client_secret (signing cfg) in
      if secret = [] then None else b64decode secret)"

text \<open>\<^verbatim>\<open>int(time.time())\<close> from the clock in milliseconds.\<close>

definition now_s :: "world \<Rightarrow> int \<times> world" where
  "now_s w = (case now_ms w of (now, w') \<Rightarrow> (now div 1000, w'))"

definition verify_canva_get_request :: "app_config \<Rightarrow> string dict \<Rightarrow> world \<Rightarrow> verification_result \<times> world" where
  "verify_canva_get_request cfg query w =
     (let signatures = split_signatures (dict_get query ''signatures'');
          mode = request_verification_mode (signing cfg)
      in if \<not> should_verify mode (signatures \<noteq> []) then
           ((if mode = ''off'' then verified else verification_skipped), w)
         else
           (case decode_secret cfg of
              None \<Rightarrow> (rejected ''missing_client_secret'', w)
            | Some secret \<Rightarrow>
                (let time_value = dict_get query ''time''; user = dict_get query ''user'';
                     brand = dict_get query ''brand''; extensions = dict_get query ''extensions'';
                     state = dict_get query ''state''
                 in if \<not> (truthy_str time_value \<and> truthy_str user \<and> truthy_str brand \<and>
                           truthy_str extensions \<and> truthy_str state \<and> signatures \<noteq> []) then
                      (rejected ''missing_signature_fields'', w)
                    else
                      (case py_int (the time_value) of
                         None \<Rightarrow> (rejected ''invalid_timestamp'', w)
                       | Some sent \<Rightarrow>
                           (let (now, w) = now_s w in
                            if \<not> is_valid_timestamp sent now (request_timestamp_tolerance_seconds (signing cfg)) then
                              (rejected ''invalid_timestamp'', w)
                            else
                              (let message = ''v1:'' @ the time_value @ '':'' @ the user @ '':'' @ the brand @ '':'' @
                                     the extensions @ '':'' @ the state;
                                   expected = calculate_signature secret message
                               in if \<not> list_ex (signature_matches expected) signatures then
                                    (rejected ''invalid_signature'', w)
                                  else (verified, w)))))))"

definition verify_canva_post_request ::
  "app_config \<Rightarrow> string dict \<Rightarrow> string \<Rightarrow> string \<Rightarrow> world \<Rightarrow> verification_result \<times> world"
where
  "verify_canva_post_request cfg headers path raw_body w =
     (let signatures = split_signatures (dict_get headers ''x-canva-signatures'');
          timestamp = dict_get headers ''x-canva-timestamp'';
          mode = request_verification_mode (signing cfg)
      in if \<not> should_verify mode (signatures \<noteq> []) then
           ((if mode = ''off'' then verified else verification_skipped), w)
         else
           (case decode_secret cfg of
              None \<Rightarrow> (rejected ''missing_client_secret'', w)
            | Some secret \<Rightarrow>
                if \<not> truthy_str timestamp \<or> signatures = [] then
                  (rejected ''missing_signature_fields'', w)
                else
                  (case py_int (the timestamp) of
                     None \<Rightarrow> (rejected ''invalid_timestamp'', w)
                   | Some sent \<Rightarrow>
                       (let (now, w) = now_s w in
                        if \<not> is_valid_timestamp sent now (request_timestamp_tolerance_seconds (signing cfg)) then
                          (rejected ''invalid_timestamp'', w)
                        else
                          (let message = ''v1:'' @ the timestamp @ '':'' @ path @ '':'' @ raw_body;
                               expected = calculate_signature secret message
                           in if \<not> list_ex (signature_matches expected) signatures then
                                (rejected ''invalid_signature'', w)
                              else (verified, w))))))"

section \<open>When a request passes\<close>

lemma signature_matches_iff: "signature_matches (calculate_signature k m) c \<longleftrightarrow> c = calculate_signature k m"
  by (auto simp: signature_matches_def calculate_signature_def hexdigest_ascii)

lemma list_ex_signature:
  "list_ex (signature_matches (calculate_signature k m)) sigs \<longleftrightarrow> calculate_signature k m \<in> set sigs"
  by (auto simp: list_ex_iff signature_matches_iff)

lemma no_signatures: "split_signatures x = [] \<Longrightarrow> x = Some sigs \<Longrightarrow> comma_fields sigs = []"
  by (cases "sigs = []")
    (auto simp: split_signatures_def comma_fields_def py_strip_def lstrip_def rstrip_def)

text \<open>The evidence that makes a POST request authentic at a time.\<close>

definition post_authentic :: "app_config \<Rightarrow> string dict \<Rightarrow> string \<Rightarrow> string \<Rightarrow> int \<Rightarrow> bool" where
  "post_authentic cfg headers path raw_body now \<longleftrightarrow>
     (\<exists>secret ts sigs sent. decode_secret cfg = Some secret \<and> dict_get headers ''x-canva-timestamp'' = Some ts \<and>
        dict_get headers ''x-canva-signatures'' = Some sigs \<and> ts \<noteq> [] \<and> py_int ts = Some sent \<and>
        \<bar>sent - now div 1000\<bar> < request_timestamp_tolerance_seconds (signing cfg) \<and>
        calculate_signature secret (''v1:'' @ ts @ '':'' @ path @ '':'' @ raw_body) \<in> set (comma_fields sigs))"

lemma post_verified_iff:
  assumes mode: "request_verification_mode (signing cfg) \<noteq> ''off''"
  shows "fst (verify_canva_post_request cfg headers path raw_body w) = verified \<longleftrightarrow>
    post_authentic cfg headers path raw_body (clock w (ticks w))"
proof (cases "split_signatures (dict_get headers ''x-canva-signatures'') = []")
  case True
  then have "\<not> post_authentic cfg headers path raw_body (clock w (ticks w))"
    by (auto simp: post_authentic_def dest: no_signatures)
  with True mode show ?thesis
    by (auto simp: verify_canva_post_request_def Let_def should_verify_def verified_def verification_skipped_def
        rejected_def split: option.splits)
next
  case False
  then obtain sigs where sigs: "dict_get headers ''x-canva-signatures'' = Some sigs" "sigs \<noteq> []" "comma_fields sigs \<noteq> []"
    by (auto simp: split_signatures_def truthy_str_def split: if_splits)
  with mode show ?thesis
    by (auto simp: verify_canva_post_request_def post_authentic_def Let_def should_verify_def split_signatures_def
        verified_def rejected_def list_ex_signature now_s_def is_valid_timestamp_def truthy_str_def
        split: option.splits if_splits)
qed

text \<open>The same for a GET request, over its query parameters.\<close>

definition get_authentic :: "app_config \<Rightarrow> string dict \<Rightarrow> int \<Rightarrow> bool" where
  "get_authentic cfg q now \<longleftrightarrow>
     (\<exists>secret ts u b e s sigs sent. decode_secret cfg = Some secret \<and> dict_get q ''time'' = Some ts \<and>
        dict_get q ''user'' = Some u \<and> dict_get q ''brand'' = Some b \<and> dict_get q ''extensions'' = Some e \<and>
        dict_get q ''state'' = Some s \<and> dict_get q ''signatures'' = Some sigs \<and>
        ts \<noteq> [] \<and> u \<noteq> [] \<and> b \<noteq> [] \<and> e \<noteq> [] \<and> s \<noteq> [] \<and> py_int ts = Some sent \<and>
        \<bar>sent - now div 1000\<bar> < request_timestamp_tolerance_seconds (signing cfg) \<and>
        calculate_signature secret (''v1:'' @ ts @ '':'' @ u @ '':'' @ b @ '':'' @ e @ '':'' @ s) \<in> set (comma_fields sigs))"

lemma get_verified_iff:
  assumes mode: "request_verification_mode (signing cfg) \<noteq> ''off''"
  shows "fst (verify_canva_get_request cfg q w) = verified \<longleftrightarrow> get_authentic cfg q (clock w (ticks w))"
proof (cases "split_signatures (dict_get q ''signatures'') = []")
  case True
  then have "\<not> get_authentic cfg q (clock w (ticks w))"
    by (auto simp: get_authentic_def dest: no_signatures)
  with True mode show ?thesis
    by (auto simp: verify_canva_get_request_def Let_def should_verify_def verified_def verification_skipped_def
        rejected_def split: option.splits)
next
  case False
  then obtain sigs where sigs: "dict_get q ''signatures'' = Some sigs" "sigs \<noteq> []" "comma_fields sigs \<noteq> []"
    by (auto simp: split_signatures_def truthy_str_def split: if_splits)
  show ?thesis
  proof (cases "truthy_str (dict_get q ''time'') \<and> truthy_str (dict_get q ''user'') \<and> truthy_str (dict_get q ''brand'') \<and>
      truthy_str (dict_get q ''extensions'') \<and> truthy_str (dict_get q ''state'')")
    case False
    with sigs mode show ?thesis
      by (auto simp: verify_canva_get_request_def get_authentic_def Let_def should_verify_def split_signatures_def
          verified_def rejected_def split: option.splits)
  next
    case True
    then obtain ts u b e s where f: "dict_get q ''time'' = Some ts" "dict_get q ''user'' = Some u" "dict_get q ''brand'' = Some b"
        "dict_get q ''extensions'' = Some e" "dict_get q ''state'' = Some s"
        "ts \<noteq> []" "u \<noteq> []" "b \<noteq> []" "e \<noteq> []" "s \<noteq> []"
      by (auto simp: truthy_str_def)
    with sigs mode show ?thesis
      by (auto simp: verify_canva_get_request_def get_authentic_def Let_def should_verify_def split_signatures_def
          verified_def rejected_def list_ex_signature now_s_def is_valid_timestamp_def
          split: option.splits if_splits)
  qed
qed

end
