(* ===== verification/Other_Routes.thy ===== *)
theory Other_Routes
  imports Broker_App Canva_Verifier
begin

text \<open>
  The remaining routes: \<^verbatim>\<open>routes/assets.py\<close> (delivery by signed link), \<^verbatim>\<open>routes/session.py\<close>,
  \<^verbatim>\<open>routes/webhooks.py\<close> (the uninstall notification) and \<^verbatim>\<open>routes/health.py\<close>.
\<close>

section \<open>Assets\<close>

definition upper_char :: "char \<Rightarrow> char" where
  "upper_char c = (if 97 \<le> char_code c \<and> char_code c \<le> 122 then char_of (char_code c - 32) else c)"

text \<open>\<^verbatim>\<open>reason.upper()\<close> on the reasons of a refusal, which are ASCII.\<close>

definition refusal_response :: "string \<Rightarrow> http_response" where
  "refusal_response reason =
     json_response (if reason = ''expired'' then 410 else 403) (error_envelope (map upper_char reason) reason)
       (cors_headers [])"

definition serve_grant :: "auth_service \<Rightarrow> string \<Rightarrow> http_request \<Rightarrow> http_response app_op" where
  "serve_grant sv grant_id rq =
     op_bind (on_store (verify_grant (sv_config sv) (Some grant_id) (dict_get (query_params rq) ''expires'')
         (dict_get (query_params rq) ''sig''))) (\<lambda>verification.
       case verification of
         GrantRefused reason \<Rightarrow> op_return (refusal_response reason)
       | GrantOk g \<Rightarrow>
           op_bind (on_net (build_grant_response (sv_config sv) g (cors_headers []))) (\<lambda>built.
             op_return (case built of
                 None \<Rightarrow> json_response 404 (error_envelope ''NOT_FOUND'' ''Not found.'') (cors_headers [])
               | Some response \<Rightarrow> response)))"

section \<open>Session\<close>

definition json_field :: "json \<Rightarrow> string \<Rightarrow> json" where
  "json_field j key = (case j of JObj d \<Rightarrow> json_get d key | _ \<Rightarrow> JNull)"

definition api_session :: "auth_service \<Rightarrow> http_request \<Rightarrow> http_response app_op" where
  "api_session sv rq =
     with_token sv rq (\<lambda>_. op_return ()) (\<lambda>r.
       let summary = session_summary_json (get_session_summary (at_session r)) in
       op_return (json_response 200
         (JObj [(''contractVersion'', JStr ''1.0.0''), (''mode'', json_field summary ''mode''),
            (''tenant'', json_field summary ''tenant''), (''user'', json_field summary ''user'')])
         (cors_headers [])))"

section \<open>Webhooks\<close>

text \<open>
  The ids are compared with those of the records; an id that is no string equals none of them, so
  that only the pruning of the update remains.
\<close>

definition revoke_ids :: "auth_service \<Rightarrow> json \<Rightarrow> json \<Rightarrow> unit app_op" where
  "revoke_ids sv user_id tenant_id =
     (if json_str_opt user_id \<noteq> None \<and> json_str_opt tenant_id \<noteq> None then
        on_store (revoke_tokens_for_user sv (the (json_str_opt user_id)) (the (json_str_opt tenant_id)))
      else op_bind (on_store (prune sv)) (\<lambda>_. op_bind (on_world now_ms) (\<lambda>_. op_return ())))"

definition uninstall_user :: "auth_service \<Rightarrow> string \<Rightarrow> http_response app_op" where
  "uninstall_user sv raw_body =
     op_bind (op_lift (parse_body raw_body)) (\<lambda>body.
     op_bind (op_lift (json_attr_get body ''user_id'')) (\<lambda>user_id.
     op_bind (op_lift (json_attr_get body ''tenant_id'')) (\<lambda>tenant_id.
     op_bind
       (if json_truthy user_id \<and> json_truthy tenant_id then
          op_bind (revoke_ids sv user_id tenant_id) (\<lambda>_.
            log_op (log_info ''canva_user_uninstall'' [(''userId'', LvJson user_id), (''tenantId'', LvJson tenant_id)]))
        else op_return ())
       (\<lambda>_. op_return (json_response 200 (JObj [(''type'', JStr ''SUCCESS'')]) (cors_headers []))))))"

definition canva_user_uninstall :: "auth_service \<Rightarrow> http_request \<Rightarrow> http_response app_op" where
  "canva_user_uninstall sv rq =
     op_bind (on_world (verify_canva_post_request (sv_config sv) (rq_headers rq) (rq_path rq) (rq_body rq)))
       (\<lambda>verification.
         if \<not> vr_ok verification \<or> vr_skipped verification then
           op_bind (log_op (log_warn ''canva_signature_rejected''
             [(''path'', LvStr (rq_path rq)), (''reason'', LvStr (str_or (vr_reason verification) ''verification_skipped'')),
              (''skipped'', LvJson (JBool (vr_skipped verification)))])) (\<lambda>_.
           op_return (json_error 401 ''INVALID_CANVA_SIGNATURE'' ''The Canva request signature was invalid.'' []))
         else
           op_handle (uninstall_user sv (rq_body rq))
             (\<lambda>e. if e = ValueError then
                op_bind (log_op (log_error ''canva_user_uninstall_failed'' [(''error'', LvExn e)])) (\<lambda>_.
                op_return (json_response 400 (error_envelope ''INVALID_REQUEST'' ''Invalid uninstall payload.'')
                  (cors_headers [])))
              else op_raise e))"

section \<open>Health and metrics\<close>

definition root :: "http_response" where
  "root = json_response 200
     (JObj [(''service'', JStr ''ResourceSpace Canva Platform Broker''), (''ok'', JBool True),
        (''endpoints'', JObj [(''healthz'', JStr ''/healthz''), (''readyz'', JStr ''/readyz''),
           (''metrics'', JStr ''/metrics''), (''authorise'', JStr ''/oauth/authorise'')])]) (cors_headers [])"

definition healthz :: "http_response" where
  "healthz = json_response 200 (JObj [(''ok'', JBool True)]) (cors_headers [])"

definition readyz :: "http_response" where
  "readyz = json_response 200 (JObj [(''ok'', JBool True)]) (cors_headers [])"

definition stats_json :: "auth_stats \<Rightarrow> json" where
  "stats_json st = JObj
     [(''authorizationCodeCount'', JInt (int (authorizationCodeCount st))),
      (''accessTokenCount'', JInt (int (accessTokenCount st))),
      (''refreshTokenCount'', JInt (int (refreshTokenCount st))),
      (''assetGrantCount'', JInt (int (assetGrantCount st)))]"

definition metrics_route :: "auth_service \<Rightarrow> http_request \<Rightarrow> http_response app_op" where
  "metrics_route sv rq =
     (let cfg = sv_config sv in
      op_bind (on_disk (get_stats sv)) (\<lambda>stats.
        let expected_token = bearer_token (metrics cfg); presented = read_bearer_token rq;
            unauthorized = json_error 401 ''UNAUTHORIZED'' ''Unauthorized.'' []
        in if expected_token = [] then
             op_return (json_response 200 (JObj [(''auth'', stats_json stats)]) (cors_headers []))
           else if \<not> truthy_str presented then op_return unauthorized
           else
             op_bind (op_lift (compare_digest (the presented) expected_token)) (\<lambda>same.
               if \<not> same then op_return unauthorized
               else op_return (json_response 200
                 (JObj [(''auth'', stats_json stats), (''environment'', JStr (environment cfg)),
                    (''resourceSpaceMode'', JStr (rs_mode (resource_space cfg))),
                    (''requestVerificationMode'', JStr (request_verification_mode (signing cfg)))])
                 (cors_headers [])))))"

section \<open>The discipline of the handlers\<close>

lemma verify_post_later: "verify_canva_post_request cfg h p b w = (r, w') \<Longrightarrow> later w w'"
  by (auto simp: verify_canva_post_request_def now_s_def Let_def later_def split: if_splits option.splits)

lemma get_stats_later: "get_stats sv d w = (r, w') \<Longrightarrow> later w w'"
  by (auto simp: get_stats_def svc_prune_def later_def)

lemma json_attr_printable: "json_attr_get j key = Inr v \<Longrightarrow> json_printable j \<Longrightarrow> json_printable v"
proof -
  have get: "list_all (\<lambda>(k, v). json_printable v) d \<Longrightarrow> json_printable (json_get d key)" for d
    by (induction d) (auto simp: json_get_def)
  show "json_attr_get j key = Inr v \<Longrightarrow> json_printable j \<Longrightarrow> json_printable v"
    by (cases j) (auto simp: json_attr_get_def get)
qed

context app_discipline
begin

lemma now_keeps [net_intros]: "keeps inv (on_world now_ms)"
  by (rule on_world_keeps) (auto simp: later_def)

lemma serve_grant_keeps: "keeps inv (serve_grant sv g rq)"
proof -
  have "keeps inv (case v of GrantRefused reason \<Rightarrow> op_return (f reason)
      | GrantOk g \<Rightarrow> op_bind (on_net (build_grant_response cfg g h)) (\<lambda>b. op_return (k b)))" for v f cfg h k
    by (cases v) (auto intro!: net_intros on_net_keeps service_keeps)
  then show ?thesis
    unfolding serve_grant_def by (intro keeps_bind on_store_keeps step_verify_grant)
qed

lemma api_session_keeps: "keeps inv (api_session sv rq)"
  unfolding api_session_def Let_def by (intro with_token_keeps net_intros)

lemma revoke_ids_keeps: "keeps inv (revoke_ids sv u t)"
  unfolding revoke_ids_def by (intro net_intros on_store_keeps step_revoke_user step_prune)

lemma uninstall_user_keeps: "keeps inv (uninstall_user sv raw)"
proof -
  have body: "delivers inv (op_lift (parse_body raw)) json_printable"
    by (rule delivers_lift) (auto simp: parse_body_def dest: loads_printable split: if_splits option.splits)
  have attr: "delivers inv (op_lift (json_attr_get j key)) json_printable" if "json_printable j" for j key
    by (rule delivers_lift) (use that in \<open>auto dest: json_attr_printable\<close>)
  have ids: "loggable ''canva_user_uninstall'' [(''userId'', LvJson u), (''tenantId'', LvJson t)]" if "json_printable u" "json_printable t" for u t
    using that by (simp add: loggable_def context_printable_def)
  show ?thesis
    unfolding uninstall_user_def
    by (rule delivers_bind [OF body], rule delivers_bind [OF attr], assumption, rule delivers_bind [OF attr], assumption)
      (intro net_intros revoke_ids_keeps ids)
qed

lemma canva_user_uninstall_keeps: "keeps inv (canva_user_uninstall sv rq)"
  unfolding canva_user_uninstall_def
  by (intro net_intros on_world_keeps verify_post_later uninstall_user_keeps)

lemma metrics_keeps: "keeps inv (metrics_route sv rq)"
  unfolding metrics_route_def Let_def by (intro net_intros on_disk_keeps get_stats_later)

lemmas other_keeps = serve_grant_keeps api_session_keeps canva_user_uninstall_keeps metrics_keeps

end

end
