(* ===== verification/Http_System.thy ===== *)
theory Http_System
  imports Oauth_Routes Content_Routes Other_Routes
begin

text \<open>
  The application as a state machine: a step serves one request to any endpoint, whatever it
  contains, prunes the store as the background task of \<^verbatim>\<open>main.py\<close> does, or lets time pass. The
  discipline of handlers is interpreted twice: what a step does to the store is a run of the service
  operations, and what it sends are pinned requests.
\<close>

section \<open>Endpoints\<close>

datatype endpoint =
    Root | Healthz | Readyz | Metrics
  | LegacyAuthorize | AuthorisePage | AuthoriseSubmit | SsoCallback | ManualCallback
  | TokenEndpoint | RevokeEndpoint | UserinfoEndpoint
  | SessionEndpoint | Find | Upload | DownloadUrl string | AssetLink string | UserUninstall

definition handle :: "auth_service \<Rightarrow> endpoint \<Rightarrow> http_request \<Rightarrow> http_response app_op" where
  "handle sv ep rq =
     (case ep of
        Root \<Rightarrow> op_return root
      | Healthz \<Rightarrow> op_return healthz
      | Readyz \<Rightarrow> op_return readyz
      | Metrics \<Rightarrow> metrics_route sv rq
      | LegacyAuthorize \<Rightarrow> oauth_authorize_legacy_get rq
      | AuthorisePage \<Rightarrow> oauth_authorise_get sv rq
      | AuthoriseSubmit \<Rightarrow> oauth_authorize_post sv rq
      | SsoCallback \<Rightarrow> oauth_sso_callback sv rq
      | ManualCallback \<Rightarrow> oauth_manual_callback sv rq
      | TokenEndpoint \<Rightarrow> oauth_token sv rq
      | RevokeEndpoint \<Rightarrow> oauth_revoke sv rq
      | UserinfoEndpoint \<Rightarrow> oauth_userinfo sv rq
      | SessionEndpoint \<Rightarrow> api_session sv rq
      | Find \<Rightarrow> content_resources_find sv rq
      | Upload \<Rightarrow> content_resources_upload sv rq
      | DownloadUrl asset_id \<Rightarrow> content_resources_download_url sv asset_id rq
      | AssetLink grant_id \<Rightarrow> serve_grant sv grant_id rq
      | UserUninstall \<Rightarrow> canva_user_uninstall sv rq)"

text \<open>One round of the prune loop; an exception is only logged.\<close>

definition prune_tick :: "auth_service \<Rightarrow> app_state \<Rightarrow> app_state" where
  "prune_tick sv s =
     snd (op_handle (on_store (prune sv)) (\<lambda>e. log_op (log_warn ''store_prune_failed'' [(''error'', LvExn e)])) s)"

text \<open>The loop is started only when its interval is positive.\<close>

definition prune_enabled :: "app_config \<Rightarrow> bool" where
  "prune_enabled cfg \<longleftrightarrow> 0 < store_prune_interval_seconds cfg"

inductive app_step :: "auth_service \<Rightarrow> app_state \<Rightarrow> app_state \<Rightarrow> bool" for sv where
  app_request: "serve rq (handle sv ep rq) s = (response, s') \<Longrightarrow> app_step sv s s'"
| app_prune: "prune_enabled (sv_config sv) \<Longrightarrow> app_step sv s (prune_tick sv s)"
| app_wait: "later (bk_world s) w \<Longrightarrow> app_step sv s (s\<lparr>bk_world := w\<rparr>)"

section \<open>The discipline of every handler\<close>

context app_discipline
begin

lemma handle_keeps: "keeps inv (handle sv ep rq)"
  by (cases ep) (auto simp: handle_def intro!: oauth_keeps content_keeps other_keeps net_intros)

lemma app_step_keeps: "app_step sv s s' \<Longrightarrow> inv s \<Longrightarrow> inv s'"
proof (induction rule: app_step.induct)
  case (app_request rq ep s response s')
  then have "inv (snd (serve rq (handle sv ep rq) s))" by (intro serve_keeps handle_keeps)
  with app_request show ?case by simp
next
  case (app_prune s)
  have "keeps inv (op_handle (on_store (prune sv)) (\<lambda>e. log_op (log_warn ''store_prune_failed'' [(''error'', LvExn e)])))"
    by (intro net_intros on_store_keeps step_prune)
  from deliversD(1) [OF this app_prune(2)] show ?case by (simp add: prune_tick_def)
next
  case (app_wait s w)
  then show ?case using store_kept [OF _ step_world] same_disk by metis
qed

end

section \<open>Two interpretations\<close>

text \<open>What has happened to the store is a run of service operations.\<close>

definition store_of :: "app_state \<Rightarrow> broker_state" where
  "store_of s = (bk_disk s, bk_world s)"

interpretation store_run: app_discipline sv "\<lambda>s. reach (broker_step sv) s0 (store_of s)" for sv s0
proof
  fix s key r l w
  assume run: "reach (broker_step sv) s0 (store_of s)" and step: "consume (bk_limiter s) key (bk_world s) = (r, l, w)"
  have "later (bk_world s) w" using step by (auto simp: consume_def later_def split: prod.splits)
  from reach_step [OF run [unfolded store_of_def] step_world [OF this]]
  show "reach (broker_step sv) s0 (store_of (s\<lparr>bk_limiter := l, bk_world := w\<rparr>))"
    by (simp add: store_of_def)
qed (auto simp: store_of_def intro: reach_step)

text \<open>What has been sent since are pinned requests.\<close>

interpretation net_run: app_discipline sv "\<lambda>s. net_ahead n (bk_net s)" for sv n
  by unfold_locales (auto intro: net_ahead_trans)

text \<open>The limiter stays well formed.\<close>

interpretation limiter_run: app_discipline sv "\<lambda>s. wf_limiter (bk_limiter s)" for sv
  by unfold_locales (auto simp: consume_def dest: wf_consume_at split: prod.splits)

lemma app_store_step: "app_step sv s s' \<Longrightarrow> reach (broker_step sv) (store_of s) (store_of s')"
  using store_run.app_step_keeps [of sv s s' "store_of s"] by (simp add: reach_refl)

lemma app_net_step: "app_step sv s s' \<Longrightarrow> net_ahead (bk_net s) (bk_net s')"
  using net_run.app_step_keeps [of sv s s'] by simp

section \<open>Runs\<close>

text \<open>
  The application refines the services: what the served requests do to the file, the clock and the
  randomness is a run of the operations of the services, so that what holds of all those runs carries
  over.
\<close>

lemma app_store_run: "reach (app_step sv) s s' \<Longrightarrow> reach (broker_step sv) (store_of s) (store_of s')"
  by (induction rule: reach.induct) (auto intro: reach_refl reach_trans app_store_step)

lemma app_net_run: "reach (app_step sv) s s' \<Longrightarrow> net_ahead (bk_net s) (bk_net s')"
  by (induction rule: reach.induct) (auto intro: net_ahead_trans app_net_step)

end
