(* ===== verification/Http_Properties.thy ===== *)
theory Http_Properties
  imports Http_System Auth_Properties
begin

text \<open>
  The properties of the application as a whole, over every request anybody may send: what it sends
  to other hosts, what it does to the store, and the single use of a code at the token endpoint.
\<close>

section \<open>A live deployment for the witnesses\<close>

definition live_config :: app_config where
  "live_config = sample_config\<lparr>resource_space := (resource_space sample_config)\<lparr>rs_mode := ''live''\<rparr>\<rparr>"

definition live_service :: auth_service where
  "live_service = \<lparr>sv_config = live_config, sv_cipher = NullFieldCipher\<rparr>"

definition sample_hurl :: hurl where
  "sample_hurl = \<lparr>hu_text = ''https://rs.example/api/'', hu_scheme = ''https'', hu_host = ''rs.example'',
     hu_raw_host = ''rs.example'', hu_port = None\<rparr>"

definition sample_net :: net where
  "sample_net = \<lparr>nt_idna = (\<lambda>_. None), nt_parse_url = (\<lambda>_. Some sample_hurl), nt_join = (\<lambda>_ _. None),
     nt_resolve = (\<lambda>_ _. Some [''93.184.216.34'']), nt_answer = (\<lambda>_ _. TransportFailed),
     nt_race = (\<lambda>_ _. ([], [])), nt_mono = (\<lambda>_. 0), nt_stamp = (\<lambda>_. ''2024-01-01T00:00:00Z''),
     nt_preview = (\<lambda>_ _. None), nt_str = (\<lambda>_. []), nt_repr = (\<lambda>_. []),
     nt_ticks = 0, nt_sent = []\<rparr>"

definition sample_app :: app_state where
  "sample_app = fresh_app sample_config (Some sample_store) sample_world sample_net"

definition blank_request :: http_request where
  "blank_request = \<lparr>rq_peer = Some ''203.0.113.9'', rq_headers = [], rq_query_items = [], rq_form = [],
     rq_path = [], rq_body = []\<rparr>"

lemma sample_app_sel [simp]:
  "bk_disk sample_app = Some sample_store" "bk_world sample_app = sample_world" "bk_net sample_app = sample_net"
  by (simp_all add: sample_app_def fresh_app_def)

text \<open>A fresh limiter admits the first request.\<close>

lemma fresh_consume:
  obtains l where "consume (bk_limiter (fresh_app cfg d w n)) key w =
    (\<lparr>allowed = True, retry_after_ms = 0\<rparr>, l, w\<lparr>ticks := Suc (ticks w)\<rparr>)"
  by (simp add: consume_def consume_at_def create_rate_limiter_def drop_stale_def Let_def fresh_app_def)

section \<open>The store\<close>

lemma app_run_request: "reach (app_step sv) s (snd (serve rq (handle sv ep rq) s))"
  by (intro reach_step [OF reach_refl] app_request [OF prod.collapse [symmetric]])

lemma http_store_inv:
  assumes "reach (app_step sv) s s'" and "store_of s = (Some st, w)" and "store_inv sv w st"
  obtains st' where "bk_disk s' = Some st'" and "store_inv sv (bk_world s') st'"
  using run_growth [OF app_store_run [OF assms(1), unfolded assms(2), unfolded store_of_def] assms(3)] that by blast

section \<open>Codes at the token endpoint\<close>

definition code_exchange ::
  "auth_service \<Rightarrow> http_request \<Rightarrow> broker_store option \<Rightarrow> world \<Rightarrow> (exn + oauth_result) \<times> broker_store option \<times> world"
where
  "code_exchange sv rq = exchange_authorization_code sv (get_or_empty (rq_form rq) ''client_id'')
     (get_or_empty (rq_form rq) ''redirect_uri'') (get_or_empty (rq_form rq) ''code'')
     (dict_get (rq_form rq) ''code_verifier'')"

text \<open>What the endpoint logs.\<close>

definition token_log :: "exn + oauth_result \<Rightarrow> log_call list" where
  "token_log x =
     (case x of Inr (OAuthError e d) \<Rightarrow> [log_warn ''oauth_token_failed'' [(''error'', LvStr e)]] | _ \<Rightarrow> [])"

lemma token_run:
  assumes "consume (bk_limiter s) (''oauth_token:'' @ client_host rq (sv_config sv)) (bk_world s) = (r, l, w0)"
    and "dict_get (rq_form rq) ''grant_type'' = Some ''authorization_code''"
    and "code_exchange sv rq (bk_disk s) w0 = (x, d, w1)"
  shows "oauth_token sv rq s =
      (if \<not> allowed r then (Inr (json_error 429 ''RATE_LIMITED'' ''Too many requests.''
          [(''Retry-After'', str_of_int (max 1 (retry_after_ms r div 1000)))]), s\<lparr>bk_limiter := l, bk_world := w0\<rparr>)
       else (case x of Inl e \<Rightarrow> Inl e | Inr p \<Rightarrow> Inr (oauth_response p),
         s\<lparr>bk_limiter := l, bk_disk := d, bk_world := w1, bk_log := bk_log s @ token_log x\<rparr>))"
  by (simp only: oauth_token_def Let_def rate_limited_run [OF assms(1)])
    (simp add: app_defs assms(2) assms(3) [unfolded code_exchange_def] token_log_def split: sum.split oauth_result.split)

lemma token_answered:
  assumes "serve rq (oauth_token sv rq) s = (resp, s1)" and "rp_status resp = 200"
    and "dict_get (rq_form rq) ''grant_type'' = Some ''authorization_code''"
  obtains w0 tk where "later (bk_world s) w0"
    and "code_exchange sv rq (bk_disk s) w0 = (Inr (OAuthTokens tk), bk_disk s1, bk_world s1)"
proof -
  obtain r l w0 where rate: "consume (bk_limiter s) (''oauth_token:'' @ client_host rq (sv_config sv)) (bk_world s) = (r, l, w0)"
    by (metis prod.exhaust)
  have l: "later (bk_world s) w0" using rate by (auto simp: consume_def later_def split: prod.splits)
  obtain x d w1 where run: "code_exchange sv rq (bk_disk s) w0 = (x, d, w1)" by (metis prod.exhaust)
  note handler = token_run [OF rate assms(3) run]
  have ok: "allowed r"
    using assms(1,2) by (auto simp: serve_def handler json_error_def json_response_def split: if_splits)
  have "\<exists>tk. x = Inr (OAuthTokens tk)"
  proof (cases x)
    case (Inl e)
    with assms(1,2) ok show ?thesis by (auto simp: serve_def handler json_response_def)
  next
    case (Inr p)
    with assms(1,2) ok show ?thesis
      by (cases p) (auto simp: serve_def handler json_response_def oauth_response_def)
  qed
  moreover have "bk_disk s1 = d \<and> bk_world s1 = w1"
    using assms(1) ok by (cases x) (auto simp: serve_def handler)
  ultimately show thesis using that [OF l] run by blast
qed

text \<open>C27. The token endpoint answers an authorization code once. After a request has been answered
  with tokens for a code, and whatever requests are served in between, no request with that code is
  answered with tokens again, by any client, with any verifier or redirect URI.\<close>

theorem token_endpoint_once:
  assumes "store_of s = (Some st, w)" and "store_inv sv w st" and "inj (rand w)"
    and "serve rq (oauth_token sv rq) s = (resp, s1)" and "rp_status resp = 200"
    and "dict_get (rq_form rq) ''grant_type'' = Some ''authorization_code''"
    and "reach (app_step sv) s1 s2"
    and "dict_get (rq_form rq') ''grant_type'' = Some ''authorization_code''"
    and "dict_get (rq_form rq') ''code'' = dict_get (rq_form rq) ''code''"
  shows "rp_status (fst (serve rq' (oauth_token sv rq') s2)) \<noteq> 200"
proof
  assume again: "rp_status (fst (serve rq' (oauth_token sv rq') s2)) = 200"
  let ?code = "get_or_empty (rq_form rq) ''code''"
  have s: "bk_disk s = Some st" "bk_world s = w" using assms(1) by (simp_all add: store_of_def)
  obtain w0 tk where l: "later w w0" and first: "code_exchange sv rq (Some st) w0 = (Inr (OAuthTokens tk), bk_disk s1, bk_world s1)"
    by (rule token_answered [OF assms(4-6), unfolded s])
  have inv0: "store_inv sv w0 st" by (rule store_inv_later [OF assms(2) l])
  note first = first [unfolded code_exchange_def]
  note exchanged = first [unfolded exchange_tokens_iff]
  from exchanged have conf: "is_configured_client (sv_config sv) (get_or_empty (rq_form rq) ''client_id'')" ..
  from exchanged obtain session scope where "code_redeemable sv st (now_of w0) (get_or_empty (rq_form rq) ''client_id'')
      (get_or_empty (rq_form rq) ''redirect_uri'') ?code (dict_get (rq_form rq) ''code_verifier'') session scope"
    using exchange_updater_ok [OF store_invD(1) [OF inv0]] by blast
  then obtain c where "dict_get (authorizationCodes st) ?code = Some c" unfolding code_redeemable_def by blast
  from dict_allD [OF store_invD(2) [OF inv0] this] have iss: "issued ''code'' w0 ?code" by (simp add: code_ok_def)
  have run: "reach (broker_step sv) (bk_disk s1, bk_world s1) (bk_disk s2, bk_world s2)"
    using app_store_run [OF assms(7)] by (simp add: store_of_def)
  obtain st2 where st2: "bk_disk s2 = Some st2" "store_inv sv (bk_world s2) st2"
      "dict_get (authorizationCodes st2) ?code = None"
    using exchanged_code_gone [OF inv0 _ iss conf first run] assms(3) inj_later [OF l] by blast
  obtain w3 tk' where l3: "later (bk_world s2) w3"
    and second: "code_exchange sv rq' (bk_disk s2) w3 =
      (Inr (OAuthTokens tk'), bk_disk (snd (serve rq' (oauth_token sv rq') s2)), bk_world (snd (serve rq' (oauth_token sv rq') s2)))"
    by (rule token_answered [OF prod.collapse [symmetric] again assms(8)])
  note second = second [unfolded code_exchange_def]
  have code: "get_or_empty (rq_form rq') ''code'' = ?code" using assms(9) by (simp add: get_or_empty_def)
  from second st2(1) have "is_configured_client (sv_config sv) (get_or_empty (rq_form rq') ''client_id'')"
    by (simp add: exchange_tokens_iff)
  from exchange_absent [OF store_invD(1) [OF store_inv_later [OF st2(2) l3]] this st2(3)]
  show False using second unfolding st2(1) code by simp
qed

definition sample_token_request :: http_request where
  "sample_token_request = blank_request\<lparr>rq_form :=
     [(''grant_type'', ''authorization_code''), (''client_id'', ''c1''), (''redirect_uri'', ''https://app.example/cb''),
      (''code'', ''code_x''), (''code_verifier'', sample_verifier)]\<rparr>"

lemma sample_form: "rq_form sample_token_request =
     [(''grant_type'', ''authorization_code''), (''client_id'', ''c1''), (''redirect_uri'', ''https://app.example/cb''),
      (''code'', ''code_x''), (''code_verifier'', sample_verifier)]"
  by (simp add: sample_token_request_def blank_request_def)

lemma sample_token_answer:
  "rp_status (fst (serve sample_token_request (oauth_token sample_service sample_token_request) sample_app)) = 200"
proof -
  let ?w = "sample_world\<lparr>ticks := Suc (ticks sample_world)\<rparr>"
  obtain l where rate: "consume (bk_limiter sample_app)
      (''oauth_token:'' @ client_host sample_token_request (sv_config sample_service)) (bk_world sample_app) =
      (\<lparr>allowed = True, retry_after_ms = 0\<rparr>, l, ?w)"
    using fresh_consume unfolding sample_app_sel unfolding sample_app_def by blast
  have red: "code_redeemable sample_service sample_store (now_of ?w) ''c1'' ''https://app.example/cb'' ''code_x''
      (Some sample_verifier) sample_session ''openid''"
    using sample_redeemable by (simp add: code_redeemable_def sample_store_def sample_code_def sample_world_def)
  have ok: "cipher_ok (sv_cipher sample_service)" by (simp add: sample_service_def)
  have same: "code_exchange sample_service sample_token_request = exchange_authorization_code sample_service ''c1''
      ''https://app.example/cb'' ''code_x'' (Some sample_verifier)"
    by (simp add: code_exchange_def sample_form get_or_empty_def)
  obtain tk d w' where run: "code_exchange sample_service sample_token_request (Some sample_store) ?w =
      (Inr (OAuthTokens tk), d, w')"
    unfolding same by (rule exchange_success [OF sample_wf ok sample_plain sample_client red])
  have "dict_get (rq_form sample_token_request) ''grant_type'' = Some ''authorization_code''" by (simp add: sample_form)
  from token_run [OF rate this, unfolded sample_app_sel, OF run]
  show ?thesis by (simp add: serve_def oauth_response_def json_response_def)
qed

theorem token_endpoint_once_witness:
  "rp_status (fst (serve sample_token_request (oauth_token sample_service sample_token_request)
     (snd (serve sample_token_request (oauth_token sample_service sample_token_request) sample_app)))) \<noteq> 200"
  by (rule token_endpoint_once [OF _ sample_inv sample_rand_inj prod.collapse [symmetric] sample_token_answer _ reach_refl])
    (simp_all add: store_of_def sample_form)

section \<open>Requests to other hosts\<close>

text \<open>C25. Whatever requests are served, with whatever tenant, asset or export URLs in them, and
  whatever the resolver and the other servers answer: every request the broker sends goes over https
  to an address it has checked, which is no loopback, private, link-local, shared, reserved or
  multicast address, and the server is authenticated under the host name of the URL.\<close>

theorem requests_stay_public:
  assumes "reach (app_step sv) s s'" and "nt_sent (bk_net s) = []" and "c \<in> set (nt_sent (bk_net s'))"
  shows "hu_scheme (pn_url (hc_to c)) = ''https'' \<and> hc_sni c = hu_raw_host (pn_url (hc_to c)) \<and>
    (\<exists>ip. parse_ip_address (pn_address (hc_to c)) = Some ip \<and> \<not> ip_is_blocked ip \<and>
      (\<forall>n lo hi. \<not> (ip = IPv4 n \<and> (lo, hi) \<in> set v4_internal_ranges \<and> lo \<le> n \<and> n \<le> hi)))"
proof -
  have "pinned_call c"
    using app_net_run [OF assms(1)] assms(2,3) by (auto simp: net_ahead_def list_all_iff)
  then show ?thesis
    using v4_internal_blocked unfolding pinned_call_def public_address_def by metis
qed

definition sample_submit :: http_request where
  "sample_submit = blank_request\<lparr>rq_form :=
     [(''client_id'', ''c1''), (''redirect_uri'', ''https://app.example/cb''), (''response_type'', ''code''),
      (''state'', ''xyz''), (''code_challenge'', ''AAAAAAAAAAAAAAAAAAAAAAAAAAAAAAAAAAAAAAAAAAA''),
      (''tenant_url'', ''https://rs.example''), (''username'', ''ann''), (''password'', ''pw'')]\<rparr>"

definition sample_az :: authorize_request where
  "sample_az = \<lparr>az_client_id = ''c1'', az_redirect_uri = ''https://app.example/cb'', az_scope = ''openid dam:read'',
     az_state = ''xyz'', az_code_challenge = ''AAAAAAAAAAAAAAAAAAAAAAAAAAAAAAAAAAAAAAAAAAA'',
     az_code_challenge_method = ''S256''\<rparr>"

lemma sample_body: "authorize_body live_config sample_submit = rq_form sample_submit"
  by code_simp

lemma sample_validated: "validate_authorize live_config (rq_form sample_submit) = Inr sample_az"
  by code_simp

lemma sample_sends:
  "nt_sent (snd (authenticate live_config (Some ''https://rs.example'') ''ann'' ''pw'' (Some ''canva'') sample_net)) \<noteq> []"
  by code_simp

definition live_app :: app_state where
  "live_app = fresh_app live_config (Some sample_store) sample_world sample_net"

text \<open>What signing in with a password sends is what the authentication sends.\<close>

lemma complete_password_net:
  "bk_net (snd (complete_password sv rq body manual az s)) =
     snd (authenticate (sv_config sv) (dict_get body ''tenant_url'') (get_or_empty body ''username'')
       (get_or_empty body ''password'') (integration_for_client_id (sv_config sv) (az_client_id az)) (bk_net s))"
  by (simp add: complete_password_def password_authorization_def app_defs split: prod.splits sum.splits)

lemma authorise_net:
  assumes "consume (bk_limiter s) (''oauth_authorize:'' @ client_host rq (sv_config sv)) (bk_world s) = (r, l, w)"
    and "allowed r" and "validate_authorize (sv_config sv) body = Inr az"
    and "authorize_body (sv_config sv) rq = body" and "dict_get body ''auth_method'' = None"
  shows "bk_net (snd (serve rq (handle sv AuthoriseSubmit rq) s)) =
     snd (authenticate (sv_config sv) (dict_get body ''tenant_url'') (get_or_empty body ''username'')
       (get_or_empty body ''password'') (integration_for_client_id (sv_config sv) (az_client_id az)) (bk_net s))"
proof -
  have "py_lower (py_strip (str_or None ''password'')) \<noteq> ''sso''" by code_simp
  then have "handle sv AuthoriseSubmit rq s = complete_password sv rq body
      (should_use_manual_test_mode (sv_config sv) (rq_form rq)) az (s\<lparr>bk_limiter := l, bk_world := w\<rparr>)"
    by (simp only: handle_def endpoint.case oauth_authorize_post_def Let_def rate_limited_run [OF assms(1)] assms(2-5))
      (simp del: py_lower_def)
  then show ?thesis
    by (simp add: complete_password_net)
qed

theorem requests_stay_public_witness:
  "\<exists>c \<in> set (nt_sent (bk_net (snd (serve sample_submit (handle live_service AuthoriseSubmit sample_submit) live_app)))).
     hu_scheme (pn_url (hc_to c)) = ''https'' \<and> hc_sni c = hu_raw_host (pn_url (hc_to c))"
proof -
  have world: "bk_world live_app = sample_world" by (simp add: live_app_def fresh_app_def)
  obtain l where rate: "consume (bk_limiter live_app) (''oauth_authorize:'' @ client_host sample_submit (sv_config live_service))
      (bk_world live_app) = (\<lparr>allowed = True, retry_after_ms = 0\<rparr>, l, sample_world\<lparr>ticks := Suc (ticks sample_world)\<rparr>)"
    using fresh_consume unfolding world unfolding live_app_def by blast
  have cfg: "sv_config live_service = live_config" by (simp add: live_service_def)
  have form: "dict_get (rq_form sample_submit) ''auth_method'' = None" "dict_get (rq_form sample_submit) ''tenant_url'' = Some ''https://rs.example''"
    "get_or_empty (rq_form sample_submit) ''username'' = ''ann''" "get_or_empty (rq_form sample_submit) ''password'' = ''pw''"
    by (simp_all add: sample_submit_def blank_request_def get_or_empty_def)
  have integration: "integration_for_client_id live_config (az_client_id sample_az) = Some ''canva''"
    by (simp add: integration_for_client_id_def live_config_def sample_config_def sample_az_def)
  have "nt_sent (bk_net (snd (serve sample_submit (handle live_service AuthoriseSubmit sample_submit) live_app))) \<noteq> []"
    using sample_sends authorise_net [OF rate _ _ _ form(1), unfolded cfg, OF _ sample_validated sample_body]
    by (simp add: form integration live_app_def fresh_app_def)
  then obtain c where c: "c \<in> set (nt_sent (bk_net (snd (serve sample_submit (handle live_service AuthoriseSubmit sample_submit) live_app))))"
    by (meson last_in_set)
  have "nt_sent (bk_net live_app) = []" by (simp add: live_app_def fresh_app_def sample_net_def)
  from requests_stay_public [OF app_run_request this c] c show ?thesis by blast
qed

end
