(* ===== verification/Route_Properties.thy ===== *)
theory Route_Properties
  imports Http_Properties
begin

text \<open>
  Properties of the routes: which PKCE challenges are accepted, where a completed sign-in redirects
  to, what guards the content endpoints and the uninstall webhook.
\<close>

section \<open>PKCE challenges\<close>

lemma challenge_char_b64: "i < 64 \<Longrightarrow> challenge_char (b64url_char i)"
  by (erule sextet_cases) (auto simp: b64url_char_def challenge_char_def Let_def of_char_char_of)

text \<open>C28. A code challenge is accepted if and only if it is the unpadded URL-safe base64 of some 32
  bytes: exactly the texts that an S256 transformation can produce, and only in their canonical
  spelling.\<close>

theorem challenge_valid_iff:
  "is_valid_s256_code_challenge ch \<longleftrightarrow> (\<exists>digest. length digest = 32 \<and> ch = b64url_nopad digest)"
proof
  assume "is_valid_s256_code_challenge ch"
  then show "\<exists>digest. length digest = 32 \<and> ch = b64url_nopad digest"
    by (auto simp: is_valid_s256_code_challenge_def split: option.splits)
next
  assume "\<exists>digest. length digest = 32 \<and> ch = b64url_nopad digest"
  then obtain digest where d: "length digest = 32" "ch = b64url_nopad digest" by blast
  then have "length ch = 43" by (simp add: length_b64url_digest)
  moreover have "list_all challenge_char ch"
    unfolding d(2) b64url_nopad_body list_all_iff using b64_body_chars challenge_char_b64 by blast
  ultimately show "is_valid_s256_code_challenge ch"
    using d by (simp add: is_valid_s256_code_challenge_def b64url_roundtrip)
qed

section \<open>Where a sign-in redirects to\<close>

lemma validate_authorize_ok:
  assumes "validate_authorize cfg body = Inr az"
  shows "is_oauth_client_allowed cfg (az_client_id az)"
    and "is_redirect_uri_allowed cfg (az_client_id az) (az_redirect_uri az)"
    and "is_valid_s256_code_challenge (az_code_challenge az)" and "az_code_challenge_method az = ''S256''"
    and "length (az_state az) \<le> MAX_STATE_LEN" and "length (az_scope az) \<le> MAX_SCOPE_LEN"
  using assms by (auto simp: validate_authorize_def Let_def split: if_splits)

lemma validate_authorize_refused:
  "validate_authorize cfg body = Inl response \<Longrightarrow> \<exists>c m. response = json_error 400 c m []"
  by (auto simp: validate_authorize_def Let_def split: if_splits)

lemma json_error_body [simp]: "rp_body (json_error st c m h) \<noteq> RedirectTo url"
  by (simp add: json_error_def json_response_def)

lemma error_page_body [simp]: "rp_body (error_page cfg rq body manual e) \<noteq> RedirectTo url"
  by (simp add: error_page_def page_response_def)

lemma password_authorization_minted:
  assumes "password_authorization sv body az s = (Inr code, s')"
  obtains st' c where "bk_disk s' = Some st'" and "dict_get (authorizationCodes st') code = Some c"
    and "ac_clientId c = az_client_id az" and "ac_redirectUri c = az_redirect_uri az" and "ac_scope c = az_scope az"
    and "ac_codeChallenge c = Some (az_code_challenge az)"
proof -
  obtain session n where auth: "authenticate (sv_config sv) (dict_get body ''tenant_url'') (get_or_empty body ''username'')
      (get_or_empty body ''password'') (integration_for_client_id (sv_config sv) (az_client_id az)) (bk_net s) = (session, n)"
    by (metis prod.exhaust)
  with assms obtain x where x: "session = Inr x"
    by (cases session) (auto simp: password_authorization_def on_store_def begin_authorization_def)
  obtain d w where run: "store_update (mint_updater sv (az_client_id az) (az_redirect_uri az) (az_scope az)
        (Some (az_code_challenge az)) (Some (az_code_challenge_method az))
        (stamp_broker_session_metadata x (az_client_id az) (integration_for_client_id (sv_config sv) (az_client_id az))))
      (bk_disk s) (bk_world s) = (Inr code, d, w)" and s': "bk_disk s' = d"
    using assms auth x
    by (auto simp: password_authorization_def on_store_def begin_authorization_def Let_def split: prod.splits)
  obtain st where st: "bk_disk s = Some st" using run by (cases "bk_disk s") auto
  obtain st' where mint: "mint_authorization_code sv (az_client_id az) (az_redirect_uri az) (az_scope az)
        (Some (az_code_challenge az)) (Some (az_code_challenge_method az))
        (stamp_broker_session_metadata x (az_client_id az) (integration_for_client_id (sv_config sv) (az_client_id az)))
      st (bk_world s) = (code, st', w)" and d: "d = Some st'"
    using run by (auto simp: st store_update_Some mint_updater_def split: prod.splits)
  from mint show thesis
    by (rule mint_effect) (use that [of st'] s' d in \<open>simp add: update_conv'\<close>)
qed

lemma complete_password_redirect:
  assumes "complete_password sv rq body manual az s = (r, s')" and "r = Inr resp" and "rp_body resp = RedirectTo target"
  obtains code s0 where "password_authorization sv body az s = (Inr code, s0)" and "bk_disk s' = bk_disk s0"
    and "append_query (az_redirect_uri az) [(''code'', code), (''state'', az_state az)] = Inr target"
  using assms
  by (auto simp: complete_password_def redirect_response_def op_defs log_op_def split: prod.splits sum.splits)

lemma authorize_post_run:
  assumes "consume (bk_limiter s) (''oauth_authorize:'' @ client_host rq (sv_config sv)) (bk_world s) = (r, l, w)"
    and "allowed r" and "validate_authorize (sv_config sv) (authorize_body (sv_config sv) rq) = Inr az"
    and "py_lower (py_strip (str_or (dict_get (authorize_body (sv_config sv) rq) ''auth_method'') ''password'')) \<noteq> ''sso''"
  shows "oauth_authorize_post sv rq s = complete_password sv rq (authorize_body (sv_config sv) rq)
      (should_use_manual_test_mode (sv_config sv) (rq_form rq)) az (s\<lparr>bk_limiter := l, bk_world := w\<rparr>)"
  by (simp only: oauth_authorize_post_def Let_def rate_limited_run [OF assms(1)] assms sum.case not_True_eq_False if_False)

text \<open>C29. When the submission of the authorize page is answered with a redirect of a password sign-in,
  the request was valid, the client is configured and the redirect URI is allowed for it, a code
  bound to client, URI, scope and challenge is in the store, and the target differs from the redirect
  URI in its query only: that one holds the old pairs, then the code and the state of the request.\<close>

theorem authorise_redirects_to_registered:
  assumes "serve rq (oauth_authorize_post sv rq) s = (resp, s')" and "rp_body resp = RedirectTo target"
    and "py_lower (py_strip (str_or (dict_get (authorize_body (sv_config sv) rq) ''auth_method'') ''password'')) \<noteq> ''sso''"
  shows "\<exists>az code st' c. validate_authorize (sv_config sv) (authorize_body (sv_config sv) rq) = Inr az \<and>
    is_redirect_uri_allowed (sv_config sv) (az_client_id az) (az_redirect_uri az) \<and>
    bk_disk s' = Some st' \<and> dict_get (authorizationCodes st') code = Some c \<and>
    ac_clientId c = az_client_id az \<and> ac_redirectUri c = az_redirect_uri az \<and> ac_scope c = az_scope az \<and>
    ac_codeChallenge c = Some (az_code_challenge az) \<and>
    (\<forall>p. urlparse (az_redirect_uri az) = Inr p \<and> ur_netloc p \<noteq> [] \<longrightarrow>
      (\<exists>q. urlparse target = Inr (p\<lparr>ur_query := q\<rparr>) \<and>
        parse_qsl q = parse_qsl (ur_query p) @ [(utf8 ''code'', utf8 code), (utf8 ''state'', utf8 (az_state az))]))"
proof -
  obtain r l w where rate: "consume (bk_limiter s) (''oauth_authorize:'' @ client_host rq (sv_config sv)) (bk_world s) = (r, l, w)"
    by (metis prod.exhaust)
  have run: "oauth_authorize_post sv rq s = (Inr resp, s')"
    using assms(1,2) by (auto simp: serve_def json_response_def split: prod.splits sum.splits)
  note answered = run [unfolded oauth_authorize_post_def Let_def rate_limited_run [OF rate]]
  have ok: "allowed r" using answered assms(2) by (auto split: if_splits)
  let ?body = "authorize_body (sv_config sv) rq"
  obtain az where az: "validate_authorize (sv_config sv) ?body = Inr az"
  proof (cases "validate_authorize (sv_config sv) ?body")
    case (Inl response)
    with answered ok have "resp = response" by (simp add: op_return_def)
    with assms(2) validate_authorize_refused [OF Inl] show ?thesis by auto
  qed
  have "complete_password sv rq ?body (should_use_manual_test_mode (sv_config sv) (rq_form rq)) az
      (s\<lparr>bk_limiter := l, bk_world := w\<rparr>) = (Inr resp, s')"
    using run authorize_post_run [OF rate ok az assms(3)] by simp
  from complete_password_redirect [OF this refl assms(2)] obtain code s0 where
      minted: "password_authorization sv ?body az (s\<lparr>bk_limiter := l, bk_world := w\<rparr>) = (Inr code, s0)"
    and s': "bk_disk s' = bk_disk s0"
    and target: "append_query (az_redirect_uri az) [(''code'', code), (''state'', az_state az)] = Inr target" by blast
  have "\<exists>q. urlparse target = Inr (p\<lparr>ur_query := q\<rparr>) \<and>
      parse_qsl q = parse_qsl (ur_query p) @ [(utf8 ''code'', utf8 code), (utf8 ''state'', utf8 (az_state az))]"
    if "urlparse (az_redirect_uri az) = Inr p \<and> ur_netloc p \<noteq> []" for p
    using append_query_spec [of "az_redirect_uri az" p "[(''code'', code), (''state'', az_state az)]"] that target by auto
  moreover from minted obtain st' c where "bk_disk s' = Some st'" "dict_get (authorizationCodes st') code = Some c"
      "ac_clientId c = az_client_id az" "ac_redirectUri c = az_redirect_uri az" "ac_scope c = az_scope az"
      "ac_codeChallenge c = Some (az_code_challenge az)"
    unfolding s' by (rule password_authorization_minted)
  ultimately show ?thesis using az validate_authorize_ok(2) [OF az] by blast
qed

definition sample_login :: http_request where
  "sample_login = blank_request\<lparr>rq_form :=
     [(''client_id'', ''c1''), (''redirect_uri'', ''https://app.example/cb''), (''response_type'', ''code''),
      (''state'', ''xyz''), (''code_challenge'', ''AAAAAAAAAAAAAAAAAAAAAAAAAAAAAAAAAAAAAAAAAAA''),
      (''tenant_url'', ''https://acme.demo.resourcespace.local''), (''username'', ''alice''),
      (''password'', ''alice-password'')]\<rparr>"

lemma sample_login_steps:
  "authorize_body sample_config sample_login = rq_form sample_login"
  "validate_authorize sample_config (rq_form sample_login) = Inr sample_az"
  "py_lower (py_strip (str_or (dict_get (rq_form sample_login) ''auth_method'') ''password'')) \<noteq> ''sso''"
  "case fst (authenticate sample_config (dict_get (rq_form sample_login) ''tenant_url'')
       (get_or_empty (rq_form sample_login) ''username'') (get_or_empty (rq_form sample_login) ''password'')
       (integration_for_client_id sample_config (az_client_id sample_az)) sample_net) of Inr x \<Rightarrow> True | Inl e \<Rightarrow> False"
  "case urlparse (tenant_for_log (rq_form sample_login)) of Inr x \<Rightarrow> True | Inl e \<Rightarrow> False"
  "case urlparse (az_redirect_uri sample_az) of Inr p \<Rightarrow> ur_netloc p \<noteq> [] | Inl e \<Rightarrow> False"
  by code_simp+

lemma password_authorization_returns:
  assumes "case fst (authenticate (sv_config sv) (dict_get body ''tenant_url'') (get_or_empty body ''username'')
       (get_or_empty body ''password'') (integration_for_client_id (sv_config sv) (az_client_id az)) (bk_net s)) of
       Inr x \<Rightarrow> True | Inl e \<Rightarrow> False"
    and "bk_disk s = Some st"
  obtains code s' where "password_authorization sv body az s = (Inr code, s')"
proof -
  let ?a = "authenticate (sv_config sv) (dict_get body ''tenant_url'') (get_or_empty body ''username'')
       (get_or_empty body ''password'') (integration_for_client_id (sv_config sv) (az_client_id az)) (bk_net s)"
  from assms(1) obtain session n where "?a = (Inr session, n)" by (cases ?a) (auto split: sum.splits)
  moreover obtain code st' w' where "mint_authorization_code sv (az_client_id az) (az_redirect_uri az) (az_scope az)
      (Some (az_code_challenge az)) (Some (az_code_challenge_method az))
      (stamp_broker_session_metadata session (az_client_id az) (integration_for_client_id (sv_config sv) (az_client_id az)))
      st (bk_world s) = (code, st', w')" by (rule prod_cases3)
  ultimately show ?thesis
    using assms(2) that
    by (simp add: password_authorization_def on_net_def on_store_def op_defs begin_authorization_def Let_def
        store_update_Some mint_updater_def)
qed

theorem authorise_redirects_to_registered_witness:
  "\<exists>target (az :: authorize_request). rp_body (fst (serve sample_login (oauth_authorize_post sample_service sample_login) sample_app)) = RedirectTo target \<and>
    is_redirect_uri_allowed (sv_config sample_service) (az_client_id az) (az_redirect_uri az)"
proof -
  have cfg: "sv_config sample_service = sample_config" by (simp add: sample_service_def)
  note steps = sample_login_steps [folded cfg]
  obtain l where rate: "consume (bk_limiter sample_app)
      (''oauth_authorize:'' @ client_host sample_login (sv_config sample_service)) (bk_world sample_app) =
      (\<lparr>allowed = True, retry_after_ms = 0\<rparr>, l, sample_world\<lparr>ticks := Suc (ticks sample_world)\<rparr>)"
    using fresh_consume unfolding sample_app_sel unfolding sample_app_def by blast
  let ?s = "sample_app\<lparr>bk_limiter := l, bk_world := sample_world\<lparr>ticks := Suc (ticks sample_world)\<rparr>\<rparr>"
  obtain code s' where minted: "password_authorization sample_service (rq_form sample_login) sample_az ?s = (Inr code, s')"
    by (rule password_authorization_returns [of sample_service "rq_form sample_login" sample_az ?s sample_store])
      (use steps in simp_all)
  obtain target where target: "append_query (az_redirect_uri sample_az) [(''code'', code), (''state'', az_state sample_az)] = Inr target"
    using steps(6) by (auto simp: append_query_def split: sum.splits)
  obtain c where "complete_password sample_service sample_login (rq_form sample_login) m sample_az ?s =
      (Inr (redirect_response 302 target (cors_headers [])), s'\<lparr>bk_log := bk_log s' @ [c]\<rparr>)" for m
    using minted steps(5) target by (simp add: complete_password_def op_defs log_op_def split: sum.splits)
  with authorize_post_run [OF rate _ _ _, unfolded steps(1), OF _ steps(2,3)]
  have run: "serve sample_login (oauth_authorize_post sample_service sample_login) sample_app =
      (redirect_response 302 target (cors_headers []), s'\<lparr>bk_log := bk_log s' @ [c]\<rparr>)" by (simp add: serve_def)
  have body: "rp_body (redirect_response 302 target (cors_headers [])) = RedirectTo target"
    by (simp add: redirect_response_def)
  obtain az :: authorize_request where "is_redirect_uri_allowed (sv_config sample_service) (az_client_id az) (az_redirect_uri az)"
    using authorise_redirects_to_registered [OF run body steps(3) [folded steps(1)]]
    by (elim exE conjE) (erule that)
  then show ?thesis unfolding run fst_conv body by blast
qed

end
