(* ===== verification/Content_Properties.thy ===== *)
theory Content_Properties
  imports Route_Properties
begin

text \<open>
  Properties of the content endpoints: which token they ask for, the cursor of a page and what it is
  bound to, the progress of paging, and what a fixture user may see.
\<close>

section \<open>The cursor\<close>

lemma decode_cursor:
  assumes "\<bar>c\<bar> < 10 ^ 18" and "\<bar>a\<bar> < 10 ^ 18"
  shows "decode_continuation (JStr (encode_continuation (cursor_json key c a))) =
    Inr (Some \<lparr>cu_containerOffset = c, cu_assetOffset = a, cu_scopeKey = JStr key\<rparr>)"
proof -
  let ?t = "encode_continuation (cursor_json key c a)"
  have ok: "json_ok (cursor_json key c a)" by (rule cursor_ok [OF assms])
  then have t: "?t \<noteq> []" by (rule encode_continuation_nonempty)
  obtain raw where raw: "urlsafe_b64decode (?t @ b64_padding ?t) = Some raw"
      "Option.bind (utf8_decode raw) loads = Some (cursor_json key c a)"
    using decode_encode [OF ok [unfolded cursor_json_def], folded cursor_json_def]
    by (cases "urlsafe_b64decode (?t @ b64_padding ?t)") auto
  have int_or: "int_of_json (json_or (JInt n) (JInt 0)) = Inr n" for n
    by (simp add: json_or_def int_of_json_def)
  show ?thesis
    using raw t by (simp add: decode_continuation_def cursor_json_def json_get_def int_or)
qed

lemma scope_key_nonempty [simp]: "scope_key cid query sorting types \<noteq> []"
  by (simp add: scope_key_def)

text \<open>C34. A continuation resumes its listing and no other: presented with a request of the scope it was
  issued for (the same folder, query, order and types), it is read back as the two offsets that were
  encoded; with a request of any other scope the request is invalid.\<close>

theorem continuation_resumes:
  assumes "\<bar>c\<bar> < 10 ^ 18" and "\<bar>a\<bar> < 10 ^ 18" and "key \<noteq> []"
    and "parse_body raw = Inr (JObj body)"
    and "json_get body ''continuation'' = JStr (encode_continuation (cursor_json key c a))"
    and "int_of_json (json_or (json_get body ''limit'') (JInt 50)) = Inr limit"
    and "types = json_or (json_get body ''types'') (JArr [JStr ''IMAGE'', JStr ''CONTAINER''])"
    and "query = json_or (json_get body ''query'') (JStr [])"
    and "sorting = json_or (json_get body ''sort'') (JStr ''updated_desc'')"
  shows "read_find_request raw = Inr
    (if key = scope_key (json_get body ''containerId'') query sorting types
     then Some \<lparr>fr_types = types, fr_query = query, fr_sort = sorting, fr_container = json_get body ''containerId'',
       fr_limit = limit, fr_scope = key,
       fr_cursor = \<lparr>cu_containerOffset = c, cu_assetOffset = a, cu_scopeKey = JStr key\<rparr>\<rparr>
     else None)"
  using assms(3-9) by (simp add: read_find_request_def decode_cursor [OF assms(1,2)] Let_def)

definition sample_types :: json where
  "sample_types = JArr [JStr ''IMAGE'', JStr ''CONTAINER'']"

definition sample_scope :: string where
  "sample_scope = scope_key JNull (JStr []) (JStr ''updated_desc'') sample_types"

definition sample_cursor :: string where
  "sample_cursor = encode_continuation (cursor_json sample_scope 0 2)"

definition sample_listing :: "(string \<times> json) list" where
  "sample_listing = [(''limit'', JInt 2), (''continuation'', JStr sample_cursor)]"

lemma sample_listing_get:
  "json_get sample_listing ''limit'' = JInt 2" "json_get sample_listing ''continuation'' = JStr sample_cursor"
  "json_get sample_listing ''types'' = JNull" "json_get sample_listing ''query'' = JNull"
  "json_get sample_listing ''sort'' = JNull" "json_get sample_listing ''containerId'' = JNull"
  by (simp_all add: sample_listing_def json_get_def)

lemma json_or_null: "json_or JNull j = j"
  by (simp add: json_or_def)

theorem continuation_resumes_witness:
  "read_find_request (dumps (JObj sample_listing)) = Inr (Some
     \<lparr>fr_types = sample_types, fr_query = JStr [], fr_sort = JStr ''updated_desc'', fr_container = JNull, fr_limit = 2,
      fr_scope = sample_scope,
      fr_cursor = \<lparr>cu_containerOffset = 0, cu_assetOffset = 2, cu_scopeKey = JStr sample_scope\<rparr>\<rparr>)"
proof -
  have ok: "json_ok (JObj sample_listing)" using int_ok [of 2] by (simp add: sample_listing_def)
  obtain c cs where dumped: "dumps (JObj sample_listing) = c # cs" using ok by (rule dumps_first)
  with loads_dumps [OF ok] have body: "parse_body (dumps (JObj sample_listing)) = Inr (JObj sample_listing)"
    by (simp add: parse_body_def del: dumps.simps)
  have key: "sample_scope \<noteq> []" by (simp add: sample_scope_def)
  have limit: "int_of_json (json_or (JInt 2) (JInt 50)) = Inr 2" by (simp add: json_or_def int_of_json_def)
  show ?thesis
    using continuation_resumes [of 0 2 sample_scope, OF _ _ key body, unfolded sample_listing_get json_or_null,
        folded sample_types_def, OF _ _ arg_cong [OF sample_cursor_def] limit refl refl refl]
    by (simp add: sample_scope_def)
qed

section \<open>Paging\<close>

lemma op_bind_returned:
  "op_bind m f n = (Inr y, n') \<longleftrightarrow> (\<exists>x n1. m n = (Inr x, n1) \<and> f x n1 = (Inr y, n'))"
  by (auto simp: op_bind_def split: prod.splits sum.splits)

lemma op_lift_returned: "op_lift r n = (Inr x, n') \<longleftrightarrow> r = Inr x \<and> n' = n"
  by (auto simp: op_lift_def)

lemma op_return_returned: "op_return y n = (Inr x, n') \<longleftrightarrow> x = y \<and> n' = n"
  by (auto simp: op_return_def)

lemmas returned = op_bind_returned op_lift_returned op_return_returned

text \<open>The bounds are trivial for a live tenant; the fixtures have a fixed number of items.\<close>

definition container_bound :: "session \<Rightarrow> int \<Rightarrow> bool" where
  "container_bound s n \<longleftrightarrow> (fixture_mode s \<longrightarrow> n \<le> int (length CONTAINERS))"

definition asset_bound :: "session \<Rightarrow> int \<Rightarrow> int \<Rightarrow> bool" where
  "asset_bound s a n \<longleftrightarrow> (fixture_mode s \<longrightarrow> n \<le> max a (int (length ASSETS)))"

lemma fixture_containers_few:
  "list_fixture_containers s p = Inr cs \<Longrightarrow> length cs \<le> length CONTAINERS"
  by (auto simp: list_fixture_containers_def list_child_containers_def split: sum.splits)

lemma map_exn_length: "map_exn f xs = Inr ys \<Longrightarrow> length ys = length xs"
  by (induction xs arbitrary: ys) (auto split: sum.splits)

lemma name_filter_fewer:
  assumes "name_filter q cs = Inr ds"
  shows "length ds \<le> length cs"
proof -
  obtain named where "map_exn (\<lambda>c. case json_method (ci_name c) of Inl e \<Rightarrow> Inl e | Inr n \<Rightarrow> Inr (c, n)) cs = Inr named"
    and ds: "ds = map fst (filter (\<lambda>(c, n). substring (py_lower (py_strip q)) (py_lower n)) named)"
    using assms by (auto simp: name_filter_def split: sum.splits)
  then have "length named = length cs" by (rule_tac map_exn_length)
  then show ?thesis unfolding ds using length_filter_le [of _ named] by simp
qed

lemma find_containers_bound:
  assumes "find_containers s fr st = (Inr cs, st')"
  shows "container_bound s (int (length cs))"
proof -
  have "length cs \<le> length CONTAINERS" if "fixture_mode s"
  proof -
    have "cs = [] \<or> list_fixture_containers s (fr_container fr) = Inr cs \<or>
        search_fixture_containers s (fr_container fr) (fr_query fr) = Inr cs"
      using assms that
      by (auto simp: find_containers_def returned on_net_def list_containers_def search_containers_def
          split: if_splits prod.splits)
    then show ?thesis
      by (auto simp: search_fixture_containers_def split: sum.splits
          dest!: fixture_containers_few name_filter_fewer)
  qed
  then show ?thesis by (simp add: container_bound_def)
qed

lemma fixture_page_bound:
  assumes "list_fixture_assets s q cid a n srt = Inr page" and "0 \<le> a" and "0 \<le> n"
  shows "ap_total page \<le> int (length ASSETS)" and "a + int (ap_scanned page) \<le> max a (ap_total page)"
proof -
  obtain raw query where page: "page = (let visible = filter (\<lambda>x. fa_mimeType x \<in> set SUPPORTED_IMAGE_MIME_TYPES)
        (sort_assets (search_visible_assets (get_user_by_id (us_id (ss_user s))) query raw) srt);
      items = map build_fixture_asset (py_slice visible a (a + n))
      in \<lparr>ap_items = items, ap_total = int (length visible), ap_scanned = length items\<rparr>)"
    using assms(1) by (auto simp: list_fixture_assets_def Let_def split: sum.splits)
  have sorted: "length (sort_assets xs srt) = length xs" for xs by (simp add: sort_assets_def)
  have seen: "length (search_visible_assets u query raw) \<le> length ASSETS" for u
    unfolding search_visible_assets_def by (rule length_filter_le)
  have "length (filter P (sort_assets (search_visible_assets u query raw) srt)) \<le> length ASSETS" for P u
    by (rule order_trans [OF length_filter_le]) (simp only: sorted seen)
  then show "ap_total page \<le> int (length ASSETS)" by (simp add: page Let_def)
  have "a + int (length (py_slice xs a (a + n))) \<le> max a (int (length xs))" for xs :: "fx_asset list"
    using assms(2,3) by (simp add: py_slice_nonneg)
  then show "a + int (ap_scanned page) \<le> max a (ap_total page)" by (simp add: page Let_def)
qed

lemma find_images_progress:
  assumes "find_images sv s fr remaining st = (Inr (images, a', tot), st')" and "0 \<le> cu_assetOffset (fr_cursor fr)"
  shows "cu_assetOffset (fr_cursor fr) \<le> a'"
    and "0 < remaining \<Longrightarrow> a' < tot \<Longrightarrow> cu_assetOffset (fr_cursor fr) < a'"
    and "asset_bound s (cu_assetOffset (fr_cursor fr)) a'"
proof -
  let ?a = "cu_assetOffset (fr_cursor fr)"
  consider (page) page where "0 < remaining" "a' = advance_asset_offset ?a page (ap_total page)" "tot = ap_total page"
      "fixture_mode s \<Longrightarrow> list_fixture_assets s (fr_query fr) (fr_container fr) ?a remaining (fr_sort fr) = Inr page"
    | (cnt) "remaining \<le> 0" "a' = ?a" | (none) "a' = ?a" "tot = 0"
  proof (cases "0 < remaining")
    case True
    with assms(1) that(1,3) show ?thesis
      by (auto simp: find_images_def Let_def returned on_net_def list_assets_def split: if_splits prod.splits)
  next
    case False
    with assms(1) that(2) show ?thesis
      by (auto simp: find_images_def Let_def returned split: if_splits)
  qed
  then have "?a \<le> a' \<and> (0 < remaining \<and> a' < tot \<longrightarrow> ?a < a') \<and> asset_bound s ?a a'"
  proof cases
    case (page p)
    have "asset_bound s ?a a'"
    proof (cases "fixture_mode s")
      case True
      with page(1,4) assms(2) fixture_page_bound [of s "fr_query fr" "fr_container fr" ?a remaining "fr_sort fr" p]
      show ?thesis by (auto simp: page(2) asset_bound_def advance_asset_offset_def Let_def)
    qed (simp add: asset_bound_def)
    then show ?thesis using page(1-3) by (auto simp: advance_asset_offset_def Let_def)
  qed (use assms(2) in \<open>auto simp: asset_bound_def\<close>)
  then show "?a \<le> a'" "0 < remaining \<Longrightarrow> a' < tot \<Longrightarrow> ?a < a'" "asset_bound s ?a a'" by blast+
qed

text \<open>One page: where the next one would start, and that it would start later.\<close>

lemma find_page_progress:
  assumes "find_page sv s fr st = (Inr body, st')" and "1 \<le> fr_limit fr"
    and "0 \<le> cu_containerOffset (fr_cursor fr)" and "0 \<le> cu_assetOffset (fr_cursor fr)"
  obtains resources c' cnt a' tot where
    "body = success_page resources (next_continuation fr c' cnt a' tot)"
    and "cu_containerOffset (fr_cursor fr) \<le> c'" and "c' \<le> max (cu_containerOffset (fr_cursor fr)) cnt"
    and "cu_assetOffset (fr_cursor fr) \<le> a'"
    and "c' < cnt \<or> a' < tot \<longrightarrow> cu_containerOffset (fr_cursor fr) + cu_assetOffset (fr_cursor fr) < c' + a'"
    and "container_bound s cnt" and "asset_bound s (cu_assetOffset (fr_cursor fr)) a'"
proof -
  let ?c = "cu_containerOffset (fr_cursor fr)" and ?a = "cu_assetOffset (fr_cursor fr)"
  obtain containers s1 where found: "find_containers s fr st = (Inr containers, s1)"
    and rest: "op_bind (find_images sv s fr (fr_limit fr - int (length (py_slice containers ?c (?c + fr_limit fr)))))
      (\<lambda>(images, asset_offset, asset_total).
        op_return (success_page (map container_json (py_slice containers ?c (?c + fr_limit fr)) @ images)
          (next_continuation fr (?c + int (length (py_slice containers ?c (?c + fr_limit fr)))) (int (length containers))
            asset_offset asset_total))) s1 = (Inr body, st')"
    using assms(1) by (auto simp: find_page_def op_bind_returned op_lift_returned Let_def)
  define k where "k = int (length (py_slice containers ?c (?c + fr_limit fr)))"
  have k: "k = min (fr_limit fr) (max 0 (int (length containers) - ?c))"
    using assms(2,3) unfolding k_def by (subst py_slice_nonneg) auto
  from rest obtain images a' tot where images: "find_images sv s fr (fr_limit fr - k) s1 = (Inr (images, a', tot), st')"
    and body: "body = success_page (map container_json (py_slice containers ?c (?c + fr_limit fr)) @ images)
      (next_continuation fr (?c + k) (int (length containers)) a' tot)"
    unfolding k_def by (auto simp: op_bind_returned op_return_returned)
  note progress = find_images_progress [OF images assms(4)]
  have "?c + ?a < ?c + k + a'" if "?c + k < int (length containers) \<or> a' < tot"
    using that progress(1,2) assms(2) k by (cases "0 < k") (auto simp: min_def max_def split: if_splits)
  then show thesis
    using that [OF body, unfolded] progress(1,3) find_containers_bound [OF found] k assms(2) by auto
qed

lemma page_continuation:
  "json_field (success_page resources next_cursor) ''continuation'' =
     (if truthy_str next_cursor then JStr (the next_cursor) else JNull)"
  by (simp add: json_field_def success_page_def json_get_def)

lemma next_continuation_some:
  "truthy_str (next_continuation fr c' cnt a' tot) \<Longrightarrow> c' < cnt \<or> a' < tot"
  by (auto simp: next_continuation_def split: if_splits)

text \<open>C35. Paging makes progress: when a page of at least one item, started from offsets that are not
  negative, carries a continuation, that is a cursor of the same scope, both of its offsets are at least
  those the page started from, and one of them is larger. So no such listing can hand out the same page
  for ever. (A negative page size is accepted by the code, and its continuation need not advance.)\<close>

theorem paging_progress:
  assumes "find_page sv s fr st = (Inr body, st')" and "1 \<le> fr_limit fr"
    and "0 \<le> cu_containerOffset (fr_cursor fr)" and "0 \<le> cu_assetOffset (fr_cursor fr)"
    and "json_field body ''continuation'' = JStr next_cursor"
  shows "\<exists>c' a'. next_cursor = encode_continuation (cursor_json (fr_scope fr) c' a') \<and>
    cu_containerOffset (fr_cursor fr) \<le> c' \<and> cu_assetOffset (fr_cursor fr) \<le> a' \<and>
    cu_containerOffset (fr_cursor fr) + cu_assetOffset (fr_cursor fr) < c' + a'"
  using assms
  by (elim find_page_progress)
    (auto simp: page_continuation next_continuation_def truthy_str_def split: if_splits)

definition fixture_session_of_alice :: session where
  "fixture_session_of_alice = sample_session\<lparr>ss_tenant := (ss_tenant sample_session)\<lparr>tn_id := ''tenant_acme''\<rparr>,
     ss_user := (ss_user sample_session)\<lparr>us_id := ''user_alice''\<rparr>,
     ss_upstream := (ss_upstream sample_session)\<lparr>up_mode := ''fixture''\<rparr>\<rparr>"

definition sample_find :: find_request where
  "sample_find = \<lparr>fr_types = JArr [JStr ''CONTAINER''], fr_query = JStr [], fr_sort = JStr ''updated_desc'',
     fr_container = JStr ''fixture:container_acme_root'', fr_limit = 1, fr_scope = ''scope'',
     fr_cursor = \<lparr>cu_containerOffset = 0, cu_assetOffset = 0, cu_scopeKey = JNull\<rparr>\<rparr>"

lemma sample_find_body:
  "\<exists>resources. find_page sample_service fixture_session_of_alice sample_find sample_app =
    (Inr (success_page resources (Some (encode_continuation (cursor_json ''scope'' 1 0)))), sample_app)"
proof -
  have net: "sample_app\<lparr>bk_net := bk_net sample_app\<rparr> = sample_app" by simp
  have types: "json_contains (fr_types sample_find) ''IMAGE'' = Inr False"
      "json_contains (fr_types sample_find) ''CONTAINER'' = Inr True"
    by (simp_all add: json_contains_def sample_find_def)
  have mode: "fixture_mode fixture_session_of_alice" by (simp add: fixture_mode_def fixture_session_of_alice_def)
  have "case list_fixture_containers fixture_session_of_alice (fr_container sample_find) of
      Inr cs \<Rightarrow> length cs = 2 | Inl e \<Rightarrow> False" by code_simp
  then obtain x y where cs: "list_fixture_containers fixture_session_of_alice (fr_container sample_find) = Inr [x, y]"
    by (auto split: sum.splits simp: length_Suc_conv numeral_2_eq_2)
  show ?thesis
    by (simp add: find_page_def find_containers_def find_images_def types list_containers_def mode cs op_defs
        on_net_def net) (simp add: sample_find_def py_slice_def slice_index_def next_continuation_def, blast)
qed

theorem paging_progress_witness:
  "\<exists>c' a' body st'. find_page sample_service fixture_session_of_alice sample_find sample_app = (Inr body, st') \<and>
    json_field body ''continuation'' = JStr (encode_continuation (cursor_json ''scope'' c' a')) \<and> 0 < c' + a'"
proof -
  let ?text = "encode_continuation (cursor_json ''scope'' 1 0)"
  obtain resources where run: "find_page sample_service fixture_session_of_alice sample_find sample_app =
      (Inr (success_page resources (Some ?text)), sample_app)" using sample_find_body by blast
  have "?text \<noteq> []" by (intro encode_continuation_nonempty cursor_ok) simp_all
  then have field: "json_field (success_page resources (Some ?text)) ''continuation'' = JStr ?text"
    by (simp only: page_continuation truthy_str_def option.simps option.sel simp_thms if_True)
  have "1 \<le> fr_limit sample_find" and cur: "cu_containerOffset (fr_cursor sample_find) = 0"
      "cu_assetOffset (fr_cursor sample_find) = 0" "fr_scope sample_find = ''scope''"
    by (simp_all add: sample_find_def)
  from paging_progress [OF run this(1) _ _ field, unfolded cur] obtain c' a'
    where "?text = encode_continuation (cursor_json ''scope'' c' a')" "0 + 0 < c' + a'" by blast
  with run field show ?thesis by auto
qed

text \<open>The pages a client gets that follows the continuations, on fuel.\<close>

fun page_through :: "nat \<Rightarrow> auth_service \<Rightarrow> session \<Rightarrow> find_request \<Rightarrow> app_state \<Rightarrow> json list option" where
  "page_through 0 sv s fr st = None"
| "page_through (Suc n) sv s fr st =
     (case find_page sv s fr st of
        (Inl e, st') \<Rightarrow> Some []
      | (Inr body, st') \<Rightarrow>
          (case decode_continuation (json_field body ''continuation'') of
             Inr (Some cur) \<Rightarrow>
               if json_field body ''continuation'' = JNull then Some [body]
               else map_option (Cons body) (page_through n sv s (fr\<lparr>fr_cursor := cur\<rparr>) st')
           | _ \<Rightarrow> Some [body]))"

lemma fixture_sizes: "length CONTAINERS = 5" "length ASSETS = 6"
  by (simp_all add: CONTAINERS_def ASSETS_def)

lemma page_through_ends:
  assumes "fixture_mode s" and "1 \<le> fr_limit fr"
    and "0 \<le> cu_containerOffset (fr_cursor fr)" and "cu_containerOffset (fr_cursor fr) < 10 ^ 18"
    and "0 \<le> cu_assetOffset (fr_cursor fr)" and "cu_assetOffset (fr_cursor fr) < 10 ^ 18"
    and "nat (int (length CONTAINERS) - cu_containerOffset (fr_cursor fr)) +
      nat (int (length ASSETS) - cu_assetOffset (fr_cursor fr)) < n"
  shows "page_through n sv s fr st \<noteq> None"
  using assms
proof (induction n arbitrary: fr st)
  case (Suc n)
  let ?c = "cu_containerOffset (fr_cursor fr)" and ?a = "cu_assetOffset (fr_cursor fr)"
  obtain r st' where run: "find_page sv s fr st = (r, st')" by (cases "find_page sv s fr st")
  show ?case
  proof (cases r)
    case (Inr body)
    obtain resources c' cnt a' tot where page: "body = success_page resources (next_continuation fr c' cnt a' tot)"
      and c: "?c \<le> c'" "c' \<le> max ?c cnt" and a: "?a \<le> a'"
      and more: "c' < cnt \<or> a' < tot \<longrightarrow> ?c + ?a < c' + a'"
      and bounds: "container_bound s cnt" "asset_bound s ?a a'"
      by (rule find_page_progress [OF run [unfolded Inr] Suc.prems(2,3,5)])
    have le: "c' \<le> max ?c 5" "a' \<le> max ?a 6"
      using c(2) bounds Suc.prems(1) by (auto simp: container_bound_def asset_bound_def fixture_sizes)
    then have small: "\<bar>c'\<bar> < 10 ^ 18" "\<bar>a'\<bar> < 10 ^ 18" using Suc.prems(3-6) c(1) a by auto
    show ?thesis
    proof (cases "c' < cnt \<or> a' < tot")
      case False
      then have "json_field body ''continuation'' = JNull"
        by (simp add: page page_continuation next_continuation_def truthy_str_def)
      then show ?thesis by (simp add: run Inr split: sum.split option.split)
    next
      case True
      let ?text = "encode_continuation (cursor_json (fr_scope fr) c' a')"
      let ?cur = "\<lparr>cu_containerOffset = c', cu_assetOffset = a', cu_scopeKey = JStr (fr_scope fr)\<rparr>"
      have "?text \<noteq> []" by (intro encode_continuation_nonempty cursor_ok small)
      with True have field: "json_field body ''continuation'' = JStr ?text"
        by (simp add: page page_continuation next_continuation_def truthy_str_def)
      have "page_through n sv s (fr\<lparr>fr_cursor := ?cur\<rparr>) st' \<noteq> None"
        using Suc.prems mp [OF more True] le c(1) a small
        by (intro Suc.IH) (auto simp: fixture_sizes)
      then show ?thesis by (simp add: run Inr field decode_cursor [OF small])
    qed
  qed (simp add: run)
qed simp

text \<open>C36. Following the continuations of a fixture tenant ends: whatever is listed, with a page size of
  at least one, a client that starts at the beginning (both offsets zero) has the last page, or an error,
  after twelve pages at most.\<close>

theorem paging_ends:
  assumes "fixture_mode s" and "1 \<le> fr_limit fr"
    and "cu_containerOffset (fr_cursor fr) = 0" and "cu_assetOffset (fr_cursor fr) = 0"
  shows "page_through 12 sv s fr st \<noteq> None"
  by (rule page_through_ends) (use assms in \<open>simp_all add: fixture_sizes\<close>)

theorem paging_ends_witness:
  "page_through 12 sample_service fixture_session_of_alice sample_find sample_app \<noteq> None"
  by (rule paging_ends) (simp_all add: fixture_mode_def fixture_session_of_alice_def sample_find_def)

section \<open>What a fixture user may see\<close>

text \<open>An asset belongs to the user's tenant and is unrestricted, or restricted to users with this one among them.\<close>

definition visible_to :: "string \<Rightarrow> fx_asset \<Rightarrow> bool" where
  "visible_to user_id a \<longleftrightarrow> a \<in> set ASSETS \<and>
     (\<exists>u \<in> set USERS. fu_id u = user_id \<and> fu_tenantId u = fa_tenantId a \<and>
        (fa_restrictedTo a = [] \<or> user_id \<in> set (fa_restrictedTo a)))"

definition listable_by :: "string \<Rightarrow> fx_asset \<Rightarrow> bool" where
  "listable_by user_id a \<longleftrightarrow> visible_to user_id a \<and> fa_mimeType a \<in> set SUPPORTED_IMAGE_MIME_TYPES"

text \<open>The words of the search occur in the title, the summary or the path of the folder, up to case.\<close>

definition found_by :: "string \<Rightarrow> fx_asset \<Rightarrow> bool" where
  "found_by query a \<longleftrightarrow> py_lower (py_strip query) = [] \<or>
     substring (py_lower (py_strip query)) (py_lower (join_with '' '' (filter (\<lambda>s. s \<noteq> [])
       [fa_title a, fa_summary a, get_container_path (Some (fa_containerId a))])))"

lemma find_by_key: "distinct (map f xs) \<Longrightarrow> List.find (\<lambda>x. f x = k) xs = Some x \<longleftrightarrow> x \<in> set xs \<and> f x = k"
  by (induction xs) auto

lemma user_by_id: "get_user_by_id i = Some u \<longleftrightarrow> u \<in> set USERS \<and> fu_id u = i"
  unfolding get_user_by_id_def by (rule find_by_key) (simp add: USERS_def)

lemma asset_by_id: "get_asset_by_id i = Some a \<longleftrightarrow> a \<in> set ASSETS \<and> fa_id a = i"
  unfolding get_asset_by_id_def by (rule find_by_key) (simp add: ASSETS_def)

lemma can_see: "a \<in> set ASSETS \<Longrightarrow> can_user_see_asset (get_user_by_id i) a \<longleftrightarrow> visible_to i a"
proof (cases "get_user_by_id i")
  case None
  then have "\<not> (u \<in> set USERS \<and> fu_id u = i)" for u using user_by_id [of i u] by simp
  with None show ?thesis by (auto simp: can_user_see_asset_def visible_to_def)
next
  case (Some v)
  then have v: "v \<in> set USERS" "fu_id v = i" and only: "u \<in> set USERS \<Longrightarrow> fu_id u = i \<Longrightarrow> u = v" for u
    using user_by_id [of i v] user_by_id [of i u] by auto
  assume "a \<in> set ASSETS"
  then have "visible_to i a \<longleftrightarrow> fu_tenantId v = fa_tenantId a \<and> (fa_restrictedTo a = [] \<or> i \<in> set (fa_restrictedTo a))"
    unfolding visible_to_def using v only by blast
  then show ?thesis using v(2) by (simp add: Some can_user_see_asset_def)
qed

lemma search_set:
  "set (search_visible_assets (get_user_by_id i) query raw) =
     {a. visible_to i a \<and> found_by query a \<and> is_asset_in_container_subtree a raw}"
proof -
  have "search_visible_assets u query raw =
      filter (\<lambda>a. can_user_see_asset u a \<and> is_asset_in_container_subtree a raw \<and> found_by query a) ASSETS" for u
    unfolding search_visible_assets_def found_by_def Let_def by (rule refl)
  moreover have "a \<in> set ASSETS" if "visible_to i a" for a using that by (simp add: visible_to_def)
  ultimately show ?thesis using can_see by auto
qed

lemma fixture_listed:
  assumes "list_fixture_assets s query cid off limit srt = Inr page" and "item \<in> set (ap_items page)"
  shows "\<exists>a. listable_by (us_id (ss_user s)) a \<and> item = build_fixture_asset a"
proof -
  let ?seen = "search_visible_assets (get_user_by_id (us_id (ss_user s)))"
  from assms(1) obtain q raw where "ap_items page = map build_fixture_asset
      (py_slice (filter (\<lambda>a. fa_mimeType a \<in> set SUPPORTED_IMAGE_MIME_TYPES) (sort_assets (?seen q raw) srt)) off (off + limit))"
    by (auto simp: list_fixture_assets_def Let_def split: sum.splits)
  with assms(2) obtain a where "item = build_fixture_asset a"
      "a \<in> set (filter (\<lambda>a. fa_mimeType a \<in> set SUPPORTED_IMAGE_MIME_TYPES) (sort_assets (?seen q raw) srt))"
    by (auto simp: py_slice_def Let_def simp del: set_filter dest!: in_set_takeD in_set_dropD)
  then show ?thesis by (auto simp: search_set listable_by_def)
qed

text \<open>A page from the start that is large enough holds every asset that is found.\<close>

lemma fixture_listing_complete:
  assumes "container_ref decode_fixture_container_id cid = Inr raw" and "int (length ASSETS) \<le> limit"
  obtains page where "list_fixture_assets s (JStr q) cid 0 limit srt = Inr page"
    and "set (ap_items page) = build_fixture_asset `
      {a. listable_by (us_id (ss_user s)) a \<and> found_by q a \<and> is_asset_in_container_subtree a raw}"
proof -
  let ?found = "search_visible_assets (get_user_by_id (us_id (ss_user s))) q raw"
  let ?shown = "filter (\<lambda>a. fa_mimeType a \<in> set SUPPORTED_IMAGE_MIME_TYPES) (sort_assets ?found srt)"
  have "length ?shown \<le> length (sort_assets ?found srt)" by (rule length_filter_le)
  also have "\<dots> = length ?found" by (simp add: sort_assets_def)
  also have "\<dots> \<le> length ASSETS" by (simp only: search_visible_assets_def length_filter_le)
  finally have "length ?shown \<le> nat limit" using assms(2) by linarith
  then have "py_slice ?shown 0 (0 + limit) = ?shown" using assms(2) by (subst py_slice_nonneg) simp_all
  moreover have "set ?shown =
      {a. listable_by (us_id (ss_user s)) a \<and> found_by q a \<and> is_asset_in_container_subtree a raw}"
    by (auto simp: search_set listable_by_def)
  moreover define page where "page = \<lparr>ap_items = map build_fixture_asset (py_slice ?shown 0 (0 + limit)),
      ap_total = int (length ?shown), ap_scanned = length (map build_fixture_asset (py_slice ?shown 0 (0 + limit)))\<rparr>"
  moreover have "list_fixture_assets s (JStr q) cid 0 limit srt = Inr page"
    by (simp add: list_fixture_assets_def assms(1) json_method_def page_def Let_def)
  ultimately show thesis by (intro that [of page]) (simp_all only: asset_page.simps set_map)
qed

lemma titles_found: "a \<in> set ASSETS \<Longrightarrow> found_by (fa_title a) a"
proof -
  have "list_all (\<lambda>a. found_by (fa_title a) a) ASSETS" by code_simp
  then show "a \<in> set ASSETS \<Longrightarrow> found_by (fa_title a) a" by (simp add: list_all_iff)
qed

definition fixture_download :: "fx_asset \<Rightarrow> download" where
  "fixture_download a = \<lparr>dl_source = FixtureSource (fa_id a) ''full'' (fa_mimeType a) (int (fa_width a)) (int (fa_height a)),
     dl_mimeType = fa_mimeType a, dl_filename = fa_filename a\<rparr>"

lemma fixture_downloaded:
  "get_fixture_download_source s asset_id = Inr d \<longleftrightarrow>
     (\<exists>a. visible_to (us_id (ss_user s)) a \<and> fa_id a = asset_id \<and> fa_tenantId a = tn_id (ss_tenant s) \<and>
        is_asset_importable a \<and> d = fixture_download a)"
proof (cases "get_asset_by_id asset_id")
  case None
  then have "\<not> (a \<in> set ASSETS \<and> fa_id a = asset_id)" for a using asset_by_id [of asset_id a] by simp
  with None show ?thesis by (auto simp: get_fixture_download_source_def visible_to_def)
next
  case (Some a)
  then have a: "a \<in> set ASSETS" "fa_id a = asset_id" by (simp_all add: asset_by_id)
  have unique: "b = a" if "b \<in> set ASSETS" "fa_id b = asset_id" for b
    using that Some asset_by_id [of asset_id b] by simp
  have seen: "list_ex (\<lambda>e. fa_id e = asset_id) (search_visible_assets (get_user_by_id (us_id (ss_user s))) (fa_title a) None) \<longleftrightarrow>
      visible_to (us_id (ss_user s)) a"
  proof -
    have "visible_to (us_id (ss_user s)) b \<Longrightarrow> b \<in> set ASSETS" "is_asset_in_container_subtree b None" for b
      by (simp_all add: visible_to_def is_asset_in_container_subtree_def)
    then show ?thesis
      unfolding list_ex_iff search_set using a unique titles_found [OF a(1)] by blast
  qed
  have "(\<exists>b. visible_to (us_id (ss_user s)) b \<and> fa_id b = asset_id \<and> fa_tenantId b = tn_id (ss_tenant s) \<and>
        is_asset_importable b \<and> d = fixture_download b) \<longleftrightarrow>
      visible_to (us_id (ss_user s)) a \<and> fa_tenantId a = tn_id (ss_tenant s) \<and> is_asset_importable a \<and> d = fixture_download a"
    using a unique unfolding visible_to_def by blast
  moreover have "get_fixture_download_source s asset_id = Inr d \<longleftrightarrow>
      visible_to (us_id (ss_user s)) a \<and> fa_tenantId a = tn_id (ss_tenant s) \<and> is_asset_importable a \<and> d = fixture_download a"
    using a(2) by (auto simp: get_fixture_download_source_def Some seen fixture_download_def Let_def)
  ultimately show ?thesis by simp
qed

text \<open>C33. A fixture session reaches exactly what its user may see. Visible are the assets of the user's
  tenant that are unrestricted, or restricted to users with this one among them. Whatever is asked for,
  a listing shows visible assets of a supported image type only; and a page from the start that is as
  large as the collection shows every one of them that the search finds in the folder, so all of them
  when neither is given. A download is granted if and only if the asset is visible, belongs to the
  tenant of the session and is of a type that can be imported. (The scan in TIFF is visible, but neither
  listed nor importable.)\<close>

theorem fixture_visibility:
  assumes "fixture_mode s"
  defines "user \<equiv> us_id (ss_user s)"
  shows "(\<forall>page. fst (list_assets s query cid off limit srt n) = Inr page \<longrightarrow>
      set (ap_items page) \<subseteq> build_fixture_asset ` {a. listable_by user a}) \<and>
    (\<forall>raw. container_ref decode_fixture_container_id cid = Inr raw \<and> int (length ASSETS) \<le> limit \<longrightarrow>
      (\<exists>page. fst (list_assets s (JStr q) cid 0 limit srt n) = Inr page \<and>
        set (ap_items page) = build_fixture_asset `
          {a. listable_by user a \<and> found_by q a \<and> is_asset_in_container_subtree a raw})) \<and>
    (\<forall>d. fst (get_download_source s asset_id n) = Inr d \<longleftrightarrow>
      (\<exists>a. visible_to user a \<and> fa_id a = asset_id \<and> fa_tenantId a = tn_id (ss_tenant s) \<and>
        is_asset_importable a \<and> d = fixture_download a))"
proof (intro conjI allI impI subsetI)
  fix page item
  assume "fst (list_assets s query cid off limit srt n) = Inr page" and "item \<in> set (ap_items page)"
  then have "\<exists>a. listable_by user a \<and> item = build_fixture_asset a"
    using fixture_listed by (simp add: list_assets_def assms op_lift_def)
  then show "item \<in> build_fixture_asset ` {a. listable_by user a}" by blast
next
  fix raw
  assume "container_ref decode_fixture_container_id cid = Inr raw \<and> int (length ASSETS) \<le> limit"
  then obtain page where "list_fixture_assets s (JStr q) cid 0 limit srt = Inr page"
      "set (ap_items page) = build_fixture_asset ` {a. listable_by user a \<and> found_by q a \<and> is_asset_in_container_subtree a raw}"
    unfolding user_def by (metis fixture_listing_complete)
  then show "\<exists>page. fst (list_assets s (JStr q) cid 0 limit srt n) = Inr page \<and>
      set (ap_items page) = build_fixture_asset ` {a. listable_by user a \<and> found_by q a \<and> is_asset_in_container_subtree a raw}"
    by (simp add: list_assets_def assms(1) op_lift_def)
next
  fix d
  show "fst (get_download_source s asset_id n) = Inr d \<longleftrightarrow>
      (\<exists>a. visible_to user a \<and> fa_id a = asset_id \<and> fa_tenantId a = tn_id (ss_tenant s) \<and>
        is_asset_importable a \<and> d = fixture_download a)"
    using fixture_downloaded by (simp add: get_download_source_def assms op_lift_def)
qed

text \<open>Alice is shown the sheet that is restricted to her, and may download it.\<close>

lemma alice_sees: "\<exists>a. listable_by ''user_alice'' a \<and> visible_to ''user_alice'' a \<and> fa_id a = ''asset_confidential_strategy'' \<and>
    fa_tenantId a = ''tenant_acme'' \<and> is_asset_importable a"
proof -
  have "list_ex (\<lambda>a. fa_id a = ''asset_confidential_strategy'' \<and> fa_tenantId a = ''tenant_acme'' \<and>
      fa_restrictedTo a = [''user_alice''] \<and> fa_mimeType a = ''image/svg+xml'') ASSETS" by code_simp
  moreover have "list_ex (\<lambda>u. fu_id u = ''user_alice'' \<and> fu_tenantId u = ''tenant_acme'') USERS" by code_simp
  ultimately show ?thesis
    by (fastforce simp: list_ex_iff listable_by_def visible_to_def is_asset_importable_def
        SUPPORTED_IMAGE_MIME_TYPES_def SUPPORTED_IMPORT_MIME_TYPES_def)
qed

theorem fixture_visibility_witness:
  "\<exists>a page d. fa_id a = ''asset_confidential_strategy'' \<and>
     fst (list_assets fixture_session_of_alice (JStr []) JNull 0 6 JNull sample_net) = Inr page \<and>
     build_fixture_asset a \<in> set (ap_items page) \<and>
     fst (get_download_source fixture_session_of_alice ''asset_confidential_strategy'' sample_net) = Inr d"
proof -
  have mode: "fixture_mode fixture_session_of_alice" by (simp add: fixture_mode_def fixture_session_of_alice_def)
  have alice: "us_id (ss_user fixture_session_of_alice) = ''user_alice''" "tn_id (ss_tenant fixture_session_of_alice) = ''tenant_acme''"
    by (simp_all add: fixture_session_of_alice_def)
  obtain a where a: "listable_by ''user_alice'' a" "visible_to ''user_alice'' a" "fa_id a = ''asset_confidential_strategy''"
      "fa_tenantId a = ''tenant_acme''" "is_asset_importable a"
    using alice_sees by blast
  have none: "container_ref decode_fixture_container_id JNull = Inr None" by (simp add: container_ref_def)
  have found: "found_by [] a" "is_asset_in_container_subtree a None"
    by (simp_all add: found_by_def py_strip_def lstrip_def rstrip_def py_lower_def is_asset_in_container_subtree_def)
  note all = fixture_visibility [OF mode, where cid = JNull and limit = 6 and q = "[]" and srt = JNull
      and n = sample_net and asset_id = "''asset_confidential_strategy''", unfolded alice fixture_sizes]
  obtain page where page: "fst (list_assets fixture_session_of_alice (JStr []) JNull 0 6 JNull sample_net) = Inr page"
      "build_fixture_asset a \<in> set (ap_items page)"
    using conjunct1 [OF conjunct2 [OF all]] none found a(1) by force
  moreover have "fst (get_download_source fixture_session_of_alice ''asset_confidential_strategy'' sample_net) = Inr (fixture_download a)"
    using conjunct2 [OF conjunct2 [OF all]] a by blast
  ultimately show ?thesis using a(3) by blast
qed

end
