(* ===== verification/Guard_Properties.thy ===== *)
theory Guard_Properties
  imports Http_Properties Asset_Properties
begin

text \<open>
  Properties of what guards the broker: the token and its scope at the content endpoints, the link
  and the headers at the delivery of assets, the signature at the uninstall webhook, the address that
  the limits of sign-in go by, and the limiter itself.
\<close>

section \<open>Tokens at the content endpoints\<close>

text \<open>A handler did something beyond answering with a refusal.\<close>

definition answer_of :: "exn + http_response \<Rightarrow> http_response" where
  "answer_of r = (case r of Inr response \<Rightarrow> response
     | Inl e \<Rightarrow> json_response 500 (error_envelope ''INTERNAL_ERROR'' ''Unexpected server error.'') (cors_headers []))"

lemma fst_serve: "fst (serve rq handler s) = answer_of (fst (handler s))"
  by (simp add: serve_def answer_of_def split: prod.splits sum.splits)

definition acted :: "app_state \<Rightarrow> http_response \<Rightarrow> app_state \<Rightarrow> bool" where
  "acted s resp s' \<longleftrightarrow> rp_status resp = 200 \<or> bk_net s' \<noteq> bk_net s"

lemma rate_limited_acted:
  assumes "rate_limited key handler s = (r, s')" and "answer_of r = resp" and "acted s resp s'"
  obtains s0 where "handler s0 = (r, s')" and "bk_disk s0 = bk_disk s" and "bk_net s0 = bk_net s"
    and "later (bk_world s) (bk_world s0)"
proof -
  obtain q l w where rate: "consume (bk_limiter s) key (bk_world s) = (q, l, w)" by (metis prod.exhaust)
  have l: "later (bk_world s) w" using rate by (auto simp: consume_def later_def split: prod.splits)
  note run = assms(1) [unfolded rate_limited_run [OF rate]]
  have "allowed q"
  proof (rule ccontr)
    assume "\<not> allowed q"
    with run have "r = Inr (json_error 429 ''RATE_LIMITED'' ''Too many requests.''
        [(''Retry-After'', str_of_int (max 1 (retry_after_ms q div 1000)))])" "bk_net s' = bk_net s" by auto
    with assms(2,3) show False by (auto simp: acted_def answer_of_def json_error_def json_response_def)
  qed
  with run that [of "s\<lparr>bk_limiter := l, bk_world := w\<rparr>"] l show thesis by simp
qed

lemma with_scope_acted:
  assumes "with_scope sv rq scope logged handler s = (r, s')" and "answer_of r = resp" and "acted s resp s'"
  obtains token a d w where "read_bearer_token rq = Some token"
    and "read_access_token sv token (bk_disk s) (bk_world s) = (Inr (Some a), d, w)"
    and "token_has_scope (Some (at_scope a)) scope"
proof -
  have token: "truthy_str (read_bearer_token rq)"
    using assms by (auto simp: with_scope_def with_token_def Let_def auth_rejected_def app_defs acted_def answer_of_def
        json_error_def json_response_def split: if_splits)
  then obtain t where t: "read_bearer_token rq = Some t" by (auto simp: truthy_str_def split: option.splits)
  obtain x d w where read: "read_access_token sv t (bk_disk s) (bk_world s) = (x, d, w)" by (metis prod.exhaust)
  from token have run: "(case x of Inl e \<Rightarrow> (Inl e, s\<lparr>bk_disk := d, bk_world := w\<rparr>)
      | Inr None \<Rightarrow> op_bind (auth_rejected rq ''session_expired'' []) (\<lambda>_.
          op_return (json_error 401 ''SESSION_EXPIRED'' ''Access token is invalid or expired.'' [])) (s\<lparr>bk_disk := d, bk_world := w\<rparr>)
      | Inr (Some a) \<Rightarrow>
          (if \<not> token_has_scope (Some (at_scope a)) scope then
             op_bind (if logged then auth_rejected rq ''insufficient_scope'' [(''required'', LvStr scope)] else op_return ())
               (\<lambda>_. op_return (json_error 403 ''INSUFFICIENT_SCOPE'' (''Token is missing the '' @ scope @ '' scope.'') []))
           else handler (at_session a)) (s\<lparr>bk_disk := d, bk_world := w\<rparr>)) = (r, s')"
    using assms(1) by (auto simp: with_scope_def with_token_def Let_def t op_defs on_store_def read split: sum.splits option.splits)
  have "\<exists>a. x = Inr (Some a) \<and> token_has_scope (Some (at_scope a)) scope"
    using run assms(2,3)
    by (auto simp: acted_def answer_of_def json_error_def json_response_def app_defs auth_rejected_def
        split: sum.splits option.splits if_splits)
  then show thesis using that t read by blast
qed

text \<open>The scope that each content endpoint asks for.\<close>

definition content_scope :: "endpoint \<Rightarrow> string option" where
  "content_scope ep =
     (case ep of Find \<Rightarrow> Some ''dam:read'' | Upload \<Rightarrow> Some ''dam:write'' | DownloadUrl a \<Rightarrow> Some ''dam:read'' | _ \<Rightarrow> None)"

text \<open>C30. Nobody reaches the content of a tenant without an access token for it: when a content endpoint
  answers with success, or sends anything to the tenant at all, the request carries a bearer token
  that is in the store, unexpired and unrevoked at a moment of the request, of a configured client,
  with a session that opens, and its scope has the one the endpoint asks for.\<close>

theorem content_requires_token:
  assumes "serve rq (handle sv ep rq) s = (resp, s')" and "content_scope ep = Some scope"
    and "rp_status resp = 200 \<or> bk_net s' \<noteq> bk_net s"
    and "bk_disk s = Some st" and "wf_store st"
  shows "\<exists>token w r x. read_bearer_token rq = Some token \<and> later (bk_world s) w \<and>
    access_usable sv st (now_of w) token r x \<and> scope \<in> set (split_ws (at_scope r))"
proof -
  obtain r s1 where run: "handle sv ep rq s = (r, s1)" by (metis prod.exhaust)
  have resp: "answer_of r = resp" using assms(1) fst_serve [of rq "handle sv ep rq" s] run by simp
  have net: "bk_net s' = bk_net s1" using assms(1) run serve_keeps_parts(3) [of rq "handle sv ep rq" s] by simp
  obtain key handler logged where "handle sv ep rq = rate_limited key (with_scope sv rq scope logged handler)"
    using assms(2) by (cases ep) (auto simp: content_scope_def handle_def content_resources_find_def
        content_resources_upload_def content_resources_download_url_def)
  then have limited: "rate_limited key (with_scope sv rq scope logged handler) s = (r, s1)" using run by simp
  have acted: "acted s resp s1" using assms(3) by (simp add: acted_def net)
  obtain s0 where s0: "with_scope sv rq scope logged handler s0 = (r, s1)" "bk_disk s0 = bk_disk s" "bk_net s0 = bk_net s"
      "later (bk_world s) (bk_world s0)"
    by (rule rate_limited_acted [OF limited resp acted])
  have acted0: "acted s0 resp s1" using acted by (simp add: acted_def s0(3))
  obtain token a d w where token: "read_bearer_token rq = Some token"
    and read: "read_access_token sv token (bk_disk s0) (bk_world s0) = (Inr (Some a), d, w)"
    and scope: "token_has_scope (Some (at_scope a)) scope"
    by (rule with_scope_acted [OF s0(1) resp acted0])
  from read have "\<exists>d w. read_access_token sv token (Some st) (bk_world s0) = (Inr (Some a), d, w)"
    by (auto simp: s0(2) assms(4))
  then obtain r x where "access_usable sv st (now_of (bk_world s0)) token r x" "a = opened_access sv r x"
    unfolding read_access_iff [OF assms(5)] by blast
  with token scope s0(4) show ?thesis by (auto simp: scope_mem opened_access_def Let_def)
qed

definition dam_access :: access_record where
  "dam_access = sample_access\<lparr>at_scope := ''openid dam:read''\<rparr>"

definition dam_app :: app_state where
  "dam_app = sample_app\<lparr>bk_disk := Some (sample_store\<lparr>accessTokens := [(''at_xx'', dam_access)]\<rparr>)\<rparr>"

definition dam_body :: json where
  "dam_body = JObj [(''types'', JArr [JInt 0])]"

definition dam_request :: http_request where
  "dam_request = blank_request\<lparr>rq_headers := [(''authorization'', ''Bearer at_xx'')], rq_body := dumps dam_body\<rparr>"

lemma dam_disk: "bk_disk dam_app = Some (sample_store\<lparr>accessTokens := [(''at_xx'', dam_access)]\<rparr>)"
  by (simp add: dam_app_def)

lemma dam_wf: "wf_store (sample_store\<lparr>accessTokens := [(''at_xx'', dam_access)]\<rparr>)"
  using sample_wf by (simp add: wf_store_def wf_dict_def)

lemma dam_read:
  assumes "now_of w < 4600000"
  obtains a d w' where "read_access_token sample_service ''at_xx'' (bk_disk dam_app) w = (Inr (Some a), d, w')"
    and "at_scope a = ''openid dam:read''"
proof -
  have "is_configured_client (sv_config sample_service) ''c1''" by code_simp
  then have "access_usable sample_service (sample_store\<lparr>accessTokens := [(''at_xx'', dam_access)]\<rparr>) (now_of w) ''at_xx''
      dam_access sample_session"
    using assms sample_opens by (simp add: access_usable_def dam_access_def sample_access_def sample_service_def)
  then obtain d w' where "read_access_token sample_service ''at_xx'' (bk_disk dam_app) w =
      (Inr (Some (opened_access sample_service dam_access sample_session)), d, w')"
    using read_access_iff [OF dam_wf] unfolding dam_disk by blast
  then show thesis by (rule that) (simp add: opened_access_def dam_access_def Let_def)
qed

lemma dam_find:
  obtains fr where "read_find_request (dumps dam_body) = Inr (Some fr)" and "fr_types fr = JArr [JInt 0]"
proof -
  have ok: "json_ok dam_body" using int_ok [of 0] by (simp add: dam_body_def)
  obtain c cs where "dumps dam_body = c # cs" using ok by (rule dumps_first)
  with loads_dumps [OF ok] have body: "parse_body (dumps dam_body) = Inr dam_body"
    by (simp add: parse_body_def del: dumps.simps)
  have "\<exists>fr. read_find_request (dumps dam_body) = Inr (Some fr) \<and> fr_types fr = JArr [JInt 0]"
    by (simp add: read_find_request_def body)
      (simp add: dam_body_def json_get_def decode_continuation_def json_or_def int_of_json_def Let_def)
  with that show thesis by blast
qed

lemma find_answers: "rp_status (fst (serve dam_request (handle sample_service Find dam_request) dam_app)) = 200"
proof -
  obtain l where rate: "consume (bk_limiter dam_app) (''content_find:'' @ peer_or_unknown dam_request) (bk_world dam_app) =
      (\<lparr>allowed = True, retry_after_ms = 0\<rparr>, l, sample_world\<lparr>ticks := Suc (ticks sample_world)\<rparr>)"
    using fresh_consume [of sample_config "Some sample_store" sample_world sample_net]
    by (auto simp: dam_app_def sample_app_def fresh_app_def)
  let ?s = "dam_app\<lparr>bk_limiter := l, bk_world := sample_world\<lparr>ticks := Suc (ticks sample_world)\<rparr>\<rparr>"
  obtain a d w where read: "read_access_token sample_service ''at_xx'' (bk_disk dam_app) (bk_world ?s) = (Inr (Some a), d, w)"
    and scope: "at_scope a = ''openid dam:read''" by (rule dam_read [of "bk_world ?s"]) (simp add: sample_world_def)
  obtain fr where find: "read_find_request (dumps dam_body) = Inr (Some fr)" and types: "fr_types fr = JArr [JInt 0]"
    by (rule dam_find)
  have token: "read_bearer_token dam_request = Some ''at_xx''" by code_simp
  have body: "rq_body dam_request = dumps dam_body" by (simp add: dam_request_def)
  have has: "token_has_scope (Some (at_scope a)) ''dam:read''" unfolding scope by code_simp
  have "\<exists>page. find_page sample_service x fr st = (Inr page, st)" for x st
    by (simp add: find_page_def find_containers_def find_images_def types json_contains_def op_lift_def op_bind_def
        op_return_def Let_def)
  then obtain page where page: "find_page sample_service (at_session a) fr (dam_app\<lparr>bk_limiter := l, bk_disk := d, bk_world := w\<rparr>) =
      (Inr page, dam_app\<lparr>bk_limiter := l, bk_disk := d, bk_world := w\<rparr>)" by blast
  have "content_resources_find sample_service dam_request dam_app =
      (Inr (json_response 200 page (cors_headers [])), dam_app\<lparr>bk_limiter := l, bk_disk := d, bk_world := w\<rparr>)"
    unfolding content_resources_find_def rate_limited_run [OF rate] body
    using read by (simp add: with_scope_def with_token_def token truthy_str_def on_store_def has find page op_defs Let_def)
  then show ?thesis by (simp add: handle_def serve_def json_response_def)
qed

theorem content_requires_token_witness:
  "\<exists>r x w. access_usable sample_service (sample_store\<lparr>accessTokens := [(''at_xx'', dam_access)]\<rparr>) (now_of w) ''at_xx'' r x \<and>
    ''dam:read'' \<in> set (split_ws (at_scope r))"
proof -
  have token: "read_bearer_token dam_request = Some ''at_xx''" by code_simp
  have scope: "content_scope Find = Some ''dam:read''" by (simp add: content_scope_def)
  show ?thesis
    using content_requires_token [OF prod.collapse [symmetric] scope disjI1 [OF find_answers] dam_disk dam_wf]
    unfolding token by blast
qed

section \<open>Links to assets\<close>

definition sandbox_policy :: string where
  "sandbox_policy = ''default-src '' @ [CHR 0x27] @ ''none'' @ [CHR 0x27] @ ''; sandbox''"

text \<open>What a reader of a link gets of a grant, and how a browser is told to treat it.\<close>

definition delivered :: "app_config \<Rightarrow> asset_grant \<Rightarrow> http_response \<Rightarrow> bool" where
  "delivered cfg g resp \<longleftrightarrow>
     rp_status resp = 200 \<and>
     dict_get (rp_headers resp) ''X-Content-Type-Options'' = Some ''nosniff'' \<and>
     dict_get (rp_headers resp) ''Content-Security-Policy'' = Some sandbox_policy \<and>
     (case ag_source g of
        FixtureSource asset_id variant _ _ _ \<Rightarrow>
          (case get_asset_by_id asset_id of
             None \<Rightarrow> False
           | Some a \<Rightarrow> rp_body resp = BytesBody (utf8 (render_fixture_svg a variant)))
      | ProxySource _ _ \<Rightarrow>
          (case rp_body resp of
             BytesBody body \<Rightarrow>
               0 \<le> asset_proxy_max_bytes (resource_space cfg) \<longrightarrow>
               int (length body) \<le> asset_proxy_max_bytes (resource_space cfg)
           | _ \<Rightarrow> False) \<and>
          \<not> is_svg_content_type (dict_get (rp_headers resp) ''Content-Type''))"

lemma hardened:
  "dict_get (harden_asset_response_headers h t f b) ''X-Content-Type-Options'' = Some ''nosniff''"
  "dict_get (harden_asset_response_headers h t f b) ''Content-Security-Policy'' = Some sandbox_policy"
  by (simp_all add: harden_asset_response_headers_def sandbox_policy_def Let_def)

lemma octets_no_svg: "\<not> is_svg_content_type (Some ''application/octet-stream'')"
  by code_simp

lemma hardened_no_svg:
  "dict_get h ''Content-Type'' = Some t \<Longrightarrow>
   \<not> is_svg_content_type (dict_get (harden_asset_response_headers h t f True) ''Content-Type'')"
  by (auto simp: harden_asset_response_headers_def octets_no_svg Let_def)

lemma fixture_delivered:
  "ag_source g = FixtureSource i v m x y \<Longrightarrow> fixture_response g h i v = Some resp \<Longrightarrow> delivered cfg g resp"
  by (auto simp: fixture_response_def delivered_def hardened Let_def split: option.splits)

lemma proxy_delivered:
  assumes "ag_source g = ProxySource u m"
    and "0 \<le> asset_proxy_max_bytes (resource_space cfg) \<longrightarrow> int (length body) \<le> asset_proxy_max_bytes (resource_space cfg)"
  shows "delivered cfg g (proxy_response g h body t)"
  using assms by (simp add: delivered_def proxy_response_def hardened hardened_no_svg Let_def)

lemma fetch_bounded:
  "delivers (\<lambda>_. True) (race_pinned_fetch p m i) (\<lambda>x. \<forall>body t. x = Some (body, t) \<longrightarrow> 0 \<le> m \<longrightarrow> int (length body) \<le> m)"
  unfolding race_pinned_fetch_def
  by (rule keeps_bind) (auto intro!: net_intros dest: read_winner_bound simp: delivers_def op_return_def split: Option.bind_splits)

lemma grant_response_delivered:
  "delivers (\<lambda>_. True) (build_grant_response cfg g h) (\<lambda>x. \<forall>resp. x = Some resp \<longrightarrow> delivered cfg g resp)"
proof (cases "ag_source g")
  case (FixtureSource i v m x y)
  then show ?thesis
    using fixture_delivered [OF FixtureSource] by (auto simp: build_grant_response_def Let_def intro!: net_intros)
next
  case (ProxySource u m)
  have fetched: "delivers (\<lambda>_. True)
      (op_bind (race_pinned_fetch p (asset_proxy_max_bytes (resource_space cfg)) i) (\<lambda>fetched.
         op_return (map_option (\<lambda>(body, content_type). proxy_response g c body content_type) fetched)))
      (\<lambda>x. \<forall>resp. x = Some resp \<longrightarrow> delivered cfg g resp)" for p i c
    by (rule delivers_bind [OF fetch_bounded]) (auto intro!: net_intros proxy_delivered [OF ProxySource])
  have any: "delivers (\<lambda>_. True) q (\<lambda>_. True)" for q :: "pin option net_op" by (simp add: delivers_def)
  show ?thesis
    unfolding build_grant_response_def Let_def ProxySource source.case
    by (rule keeps_bind [OF any]) (auto intro!: net_intros fetched split: option.splits)
qed

text \<open>C26. An asset is delivered for an acceptable link only, and cannot act as a page of the broker. Unless
  the request presents an expiry and a signature that are acceptable for a grant of the store under that
  id, the answer is a refusal or an error and nothing is fetched. With an acceptable link, a success
  carries the headers that forbid content sniffing and sandbox the content; for a grant of the fixture it
  is the rendering of the asset of the grant, and comes whenever the fixture has that asset; for a
  proxied one it stays within the size limit, if that is not negative, and is never declared as SVG.\<close>

theorem asset_delivery_requires_link:
  assumes "serve rq (handle sv (AssetLink gid) rq) s = (resp, s')" and "bk_disk s = Some st" and "wf_store st"
  defines "acceptable \<equiv> \<lambda>g. (case (dict_get (query_params rq) ''expires'', dict_get (query_params rq) ''sig'') of
      (Some ex, Some sig) \<Rightarrow> link_acceptable (sv_config sv) st (bk_world s) gid ex sig g
    | _ \<Rightarrow> False)"
  shows "((\<forall>g. \<not> acceptable g) \<longrightarrow> rp_status resp \<in> {403, 410, 500} \<and> bk_net s' = bk_net s) \<and>
    (\<forall>g. acceptable g \<longrightarrow>
       (rp_status resp = 200 \<longrightarrow> delivered (sv_config sv) g resp) \<and>
       (case ag_source g of
          FixtureSource asset_id _ _ _ _ \<Rightarrow> get_asset_by_id asset_id \<noteq> None \<longrightarrow> rp_status resp = 200
        | ProxySource _ _ \<Rightarrow> True))"
proof -
  obtain v d w where run: "verify_grant (sv_config sv) (Some gid) (dict_get (query_params rq) ''expires'')
      (dict_get (query_params rq) ''sig'') (Some st) (bk_world s) = (v, d, w)" by (metis prod.exhaust)
  have accepts: "acceptable g \<longleftrightarrow> v = Inr (GrantOk g)" for g
  proof (cases "dict_get (query_params rq) ''expires'' = None \<or> dict_get (query_params rq) ''sig'' = None")
    case True
    with run show ?thesis by (auto simp: acceptable_def verify_grant_def truthy_str_def split: option.splits)
  next
    case False
    then obtain ex sig where "dict_get (query_params rq) ''expires'' = Some ex" "dict_get (query_params rq) ''sig'' = Some sig"
      by auto
    with run verify_grant_accepts [OF assms(3), of "sv_config sv" gid ex sig "bk_world s" g] show ?thesis
      by (auto simp: acceptable_def)
  qed
  have refused: "rp_status resp \<in> {403, 410, 500} \<and> bk_net s' = bk_net s" if none: "\<forall>g. \<not> acceptable g"
  proof (cases v)
    case (Inl e)
    with assms(1,2) run show ?thesis
      by (auto simp: serve_def handle_def serve_grant_def app_defs json_response_def)
  next
    case (Inr verdict)
    with none accepts obtain reason where "verdict = GrantRefused reason" by (cases verdict) auto
    with Inr assms(1,2) run show ?thesis
      by (cases "reason = ''expired''")
        (auto simp: serve_def handle_def serve_grant_def app_defs refusal_response_def json_response_def)
  qed
  have answered: "(rp_status resp = 200 \<longrightarrow> delivered (sv_config sv) g resp) \<and> (case ag_source g of
      FixtureSource asset_id _ _ _ _ \<Rightarrow> get_asset_by_id asset_id \<noteq> None \<longrightarrow> rp_status resp = 200
    | ProxySource _ _ \<Rightarrow> True)" if "acceptable g" for g
  proof
    have v: "v = Inr (GrantOk g)" using that by (simp add: accepts)
    obtain built n where built: "build_grant_response (sv_config sv) g (cors_headers []) (bk_net s) = (built, n)" by fastforce
    have ok: "\<forall>r. built = Inr (Some r) \<longrightarrow> delivered (sv_config sv) g r"
      using deliversD(2) [OF grant_response_delivered [of "sv_config sv" g "cors_headers []"], of "bk_net s"] built by auto
    have resp: "resp = answer_of (map_sum id (\<lambda>b. case b of
        None \<Rightarrow> json_response 404 (error_envelope ''NOT_FOUND'' ''Not found.'') (cors_headers []) | Some r \<Rightarrow> r) built)"
      using assms(1,2) run built fst_serve [of rq "handle sv (AssetLink gid) rq" s]
      by (cases built) (simp_all add: handle_def serve_grant_def app_defs v)
    show "rp_status resp = 200 \<longrightarrow> delivered (sv_config sv) g resp"
      using ok by (cases built) (auto simp: resp answer_of_def json_response_def split: option.splits)
    show "case ag_source g of
        FixtureSource asset_id _ _ _ _ \<Rightarrow> get_asset_by_id asset_id \<noteq> None \<longrightarrow> rp_status resp = 200
      | ProxySource _ _ \<Rightarrow> True"
      using built
      by (auto simp: resp answer_of_def build_grant_response_def fixture_response_def op_return_def Let_def split: source.split)
  qed
  show ?thesis using refused answered by blast
qed

definition fixture_grant :: asset_grant where
  "fixture_grant = sample_grant\<lparr>ag_source := FixtureSource ''asset_summer_hero'' ''preview'' ''image/svg+xml'' 480 320\<rparr>"

definition link_app :: app_state where
  "link_app = sample_app\<lparr>bk_disk := Some (sample_store\<lparr>assetGrants := [(''grant_xxxx'', fixture_grant)]\<rparr>)\<rparr>"

definition link_request :: http_request where
  "link_request = blank_request\<lparr>rq_query_items := [(''expires'', ''1300000''),
     (''sig'', create_signature ''grant_xxxx'' 1300000 (asset_secret (signing sample_config)))]\<rparr>"

theorem asset_delivery_requires_link_witness:
  "rp_status (fst (serve link_request (handle sample_service (AssetLink ''grant_xxxx'') link_request) link_app)) = 200 \<and>
   delivered sample_config fixture_grant
     (fst (serve link_request (handle sample_service (AssetLink ''grant_xxxx'') link_request) link_app)) \<and>
   rp_status (fst (serve blank_request (handle sample_service (AssetLink ''grant_xxxx'') blank_request) link_app)) \<noteq> 200"
proof -
  let ?st = "sample_store\<lparr>assetGrants := [(''grant_xxxx'', fixture_grant)]\<rparr>"
  have disk: "bk_disk link_app = Some ?st" by (simp add: link_app_def)
  have wf: "wf_store ?st" using sample_wf by (simp add: wf_store_def wf_dict_def)
  have world: "bk_world link_app = sample_world" by (simp add: link_app_def sample_app_def fresh_app_def)
  have cfg: "sv_config sample_service = sample_config" by (simp add: sample_service_def)
  have params: "dict_get (query_params link_request) ''expires'' = Some ''1300000''"
    "dict_get (query_params link_request) ''sig'' =
       Some (create_signature ''grant_xxxx'' 1300000 (asset_secret (signing sample_config)))"
    by (simp_all add: link_request_def query_params_def dict_of_def)
  have link: "link_acceptable sample_config ?st sample_world ''grant_xxxx'' ''1300000''
      (create_signature ''grant_xxxx'' 1300000 (asset_secret (signing sample_config))) fixture_grant"
    by (simp add: link_acceptable_def sample_expiry sample_world_def fixture_grant_def sample_grant_def)
  have known: "get_asset_by_id ''asset_summer_hero'' \<noteq> None" by code_simp
  have bare: "dict_get (query_params blank_request) ''expires'' = None"
    by (simp add: blank_request_def query_params_def dict_of_def)
  note good = asset_delivery_requires_link [where rq = link_request and sv = sample_service and gid = "''grant_xxxx''"
      and s = link_app, OF prod.collapse [symmetric] disk wf, unfolded params world cfg option.case prod.case]
  note bad = asset_delivery_requires_link [where rq = blank_request and sv = sample_service and gid = "''grant_xxxx''"
      and s = link_app, OF prod.collapse [symmetric] disk wf, unfolded bare option.case prod.case]
  have source: "ag_source fixture_grant = FixtureSource ''asset_summer_hero'' ''preview'' ''image/svg+xml'' 480 320"
    by (simp add: fixture_grant_def)
  have ok: "rp_status (fst (serve link_request (handle sample_service (AssetLink ''grant_xxxx'') link_request) link_app)) = 200"
    using conjunct2 [OF good, rule_format, OF link] known unfolding source source.case by blast
  moreover have "delivered sample_config fixture_grant
      (fst (serve link_request (handle sample_service (AssetLink ''grant_xxxx'') link_request) link_app))"
    using conjunct2 [OF good, rule_format, OF link] ok by blast
  moreover have "rp_status (fst (serve blank_request (handle sample_service (AssetLink ''grant_xxxx'') blank_request) link_app)) \<noteq> 200"
    using bad by auto
  ultimately show ?thesis by blast
qed

section \<open>The uninstall webhook\<close>

lemma verify_post_passes:
  assumes "verify_canva_post_request cfg headers path raw_body w = (v, w1)"
  shows "vr_ok v \<and> \<not> vr_skipped v \<longleftrightarrow>
    request_verification_mode (signing cfg) = ''off'' \<or> post_authentic cfg headers path raw_body (now_of w)"
proof (cases "request_verification_mode (signing cfg) = ''off''")
  case True
  with assms show ?thesis by (auto simp: verify_canva_post_request_def Let_def should_verify_def verified_def)
next
  case False
  have "v = verified \<longleftrightarrow> vr_ok v \<and> \<not> vr_skipped v"
    using assms by (auto simp: verify_canva_post_request_def Let_def verified_def verification_skipped_def rejected_def
        split: if_splits option.splits prod.splits)
  with post_verified_iff [OF False, of headers path raw_body w] assms False show ?thesis by simp
qed

lemma hex_digit_plain:
  assumes "n < 16"
  shows "hex_digit n \<noteq> CHR '','' \<and> \<not> is_space (hex_digit n)"
proof -
  have "list_all (\<lambda>n. hex_digit n \<noteq> CHR '','' \<and> \<not> is_space (hex_digit n)) [0..<16]" by code_simp
  with assms show ?thesis by (simp add: list_all_iff)
qed

lemma hexdigest_plain: "c \<in> set (hexdigest bs) \<Longrightarrow> c \<noteq> CHR '','' \<and> \<not> is_space c"
proof (induction bs)
  case (Cons b bs)
  have "unat b < 256" by (rule order_less_le_trans [OF unsigned_less]) simp
  then have "unat b div 16 < 16" "unat b mod 16 < 16" using less_mult_imp_div_less [of "unat b" 16 16] by simp_all
  with Cons hex_digit_plain show ?case by (auto simp: hexdigest_def)
qed (simp add: hexdigest_def)

lemma dropWhile_none: "\<forall>c \<in> set s. \<not> P c \<Longrightarrow> dropWhile P s = s"
  by (cases s) simp_all

lemma py_strip_plain: "\<forall>c \<in> set s. \<not> is_space c \<Longrightarrow> py_strip s = s"
  by (simp add: py_strip_def lstrip_def rstrip_def dropWhile_none)

lemma signature_field: "comma_fields (calculate_signature k m) = [calculate_signature k m]"
proof -
  have "CHR '','' \<notin> set (calculate_signature k m)" "py_strip (calculate_signature k m) = calculate_signature k m"
    using hexdigest_plain by (auto simp: calculate_signature_def intro: py_strip_plain)
  moreover have "length (calculate_signature k m) = 64" by (simp add: calculate_signature_def)
  then have "calculate_signature k m \<noteq> []" by (intro notI) simp
  ultimately show ?thesis by (simp add: comma_fields_def split_on_none)
qed

text \<open>C31. Unless the verification of signatures is switched off, only Canva can have a user's tokens
  revoked: the uninstall webhook answers 401 and changes neither store nor network unless the signature
  over path and body is the HMAC under the client secret and its timestamp is fresh. With a valid one, or
  in the mode off, where every call passes (the start outside development refuses that mode): with
  the ids of user and tenant in the body as non-empty strings it is exactly the revocation of that user,
  and with an object in which one of them is missing or empty it changes nothing and answers 200.\<close>

theorem uninstall_requires_signature:
  assumes "serve rq (canva_user_uninstall sv rq) s = (resp, s')"
  shows "if request_verification_mode (signing (sv_config sv)) = ''off'' \<or>
      post_authentic (sv_config sv) (rq_headers rq) (rq_path rq) (rq_body rq) (now_of (bk_world s)) then
      (\<forall>b u t. parse_body (rq_body rq) = Inr (JObj b) \<and> json_get b ''user_id'' = JStr u \<and> u \<noteq> [] \<and>
          json_get b ''tenant_id'' = JStr t \<and> t \<noteq> [] \<longrightarrow>
        (\<exists>w r. later (bk_world s) w \<and>
          revoke_tokens_for_user sv u t (bk_disk s) w = (r, bk_disk s', bk_world s') \<and> (r = Inr () \<longrightarrow> rp_status resp = 200))) \<and>
      (\<forall>b. parse_body (rq_body rq) = Inr (JObj b) \<and>
          \<not> (json_truthy (json_get b ''user_id'') \<and> json_truthy (json_get b ''tenant_id'')) \<longrightarrow>
        rp_status resp = 200 \<and> bk_disk s' = bk_disk s \<and> bk_net s' = bk_net s)
    else rp_status resp = 401 \<and> bk_disk s' = bk_disk s \<and> bk_net s' = bk_net s"
proof -
  obtain v w where v: "verify_canva_post_request (sv_config sv) (rq_headers rq) (rq_path rq) (rq_body rq) (bk_world s) = (v, w)"
    by (metis prod.exhaust)
  note passes = verify_post_passes [OF v]
  show ?thesis
  proof (cases "vr_ok v \<and> \<not> vr_skipped v")
    case False
    with assms(1) have "rp_status resp = 401 \<and> bk_disk s' = bk_disk s \<and> bk_net s' = bk_net s"
      by (auto simp: serve_def canva_user_uninstall_def app_defs v json_error_def json_response_def)
    then show ?thesis unfolding passes [symmetric] if_not_P [OF False] .
  next
    case True
    have revokes: "\<exists>r. revoke_tokens_for_user sv u t (bk_disk s) w = (r, bk_disk s', bk_world s') \<and> (r = Inr () \<longrightarrow> rp_status resp = 200)"
      if b: "parse_body (rq_body rq) = Inr (JObj b)" "json_get b ''user_id'' = JStr u" "u \<noteq> []"
        "json_get b ''tenant_id'' = JStr t" "t \<noteq> []" for b u t
    proof -
      obtain r d w' where "revoke_tokens_for_user sv u t (bk_disk s) w = (r, d, w')" by (metis prod.exhaust)
      with assms(1) True b show ?thesis
        by (cases r) (auto simp: serve_def canva_user_uninstall_def uninstall_user_def revoke_ids_def app_defs v
            json_attr_get_def json_str_opt_def json_response_def split: if_splits)
    qed
    have idle: "rp_status resp = 200 \<and> bk_disk s' = bk_disk s \<and> bk_net s' = bk_net s"
      if b: "parse_body (rq_body rq) = Inr (JObj b)"
        "\<not> (json_truthy (json_get b ''user_id'') \<and> json_truthy (json_get b ''tenant_id''))" for b
      using assms(1) True b
      by (auto simp: serve_def canva_user_uninstall_def uninstall_user_def app_defs v json_attr_get_def json_response_def)
    show ?thesis
      unfolding passes [symmetric] if_P [OF True] using revokes idle verify_post_later [OF v] by blast
  qed
qed

text \<open>A call that is signed as Canva signs it, at the time of the request.\<close>

definition signed_service :: auth_service where
  "signed_service = sample_service\<lparr>sv_config := sample_config\<lparr>signing :=
     (signing sample_config)\<lparr>canva_client_secret := ''a2V5'', request_verification_mode := ''required''\<rparr>\<rparr>\<rparr>"

definition uninstall_body :: json where
  "uninstall_body = JObj [(''user_id'', JStr ''u1''), (''tenant_id'', JStr ''t1'')]"

definition signed_request :: http_request where
  "signed_request = blank_request\<lparr>rq_path := ''/canva/uninstall'', rq_body := dumps uninstall_body,
     rq_headers := [(''x-canva-timestamp'', ''1000''),
       (''x-canva-signatures'', calculate_signature [107, 101, 121]
          (''v1:1000:/canva/uninstall:'' @ dumps uninstall_body))]\<rparr>"

lemma signed_authentic:
  "post_authentic (sv_config signed_service) (rq_headers signed_request) (rq_path signed_request) (rq_body signed_request)
     (now_of (bk_world sample_app))"
proof -
  have secret: "decode_secret (sv_config signed_service) = Some [107, 101, 121]" by code_simp
  have stamp: "py_int ''1000'' = Some 1000" by code_simp
  have near: "now_of (bk_world sample_app) div 1000 = 1000"
    by (simp add: sample_app_def fresh_app_def sample_world_def)
  have headers: "dict_get (rq_headers signed_request) ''x-canva-timestamp'' = Some ''1000''"
    "dict_get (rq_headers signed_request) ''x-canva-signatures'' =
       Some (calculate_signature [107, 101, 121] (''v1:1000:/canva/uninstall:'' @ dumps uninstall_body))"
    by (simp_all add: signed_request_def del: dumps.simps)
  have tolerance: "request_timestamp_tolerance_seconds (signing (sv_config signed_service)) = 300"
    by (simp add: signed_service_def sample_service_def sample_config_def)
  have parts: "rq_path signed_request = ''/canva/uninstall''" "rq_body signed_request = dumps uninstall_body"
    by (simp_all add: signed_request_def del: dumps.simps)
  show ?thesis
    unfolding post_authentic_def parts tolerance near
    by (intro exI conjI, rule secret, rule headers(1), rule headers(2), simp, rule stamp, simp)
      (simp add: signature_field del: dumps.simps)
qed

theorem uninstall_requires_signature_witness:
  "rp_status (fst (serve blank_request (canva_user_uninstall sample_service blank_request) sample_app)) = 401 \<and>
   (\<exists>w r d w'. revoke_tokens_for_user signed_service ''u1'' ''t1'' (Some sample_store) w = (r, d, w') \<and>
      bk_disk (snd (serve signed_request (canva_user_uninstall signed_service signed_request) sample_app)) = d)"
proof
  have mode: "request_verification_mode (signing (sv_config sample_service)) \<noteq> ''off''" by code_simp
  have "\<not> post_authentic (sv_config sample_service) (rq_headers blank_request) (rq_path blank_request)
      (rq_body blank_request) (now_of (bk_world sample_app))"
    by (simp add: post_authentic_def blank_request_def)
  with uninstall_requires_signature [where rq = blank_request and sv = sample_service and s = sample_app, OF prod.collapse [symmetric]] mode
  show "rp_status (fst (serve blank_request (canva_user_uninstall sample_service blank_request) sample_app)) = 401" by simp
next
  have ok: "json_ok uninstall_body" by (simp add: uninstall_body_def)
  obtain c cs where "dumps uninstall_body = c # cs" using ok by (rule dumps_first)
  with loads_dumps [OF ok] have "parse_body (dumps uninstall_body) = Inr uninstall_body"
    by (simp add: parse_body_def del: dumps.simps)
  then have body: "parse_body (rq_body signed_request) = Inr (JObj [(''user_id'', JStr ''u1''), (''tenant_id'', JStr ''t1'')])"
    by (simp add: signed_request_def uninstall_body_def del: dumps.simps)
  have ids: "json_get [(''user_id'', JStr ''u1''), (''tenant_id'', JStr ''t1'')] ''user_id'' = JStr ''u1''"
    "json_get [(''user_id'', JStr ''u1''), (''tenant_id'', JStr ''t1'')] ''tenant_id'' = JStr ''t1''"
    by (simp_all add: json_get_def)
  have disk: "bk_disk sample_app = Some sample_store" by (simp add: sample_app_def fresh_app_def)
  show "\<exists>w r d w'. revoke_tokens_for_user signed_service ''u1'' ''t1'' (Some sample_store) w = (r, d, w') \<and>
      bk_disk (snd (serve signed_request (canva_user_uninstall signed_service signed_request) sample_app)) = d"
    using uninstall_requires_signature [where rq = signed_request and sv = signed_service and s = sample_app, OF prod.collapse [symmetric]]
      signed_authentic body ids unfolding disk by (simp del: dumps.simps) blast
qed

section \<open>The client address\<close>

lemma py_strip_space_Cons: "is_space c \<Longrightarrow> py_strip (c # s) = py_strip s"
  by (simp add: py_strip_def lstrip_def)

lemma py_strip_space_snoc: "is_space c \<Longrightarrow> py_strip (s @ [c]) = py_strip s"
  by (induction s) (auto simp: py_strip_def lstrip_def rstrip_def)

lemma split_on_snoc:
  "c \<noteq> d \<Longrightarrow> split_on d (s @ [c]) = butlast (split_on d s) @ [last (split_on d s) @ [c]]"
  by (induction s) (auto split: list.splits)

lemma comma_fields_strip: "comma_fields (py_strip raw) = comma_fields raw"
proof -
  have leading: "comma_fields (c # s) = comma_fields s" if "is_space c" for c s
  proof -
    have "c \<noteq> CHR '',''" using that by (auto simp: is_space_def)
    then show ?thesis
      by (cases "split_on (CHR '','') s") (simp_all add: comma_fields_def py_strip_space_Cons [OF that])
  qed
  have trailing: "comma_fields (s @ [c]) = comma_fields s" if "is_space c" for c s
  proof -
    have c: "c \<noteq> CHR '',''" using that by (auto simp: is_space_def)
    obtain ps p where "split_on (CHR '','') s = ps @ [p]" by (cases "split_on (CHR '','') s" rule: rev_cases) auto
    then show ?thesis by (simp add: comma_fields_def split_on_snoc [OF c] py_strip_space_snoc [OF that])
  qed
  have "comma_fields (dropWhile is_space s) = comma_fields s" for s
    by (induction s) (simp_all add: leading)
  moreover have "comma_fields (rev (dropWhile is_space s)) = comma_fields (rev s)" for s
    by (induction s) (simp_all add: trailing)
  ultimately show ?thesis by (simp add: py_strip_def lstrip_def rstrip_def)
qed

text \<open>C38. The address that the limits of sign-in go by, for a request with a peer address. When the peer
  is no trusted proxy, or no header is configured, it is the peer, whatever the headers say. When the peer
  is a trusted proxy and sends no header, or a blank one, it is the peer as well. Otherwise the header
  decides. With x-forwarded-for it is the rightmost hop that is no trusted proxy, whatever was put in
  front of it, and the peer when every hop is one. With any other header, such as x-real-ip, it is the
  value itself without surrounding white space, so that there the client cannot choose it only because the
  trusted proxy overwrites the header.\<close>

theorem client_host_unspoofable:
  fixes rq :: http_request and cfg :: app_config
  assumes "rq_peer rq = Some peer" and "peer \<noteq> []"
  defines "trusted \<equiv> \<lambda>host. host_matches_trusted_proxy host (trusted_proxy_hosts cfg)"
  shows "if \<not> trusted peer \<or> client_ip_header cfg = [] then client_host rq cfg = peer
    else (case header_get rq (client_ip_header cfg) of
        None \<Rightarrow> client_host rq cfg = peer
      | Some raw \<Rightarrow>
          if py_strip raw = [] then client_host rq cfg = peer
          else if client_ip_header cfg = ''x-forwarded-for'' then
            (\<forall>spoofed hop proxies. comma_fields raw = spoofed @ hop # proxies \<and> \<not> trusted hop \<and>
               (\<forall>p \<in> set proxies. trusted p) \<longrightarrow> client_host rq cfg = hop) \<and>
            ((\<forall>p \<in> set (comma_fields raw). trusted p) \<longrightarrow> client_host rq cfg = peer)
          else client_host rq cfg = py_strip raw)"
proof -
  have peer: "str_or (rq_peer rq) [] = peer" using assms(1,2) by (cases peer) simp_all
  note host = client_host_def resolve_client_host_def Let_def peer
  show ?thesis
  proof (cases "\<not> trusted peer \<or> client_ip_header cfg = []")
    case True
    then have "client_host rq cfg = peer" using assms(2) by (auto simp: host trusted_def)
    with True show ?thesis by simp
  next
    case False
    show ?thesis
    proof (cases "header_get rq (client_ip_header cfg)")
      case None
      then have "client_host rq cfg = peer" using assms(2) by (simp add: host py_strip_def lstrip_def rstrip_def)
      with None False show ?thesis by simp
    next
      case (Some raw)
      have sent: "py_strip (str_or (header_get rq (client_ip_header cfg)) []) = py_strip raw"
        using Some by (cases raw) simp_all
      note given = False Some
      have blank: "client_host rq cfg = peer" if "py_strip raw = []"
        using assms(2) that by (simp add: host sent)
      have plain: "client_host rq cfg = py_strip raw"
        if "py_strip raw \<noteq> []" "client_ip_header cfg \<noteq> ''x-forwarded-for''"
        using assms(2) that False by (simp add: host sent trusted_def)
      have hop: "client_host rq cfg = hop"
        if "py_strip raw \<noteq> []" "client_ip_header cfg = ''x-forwarded-for''"
          "comma_fields raw = spoofed @ hop # proxies" "\<not> trusted hop" "\<forall>p \<in> set proxies. trusted p" for spoofed hop proxies
      proof -
        have "comma_fields (py_strip raw) = spoofed @ hop # proxies" by (simp only: comma_fields_strip that(3))
        then have "client_ip_from_x_forwarded_for (py_strip raw) (trusted_proxy_hosts cfg) = Some hop"
          by (rule xff_rightmost) (use that(4,5) in \<open>auto simp: trusted_def\<close>)
        moreover have "hop \<noteq> []" by (rule comma_fields_nonempty [of _ raw]) (simp add: that(3))
        ultimately show ?thesis using assms(2) that(1,2) False sent by (simp add: host trusted_def)
      qed
      have none: "client_host rq cfg = peer"
        if "py_strip raw \<noteq> []" "client_ip_header cfg = ''x-forwarded-for''" "\<forall>p \<in> set (comma_fields raw). trusted p"
      proof -
        have "client_ip_from_x_forwarded_for (py_strip raw) (trusted_proxy_hosts cfg) = None"
          using that(3) by (auto simp: client_ip_from_x_forwarded_for_def comma_fields_strip find_None_iff trusted_def)
        then show ?thesis using assms(2) that(1,2) False sent by (simp add: host trusted_def)
      qed
      show ?thesis
      proof (cases "py_strip raw = []")
        case True
        with given blank show ?thesis by simp
      next
        case present: False
        show ?thesis
        proof (cases "client_ip_header cfg = ''x-forwarded-for''")
          case True
          show ?thesis
            unfolding if_not_P [OF given(1)] given(2) option.case if_not_P [OF present] if_P [OF True]
            using hop [OF present True] none [OF present True] by blast
        qed (use given present plain in simp)
      qed
    qed
  qed
qed

definition proxied_config :: app_config where
  "proxied_config = sample_config\<lparr>client_ip_header := ''x-forwarded-for'', trusted_proxy_hosts := [''10.0.0.0/8'']\<rparr>"

definition proxied_request :: http_request where
  "proxied_request = blank_request\<lparr>rq_peer := Some ''10.0.0.7'',
     rq_headers := [(''x-forwarded-for'', ''1.2.3.4, 198.51.100.7, 10.1.2.3''), (''x-real-ip'', '' 198.51.100.7'')]\<rparr>"

theorem client_host_unspoofable_witness:
  "client_host proxied_request proxied_config = ''198.51.100.7'' \<and>
   client_host proxied_request (proxied_config\<lparr>client_ip_header := ''x-real-ip''\<rparr>) = ''198.51.100.7'' \<and>
   client_host (proxied_request\<lparr>rq_peer := Some ''203.0.113.9''\<rparr>) proxied_config = ''203.0.113.9''"
proof (intro conjI)
  have peer: "rq_peer proxied_request = Some ''10.0.0.7''" by (simp add: proxied_request_def)
  have trusted: "host_matches_trusted_proxy ''10.0.0.7'' (trusted_proxy_hosts proxied_config)" by code_simp
  have raw: "header_get proxied_request ''x-forwarded-for'' = Some ''1.2.3.4, 198.51.100.7, 10.1.2.3''" by code_simp
  have strip: "py_strip ''1.2.3.4, 198.51.100.7, 10.1.2.3'' \<noteq> []" by code_simp
  have fields: "comma_fields ''1.2.3.4, 198.51.100.7, 10.1.2.3'' = [''1.2.3.4''] @ ''198.51.100.7'' # [''10.1.2.3'']" by code_simp
  have hop: "\<not> host_matches_trusted_proxy ''198.51.100.7'' (trusted_proxy_hosts proxied_config)" by code_simp
  have proxy: "\<forall>p \<in> set [''10.1.2.3'']. host_matches_trusted_proxy p (trusted_proxy_hosts proxied_config)" by code_simp
  have cfg: "client_ip_header proxied_config = ''x-forwarded-for''" by (simp add: proxied_config_def)
  have "\<forall>spoofed hop proxies. comma_fields ''1.2.3.4, 198.51.100.7, 10.1.2.3'' = spoofed @ hop # proxies \<and>
      \<not> host_matches_trusted_proxy hop (trusted_proxy_hosts proxied_config) \<and>
      (\<forall>p \<in> set proxies. host_matches_trusted_proxy p (trusted_proxy_hosts proxied_config)) \<longrightarrow>
      client_host proxied_request proxied_config = hop"
    using client_host_unspoofable [OF peer, where cfg = proxied_config] trusted strip
    by (simp only: cfg raw option.case) simp
  with fields hop proxy show "client_host proxied_request proxied_config = ''198.51.100.7''" by blast
  have real: "header_get proxied_request ''x-real-ip'' = Some '' 198.51.100.7''" by code_simp
  have bare: "py_strip '' 198.51.100.7'' = ''198.51.100.7''" by code_simp
  show "client_host proxied_request (proxied_config\<lparr>client_ip_header := ''x-real-ip''\<rparr>) = ''198.51.100.7''"
    using client_host_unspoofable [OF peer, where cfg = "proxied_config\<lparr>client_ip_header := ''x-real-ip''\<rparr>"] trusted
    by (simp add: real bare)
  have stranger: "\<not> host_matches_trusted_proxy ''203.0.113.9'' (trusted_proxy_hosts proxied_config)" by code_simp
  show "client_host (proxied_request\<lparr>rq_peer := Some ''203.0.113.9''\<rparr>) proxied_config = ''203.0.113.9''"
    using client_host_unspoofable [of "proxied_request\<lparr>rq_peer := Some ''203.0.113.9''\<rparr>" "''203.0.113.9''" proxied_config] stranger
    by simp
qed

section \<open>The rate limiter as independent counters\<close>

text \<open>What one key sees of a run: its own counter and nothing else.\<close>

fun spec_all :: "int \<Rightarrow> int \<Rightarrow> (int \<times> int) option \<Rightarrow> int list \<Rightarrow> rate_result list" where
  "spec_all m win c [] = []"
| "spec_all m win c (now # ts) = (case spec_consume m win (age now c) now of (r, c') \<Rightarrow> r # spec_all m win c' ts)"

definition results_of :: "string \<Rightarrow> (string \<times> int) list \<Rightarrow> rate_result list \<Rightarrow> rate_result list" where
  "results_of key reqs rs = map snd (filter (\<lambda>((k, _), _). k = key) (zip reqs rs))"

definition times_of :: "string \<Rightarrow> (string \<times> int) list \<Rightarrow> int list" where
  "times_of key reqs = map snd (filter (\<lambda>(k, _). k = key) reqs)"

lemma age_age: "now \<le> now' \<Longrightarrow> age now' (age now c) = age now' c"
  by (auto simp: age_def split: option.splits)

lemma spec_all_age: "\<forall>t \<in> set ts. now \<le> t \<Longrightarrow> spec_all m win (age now c) ts = spec_all m win c ts"
  by (cases ts) (simp_all add: age_age)

lemma consume_all_refines:
  assumes "wf_limiter l" and "0 < window_ms l" and "consume_all l reqs = (rs, l')"
    and "sorted (map snd reqs)" and "\<forall>(_, t) \<in> set reqs. t0 \<le> t"
  shows "results_of key reqs rs = spec_all (max_requests l) (window_ms l) (view l t0 key) (times_of key reqs)"
  using assms
proof (induction reqs arbitrary: l rs t0)
  case Nil
  then show ?case by (simp add: results_of_def times_of_def)
next
  case (Cons req reqs)
  obtain k now where req: "req = (k, now)" by fastforce
  obtain r l1 where step: "consume_at l k now = (r, l1)" by fastforce
  obtain rs1 where rest: "consume_all l1 reqs = (rs1, l')" and rs: "rs = r # rs1"
    using Cons.prems(3) req step by (auto split: prod.splits)
  have par: "max_requests l1 = max_requests l" "window_ms l1 = window_ms l" using consume_at_params [OF step] by simp_all
  have from_now: "\<forall>(_, t) \<in> set reqs. now \<le> t" using Cons.prems(4) by (auto simp: req)
  have le: "t0 \<le> now" using Cons.prems(5) by (simp add: req)
  have IH: "results_of key reqs rs1 = spec_all (max_requests l) (window_ms l) (view l1 now key) (times_of key reqs)"
    using Cons.IH [OF wf_consume_at [OF Cons.prems(1) step] _ rest _ from_now] Cons.prems(2,4) by (simp add: par req)
  show ?case
  proof (cases "k = key")
    case True
    have "spec_consume (max_requests l) (window_ms l) (age now (view l t0 key)) now = (r, view l1 now key)"
      using consume_at_refines [OF Cons.prems(2) step] view_later [OF le, of l key] by (simp add: True)
    with IH True show ?thesis by (simp add: results_of_def times_of_def req rs)
  next
    case False
    have "view l1 now key = age now (view l t0 key)"
      using consume_at_isolated [OF Cons.prems(1) _ step] view_later [OF le, of l key] False by simp
    moreover have "\<forall>t \<in> set (times_of key reqs). now \<le> t" using from_now by (auto simp: times_of_def)
    ultimately show ?thesis using IH False by (simp add: results_of_def times_of_def req rs spec_all_age)
  qed
qed

text \<open>C39. The shared table of the rate limiter refines one counter per key: in any run of requests with
  any keys and a clock that does not go back, the answers that a key gets are those of a fixed-window
  counter of its own, fed with its requests alone. Neither the other keys nor the removal of stale
  buckets can be observed.\<close>

theorem limiter_refines_counters:
  assumes "wf_limiter l" and "0 < window_ms l" and "consume_all l reqs = (rs, l')"
    and "sorted (map snd reqs)" and "\<forall>(_, t) \<in> set reqs. t0 \<le> t"
  shows "results_of key reqs rs = spec_all (max_requests l) (window_ms l) (view l t0 key) (times_of key reqs)"
  using assms by (rule consume_all_refines)

theorem limiter_refines_counters_witness:
  "results_of ''a'' [(''a'', 1), (''b'', 2), (''a'', 3), (''a'', 20)]
     (fst (consume_all (create_rate_limiter 1 10) [(''a'', 1), (''b'', 2), (''a'', 3), (''a'', 20)])) =
   [\<lparr>allowed = True, retry_after_ms = 0\<rparr>, \<lparr>allowed = False, retry_after_ms = 8\<rparr>, \<lparr>allowed = True, retry_after_ms = 0\<rparr>]"
proof -
  let ?l = "create_rate_limiter 1 10" and ?reqs = "[(''a'', 1), (''b'', 2), (''a'', 3), (''a'', 20)]"
  have "results_of ''a'' ?reqs (fst (consume_all ?l ?reqs)) =
      spec_all (max_requests ?l) (window_ms ?l) (view ?l 0 ''a'') (times_of ''a'' ?reqs)"
    by (rule limiter_refines_counters [OF _ _ prod.collapse [symmetric]]) (simp_all add: create_rate_limiter_def wf_limiter_def)
  then show ?thesis
    by (simp add: create_rate_limiter_def view_def times_of_def spec_consume_def age_def del: consume_all.simps)
qed

end
