(* ===== verification/Config_Loading.thy ===== *)
theory Config_Loading
  imports Broker_App
begin

text \<open>
  The rest of \<^verbatim>\<open>config.py\<close>: the snapshot built from the environment variables, and the validation
  that refuses to start a deployment with unsafe settings; then the start of \<^verbatim>\<open>main.py\<close>, which
  validates and builds the services. The message of a JSON error, what \<^verbatim>\<open>str()\<close> makes of JSON values
  other than strings and integers, and the default path of the store are parameters.
\<close>

section \<open>Parsers\<close>

definition DEFAULT_TRUSTED_PROXY_HOSTS :: string where
  "DEFAULT_TRUSTED_PROXY_HOSTS = ''10.0.0.0/8,172.16.0.0/12,192.168.0.0/16,127.0.0.0/8,100.64.0.0/10''"

definition CLIENT_IP_LOG_DIAGNOSTICS_ENVIRONMENTS :: "string list" where
  "CLIENT_IP_LOG_DIAGNOSTICS_ENVIRONMENTS = [''development'', ''test'', ''staging'', ''uat'']"

definition split_csv :: "string option \<Rightarrow> string list" where
  "split_csv v = (if \<not> truthy_str v then [] else comma_fields (the v))"

definition parse_bool :: "string option \<Rightarrow> bool" where
  "parse_bool v \<longleftrightarrow> truthy_str v \<and> py_lower (py_strip (the v)) \<in> {''1'', ''true'', ''yes'', ''on''}"

text \<open>\<^verbatim>\<open>str(entry.get(a) or entry.get(b) or "").strip()\<close>\<close>

definition text_field :: "(json \<Rightarrow> string) \<Rightarrow> json dict \<Rightarrow> string list \<Rightarrow> string" where
  "text_field other entry keys =
     py_strip (json_text other (foldr (\<lambda>k rest. json_or (json_get entry k) rest) keys (JStr [])))"

text \<open>
  The tenant of a registry entry: the code keeps the entry as it is and reads these keys; each is
  taken in the form that the code expects of it.
\<close>

definition strings_of :: "(json \<Rightarrow> string) \<Rightarrow> json \<Rightarrow> string list" where
  "strings_of other j = (case j of JArr js \<Rightarrow> map (json_text other) js | _ \<Rightarrow> [])"

definition tenant_of_entry :: "(json \<Rightarrow> string) \<Rightarrow> json dict \<Rightarrow> tenant" where
  "tenant_of_entry other entry =
     \<lparr>tn_id = json_text other (json_get entry ''id''), tn_slug = json_str_opt (json_get entry ''slug''),
      tn_name = json_str_opt (json_get entry ''name''), tn_baseUrl = json_str_opt (json_get entry ''baseUrl''),
      tn_apiUrl = json_str_opt (json_get entry ''apiUrl''),
      tn_rootCollections = strings_of other (json_get entry ''rootCollections''),
      tn_collectionChildren = (case json_get entry ''collectionChildren'' of
         JObj kvs \<Rightarrow> map (\<lambda>(k, v). (k, strings_of other v)) kvs | _ \<Rightarrow> [])\<rparr>"

fun tenant_entries :: "(json \<Rightarrow> string) \<Rightarrow> nat \<Rightarrow> json list \<Rightarrow> string + tenant list" where
  "tenant_entries other index [] = Inr []"
| "tenant_entries other index (JObj entry # js) =
     (if text_field other entry [''id''] = [] \<or> text_field other entry [''baseUrl'', ''base_url''] = [] then
        Inl (''RESOURCE_SPACE_TENANTS_JSON entry '' @ str_of_int (int index) @ '' must include id and baseUrl.'')
      else
        (case tenant_entries other (Suc index) js of
           Inl e \<Rightarrow> Inl e | Inr ts \<Rightarrow> Inr (tenant_of_entry other entry # ts)))"
| "tenant_entries other index (j # js) =
     Inl (''RESOURCE_SPACE_TENANTS_JSON entry '' @ str_of_int (int index) @ '' must be an object.'')"

definition parse_tenant_json ::
  "(json \<Rightarrow> string) \<Rightarrow> (string \<Rightarrow> string) \<Rightarrow> string option \<Rightarrow> tenant list \<times> string option"
where
  "parse_tenant_json other json_message v =
     (if \<not> truthy_str v then ([], None)
      else
        (case loads (the v) of
           None \<Rightarrow> ([], Some (''RESOURCE_SPACE_TENANTS_JSON must be valid JSON ('' @ json_message (the v) @ '').''))
         | Some (JArr js) \<Rightarrow>
             (case tenant_entries other 0 js of Inl e \<Rightarrow> ([], Some e) | Inr ts \<Rightarrow> (ts, None))
         | Some _ \<Rightarrow> ([], Some ''RESOURCE_SPACE_TENANTS_JSON must be a JSON array.'')))"

definition client_integration :: "(json \<Rightarrow> string) \<Rightarrow> json \<Rightarrow> string option" where
  "client_integration other raw =
     (let text = py_strip (json_text other raw) in if raw \<noteq> JNull \<and> text \<noteq> [] then Some text else None)"

definition client_allowlist :: "(json \<Rightarrow> string) \<Rightarrow> json \<Rightarrow> string list option" where
  "client_allowlist other raw =
     (case raw of
        JStr s \<Rightarrow> Some (split_csv (Some s))
      | JArr js \<Rightarrow> Some (filter (\<lambda>u. u \<noteq> []) (map (\<lambda>j. py_strip (json_text other j)) js))
      | JNull \<Rightarrow> Some []
      | _ \<Rightarrow> None)"

fun client_entries :: "(json \<Rightarrow> string) \<Rightarrow> nat \<Rightarrow> json list \<Rightarrow> oauth_client dict \<Rightarrow> string + oauth_client dict" where
  "client_entries other index [] found = Inr found"
| "client_entries other index (JObj entry # js) found =
     (let client_id = text_field other entry [''clientId'', ''client_id''];
          raw_allowlist = (if json_get entry ''redirectUriAllowlist'' = JNull
            then json_get entry ''redirect_uri_allowlist'' else json_get entry ''redirectUriAllowlist'')
      in if client_id = [] then
           Inl (''OAUTH_CLIENTS_JSON entry '' @ str_of_int (int index) @ '' must include clientId.'')
         else
           (case client_allowlist other raw_allowlist of
              None \<Rightarrow> Inl (''OAUTH_CLIENTS_JSON entry '' @ str_of_int (int index) @
                '' redirectUriAllowlist must be a string or array.'')
            | Some uris \<Rightarrow>
                client_entries other (Suc index) js
                  (AList.update client_id
                    \<lparr>oc_client_id = client_id,
                     oc_integration = client_integration other (json_get entry ''integration''),
                     oc_redirect_uri_allowlist = uris\<rparr> found)))"
| "client_entries other index (j # js) found =
     Inl (''OAUTH_CLIENTS_JSON entry '' @ str_of_int (int index) @ '' must be an object.'')"

definition parse_oauth_clients_json ::
  "(json \<Rightarrow> string) \<Rightarrow> (string \<Rightarrow> string) \<Rightarrow> string option \<Rightarrow> oauth_client dict \<times> string option"
where
  "parse_oauth_clients_json other json_message v =
     (if \<not> truthy_str v then ([], None)
      else
        (case loads (the v) of
           None \<Rightarrow> ([], Some (''OAUTH_CLIENTS_JSON must be valid JSON ('' @ json_message (the v) @ '').''))
         | Some (JArr js) \<Rightarrow>
             (case client_entries other 0 js [] of Inl e \<Rightarrow> ([], Some e) | Inr found \<Rightarrow> (found, None))
         | Some _ \<Rightarrow> ([], Some ''OAUTH_CLIENTS_JSON must be a JSON array.'')))"

section \<open>The snapshot\<close>

text \<open>The settings that are integers; one that does not parse raises \<open>ValueError\<close>.\<close>

definition INT_SETTINGS :: "string list" where
  "INT_SETTINGS =
     [''PORT'', ''STORE_PRUNE_INTERVAL_SECONDS'', ''TOKEN_TTL_SECONDS'', ''SIGNED_URL_TTL_SECONDS'',
      ''AUTH_CODE_TTL_SECONDS'', ''OAUTH_REFRESH_GRACE_SECONDS'', ''REFRESH_TOKEN_TTL_SECONDS'',
      ''CANVA_REQUEST_TIMESTAMP_TOLERANCE_SECONDS'', ''RATE_LIMIT_MAX_REQUESTS'', ''RATE_LIMIT_WINDOW_MS'',
      ''RESOURCE_SPACE_ASSET_PROXY_MAX_BYTES'', ''RESOURCE_SPACE_SSO_PENDING_TTL_SECONDS'',
      ''RESOURCE_SPACE_SSO_REPLAY_RETENTION_SECONDS'', ''CANVA_UPLOAD_MAX_BYTES'', ''CANVA_UPLOAD_MAX_IMAGE_PIXELS'']"

definition int_setting_ok :: "string dict \<Rightarrow> string \<Rightarrow> bool" where
  "int_setting_ok env key \<longleftrightarrow> (case dict_get env key of None \<Rightarrow> True | Some v \<Rightarrow> py_int v \<noteq> None)"

definition int_setting :: "string dict \<Rightarrow> string \<Rightarrow> int \<Rightarrow> int" where
  "int_setting env key fallback = (case dict_get env key of None \<Rightarrow> fallback | Some v \<Rightarrow> the (py_int v))"

definition setting :: "string dict \<Rightarrow> string \<Rightarrow> string \<Rightarrow> string" where
  "setting env key fallback = (case dict_get env key of None \<Rightarrow> fallback | Some v \<Rightarrow> v)"

text \<open>An environment handed over by a test run without a mode is one of development.\<close>

definition config_source :: "bool \<Rightarrow> string dict \<Rightarrow> string dict" where
  "config_source under_pytest env =
     (if under_pytest \<and> dict_get env ''APP_ENV'' = None \<and> dict_get env ''NODE_ENV'' = None
      then (''APP_ENV'', ''development'') # env else env)"

definition environment_of :: "string dict \<Rightarrow> string" where
  "environment_of env = py_strip (str_or (dict_get env ''APP_ENV'') (str_or (dict_get env ''NODE_ENV'') ''production''))"

definition oauth_clients_of ::
  "(json \<Rightarrow> string) \<Rightarrow> (string \<Rightarrow> string) \<Rightarrow> string dict \<Rightarrow> oauth_client dict \<times> string option"
where
  "oauth_clients_of other json_message env =
     (let client_id = setting env ''OAUTH_CLIENT_ID'' ''canva-dev-app'';
          (extra, parse_error) = parse_oauth_clients_json other json_message (dict_get env ''OAUTH_CLIENTS_JSON'');
          base = (if client_id = [] then []
            else [(client_id, \<lparr>oc_client_id = client_id, oc_integration = Some ''canva'',
              oc_redirect_uri_allowlist = split_csv (dict_get env ''OAUTH_REDIRECT_URI_ALLOWLIST'')\<rparr>)])
      in (dict_update base extra, parse_error))"

definition oauth_settings :: "(json \<Rightarrow> string) \<Rightarrow> (string \<Rightarrow> string) \<Rightarrow> string dict \<Rightarrow> string \<Rightarrow> oauth_config" where
  "oauth_settings other json_message env broker_url =
     (let (found, parse_error) = oauth_clients_of other json_message env in
      \<lparr>issuer = setting env ''OAUTH_ISSUER'' broker_url,
       oauth_client_id = setting env ''OAUTH_CLIENT_ID'' ''canva-dev-app'',
       allow_default_client_id = parse_bool (dict_get env ''OAUTH_ALLOW_DEFAULT_CLIENT_ID''),
       oauth_redirect_uri_allowlist = split_csv (dict_get env ''OAUTH_REDIRECT_URI_ALLOWLIST''),
       clients = found, clients_parse_error = parse_error,
       token_ttl_seconds = int_setting env ''TOKEN_TTL_SECONDS'' 900,
       signed_url_ttl_seconds = int_setting env ''SIGNED_URL_TTL_SECONDS'' 300,
       auth_code_ttl_seconds = int_setting env ''AUTH_CODE_TTL_SECONDS'' 300,
       refresh_grace_seconds = int_setting env ''OAUTH_REFRESH_GRACE_SECONDS'' 30,
       refresh_token_ttl_seconds = int_setting env ''REFRESH_TOKEN_TTL_SECONDS'' (30 * 24 * 60 * 60)\<rparr>)"

definition resource_space_settings ::
  "(json \<Rightarrow> string) \<Rightarrow> (string \<Rightarrow> string) \<Rightarrow> string dict \<Rightarrow> resource_space_config"
where
  "resource_space_settings other json_message env =
     (let (found, parse_error) = parse_tenant_json other json_message (dict_get env ''RESOURCE_SPACE_TENANTS_JSON'') in
      \<lparr>rs_mode = py_lower (py_strip (setting env ''RESOURCE_SPACE_MODE'' ''fixture'')),
       allowed_hosts = split_csv (dict_get env ''RESOURCE_SPACE_ALLOWED_HOSTS''),
       tenants = found, tenants_parse_error = parse_error,
       container_source = setting env ''RESOURCE_SPACE_CONTAINER_SOURCE'' ''user_collections'',
       asset_allowed_hosts = split_csv (dict_get env ''RESOURCE_SPACE_ASSET_ALLOWED_HOSTS''),
       asset_proxy_max_bytes = int_setting env ''RESOURCE_SPACE_ASSET_PROXY_MAX_BYTES'' (50 * 1024 * 1024),
       sso_enabled = parse_bool (dict_get env ''RESOURCE_SPACE_SSO_ENABLED''),
       sso_system_key = setting env ''RESOURCE_SPACE_SSO_SYSTEM_KEY'' ''canva'',
       sso_pending_ttl_seconds = int_setting env ''RESOURCE_SPACE_SSO_PENDING_TTL_SECONDS'' 600,
       sso_replay_retention_seconds = int_setting env ''RESOURCE_SPACE_SSO_REPLAY_RETENTION_SECONDS'' 600\<rparr>)"

definition create_config ::
  "(json \<Rightarrow> string) \<Rightarrow> (string \<Rightarrow> string) \<Rightarrow> string \<Rightarrow> string dict \<Rightarrow> exn + app_config"
where
  "create_config other json_message default_storage_path env =
     (if \<not> list_all (int_setting_ok env) INT_SETTINGS then Inl ValueError
      else
        (let port_number = int_setting env ''PORT'' 3001;
             broker_url = setting env ''BASE_URL'' (''http://localhost:'' @ str_of_int port_number);
             mode = environment_of env;
             dev = (mode \<in> set DEV_LIKE_ENVIRONMENTS)
         in Inr
           \<lparr>environment = mode, port = port_number, base_url = broker_url,
            cors_origin = setting env ''CORS_ORIGIN'' ''*'',
            storage_path = setting env ''STORAGE_PATH'' default_storage_path,
            storage_encryption_key = setting env ''STORAGE_ENCRYPTION_KEY'' [],
            store_prune_interval_seconds = int_setting env ''STORE_PRUNE_INTERVAL_SECONDS'' 3600,
            client_ip_header = py_lower (py_strip (setting env ''CLIENT_IP_HEADER'' (if dev then [] else ''x-real-ip''))),
            trusted_proxy_hosts = (case dict_get env ''TRUSTED_PROXY_HOSTS'' of
                Some raw \<Rightarrow> split_csv (Some raw)
              | None \<Rightarrow> if dev then [] else split_csv (Some DEFAULT_TRUSTED_PROXY_HOSTS)),
            client_ip_log_key = py_strip (setting env ''CLIENT_IP_LOG_KEY'' []),
            client_ip_log_diagnostics = parse_bool (dict_get env ''CLIENT_IP_LOG_DIAGNOSTICS''),
            oauth = oauth_settings other json_message env broker_url,
            signing = \<lparr>asset_secret = setting env ''ASSET_SIGNING_SECRET'' ''development-signing-secret'',
              canva_client_secret = setting env ''CANVA_CLIENT_SECRET'' [],
              request_verification_mode = setting env ''CANVA_REQUEST_VERIFICATION_MODE'' ''smart'',
              request_timestamp_tolerance_seconds = int_setting env ''CANVA_REQUEST_TIMESTAMP_TOLERANCE_SECONDS'' 300\<rparr>,
            rate_limit = \<lparr>rl_max_requests = int_setting env ''RATE_LIMIT_MAX_REQUESTS'' 120,
              rl_window_ms = int_setting env ''RATE_LIMIT_WINDOW_MS'' 60000\<rparr>,
            resource_space = resource_space_settings other json_message env,
            upload = \<lparr>upload_allowed_hosts = split_csv (dict_get env ''CANVA_UPLOAD_ALLOWED_HOSTS''),
              upload_max_bytes = int_setting env ''CANVA_UPLOAD_MAX_BYTES'' (50 * 1024 * 1024),
              upload_max_image_pixels = int_setting env ''CANVA_UPLOAD_MAX_IMAGE_PIXELS'' 50000000\<rparr>,
            metrics = \<lparr>bearer_token = setting env ''METRICS_TOKEN'' []\<rparr>\<rparr>))"

section \<open>Validation at the start\<close>

text \<open>The problems that are reported, without the wording of their messages.\<close>

datatype config_problem =
    OnRailway string
  | ClientsParseError string
  | TenantsParseError string
  | VerificationNotRequired string
  | NoCanvaSecret
  | DefaultAssetSecret
  | NoClientId
  | PlaceholderClientId
  | NoRedirectAllowlist
  | ClientWithoutAllowlist string
  | OpenCors
  | UnknownMode string
  | NoEncryptionKey
  | BadEncryptionKey
  | NoTrustedProxies string
  | DiagnosticsForbidden string

text \<open>A parse error that is the empty text would not count; the parsers never report that.\<close>

definition cors_origins :: "app_config \<Rightarrow> string list" where
  "cors_origins cfg = comma_fields (cors_origin cfg)"

definition client_problems :: "app_config \<Rightarrow> config_problem list" where
  "client_problems cfg =
     (if oauth_client_id (oauth cfg) = [] then [NoClientId]
      else if oauth_client_id (oauth cfg) = ''canva-dev-app'' \<and> \<not> allow_default_client_id (oauth cfg)
      then [PlaceholderClientId] else []) @
     (if oauth_redirect_uri_allowlist (oauth cfg) = [] then [NoRedirectAllowlist] else []) @
     map (\<lambda>(client_id, _). ClientWithoutAllowlist client_id)
       (filter (\<lambda>(_, client). oc_redirect_uri_allowlist client = []) (clients (oauth cfg)))"

definition config_problems :: "(string \<Rightarrow> fernet option) \<Rightarrow> app_config \<Rightarrow> config_problem list" where
  "config_problems fernet_of_key cfg =
     (if truthy_str (clients_parse_error (oauth cfg)) then [ClientsParseError (the (clients_parse_error (oauth cfg)))] else []) @
     (if truthy_str (tenants_parse_error (resource_space cfg))
      then [TenantsParseError (the (tenants_parse_error (resource_space cfg)))] else []) @
     (if request_verification_mode (signing cfg) \<noteq> ''required''
      then [VerificationNotRequired (request_verification_mode (signing cfg))] else []) @
     (if canva_client_secret (signing cfg) = [] then [NoCanvaSecret] else []) @
     (if asset_secret (signing cfg) \<in> {[], ''development-signing-secret''} then [DefaultAssetSecret] else []) @
     client_problems cfg @
     (if cors_origins cfg = [] \<or> ''*'' \<in> set (cors_origins cfg) then [OpenCors] else []) @
     (if rs_mode (resource_space cfg) \<notin> {''fixture'', ''live''} then [UnknownMode (rs_mode (resource_space cfg))] else []) @
     (if storage_encryption_key cfg = [] then [NoEncryptionKey]
      else if create_field_cipher fernet_of_key (Some (storage_encryption_key cfg)) = None
      then [BadEncryptionKey] else []) @
     (if client_ip_header cfg \<noteq> [] \<and> trusted_proxy_hosts cfg = [] then [NoTrustedProxies (client_ip_header cfg)] else []) @
     (if client_ip_log_diagnostics cfg \<and> py_lower (environment cfg) \<notin> set CLIENT_IP_LOG_DIAGNOSTICS_ENVIRONMENTS
      then [DiagnosticsForbidden (environment cfg)] else [])"

text \<open>No problems: the validation returns.\<close>

definition validate_config_for_environment ::
  "bool \<Rightarrow> (string \<Rightarrow> fernet option) \<Rightarrow> app_config \<Rightarrow> config_problem list"
where
  "validate_config_for_environment on_railway fernet_of_key cfg =
     (if on_railway \<and> dev_like cfg then [OnRailway (environment cfg)]
      else if dev_like cfg then []
      else config_problems fernet_of_key cfg)"

section \<open>Facts\<close>

text \<open>A client of the table has its id as its key.\<close>

lemma client_entries_keys:
  "client_entries other index js found = Inr cs \<Longrightarrow>
     (\<And>k c. (k, c) \<in> set found \<Longrightarrow> oc_client_id c = k) \<Longrightarrow> (k, c) \<in> set cs \<Longrightarrow> oc_client_id c = k"
proof (induction other index js found arbitrary: cs rule: client_entries.induct)
  case (2 other index entry js found)
  have upd: "(k, c) \<in> set (AList.update i v found) \<Longrightarrow> (k, c) = (i, v) \<or> (k, c) \<in> set found" for k c i v
    by (induction found) (auto split: if_splits)
  from 2 show ?case by (fastforce simp: Let_def dest: upd split: if_splits option.splits)
qed auto

end
