(* ===== verification/Store_Files.thy ===== *)
theory Store_Files
  imports Json_Layout
begin

text \<open>
  The file behind \<^verbatim>\<open>services/json_store.py\<close>: the store file and the temporary file beside it, the calls
  into the operating system that \<^verbatim>\<open>_ensure_file\<close>, \<^verbatim>\<open>_restrict_perms\<close>, \<^verbatim>\<open>_load\<close>, \<^verbatim>\<open>_save\<close>, \<^verbatim>\<open>read\<close> and
  \<^verbatim>\<open>update\<close> make, in their order, and the lock that threads take around them. An operation yields the
  list of its calls, so that a crash is a prefix of them, and threads run their calls one by one. A
  file is the text it holds, or \<open>None\<close> when that is not UTF-8, and its permission bits; of the
  directory there are the permission bits, which are restricted on a best effort. Calls other than
  \<^verbatim>\<open>chmod\<close> are taken to succeed.
\<close>

section \<open>Files and calls\<close>

record stored_file =
  sf_text :: "string option"
  sf_mode :: nat

text \<open>Whether the volume honours \<^verbatim>\<open>chmod\<close>, and the mode that the umask leaves a new file.\<close>

record file_system =
  fs_main :: "stored_file option"
  fs_tmp :: "stored_file option"
  fs_dir :: "nat option"
  fs_lockable :: bool
  fs_new_mode :: nat

datatype which_file = MainFile | TmpFile

text \<open>\<^verbatim>\<open>write_text\<close> is \<open>Create\<close>, which truncates, and \<open>Append\<close>; \<^verbatim>\<open>os.replace\<close> is atomic.\<close>

datatype fs_call = MakeDir nat | ChmodDir nat | Create which_file | Append which_file string | Chmod which_file nat | Replace

fun file_of :: "which_file \<Rightarrow> file_system \<Rightarrow> stored_file option" where
  "file_of MainFile s = fs_main s"
| "file_of TmpFile s = fs_tmp s"

fun with_file :: "which_file \<Rightarrow> stored_file option \<Rightarrow> file_system \<Rightarrow> file_system" where
  "with_file MainFile x s = s\<lparr>fs_main := x\<rparr>"
| "with_file TmpFile x s = s\<lparr>fs_tmp := x\<rparr>"

fun apply_call :: "fs_call \<Rightarrow> file_system \<Rightarrow> file_system" where
  "apply_call (MakeDir m) s = (if fs_dir s = None then s\<lparr>fs_dir := Some m\<rparr> else s)"
| "apply_call (ChmodDir m) s = (if fs_lockable s then s\<lparr>fs_dir := Some m\<rparr> else s)"
| "apply_call (Create f) s =
     with_file f (Some \<lparr>sf_text = Some [], sf_mode = (case file_of f s of None \<Rightarrow> fs_new_mode s | Some x \<Rightarrow> sf_mode x)\<rparr>) s"
| "apply_call (Append f t) s =
     with_file f (map_option (\<lambda>x. x\<lparr>sf_text := map_option (\<lambda>u. u @ t) (sf_text x)\<rparr>) (file_of f s)) s"
| "apply_call (Chmod f m) s =
     (if fs_lockable s then with_file f (map_option (\<lambda>x. x\<lparr>sf_mode := m\<rparr>) (file_of f s)) s else s)"
| "apply_call Replace s = s\<lparr>fs_main := fs_tmp s, fs_tmp := None\<rparr>"

definition apply_calls :: "fs_call list \<Rightarrow> file_system \<Rightarrow> file_system" where
  "apply_calls cs s = fold apply_call cs s"

lemma apply_calls_simps [simp]:
  "apply_calls [] s = s" "apply_calls (c # cs) s = apply_calls cs (apply_call c s)"
  "apply_calls (cs @ ds) s = apply_calls ds (apply_calls cs s)"
  by (simp_all add: apply_calls_def)

section \<open>The operations of the store\<close>

definition document :: "json dict dict \<Rightarrow> json" where
  "document st = JObj (map (\<lambda>(k, b). (k, JObj b)) st)"

text \<open>\<^verbatim>\<open>json.dumps(state, indent=2)\<close>\<close>

definition store_text :: "json dict dict \<Rightarrow> string" where
  "store_text st = dump_indent 0 (document st)"

text \<open>0600\<close>

definition OWNER_ONLY :: nat where
  "OWNER_ONLY = 384"

text \<open>0700\<close>

definition OWNER_DIR :: nat where
  "OWNER_DIR = 448"

text \<open>The calls, and the exception of a volume that does not honour \<^verbatim>\<open>chmod\<close> when it must.\<close>

definition restrict_perms :: "bool \<Rightarrow> which_file \<Rightarrow> file_system \<Rightarrow> fs_call list \<times> exn option" where
  "restrict_perms fatal f s = ([Chmod f OWNER_ONLY], if \<not> fs_lockable s \<and> fatal then Some RuntimeError else None)"

definition ensure_file :: "bool \<Rightarrow> file_system \<Rightarrow> fs_call list \<times> exn option" where
  "ensure_file secure s =
     (case restrict_perms secure MainFile s of
        (cs, e) \<Rightarrow>
          (MakeDir OWNER_DIR #
           (if fs_main s = None then [Create MainFile, Append MainFile (store_text clone_initial_state)] else []) @ cs @
           (if e = None then [ChmodDir OWNER_DIR] else []), e))"

text \<open>A text that is not UTF-8 raises \<^verbatim>\<open>UnicodeDecodeError\<close>, which nothing here catches.\<close>

definition read_file :: "bool \<Rightarrow> file_system \<Rightarrow> exn + json dict dict" where
  "read_file strict s =
     (case fs_main s of
        None \<Rightarrow> load None strict
      | Some x \<Rightarrow> (case sf_text x of None \<Rightarrow> Inl ValueError | Some t \<Rightarrow> load (loads t) strict))"

definition save_calls :: "bool \<Rightarrow> json dict dict \<Rightarrow> file_system \<Rightarrow> fs_call list \<times> exn option" where
  "save_calls secure st s =
     (case ensure_file secure s of
        (cs, Some e) \<Rightarrow> (cs, Some e)
      | (cs, None) \<Rightarrow>
          (case restrict_perms secure TmpFile s of
             (ds, Some e) \<Rightarrow> (cs @ [Create TmpFile, Append TmpFile (store_text st)] @ ds, Some e)
           | (ds, None) \<Rightarrow> (cs @ [Create TmpFile, Append TmpFile (store_text st)] @ ds @ [Replace], None)))"

definition file_read :: "bool \<Rightarrow> file_system \<Rightarrow> (exn + json dict dict) \<times> fs_call list" where
  "file_read secure s =
     (case ensure_file secure s of
        (cs, Some e) \<Rightarrow> (Inl e, cs)
      | (cs, None) \<Rightarrow> (read_file False (apply_calls cs s), cs))"

type_synonym 'r updater = "json dict dict \<Rightarrow> world \<Rightarrow> (exn + 'r) \<times> json dict dict \<times> world"

definition file_update ::
  "bool \<Rightarrow> 'r updater \<Rightarrow> file_system \<Rightarrow> world \<Rightarrow> (exn + 'r) \<times> fs_call list \<times> world"
where
  "file_update secure f s w =
     (case ensure_file secure s of
        (cs, Some e) \<Rightarrow> (Inl e, cs, w)
      | (cs, None) \<Rightarrow>
          (case read_file True (apply_calls cs s) of
             Inl e \<Rightarrow> (Inl e, cs, w)
           | Inr st \<Rightarrow>
               (case f st w of
                  (Inl e, _, w') \<Rightarrow> (Inl e, cs, w')
                | (Inr r, st', w') \<Rightarrow>
                    (case save_calls secure st' (apply_calls cs s) of
                       (ds, Some e) \<Rightarrow> (Inl e, cs @ ds, w')
                     | (ds, None) \<Rightarrow> (Inr r, cs @ ds, w')))))"

section \<open>What the file holds\<close>

text \<open>The state that a write starts from; \<open>None\<close> when the file does not load strictly.\<close>

definition view_of :: "file_system \<Rightarrow> json dict dict option" where
  "view_of s =
     (case fs_main s of
        None \<Rightarrow> Some clone_initial_state
      | Some x \<Rightarrow>
          (case sf_text x of
             None \<Rightarrow> None
           | Some t \<Rightarrow> (case load (loads t) True of Inl _ \<Rightarrow> None | Inr st \<Rightarrow> Some st)))"

text \<open>What the updaters of the services leave: the five buckets, without floats and repeated keys.\<close>

definition storable :: "json dict dict \<Rightarrow> bool" where
  "storable st \<longleftrightarrow> map fst st = bucket_names \<and> json_ok (document st)"

definition storing :: "'r updater \<Rightarrow> bool" where
  "storing f \<longleftrightarrow> (\<forall>st w r st' w'. f st w = (Inr r, st', w') \<longrightarrow> storable st')"

text \<open>The same, of the one transaction at hand.\<close>

definition storing_at :: "'r updater \<Rightarrow> file_system \<Rightarrow> world \<Rightarrow> bool" where
  "storing_at f s w \<longleftrightarrow> (\<forall>st r st' w'. view_of s = Some st \<longrightarrow> f st w = (Inr r, st', w') \<longrightarrow> storable st')"

lemma storing_at: "storing f \<Longrightarrow> storing_at f s w"
  by (auto simp: storing_def storing_at_def)

definition decodable :: "file_system \<Rightarrow> bool" where
  "decodable s \<longleftrightarrow> (\<forall>x. fs_main s = Some x \<longrightarrow> sf_text x \<noteq> None)"

lemma storable_initial: "storable clone_initial_state"
  by (simp add: storable_def clone_initial_state_def bucket_names_def document_def)

lemma load_stored: "storable st \<Longrightarrow> load (loads (store_text st)) strict = Inr st"
  using load_save [of st strict] loads_indent [of "document st" 0]
  by (simp add: storable_def store_text_def document_def save_def)

lemma view_stored: "storable st \<Longrightarrow> fs_main s = Some \<lparr>sf_text = Some (store_text st), sf_mode = m\<rparr> \<Longrightarrow> view_of s = Some st"
  by (simp add: view_of_def load_stored)

text \<open>The state of the files after the first steps of an operation.\<close>

lemma ensured:
  assumes "ensure_file secure s = (cs, e)"
  shows "fs_main (apply_calls cs s) \<noteq> None" and "fs_lockable (apply_calls cs s) = fs_lockable s"
    and "view_of (apply_calls cs s) = view_of s" and "decodable s \<Longrightarrow> decodable (apply_calls cs s)"
    and "e = (if \<not> fs_lockable s \<and> secure then Some RuntimeError else None)"
    and "fs_main s = None \<Longrightarrow> view_of (apply_calls cs s) = Some clone_initial_state"
  using assms
  by (auto simp: ensure_file_def restrict_perms_def view_of_def decodable_def load_stored storable_initial
      split: if_splits option.splits)

lemma load_error: "load x strict = Inl e \<Longrightarrow> e = StoreLoadError"
proof -
  have "merge_buckets strict d keys = Inl e \<Longrightarrow> e = StoreLoadError" for d keys
    by (induction keys) (auto simp: merge_bucket_def split: sum.splits option.splits json.splits if_splits)
  then show "load x strict = Inl e \<Longrightarrow> e = StoreLoadError"
    by (auto simp: load_def merge_store_def split: option.splits json.splits if_splits)
qed

lemma read_view:
  assumes "fs_main s \<noteq> None" and "decodable s"
  shows "read_file True s = (case view_of s of None \<Rightarrow> Inl StoreLoadError | Some st \<Rightarrow> Inr st)"
  using assms by (auto simp: read_file_def view_of_def decodable_def dest: load_error split: option.splits sum.splits)

lemma saved:
  assumes "save_calls secure st s = (cs, None)" and "fs_main s \<noteq> None"
  shows "fs_main (apply_calls cs s) = Some \<lparr>sf_text = Some (store_text st),
      sf_mode = (if fs_lockable s then OWNER_ONLY else case fs_tmp s of None \<Rightarrow> fs_new_mode s | Some x \<Rightarrow> sf_mode x)\<rparr>"
    and "fs_lockable (apply_calls cs s) = fs_lockable s"
  using assms by (auto simp: save_calls_def ensure_file_def restrict_perms_def split: if_splits option.splits)

lemma save_lockable: "fs_lockable s \<or> \<not> secure \<Longrightarrow> \<exists>cs. save_calls secure st s = (cs, None)"
  by (auto simp: save_calls_def ensure_file_def restrict_perms_def)

section \<open>The file refines the transaction\<close>

lemma file_run_view:
  assumes "storing_at f s w" and "decodable s" and "fs_lockable s \<or> \<not> secure"
    and "file_update secure f s w = (r, cs, w')"
  shows "store_update f (view_of s) w = (r, view_of (apply_calls cs s), w')" and "decodable (apply_calls cs s)"
    and "fs_lockable (apply_calls cs s) = fs_lockable s"
    and "\<forall>x. r = Inr x \<and> fs_lockable s \<longrightarrow> map_option sf_mode (fs_main (apply_calls cs s)) = Some OWNER_ONLY"
proof -
  obtain es e where es: "ensure_file secure s = (es, e)" by fastforce
  let ?s = "apply_calls es s"
  note en = ensured [OF es]
  have e: "e = None" using en(5) assms(3) by auto
  note run = assms(4) [unfolded file_update_def es e prod.case option.case read_view [OF en(1) en(4) [OF assms(2)]] en(3)]
  have all: "store_update f (view_of s) w = (r, view_of (apply_calls cs s), w') \<and> decodable (apply_calls cs s) \<and>
      fs_lockable (apply_calls cs s) = fs_lockable s \<and>
      (\<forall>x. r = Inr x \<and> fs_lockable s \<longrightarrow> map_option sf_mode (fs_main (apply_calls cs s)) = Some OWNER_ONLY)"
  proof (cases "view_of s")
    case None
    with run en assms(2) show ?thesis by auto
  next
    case (Some st)
    obtain x st' w1 where f: "f st w = (x, st', w1)" by (metis prod.exhaust)
    show ?thesis
    proof (cases x)
      case (Inl err)
      with run Some f en assms(2) show ?thesis by (auto simp: store_update_Some)
    next
      case (Inr v)
      obtain ds where ds: "save_calls secure st' ?s = (ds, None)"
        using save_lockable [of ?s secure st'] assms(3) en(2) by auto
      have cs: "r = Inr v" "cs = es @ ds" "w' = w1" using run by (simp_all add: Some f Inr ds)
      have "storable st'" using assms(1) f Some unfolding Inr storing_at_def by blast
      with saved [OF ds en(1)] en(2) show ?thesis
        by (auto simp: cs f Inr store_update_Some Some view_stored decodable_def)
    qed
  qed
  then show "store_update f (view_of s) w = (r, view_of (apply_calls cs s), w')" "decodable (apply_calls cs s)"
    "fs_lockable (apply_calls cs s) = fs_lockable s"
    "\<forall>x. r = Inr x \<and> fs_lockable s \<longrightarrow> map_option sf_mode (fs_main (apply_calls cs s)) = Some OWNER_ONLY"
    by blast+
qed

section \<open>Crashes\<close>

text \<open>The calls that were carried out when the process stopped: a prefix, perhaps with part of a text.\<close>

inductive interrupted :: "fs_call list \<Rightarrow> fs_call list \<Rightarrow> bool" where
  stopped_between: "interrupted cs (take n cs)"
| stopped_writing: "n < length cs \<Longrightarrow> cs ! n = Append f t \<Longrightarrow> interrupted cs (take n cs @ [Append f (take k t)])"

inductive_cases interruptedE: "interrupted cs ds"

lemma interrupted_Nil: "interrupted [] ds \<Longrightarrow> ds = []"
  by (auto elim: interruptedE)

lemma interrupted_Cons:
  assumes "interrupted (c # cs) ds"
  obtains "ds = []" | f t k where "c = Append f t" "ds = [Append f (take k t)]"
    | es where "interrupted cs es" "ds = c # es"
  using assms
proof (cases rule: interrupted.cases)
  case (stopped_between n)
  then show ?thesis using that(1) that(3) [OF interrupted.stopped_between] by (cases n) simp_all
next
  case (stopped_writing n f t k)
  then show ?thesis using that(2) that(3) [OF interrupted.stopped_writing] by (cases n) simp_all
qed

text \<open>Calls that do not touch the text of the store file.\<close>

definition main_kept :: "fs_call \<Rightarrow> bool" where
  "main_kept c \<longleftrightarrow> (case c of Create f \<Rightarrow> f = TmpFile | Append f t \<Rightarrow> f = TmpFile | Replace \<Rightarrow> False | _ \<Rightarrow> True)"

definition main_text :: "file_system \<Rightarrow> string option option" where
  "main_text s = map_option sf_text (fs_main s)"

lemma main_kept_call: "main_kept c \<Longrightarrow> main_text (apply_call c s) = main_text s"
proof (cases c)
  case (Chmod f m)
  then show ?thesis by (cases f; cases "fs_main s") (simp_all add: main_text_def)
qed (auto simp: main_kept_def main_text_def)

lemma main_kept_calls: "list_all main_kept cs \<Longrightarrow> main_text (apply_calls cs s) = main_text s"
  by (induction cs arbitrary: s) (simp_all add: main_kept_call)

lemma main_kept_interrupted: "interrupted cs ds \<Longrightarrow> list_all main_kept cs \<Longrightarrow> list_all main_kept ds"
proof (induction rule: interrupted.induct)
  case (stopped_between cs n)
  then show ?case by (auto simp: list_all_iff dest: in_set_takeD)
next
  case (stopped_writing n cs f t k)
  then have "main_kept (Append f t)" by (metis list_all_length)
  with stopped_writing show ?case by (auto simp: list_all_iff main_kept_def dest: in_set_takeD)
qed

lemma interrupted_before_replace: "interrupted (cs @ [Replace]) ds \<Longrightarrow> interrupted cs ds \<or> ds = cs @ [Replace]"
proof (induction "cs @ [Replace]" ds rule: interrupted.induct)
  case (stopped_between n)
  show ?case by (cases "n \<le> length cs") (auto intro: interrupted.stopped_between)
next
  case (stopped_writing n f t k)
  then have "n < length cs" by (cases "n = length cs") (auto simp: nth_append)
  with stopped_writing(2) show ?case by (auto simp: nth_append intro: interrupted.stopped_writing)
qed

lemma view_text: "main_text s = main_text t \<Longrightarrow> view_of s = view_of t"
  by (cases "fs_main s"; cases "fs_main t") (simp_all add: main_text_def view_of_def)

lemma update_shape:
  assumes "file_update secure f s w = (r, cs, w')" and "fs_main s \<noteq> None"
  obtains ks where "list_all main_kept ks" and "cs = ks \<and> (\<exists>e. r = Inl e) \<or> cs = ks @ [Replace] \<and> (\<exists>x. r = Inr x)"
proof -
  have ens: "ensure_file secure t = (es, e) \<Longrightarrow> fs_main t \<noteq> None \<Longrightarrow> list_all main_kept es" for t es e
    by (auto simp: ensure_file_def restrict_perms_def main_kept_def)
  have sav: "save_calls secure st t = (ds, e) \<Longrightarrow> fs_main t \<noteq> None \<Longrightarrow>
      (\<exists>ks. list_all main_kept ks \<and> (ds = ks \<and> e \<noteq> None \<or> ds = ks @ [Replace] \<and> e = None))" for st t ds e
    by (auto simp: save_calls_def ensure_file_def restrict_perms_def main_kept_def split: if_splits)
  obtain es e where es: "ensure_file secure s = (es, e)" by fastforce
  have kept: "list_all main_kept es" and main: "fs_main (apply_calls es s) \<noteq> None"
    using ens [OF es assms(2)] ensured(1) [OF es] by simp_all
  have "(\<exists>x. r = Inl x) \<and> cs = es \<or> (\<exists>st ds x. save_calls secure st (apply_calls es s) = (ds, x) \<and> cs = es @ ds \<and>
      (case x of None \<Rightarrow> \<exists>v. r = Inr v | Some y \<Rightarrow> r = Inl y))"
    using assms(1) by (auto simp: file_update_def es split: option.splits sum.splits prod.splits)
  then show thesis
  proof (elim disjE conjE exE)
    fix x assume "r = Inl x" "cs = es"
    with kept show thesis by (intro that [of es]) simp_all
  next
    fix st ds x
    assume save: "save_calls secure st (apply_calls es s) = (ds, x)" "cs = es @ ds"
      and r: "case x of None \<Rightarrow> \<exists>v. r = Inr v | Some y \<Rightarrow> r = Inl y"
    obtain ks where "list_all main_kept ks" "ds = ks \<and> x \<noteq> None \<or> ds = ks @ [Replace] \<and> x = None"
      using sav [OF save(1) main] by blast
    with save(2) r kept show thesis by (intro that [of "es @ ks"]) (auto split: option.splits)
  qed
qed

lemma interrupted_update:
  assumes "storing_at f s w" and "decodable s" and "fs_lockable s \<or> \<not> secure" and "fs_main s \<noteq> None"
    and "file_update secure f s w = (r, cs, w')" and "interrupted cs ds"
  shows "main_text (apply_calls ds s) = main_text s \<or>
    ds = cs \<and> (\<exists>st st' v. view_of s = Some st \<and> f st w = (Inr v, st', w') \<and> view_of (apply_calls ds s) = Some st')"
proof -
  obtain ks where ks: "list_all main_kept ks" "cs = ks \<and> (\<exists>e. r = Inl e) \<or> cs = ks @ [Replace] \<and> (\<exists>x. r = Inr x)"
    by (rule update_shape [OF assms(5,4)])
  have kept: "main_text (apply_calls ds s) = main_text s" if "interrupted ks ds"
    using main_kept_calls [OF main_kept_interrupted [OF that ks(1)]] .
  from ks(2) show ?thesis
  proof (elim disjE conjE exE)
    assume "cs = ks"
    with assms(6) kept show ?thesis by simp
  next
    fix x assume cs: "cs = ks @ [Replace]" and r: "r = Inr x"
    from interrupted_before_replace [of ks ds] assms(6) cs kept show ?thesis
      using store.commit [OF file_run_view(1) [OF assms(1-3,5), unfolded r]] by auto
  qed
qed

section \<open>Threads\<close>

text \<open>
  Threads share the files and take the lock around a whole operation. A thread that holds the lock
  first loads, runs its updater and has the list of its calls, then makes them one at a time, while
  the other threads run. A log holds the updates in the order of the lock, with the world that the
  updater saw and the result.
\<close>

datatype 'r job = UpdateJob "'r updater" | ReadJob

datatype 'r phase = Idle | Waiting "'r job" | Holding "'r job" | Calling "fs_call list"

record 'r threads =
  th_files :: file_system
  th_lock :: "nat option"
  th_phase :: "nat \<Rightarrow> 'r phase"
  th_log :: "('r updater \<times> world \<times> (exn + 'r)) list"

inductive thread_step :: "bool \<Rightarrow> 'r threads \<Rightarrow> 'r threads \<Rightarrow> bool" for secure where
  ask: "th_phase t i = Idle \<Longrightarrow> thread_step secure t (t\<lparr>th_phase := (th_phase t)(i := Waiting j)\<rparr>)"
| acquire: "th_phase t i = Waiting j \<Longrightarrow> th_lock t = None \<Longrightarrow>
    thread_step secure t (t\<lparr>th_lock := Some i, th_phase := (th_phase t)(i := Holding j)\<rparr>)"
| load_update: "th_phase t i = Holding (UpdateJob f) \<Longrightarrow> file_update secure f (th_files t) w = (r, cs, w') \<Longrightarrow>
    thread_step secure t (t\<lparr>th_phase := (th_phase t)(i := Calling cs), th_log := th_log t @ [(f, w, r)]\<rparr>)"
| load_read: "th_phase t i = Holding ReadJob \<Longrightarrow> file_read secure (th_files t) = (r, cs) \<Longrightarrow>
    thread_step secure t (t\<lparr>th_phase := (th_phase t)(i := Calling cs)\<rparr>)"
| call: "th_phase t i = Calling (c # cs) \<Longrightarrow>
    thread_step secure t (t\<lparr>th_files := apply_call c (th_files t), th_phase := (th_phase t)(i := Calling cs)\<rparr>)"
| release: "th_phase t i = Calling [] \<Longrightarrow>
    thread_step secure t (t\<lparr>th_lock := None, th_phase := (th_phase t)(i := Idle)\<rparr>)"

definition start_threads :: "file_system \<Rightarrow> 'r threads" where
  "start_threads s = \<lparr>th_files = s, th_lock = None, th_phase = (\<lambda>_. Idle), th_log = []\<rparr>"

text \<open>The log as transactions one after the other: \<open>None\<close> when a result differs.\<close>

fun serial :: "json dict dict option \<Rightarrow> ('r updater \<times> world \<times> (exn + 'r)) list \<Rightarrow> json dict dict option option" where
  "serial d [] = Some d"
| "serial d ((f, w, r) # log) = (case store_update f d w of (r', d', w') \<Rightarrow> if r' = r then serial d' log else None)"

lemma serial_append: "serial d (log @ [(f, w, r)]) = (case serial d log of None \<Rightarrow> None
    | Some d' \<Rightarrow> (case store_update f d' w of (r', d'', w') \<Rightarrow> if r' = r then Some d'' else None))"
  by (induction d log rule: serial.induct) (auto split: prod.splits)

definition resting :: "'r phase \<Rightarrow> bool" where
  "resting p \<longleftrightarrow> (case p of Idle \<Rightarrow> True | Waiting _ \<Rightarrow> True | _ \<Rightarrow> False)"

definition log_ok :: "'r threads \<Rightarrow> bool" where
  "log_ok t \<longleftrightarrow> (\<forall>(f, w, r) \<in> set (th_log t). storing f)"

text \<open>Only the thread with the lock is at work, and the log leads to the file as it will be then.\<close>

definition thread_inv :: "bool \<Rightarrow> file_system \<Rightarrow> 'r threads \<Rightarrow> bool" where
  "thread_inv secure s t \<longleftrightarrow>
     (\<forall>i. th_lock t \<noteq> Some i \<longrightarrow> resting (th_phase t i)) \<and>
     (let pending = (case th_lock t of None \<Rightarrow> [] | Some i \<Rightarrow> (case th_phase t i of Calling cs \<Rightarrow> cs | _ \<Rightarrow> []));
          files = apply_calls pending (th_files t)
      in (\<forall>i. th_lock t = Some i \<longrightarrow> \<not> resting (th_phase t i)) \<and>
         decodable files \<and> fs_lockable files = fs_lockable s \<and> serial (view_of s) (th_log t) = Some (view_of files))"

lemma thread_invD:
  assumes "thread_inv secure s t" and "\<not> resting (th_phase t i)"
  shows "th_lock t = Some i"
  using assms by (auto simp: thread_inv_def)

lemma thread_inv_start: "decodable s \<Longrightarrow> thread_inv secure s (start_threads s)"
  by (simp add: thread_inv_def start_threads_def resting_def)

lemma thread_inv_step:
  assumes "thread_step secure t t'" and "thread_inv secure s t" and "fs_lockable s \<or> \<not> secure" and "log_ok t'"
  shows "thread_inv secure s t'"
  using assms(1)
proof cases
  case (ask i j)
  then have "th_lock t \<noteq> Some i" using assms(2) by (auto simp: thread_inv_def resting_def Let_def)
  with assms(2) show ?thesis by (auto simp: ask(1) thread_inv_def resting_def Let_def split: option.splits)
next
  case (acquire i j)
  with assms(2) show ?thesis by (auto simp: thread_inv_def resting_def)
next
  case (load_update i f w r cs w')
  have lock: "th_lock t = Some i" using thread_invD [OF assms(2), of i] load_update(2) by (simp add: resting_def)
  note inv = assms(2) [unfolded thread_inv_def lock Let_def, simplified, unfolded load_update(2), simplified]
  have "storing f" using assms(4) by (simp add: log_ok_def load_update(1))
  from file_run_view [OF storing_at [OF this] _ _ load_update(3)] inv assms(3) show ?thesis
    by (auto simp: load_update(1) thread_inv_def lock resting_def serial_append)
next
  case (load_read i r cs)
  have lock: "th_lock t = Some i" using thread_invD [OF assms(2), of i] load_read(2) by (simp add: resting_def)
  note inv = assms(2) [unfolded thread_inv_def lock Let_def, simplified, unfolded load_read(2), simplified]
  obtain e where "ensure_file secure (th_files t) = (cs, e)"
    using load_read(3) by (auto simp: file_read_def split: prod.splits option.splits)
  from ensured [OF this] inv show ?thesis by (auto simp: load_read(1) thread_inv_def lock resting_def)
next
  case (call i c cs)
  have lock: "th_lock t = Some i" using thread_invD [OF assms(2), of i] call(2) by (simp add: resting_def)
  show ?thesis using assms(2) by (auto simp: call thread_inv_def lock resting_def)
next
  case (release i)
  have lock: "th_lock t = Some i" using thread_invD [OF assms(2), of i] release(2) by (simp add: resting_def)
  show ?thesis using assms(2) by (auto simp: release thread_inv_def lock resting_def)
qed

lemma log_ok_step: "thread_step secure t t' \<Longrightarrow> log_ok t' \<Longrightarrow> log_ok t"
  by (induction rule: thread_step.induct) (auto simp: log_ok_def)

lemma thread_run:
  assumes "reach (thread_step secure) t t'" and "thread_inv secure s t" and "fs_lockable s \<or> \<not> secure" and "log_ok t'"
  shows "thread_inv secure s t'"
  using assms(1,2,4)
proof (induction rule: reach.induct)
  case (reach_step t1 t2)
  with assms(3) log_ok_step thread_inv_step show ?case by blast
qed

text \<open>A thread at work can always finish and release the lock.\<close>

lemma calls_run:
  assumes "th_phase t i = Calling cs"
  shows "reach (thread_step secure) t (t\<lparr>th_files := apply_calls cs (th_files t), th_phase := (th_phase t)(i := Calling [])\<rparr>)"
  using assms
proof (induction cs arbitrary: t)
  case Nil
  then have "(th_phase t)(i := Calling []) = th_phase t" by auto
  then show ?case by (simp add: reach_refl)
next
  case (Cons c cs)
  let ?t = "t\<lparr>th_files := apply_call c (th_files t), th_phase := (th_phase t)(i := Calling cs)\<rparr>"
  have first: "reach (thread_step secure) t ?t" by (rule reach_step [of "thread_step secure" t t], rule reach_refl, rule call [OF Cons.prems])
  have rest: "reach (thread_step secure) ?t
      (?t\<lparr>th_files := apply_calls cs (th_files ?t), th_phase := (th_phase ?t)(i := Calling [])\<rparr>)"
    by (rule Cons.IH) simp
  from reach_trans [OF rest first] show ?case by (simp add: fun_upd_def cong: if_cong)
qed

lemma update_run:
  assumes "th_phase t i = Idle" and "th_lock t = None" and "file_update secure f (th_files t) w = (r, cs, w')"
  shows "reach (thread_step secure) t (t\<lparr>th_files := apply_calls cs (th_files t), th_log := th_log t @ [(f, w, r)]\<rparr>)"
proof -
  let ?w = "t\<lparr>th_phase := (th_phase t)(i := Waiting (UpdateJob f))\<rparr>"
  let ?h = "?w\<lparr>th_lock := Some i, th_phase := (th_phase ?w)(i := Holding (UpdateJob f))\<rparr>"
  let ?c = "?h\<lparr>th_phase := (th_phase ?h)(i := Calling cs), th_log := th_log t @ [(f, w, r)]\<rparr>"
  let ?d = "?c\<lparr>th_files := apply_calls cs (th_files ?c), th_phase := (th_phase ?c)(i := Calling [])\<rparr>"
  have "thread_step secure t ?w" by (rule ask [OF assms(1)])
  moreover have "thread_step secure ?w ?h" by (rule acquire) (simp_all add: assms(2))
  moreover have "thread_step secure ?h ?c" using load_update [of ?h i f secure w r cs w'] assms(3) by simp
  moreover have "reach (thread_step secure) ?c ?d" by (rule calls_run) simp
  moreover have "thread_step secure ?d (?d\<lparr>th_lock := None, th_phase := (th_phase ?d)(i := Idle)\<rparr>)"
    by (rule release) simp
  ultimately have "reach (thread_step secure) t (?d\<lparr>th_lock := None, th_phase := (th_phase ?d)(i := Idle)\<rparr>)"
    by (meson reach_refl reach_step reach_trans)
  moreover have "?d\<lparr>th_lock := None, th_phase := (th_phase ?d)(i := Idle)\<rparr> =
      t\<lparr>th_files := apply_calls cs (th_files t), th_log := th_log t @ [(f, w, r)]\<rparr>"
    using assms(1,2) by (cases t) auto
  ultimately show ?thesis by (simp only:)
qed

end
