(* ===== verification/Startup.thy ===== *)
theory Startup
  imports Config_Loading Store_Files
begin

text \<open>
  The start of the process: \<^verbatim>\<open>run\<close> and \<^verbatim>\<open>create_app\<close> of \<^verbatim>\<open>main.py\<close>, and the part of
  \<^verbatim>\<open>build_dependencies\<close> that opens the store file. The settings handed to the CORS middleware and to
  the server are data; what these libraries do with them is not modelled.
\<close>

section \<open>The store file\<close>

text \<open>\<^verbatim>\<open>require_secure_permissions\<close>\<close>

definition secure_store :: "app_config \<Rightarrow> bool" where
  "secure_store cfg \<longleftrightarrow> \<not> dev_like cfg"

text \<open>\<^verbatim>\<open>JsonStore.__init__\<close>: the file is made or locked down before anything is read from it.\<close>

definition open_store :: "app_config \<Rightarrow> file_system \<Rightarrow> exn option \<times> file_system" where
  "open_store cfg fs = (case ensure_file (secure_store cfg) fs of (cs, e) \<Rightarrow> (e, apply_calls cs fs))"

section \<open>The application\<close>

record cors_settings =
  cors_allow_origins :: "string list"
  cors_allow_methods :: "string list"
  cors_allow_headers :: "string list"

definition cors_middleware :: "app_config \<Rightarrow> cors_settings" where
  "cors_middleware cfg =
     \<lparr>cors_allow_origins = (if cors_origins cfg = [] then [''*''] else cors_origins cfg),
      cors_allow_methods = [''GET'', ''POST'', ''OPTIONS''],
      cors_allow_headers = [''authorization'', ''content-type'', ''x-canva-signatures'', ''x-canva-timestamp'']\<rparr>"

text \<open>\<^verbatim>\<open>create_app\<close>: validate, open the store, build the services, add the middleware.\<close>

datatype startup = Refused "config_problem list" | Failed exn | Started auth_service cors_settings

definition create_app ::
  "bool \<Rightarrow> (string \<Rightarrow> fernet option) \<Rightarrow> app_config \<Rightarrow> file_system \<Rightarrow> startup \<times> file_system"
where
  "create_app on_railway fernet_of_key cfg fs =
     (case validate_config_for_environment on_railway fernet_of_key cfg of
        [] \<Rightarrow>
          (case open_store cfg fs of
             (Some e, fs') \<Rightarrow> (Failed e, fs')
           | (None, fs') \<Rightarrow>
               (case build_service fernet_of_key cfg of
                  Inl e \<Rightarrow> (Failed e, fs')
                | Inr sv \<Rightarrow> (Started sv (cors_middleware cfg), fs')))
      | problems \<Rightarrow> (Refused problems, fs))"

section \<open>The server\<close>

record server_settings =
  srv_app :: string
  srv_host :: string
  srv_port :: int
  srv_factory :: bool
  srv_log_level :: string
  srv_proxy_headers :: bool

definition server_of :: "app_config \<Rightarrow> server_settings" where
  "server_of cfg =
     \<lparr>srv_app = ''resourcespace_platform.main:create_app'', srv_host = ''0.0.0.0'', srv_port = port cfg,
      srv_factory = True, srv_log_level = ''info'', srv_proxy_headers = False\<rparr>"

definition starting_log :: "app_config \<Rightarrow> log_call" where
  "starting_log cfg = log_info ''platform_server_starting''
     [(''port'', LvJson (JInt (port cfg))), (''baseUrl'', LvStr (base_url cfg)),
      (''environment'', LvStr (environment cfg)), (''resourceSpaceMode'', LvStr (rs_mode (resource_space cfg))),
      (''clientIpHeader'', LvJson (str_or_null (client_ip_header cfg))),
      (''trustedProxyHosts'', LvJson (JArr (map JStr (trusted_proxy_hosts cfg)))),
      (''uvicornProxyHeaders'', LvJson (JBool False))]"

text \<open>\<^verbatim>\<open>run\<close>: the configuration is read and logged; the server then calls \<^verbatim>\<open>create_app\<close> itself.\<close>

definition run_server ::
  "(json \<Rightarrow> string) \<Rightarrow> (string \<Rightarrow> string) \<Rightarrow> string \<Rightarrow> string dict \<Rightarrow> exn + log_call \<times> server_settings"
where
  "run_server other msg path env =
     (case create_config other msg path env of
        Inl e \<Rightarrow> Inl e
      | Inr cfg \<Rightarrow> Inr (starting_log cfg, server_of cfg))"

end
