(* ===== verification/Deployment_Properties.thy ===== *)
theory Deployment_Properties
  imports Http_Properties Startup
begin

text \<open>
  Properties of the configuration: the shape of what is read from the environment, what holds of
  every application that starts outside development, and that its store file stays private.
\<close>

section \<open>The snapshot\<close>

lemma dict_update_mem: "(k, c) \<in> set (dict_update d e) \<Longrightarrow> (k, c) \<in> set d \<or> (k, c) \<in> set e"
proof (induction e arbitrary: d)
  case (Cons kv e)
  obtain i v where kv: "kv = (i, v)" by (cases kv)
  have upd: "(k, c) \<in> set (AList.update i v d) \<Longrightarrow> (k, c) = (i, v) \<or> (k, c) \<in> set d"
    by (induction d) (auto split: if_splits)
  from Cons.prems Cons.IH [of "AList.update i v d"] upd show ?case by (auto simp: dict_update_def kv)
qed (simp add: dict_update_def)

lemma wf_dict_dict_update: "wf_dict d \<Longrightarrow> wf_dict (dict_update d e)"
proof (induction e arbitrary: d)
  case (Cons kv e)
  then show ?case by (cases kv) (simp add: dict_update_def)
qed (simp add: dict_update_def)

lemma client_entries_named:
  "client_entries other index js found = Inr cs \<Longrightarrow> (\<And>k c. (k, c) \<in> set found \<Longrightarrow> k \<noteq> []) \<Longrightarrow>
     (k, c) \<in> set cs \<Longrightarrow> k \<noteq> []"
proof (induction other index js found arbitrary: cs rule: client_entries.induct)
  case (2 other index entry js found)
  have upd: "(k, c) \<in> set (AList.update i v found) \<Longrightarrow> (k, c) = (i, v) \<or> (k, c) \<in> set found" for k c i v
    by (induction found) (auto split: if_splits)
  from 2 show ?case by (fastforce simp: Let_def dest: upd split: if_splits option.splits)
qed auto

text \<open>What an entry of a list of the configuration may be.\<close>

definition trimmed :: "string \<Rightarrow> bool" where
  "trimmed u \<longleftrightarrow> u \<noteq> [] \<and> py_strip u = u"

definition comma_free :: "string \<Rightarrow> bool" where
  "comma_free u \<longleftrightarrow> trimmed u \<and> CHR '','' \<notin> set u"

lemma split_csv_clean: "list_all comma_free (split_csv v)"
  using comma_fields_clean by (auto simp: list_all_iff split_csv_def comma_free_def trimmed_def)

lemma comma_free_trimmed: "list_all comma_free us \<Longrightarrow> list_all trimmed us"
  by (auto simp: list_all_iff comma_free_def)

lemma client_allowlist_trimmed: "client_allowlist other raw = Some us \<Longrightarrow> list_all trimmed us"
  using comma_free_trimmed [OF split_csv_clean]
  by (auto simp: client_allowlist_def list_all_iff trimmed_def py_strip_idem split: json.splits)

lemma client_entries_trimmed:
  "client_entries other index js found = Inr cs \<Longrightarrow>
     (\<And>k c. (k, c) \<in> set found \<Longrightarrow> list_all trimmed (oc_redirect_uri_allowlist c)) \<Longrightarrow>
     (k, c) \<in> set cs \<Longrightarrow> list_all trimmed (oc_redirect_uri_allowlist c)"
proof (induction other index js found arbitrary: cs rule: client_entries.induct)
  case (2 other index entry js found)
  have upd: "(k, c) \<in> set (AList.update i v found) \<Longrightarrow> (k, c) = (i, v) \<or> (k, c) \<in> set found" for k c i v
    by (induction found) (auto split: if_splits)
  from 2 show ?case by (fastforce simp: Let_def dest: upd client_allowlist_trimmed split: if_splits option.splits)
qed auto

text \<open>A client of the table: its key is its id, and its redirect URIs are trimmed.\<close>

definition client_entry_ok :: "string \<times> oauth_client \<Rightarrow> bool" where
  "client_entry_ok e \<longleftrightarrow> oc_client_id (snd e) = fst e \<and> fst e \<noteq> [] \<and> list_all trimmed (oc_redirect_uri_allowlist (snd e))"

lemma parsed_clients:
  assumes "parse_oauth_clients_json other msg v = (cs, e)" and "kc \<in> set cs"
  shows "client_entry_ok kc"
proof -
  obtain k c where kc: "kc = (k, c)" by fastforce
  obtain js where "client_entries other 0 js [] = Inr cs"
    using assms by (auto simp: parse_oauth_clients_json_def split: if_splits option.splits json.splits sum.splits)
  from client_entries_keys [OF this _ assms(2) [unfolded kc]] client_entries_named [OF this _ assms(2) [unfolded kc]]
    client_entries_trimmed [OF this _ assms(2) [unfolded kc]]
  show ?thesis by (simp add: client_entry_ok_def kc)
qed

lemma clients_ok:
  assumes "oauth_clients_of other msg env = (found, e)"
  shows "wf_dict found" and "list_all client_entry_ok found"
    and "setting env ''OAUTH_CLIENT_ID'' ''canva-dev-app'' \<noteq> [] \<Longrightarrow>
      setting env ''OAUTH_CLIENT_ID'' ''canva-dev-app'' \<in> fst ` set found"
proof -
  let ?id = "setting env ''OAUTH_CLIENT_ID'' ''canva-dev-app''"
  obtain extra e' where extra: "parse_oauth_clients_json other msg (dict_get env ''OAUTH_CLIENTS_JSON'') = (extra, e')"
    by fastforce
  define base where "base = (if ?id = [] then [] else [(?id, \<lparr>oc_client_id = ?id, oc_integration = Some ''canva'',
      oc_redirect_uri_allowlist = split_csv (dict_get env ''OAUTH_REDIRECT_URI_ALLOWLIST'')\<rparr>)])"
  have found: "found = dict_update base extra"
    using assms by (simp add: oauth_clients_of_def Let_def extra base_def)
  have base: "wf_dict base" "\<forall>x \<in> set base. client_entry_ok x"
    using comma_free_trimmed [OF split_csv_clean] by (simp_all add: base_def wf_dict_def client_entry_ok_def)
  show "wf_dict found" using wf_dict_dict_update [OF base(1)] by (simp add: found)
  show "list_all client_entry_ok found"
    using parsed_clients [OF extra] base(2) dict_update_mem by (fastforce simp: found list_all_iff)
  have keeps: "k \<in> fst ` set d \<Longrightarrow> k \<in> fst ` set (dict_update d x)" for k and d x :: "oauth_client dict"
    by (induction x arbitrary: d) (auto simp: dict_update_def split: prod.splits)
  show "?id \<in> fst ` set found" if "?id \<noteq> []"
    using keeps [of ?id base extra] that by (simp add: found base_def)
qed

text \<open>C40. A configuration that is created is well formed, whatever the environment. The clients have
  distinct ids; each is found under the id that it carries, which is not empty, and each entry of its
  redirect allowlist is non-empty and without surrounding white space. The default client is among
  them unless its id is empty. The default redirect allowlist, the trusted proxies, and the allowed hosts
  of the backend, of its assets and of uploads have entries that are also free of commas. The mode of the backend
  and the name of the proxy header are in lower case. (An entry of a redirect allowlist that is given as
  a JSON array may contain a comma; the environment's other modes are kept as they are given.)\<close>

theorem created_config_well_formed:
  assumes "create_config other msg path env = Inr cfg"
  shows "wf_dict (clients (oauth cfg)) \<and> list_all client_entry_ok (clients (oauth cfg)) \<and>
    (oauth_client_id (oauth cfg) \<noteq> [] \<longrightarrow> is_configured_client cfg (oauth_client_id (oauth cfg))) \<and>
    list_all (list_all comma_free)
      [oauth_redirect_uri_allowlist (oauth cfg), trusted_proxy_hosts cfg, allowed_hosts (resource_space cfg),
       asset_allowed_hosts (resource_space cfg), upload_allowed_hosts (upload cfg)] \<and>
    py_lower (rs_mode (resource_space cfg)) = rs_mode (resource_space cfg) \<and>
    py_lower (client_ip_header cfg) = client_ip_header cfg"
proof -
  obtain found e where found: "oauth_clients_of other msg env = (found, e)" by fastforce
  obtain ts e' where tenants: "parse_tenant_json other msg (dict_get env ''RESOURCE_SPACE_TENANTS_JSON'') = (ts, e')"
    by fastforce
  note created = assms [unfolded create_config_def Let_def oauth_settings_def resource_space_settings_def
      found tenants prod.case]
  have "clients (oauth cfg) = found" "oauth_client_id (oauth cfg) = setting env ''OAUTH_CLIENT_ID'' ''canva-dev-app''"
    using created by (auto split: if_splits)
  moreover have "list_all comma_free (trusted_proxy_hosts cfg)"
    using created split_csv_clean by (auto split: if_splits option.splits)
  moreover have "list_all comma_free (oauth_redirect_uri_allowlist (oauth cfg))"
    "list_all comma_free (allowed_hosts (resource_space cfg))" "list_all comma_free (asset_allowed_hosts (resource_space cfg))"
    "list_all comma_free (upload_allowed_hosts (upload cfg))"
    using created split_csv_clean by (auto split: if_splits)
  moreover have "py_lower (rs_mode (resource_space cfg)) = rs_mode (resource_space cfg)"
    "py_lower (client_ip_header cfg) = client_ip_header cfg"
    using created by (auto simp: py_lower_idem split: if_splits)
  moreover have "dict_get found k \<noteq> None" if "k \<in> fst ` set found" for k
    using that by (auto simp: map_of_eq_None_iff)
  ultimately show ?thesis
    using clients_ok [OF found] by (simp add: is_configured_client_def)
qed

definition sample_env :: "string dict" where
  "sample_env = [(''APP_ENV'', ''production''), (''OAUTH_CLIENT_ID'', ''c1''),
     (''OAUTH_REDIRECT_URI_ALLOWLIST'', ''https://app.example/cb'')]"

lemma sample_env_created: "\<exists>cfg. create_config (\<lambda>_. []) (\<lambda>_. []) [] sample_env = Inr cfg"
proof -
  have "list_all (int_setting_ok sample_env) INT_SETTINGS" by code_simp
  then show ?thesis by (simp only: create_config_def if_False not_True_eq_False Let_def) blast
qed

theorem created_config_well_formed_witness:
  "\<exists>cfg. create_config (\<lambda>_. []) (\<lambda>_. []) [] sample_env = Inr cfg \<and> wf_dict (clients (oauth cfg)) \<and>
     list_all client_entry_ok (clients (oauth cfg)) \<and> list_all comma_free (oauth_redirect_uri_allowlist (oauth cfg))"
  using sample_env_created created_config_well_formed by fastforce

section \<open>The start of a deployment\<close>

lemma started:
  assumes "create_app on_railway fk cfg fs = (Started sv cors, fs')"
  shows "validate_config_for_environment on_railway fk cfg = []" and "build_service fk cfg = Inr sv"
    and "cors = cors_middleware cfg" and "open_store cfg fs = (None, fs')"
  using assms by (auto simp: create_app_def split: list.splits sum.splits prod.splits option.splits)

text \<open>C32. An application that starts is one of development, off the hosting platform, or it is safe: Canva
  requests must be signed, both secrets and the encryption key are set and the fields of the store
  are sealed, every client has a redirect allowlist so that only listed URIs are redirected to, no
  origin is a wildcard, and a proxy header is believed from listed proxies only.\<close>

theorem production_config_safe:
  assumes "create_app on_railway fk cfg fs = (Started sv cors, fs')"
  shows "(on_railway \<longrightarrow> \<not> dev_like cfg) \<and> (dev_like cfg \<or>
    (sv_config sv = cfg \<and> request_verification_mode (signing cfg) = ''required'' \<and>
     canva_client_secret (signing cfg) \<noteq> [] \<and> asset_secret (signing cfg) \<notin> {[], ''development-signing-secret''} \<and>
     (\<exists>F. sv_cipher sv = FernetFieldCipher F) \<and>
     (\<forall>cid uri. is_redirect_uri_allowed cfg cid uri \<longrightarrow>
        (\<exists>c. dict_get (clients (oauth cfg)) cid = Some c \<and> uri \<in> set (oc_redirect_uri_allowlist c))) \<and>
     cors_allow_origins cors \<noteq> [] \<and> ''*'' \<notin> set (cors_allow_origins cors) \<and> rs_mode (resource_space cfg) \<in> {''fixture'', ''live''} \<and>
     (client_ip_header cfg = [] \<or> trusted_proxy_hosts cfg \<noteq> [])))"
proof (cases "dev_like cfg")
  case True
  with started(1) [OF assms] show ?thesis by (auto simp: validate_config_for_environment_def)
next
  case False
  with started(1) [OF assms] have ok: "config_problems fk cfg = []" by (simp add: validate_config_for_environment_def)
  have service: "sv_config sv = cfg" "create_field_cipher fk (Some (storage_encryption_key cfg)) = Some (sv_cipher sv)"
    using started(2) [OF assms] by (auto simp: build_service_def split: option.splits)
  have key: "storage_encryption_key cfg \<noteq> []" using ok by (auto simp: config_problems_def split: if_splits)
  have cipher: "\<exists>F. sv_cipher sv = FernetFieldCipher F"
    using service(2) key by (auto simp: create_field_cipher_def truthy_str_def split: if_splits dest: sym)
  have lists: "oc_redirect_uri_allowlist c \<noteq> []" if "dict_get (clients (oauth cfg)) cid = Some c" for cid c
    using ok map_of_SomeD [OF that] by (auto simp: config_problems_def client_problems_def filter_empty_conv)
  have uris: "\<forall>cid uri. is_redirect_uri_allowed cfg cid uri \<longrightarrow>
      (\<exists>c. dict_get (clients (oauth cfg)) cid = Some c \<and> uri \<in> set (oc_redirect_uri_allowlist c))"
    using lists by (auto simp: is_redirect_uri_allowed_def split: option.splits)
  have "cors_origins cfg \<noteq> [] \<and> ''*'' \<notin> set (cors_origins cfg)"
    using ok by (simp add: config_problems_def split: if_splits)
  moreover have "request_verification_mode (signing cfg) = ''required''" "canva_client_secret (signing cfg) \<noteq> []"
      "asset_secret (signing cfg) \<notin> {[], ''development-signing-secret''}"
      "rs_mode (resource_space cfg) \<in> {''fixture'', ''live''}" "client_ip_header cfg = [] \<or> trusted_proxy_hosts cfg \<noteq> []"
    using ok by (simp_all add: config_problems_def split: if_splits)
  ultimately show ?thesis using False service(1) cipher uris started(3) [OF assms] by (simp add: cors_middleware_def)
qed

definition production_config :: app_config where
  "production_config = sample_config\<lparr>environment := ''production'', cors_origin := ''https://app.example'',
     storage_encryption_key := ''key'',
     signing := (signing sample_config)\<lparr>request_verification_mode := ''required''\<rparr>\<rparr>"

definition empty_disk :: file_system where
  "empty_disk = \<lparr>fs_main = None, fs_tmp = None, fs_dir = None, fs_lockable = True, fs_new_mode = 420\<rparr>"

lemma production_starts:
  "\<exists>sv cors fs'. create_app True (\<lambda>_. Some sample_fernet) production_config empty_disk = (Started sv cors, fs')"
proof -
  have "\<exists>fs'. create_app True (\<lambda>_. Some sample_fernet) production_config empty_disk =
      (Started \<lparr>sv_config = production_config, sv_cipher = FernetFieldCipher sample_fernet\<rparr>
         (cors_middleware production_config), fs')"
  proof -
    have origins: "cors_origins production_config = [''https://app.example'']" by code_simp
    have live: "\<not> dev_like production_config" by code_simp
    have cipher: "create_field_cipher (\<lambda>_. Some sample_fernet) (Some (storage_encryption_key production_config)) =
        Some (FernetFieldCipher sample_fernet)"
      by (simp add: create_field_cipher_def production_config_def truthy_str_def py_isascii_def is_ascii_char_def)
    have "config_problems (\<lambda>_. Some sample_fernet) production_config = []"
      unfolding config_problems_def client_problems_def origins cipher
      by (simp add: production_config_def sample_config_def truthy_str_def)
    moreover have "fst (open_store production_config empty_disk) = None"
      by (simp add: open_store_def ensure_file_def restrict_perms_def empty_disk_def)
    ultimately show ?thesis
      by (cases "open_store production_config empty_disk")
        (simp add: create_app_def validate_config_for_environment_def live build_service_def cipher)
  qed
  then show ?thesis by blast
qed

theorem production_config_safe_witness:
  "\<exists>sv cors fs'. create_app True (\<lambda>_. Some sample_fernet) production_config empty_disk = (Started sv cors, fs') \<and>
    ''*'' \<notin> set (cors_allow_origins cors) \<and> (\<exists>F. sv_cipher sv = FernetFieldCipher F)"
proof -
  obtain sv cors fs' where run: "create_app True (\<lambda>_. Some sample_fernet) production_config empty_disk = (Started sv cors, fs')"
    using production_starts by blast
  have "\<not> dev_like production_config" by code_simp
  with production_config_safe [OF run] run show ?thesis by blast
qed

section \<open>The store file stays private\<close>

text \<open>The store file is there and readable by its owner only, now and after each of the calls.\<close>

definition private_file :: "file_system \<Rightarrow> bool" where
  "private_file s \<longleftrightarrow> fs_lockable s \<and> map_option sf_mode (fs_main s) = Some OWNER_ONLY"

fun private_run :: "fs_call list \<Rightarrow> file_system \<Rightarrow> bool" where
  "private_run [] s = private_file s"
| "private_run (c # cs) s = (private_file s \<and> private_run cs (apply_call c s))"

lemma private_run_append: "private_run (cs @ ds) s \<longleftrightarrow> private_run cs s \<and> private_run ds (apply_calls cs s)"
  by (induction cs arbitrary: s) (auto elim: private_run.elims)

lemma private_run_first: "private_run cs s \<Longrightarrow> private_file s"
  by (cases cs) simp_all

lemma opened_private: "open_store cfg fs = (None, fs') \<Longrightarrow> \<not> dev_like cfg \<Longrightarrow> private_file fs'"
  by (auto simp: open_store_def secure_store_def ensure_file_def restrict_perms_def private_file_def
      split: if_splits option.splits)

lemma ensure_private: "private_file s \<Longrightarrow> ensure_file secure s = (cs, e) \<Longrightarrow> private_run cs s"
  by (auto simp: ensure_file_def restrict_perms_def private_file_def split: if_splits option.splits)

lemma save_private: "private_file s \<Longrightarrow> save_calls secure st s = (cs, e) \<Longrightarrow> private_run cs s"
  by (auto simp: save_calls_def ensure_file_def restrict_perms_def private_file_def split: if_splits option.splits)

lemma private_after: "private_run cs s \<Longrightarrow> private_file (apply_calls cs s)"
  using private_run_append [of cs "[]" s] by simp

lemma update_private: "private_file s \<Longrightarrow> file_update secure f s w = (r, cs, w') \<Longrightarrow> private_run cs s"
proof -
  assume s: "private_file s" and run: "file_update secure f s w = (r, cs, w')"
  obtain es e where es: "ensure_file secure s = (es, e)" by fastforce
  have first: "private_run es s" by (rule ensure_private [OF s es])
  note save = save_private [OF private_after [OF first]]
  from run first show ?thesis
    by (auto simp: file_update_def es private_run_append dest: save split: prod.splits option.splits sum.splits)
qed

lemma read_private: "private_file s \<Longrightarrow> file_read secure s = (r, cs) \<Longrightarrow> private_run cs s"
  by (auto simp: file_read_def split: prod.splits option.splits intro: ensure_private)

text \<open>Only the thread with the lock has calls to make, and none of them exposes the file.\<close>

definition private_threads :: "'r threads \<Rightarrow> bool" where
  "private_threads t \<longleftrightarrow> private_file (th_files t) \<and>
     (\<forall>i. th_lock t \<noteq> Some i \<longrightarrow> resting (th_phase t i)) \<and>
     (\<forall>i cs. th_phase t i = Calling cs \<longrightarrow> private_run cs (th_files t))"

lemma private_threads_step:
  assumes "thread_step secure t t'" and "private_threads t"
  shows "private_threads t'"
  using assms
proof (induction rule: thread_step.induct)
  case (ask t i j)
  then show ?case by (auto simp: private_threads_def resting_def)
next
  case (acquire t i j)
  then show ?case by (auto simp: private_threads_def resting_def)
next
  case (load_update t i f w r cs w')
  then show ?case by (auto simp: private_threads_def resting_def intro: update_private)
next
  case (load_read t i r cs)
  then show ?case by (auto simp: private_threads_def resting_def intro: read_private)
next
  case (call t i c cs)
  then have lock: "th_lock t = Some i" by (auto simp: private_threads_def resting_def)
  have "th_phase t k \<noteq> Calling ds" if "k \<noteq> i" for k ds
    using call(2) that lock by (auto simp: private_threads_def resting_def split: phase.splits)
  moreover have "private_run (c # cs) (th_files t)" using call unfolding private_threads_def by blast
  then have "private_run cs (apply_call c (th_files t))" by simp
  ultimately show ?case
    using call(2) lock by (auto simp: private_threads_def dest: private_run_first)
next
  case (release t i)
  then have lock: "th_lock t = Some i" by (auto simp: private_threads_def resting_def)
  have "resting (th_phase t k)" if "k \<noteq> i" for k using release(2) that lock by (auto simp: private_threads_def)
  with release show ?case by (auto simp: private_threads_def resting_def)
qed

text \<open>C22. Outside development, once the application has started, the store file is there and readable by
  its owner only at every moment: between any two calls that any threads make, whatever they update,
  and so also wherever the process is stopped.\<close>

theorem store_stays_private:
  assumes "create_app on_railway fk cfg fs = (Started sv cors, fs')" and "\<not> dev_like cfg"
    and "reach (thread_step (secure_store cfg)) (start_threads fs') t"
  shows "map_option sf_mode (fs_main (th_files t)) = Some OWNER_ONLY"
proof -
  have "private_file fs'" by (rule opened_private [OF started(4) [OF assms(1)] assms(2)])
  then have "private_threads (start_threads fs')" by (simp add: private_threads_def start_threads_def resting_def)
  with assms(3) have "private_threads t" by (induction rule: reach.induct) (auto intro: private_threads_step)
  then show ?thesis by (simp add: private_threads_def private_file_def)
qed

theorem store_stays_private_witness:
  "\<exists>sv cors fs'. create_app True (\<lambda>_. Some sample_fernet) production_config empty_disk = (Started sv cors, fs') \<and>
    map_option sf_mode (fs_main (th_files (start_threads fs' :: unit threads))) = Some OWNER_ONLY"
proof -
  obtain sv cors fs' where run: "create_app True (\<lambda>_. Some sample_fernet) production_config empty_disk = (Started sv cors, fs')"
    using production_starts by blast
  have live: "\<not> dev_like production_config" by code_simp
  show ?thesis using store_stays_private [OF run live reach_refl] run by blast
qed

end
