(* ===== verification/File_Properties.thy ===== *)
theory File_Properties
  imports Store_Files
begin

text \<open>
  Properties of the store file: that the operations on it refine the transaction the services are
  modelled on, what a crash leaves, and that threads do not disturb each other. Two theorems at the
  end show where the file is less safe than it means to be: at the very first start, and while the
  temporary file has not been locked down yet.
\<close>

section \<open>A sample\<close>

definition sample_files :: file_system where
  "sample_files = \<lparr>fs_main = Some \<lparr>sf_text = Some (store_text clone_initial_state), sf_mode = OWNER_ONLY\<rparr>,
     fs_tmp = None, fs_dir = Some OWNER_DIR, fs_lockable = True, fs_new_mode = 420\<rparr>"

definition one_token :: "json dict dict" where
  "one_token = AList.update ''accessTokens'' [(''k'', JInt 1)] clone_initial_state"

definition add_token :: "unit updater" where
  "add_token st w = (Inr (), one_token, w)"

definition idle_world :: world where
  "idle_world = \<lparr>clock = (\<lambda>i. int i), ticks = 0, rand = (\<lambda>i. []), draws = 0\<rparr>"

lemma storable_one_token: "storable one_token"
  by code_simp

lemma storing_add: "storing add_token"
  by (simp add: storing_def add_token_def storable_one_token)

lemma sample_decodable: "decodable sample_files"
  by (simp add: decodable_def sample_files_def)

lemma sample_view: "view_of sample_files = Some clone_initial_state"
  by (rule view_stored [OF storable_initial]) (simp add: sample_files_def)

section \<open>Refinement\<close>

text \<open>The store file implements the transaction of the services: an update of the file, from its
  text and with all its calls, has the result and the state of the abstract transaction on what the
  file holds, an exception of the updater or of the loading leaves what it holds alone, and after an
  update the file is readable and writable by its owner only.\<close>

theorem file_update_refines:
  assumes "storing f" and "decodable s" and "fs_lockable s \<or> \<not> secure"
    and "file_update secure f s w = (r, cs, w')"
  shows "store_update f (view_of s) w = (r, view_of (apply_calls cs s), w') \<and> decodable (apply_calls cs s) \<and>
    (\<forall>x. r = Inr x \<and> fs_lockable s \<longrightarrow> map_option sf_mode (fs_main (apply_calls cs s)) = Some OWNER_ONLY)"
  using file_run_view [OF storing_at [OF assms(1)] assms(2-4)] by blast

lemma sample_lockable: "fs_lockable sample_files \<or> \<not> True"
  by (simp add: sample_files_def)

theorem file_update_refines_witness:
  "\<exists>cs. file_update True add_token sample_files idle_world = (Inr (), cs, idle_world) \<and>
    view_of (apply_calls cs sample_files) = Some one_token"
proof -
  obtain r cs w where run: "file_update True add_token sample_files idle_world = (r, cs, w)" by (metis prod.exhaust)
  from file_update_refines [OF storing_add sample_decodable sample_lockable run] run show ?thesis
    by (auto simp: sample_view store_update_Some add_token_def)
qed

section \<open>Crashes\<close>

text \<open>C23. An update survives a crash at any point: however many of its calls were made, and however much
  of a text was written, the store file holds either the text it held before, or the update is
  complete and the file loads as exactly the state that the updater returned.\<close>

theorem store_crash_atomic:
  assumes "storing f" and "decodable s" and "fs_lockable s \<or> \<not> secure" and "fs_main s \<noteq> None"
    and "file_update secure f s w = (r, cs, w')" and "interrupted cs ds"
  shows "main_text (apply_calls ds s) = main_text s \<or>
    ds = cs \<and> (\<exists>st st' v. view_of s = Some st \<and> f st w = (Inr v, st', w') \<and> view_of (apply_calls ds s) = Some st')"
  using storing_at [OF assms(1)] assms(2-) by (rule interrupted_update)

theorem store_crash_atomic_witness:
  "\<exists>cs. fst (snd (file_update True add_token sample_files idle_world)) = cs \<and>
    main_text (apply_calls (take 7 cs @ [Append TmpFile (take 3 (store_text one_token))]) sample_files) = main_text sample_files"
proof -
  let ?es = "[MakeDir OWNER_DIR, Chmod MainFile OWNER_ONLY, ChmodDir OWNER_DIR]"
  let ?ss = "?es @ [Create TmpFile, Append TmpFile (store_text one_token), Chmod TmpFile OWNER_ONLY, Replace]"
  let ?cs = "?es @ ?ss"
  let ?ds = "take 7 ?cs @ [Append TmpFile (take 3 (store_text one_token))]"
  have ens: "ensure_file True sample_files = (?es, None)"
    by (simp add: ensure_file_def restrict_perms_def sample_files_def)
  have run: "file_update True add_token sample_files idle_world = (Inr (), ?cs, idle_world)"
  proof -
    have same: "apply_calls ?es sample_files = sample_files" by (simp add: sample_files_def)
    have read: "read_file True sample_files = Inr clone_initial_state"
      by (simp add: read_file_def sample_files_def load_stored storable_initial)
    have "save_calls True one_token sample_files = (?ss, None)"
      by (simp add: save_calls_def ens restrict_perms_def sample_files_def [THEN arg_cong, of fs_lockable])
    then show ?thesis by (simp only: file_update_def ens prod.case option.case same read sum.case add_token_def)
  qed
  have "interrupted ?cs ?ds" by (rule stopped_writing) simp_all
  moreover have "fs_main sample_files \<noteq> None" by (simp add: sample_files_def)
  ultimately have "main_text (apply_calls ?ds sample_files) = main_text sample_files"
    using store_crash_atomic [OF storing_add sample_decodable sample_lockable _ run] by fastforce
  then show ?thesis by (simp only: run fst_conv snd_conv simp_thms)
qed

section \<open>Threads\<close>

text \<open>C24. Threads that update the store at the same time do not lose updates: in every reachable state in
  which the lock is free, the file holds what the updates in the log make of the first state one after
  the other, and every one of them had the result it has in that sequence, however the calls of the
  threads were interleaved.\<close>

theorem updates_serialise:
  assumes "reach (thread_step secure) (start_threads s) t" and "th_lock t = None"
    and "decodable s" and "fs_lockable s \<or> \<not> secure" and "\<forall>(f, w, r) \<in> set (th_log t). storing f"
  shows "serial (view_of s) (th_log t) = Some (view_of (th_files t))"
  using thread_run [OF assms(1) thread_inv_start [OF assms(3)] assms(4)] assms(2,5)
  by (simp add: thread_inv_def log_ok_def Let_def)

theorem updates_serialise_witness:
  "\<exists>t. reach (thread_step True) (start_threads sample_files) t \<and>
    map (\<lambda>(f, w, r). r) (th_log t) = [Inr (), Inr ()] \<and>
    serial (view_of sample_files) (th_log t) = Some (view_of (th_files t))"
proof -
  have "\<exists>t'. reach (thread_step True) t t' \<and> th_lock t' = None \<and> (\<forall>i. th_phase t' i = Idle) \<and>
      th_log t' = th_log t @ [(add_token, idle_world, Inr ())] \<and> decodable (th_files t') \<and> fs_lockable (th_files t') \<and>
      view_of (th_files t') \<noteq> None"
    if t: "th_lock t = None" "\<forall>i. th_phase t i = Idle" "decodable (th_files t)" "fs_lockable (th_files t)"
      "view_of (th_files t) \<noteq> None" for t :: "unit threads"
  proof -
    obtain r cs w where run: "file_update True add_token (th_files t) idle_world = (r, cs, w)" by (metis prod.exhaust)
    obtain st where st: "view_of (th_files t) = Some st" using t(5) by blast
    note eff = file_run_view [OF storing_at [OF storing_add] t(3) disjI1 [OF t(4)] run]
    have "r = Inr ()" "view_of (apply_calls cs (th_files t)) = Some one_token"
      using eff(1) by (auto simp: st store_update_Some add_token_def)
    with update_run [OF _ t(1) run, of 0] t eff(2,3) show ?thesis by fastforce
  qed
  note turn = this
  have "view_of (th_files (start_threads sample_files :: unit threads)) \<noteq> None"
    by (simp add: start_threads_def sample_view)
  from turn [OF _ _ _ _ this] obtain t1 where t1: "reach (thread_step True) (start_threads sample_files) t1"
      "th_lock t1 = None" "\<forall>i. th_phase t1 i = Idle" "th_log t1 = [(add_token, idle_world, Inr ())]"
      "decodable (th_files t1)" "fs_lockable (th_files t1)" "view_of (th_files t1) \<noteq> None"
    using sample_decodable by (auto simp: start_threads_def sample_files_def)
  from turn [OF t1(2,3,5,6,7)] obtain t2 where t2: "reach (thread_step True) t1 t2" "th_lock t2 = None"
      "th_log t2 = [(add_token, idle_world, Inr ()), (add_token, idle_world, Inr ())]"
    unfolding t1(4) by auto
  have run: "reach (thread_step True) (start_threads sample_files) t2" by (rule reach_trans [OF t2(1) t1(1)])
  have "serial (view_of sample_files) (th_log t2) = Some (view_of (th_files t2))"
    by (rule updates_serialise [OF run t2(2) sample_decodable sample_lockable]) (simp add: t2(3) storing_add)
  with run t2(3) show ?thesis by auto
qed

section \<open>Where the file is less safe\<close>

text \<open>
  The first file is written in place: a crash between opening and writing leaves an empty file, which
  every later update refuses, until somebody removes it.
\<close>

theorem first_start_not_atomic:
  assumes "fs_main s = None"
  shows "\<exists>ds. interrupted (fst (ensure_file secure s)) ds \<and>
    (\<forall>f w. fst (file_update secure f (apply_calls ds s) w) \<in> {Inl StoreLoadError, Inl RuntimeError})"
proof -
  let ?ds = "take 2 (fst (ensure_file secure s))"
  have "loads [] = None" by (simp add: loads_def skip_ws_def)
  then have "fst (file_update secure f (apply_calls ?ds s) w) \<in> {Inl StoreLoadError, Inl RuntimeError}" for f w
    using assms
    by (auto simp: ensure_file_def restrict_perms_def file_update_def read_file_def load_def split: option.splits)
  then show ?thesis using stopped_between by blast
qed

text \<open>
  The temporary file is locked down after it was written: in between, the whole new state is in a file
  with the mode the umask leaves.
\<close>

theorem written_before_locked:
  assumes "save_calls secure st s = (cs, None)" and "fs_tmp s = None"
  shows "\<exists>ds. interrupted cs ds \<and>
    fs_tmp (apply_calls ds s) = Some \<lparr>sf_text = Some (store_text st), sf_mode = fs_new_mode s\<rparr>"
proof -
  obtain es e where es: "ensure_file secure s = (es, e)" by fastforce
  let ?ds = "es @ [Create TmpFile, Append TmpFile (store_text st)]"
  have "fs_tmp (apply_calls es s) = None \<and> fs_new_mode (apply_calls es s) = fs_new_mode s"
    using es assms(2) by (auto simp: ensure_file_def restrict_perms_def split: if_splits)
  then have "fs_tmp (apply_calls ?ds s) = Some \<lparr>sf_text = Some (store_text st), sf_mode = fs_new_mode s\<rparr>" by simp
  moreover have "\<exists>n. ?ds = take n cs"
    using assms(1) es by (intro exI [of _ "length ?ds"]) (auto simp: save_calls_def restrict_perms_def split: option.splits if_splits)
  ultimately show ?thesis using stopped_between by metis
qed

end
