(* ===== verification/Store_Encoding.thy ===== *)
theory Store_Encoding
  imports Auth_State Store_Files "HOL-Library.Monad_Syntax"
begin

text \<open>
  How the records of the services look in the store file: for each record type the dictionary that the
  code writes, with its keys in their order, and the reading of it. A key that the code adds only later
  (\<^verbatim>\<open>revokedAt\<close> of an access record, \<^verbatim>\<open>rotationResponse\<close>, \<^verbatim>\<open>broker\<close>, \<^verbatim>\<open>email\<close>, \<^verbatim>\<open>sessionKey\<close>) is
  absent before; absent and null read the same, as with \<^verbatim>\<open>dict.get\<close>, and so does an empty list of folders. Extra keys of a tenant, and the
  size of a proxied picture, which nothing reads back, are not part of the records.
  Reading gives the record back, and a service's transaction on records is a transaction on the file.
\<close>

section \<open>Fields\<close>

definition opt_entry :: "string \<Rightarrow> ('a \<Rightarrow> json) \<Rightarrow> 'a option \<Rightarrow> json dict" where
  "opt_entry k enc x = (case x of None \<Rightarrow> [] | Some v \<Rightarrow> [(k, enc v)])"

definition list_entry :: "string \<Rightarrow> json \<Rightarrow> 'a list \<Rightarrow> json dict" where
  "list_entry k j xs = (if xs = [] then [] else [(k, j)])"

definition or_empty :: "'a list option \<Rightarrow> 'a list" where
  "or_empty x = (case x of None \<Rightarrow> [] | Some xs \<Rightarrow> xs)"

definition or_null :: "('a \<Rightarrow> json) \<Rightarrow> 'a option \<Rightarrow> json" where
  "or_null enc x = (case x of None \<Rightarrow> JNull | Some v \<Rightarrow> enc v)"

fun to_str :: "json \<Rightarrow> string option" where
  "to_str (JStr s) = Some s"
| "to_str _ = None"

fun to_int :: "json \<Rightarrow> int option" where
  "to_int (JInt n) = Some n"
| "to_int _ = None"

fun to_dict :: "json \<Rightarrow> json dict option" where
  "to_dict (JObj d) = Some d"
| "to_dict _ = None"

fun to_list :: "json \<Rightarrow> json list option" where
  "to_list (JArr js) = Some js"
| "to_list _ = None"

fun nullable :: "(json \<Rightarrow> 'a option) \<Rightarrow> json \<Rightarrow> 'a option option" where
  "nullable f JNull = Some None"
| "nullable f j = map_option Some (f j)"

fun all_of :: "('a \<Rightarrow> 'b option) \<Rightarrow> 'a list \<Rightarrow> 'b list option" where
  "all_of f [] = Some []"
| "all_of f (x # xs) = do { y \<leftarrow> f x; ys \<leftarrow> all_of f xs; Some (y # ys) }"

definition entry_of :: "(json \<Rightarrow> 'a option) \<Rightarrow> string \<times> json \<Rightarrow> (string \<times> 'a) option" where
  "entry_of f e = map_option (Pair (fst e)) (f (snd e))"

definition field_of :: "(json \<Rightarrow> 'a option) \<Rightarrow> json dict \<Rightarrow> string \<Rightarrow> 'a option" where
  "field_of f d k = f (case dict_get d k of None \<Rightarrow> JNull | Some v \<Rightarrow> v)"

lemma nullable_or_null [simp]:
  "(\<And>v. f (enc v) = Some v) \<Longrightarrow> (\<And>v. enc v \<noteq> JNull) \<Longrightarrow> nullable f (or_null enc x) = Some x"
proof (cases x)
  case (Some v)
  assume "\<And>v. f (enc v) = Some v" "\<And>v. enc v \<noteq> JNull"
  then show ?thesis using Some by (cases "enc v") (auto simp: or_null_def dest: sym)
qed (simp add: or_null_def)

lemma nullable_strings [simp]: "nullable to_str (or_null JStr x) = Some x" "nullable to_int (or_null JInt n) = Some n"
  by simp_all

lemma nullable_JStr [simp]: "nullable f (JStr s) = map_option Some (f (JStr s))"
  by simp

lemma all_of_map: "(\<And>x. x \<in> set xs \<Longrightarrow> f (g x) = Some x) \<Longrightarrow> all_of f (map g xs) = Some xs"
  by (induction xs) auto

lemma all_of_entries:
  "(\<And>v. f (enc v) = Some v) \<Longrightarrow> all_of (entry_of f) (map (\<lambda>(k, v). (k, enc v)) b) = Some b"
  by (induction b) (auto simp: entry_of_def)

section \<open>Sessions\<close>

definition encode_tenant :: "tenant \<Rightarrow> json" where
  "encode_tenant t = JObj
     ((''id'', JStr (tn_id t)) # opt_entry ''slug'' JStr (tn_slug t) @ opt_entry ''name'' JStr (tn_name t) @
      opt_entry ''baseUrl'' JStr (tn_baseUrl t) @ opt_entry ''apiUrl'' JStr (tn_apiUrl t) @
      list_entry ''rootCollections'' (JArr (map JStr (tn_rootCollections t))) (tn_rootCollections t) @
      list_entry ''collectionChildren'' (JObj (map (\<lambda>(k, cs). (k, JArr (map JStr cs))) (tn_collectionChildren t)))
        (tn_collectionChildren t))"

definition to_strings :: "json \<Rightarrow> string list option" where
  "to_strings j = do { js \<leftarrow> to_list j; all_of to_str js }"

definition decode_tenant :: "json \<Rightarrow> tenant option" where
  "decode_tenant j = do {
     d \<leftarrow> to_dict j;
     i \<leftarrow> field_of to_str d ''id'';
     slug \<leftarrow> field_of (nullable to_str) d ''slug'';
     name \<leftarrow> field_of (nullable to_str) d ''name'';
     base \<leftarrow> field_of (nullable to_str) d ''baseUrl'';
     api \<leftarrow> field_of (nullable to_str) d ''apiUrl'';
     roots \<leftarrow> field_of (nullable to_strings) d ''rootCollections'';
     children \<leftarrow> field_of (nullable to_dict) d ''collectionChildren'';
     kids \<leftarrow> all_of (entry_of to_strings) (or_empty children);
     Some \<lparr>tn_id = i, tn_slug = slug, tn_name = name, tn_baseUrl = base, tn_apiUrl = api,
       tn_rootCollections = or_empty roots, tn_collectionChildren = kids\<rparr> }"

definition encode_user :: "user \<Rightarrow> json" where
  "encode_user u = JObj
     ([(''id'', JStr (us_id u)), (''username'', JStr (us_username u)),
       (''displayName'', or_null JStr (us_displayName u)), (''role'', or_null JStr (us_role u))] @
      opt_entry ''email'' JStr (us_email u))"

definition decode_user :: "json \<Rightarrow> user option" where
  "decode_user j = do {
     d \<leftarrow> to_dict j;
     i \<leftarrow> field_of to_str d ''id'';
     username \<leftarrow> field_of to_str d ''username'';
     display \<leftarrow> field_of (nullable to_str) d ''displayName'';
     role \<leftarrow> field_of (nullable to_str) d ''role'';
     email \<leftarrow> field_of (nullable to_str) d ''email'';
     Some \<lparr>us_id = i, us_username = username, us_displayName = display, us_role = role, us_email = email\<rparr> }"

definition encode_upstream :: "upstream \<Rightarrow> json" where
  "encode_upstream u = JObj
     ((''mode'', JStr (up_mode u)) # opt_entry ''sessionKey'' JStr (up_sessionKey u) @
      [(''authenticatedAt'', JStr (up_authenticatedAt u))])"

definition decode_upstream :: "json \<Rightarrow> upstream option" where
  "decode_upstream j = do {
     d \<leftarrow> to_dict j;
     mode \<leftarrow> field_of to_str d ''mode'';
     key \<leftarrow> field_of (nullable to_str) d ''sessionKey'';
     stamp \<leftarrow> field_of to_str d ''authenticatedAt'';
     Some \<lparr>up_mode = mode, up_sessionKey = key, up_authenticatedAt = stamp\<rparr> }"

definition encode_broker :: "string dict \<Rightarrow> json" where
  "encode_broker b = JObj (map (\<lambda>(k, v). (k, JStr v)) b)"

definition decode_broker :: "json \<Rightarrow> string dict option" where
  "decode_broker j = do { d \<leftarrow> to_dict j; all_of (entry_of to_str) d }"

definition encode_session :: "session \<Rightarrow> json" where
  "encode_session s = JObj
     ([(''tenant'', encode_tenant (ss_tenant s)), (''user'', encode_user (ss_user s)),
       (''upstream'', encode_upstream (ss_upstream s))] @ opt_entry ''broker'' encode_broker (ss_broker s))"

definition decode_session :: "json \<Rightarrow> session option" where
  "decode_session j = do {
     d \<leftarrow> to_dict j;
     t \<leftarrow> field_of decode_tenant d ''tenant'';
     u \<leftarrow> field_of decode_user d ''user'';
     up \<leftarrow> field_of decode_upstream d ''upstream'';
     b \<leftarrow> field_of (nullable decode_broker) d ''broker'';
     Some \<lparr>ss_tenant = t, ss_user = u, ss_upstream = up, ss_broker = b\<rparr> }"

lemma to_strings_JStr [simp]: "to_strings (JArr (map JStr xs)) = Some xs"
  by (simp add: to_strings_def all_of_map)

lemma decode_encode_tenant [simp]: "decode_tenant (encode_tenant t) = Some t"
proof -
  have "all_of (entry_of to_strings) (map (\<lambda>(k, cs). (k, JArr (map JStr cs))) b) = Some b" for b
    by (rule all_of_entries) simp
  then show ?thesis
    by (cases t) (auto simp: decode_tenant_def encode_tenant_def field_of_def opt_entry_def list_entry_def or_empty_def
        split: option.splits)
qed

lemma decode_encode_user [simp]: "decode_user (encode_user u) = Some u"
  by (cases u) (auto simp: decode_user_def encode_user_def field_of_def opt_entry_def split: option.splits)

lemma decode_encode_upstream [simp]: "decode_upstream (encode_upstream u) = Some u"
  by (cases u) (auto simp: decode_upstream_def encode_upstream_def field_of_def opt_entry_def split: option.splits)

lemma decode_encode_broker [simp]: "decode_broker (encode_broker b) = Some b"
  by (simp add: decode_broker_def encode_broker_def all_of_entries)

lemma nullable_broker [simp]: "nullable decode_broker (encode_broker b) = Some (Some b)"
  using decode_encode_broker [of b] by (simp add: encode_broker_def)

lemma decode_encode_session [simp]: "decode_session (encode_session s) = Some s"
  by (cases s) (auto simp: decode_session_def encode_session_def field_of_def opt_entry_def split: option.splits)

section \<open>Records\<close>

definition encode_code :: "auth_code \<Rightarrow> json" where
  "encode_code r = JObj
     [(''code'', JStr (ac_code r)), (''clientId'', JStr (ac_clientId r)), (''redirectUri'', JStr (ac_redirectUri r)),
      (''scope'', JStr (ac_scope r)), (''codeChallenge'', or_null JStr (ac_codeChallenge r)),
      (''codeChallengeMethod'', JStr (ac_codeChallengeMethod r)), (''session'', encode_session (ac_session r)),
      (''expiresAt'', JInt (ac_expiresAt r))]"

definition decode_code :: "json \<Rightarrow> auth_code option" where
  "decode_code j = do {
     d \<leftarrow> to_dict j;
     code \<leftarrow> field_of to_str d ''code'';
     client \<leftarrow> field_of to_str d ''clientId'';
     uri \<leftarrow> field_of to_str d ''redirectUri'';
     scope \<leftarrow> field_of to_str d ''scope'';
     challenge \<leftarrow> field_of (nullable to_str) d ''codeChallenge'';
     meth \<leftarrow> field_of to_str d ''codeChallengeMethod'';
     s \<leftarrow> field_of decode_session d ''session'';
     expires \<leftarrow> field_of to_int d ''expiresAt'';
     Some \<lparr>ac_code = code, ac_clientId = client, ac_redirectUri = uri, ac_scope = scope, ac_codeChallenge = challenge,
       ac_codeChallengeMethod = meth, ac_session = s, ac_expiresAt = expires\<rparr> }"

definition encode_access :: "access_record \<Rightarrow> json" where
  "encode_access r = JObj
     ([(''accessToken'', JStr (at_accessToken r)), (''clientId'', JStr (at_clientId r)), (''scope'', JStr (at_scope r)),
       (''integration'', or_null JStr (at_integration r)), (''session'', encode_session (at_session r)),
       (''expiresAt'', JInt (at_expiresAt r)), (''createdAt'', JInt (at_createdAt r))] @
      opt_entry ''revokedAt'' JInt (at_revokedAt r))"

definition decode_access :: "json \<Rightarrow> access_record option" where
  "decode_access j = do {
     d \<leftarrow> to_dict j;
     token \<leftarrow> field_of to_str d ''accessToken'';
     client \<leftarrow> field_of to_str d ''clientId'';
     scope \<leftarrow> field_of to_str d ''scope'';
     integration \<leftarrow> field_of (nullable to_str) d ''integration'';
     s \<leftarrow> field_of decode_session d ''session'';
     expires \<leftarrow> field_of to_int d ''expiresAt'';
     created \<leftarrow> field_of to_int d ''createdAt'';
     revoked \<leftarrow> field_of (nullable to_int) d ''revokedAt'';
     Some \<lparr>at_accessToken = token, at_clientId = client, at_scope = scope, at_integration = integration, at_session = s,
       at_expiresAt = expires, at_createdAt = created, at_revokedAt = revoked\<rparr> }"

definition encode_tokens :: "token_response \<Rightarrow> json" where
  "encode_tokens r = JObj
     [(''access_token'', JStr (tr_access_token r)), (''token_type'', JStr (tr_token_type r)),
      (''expires_in'', JInt (tr_expires_in r)), (''refresh_token'', or_null JStr (tr_refresh_token r)),
      (''scope'', JStr (tr_scope r))]"

definition decode_tokens :: "json \<Rightarrow> token_response option" where
  "decode_tokens j = do {
     d \<leftarrow> to_dict j;
     access \<leftarrow> field_of to_str d ''access_token'';
     kind \<leftarrow> field_of to_str d ''token_type'';
     expires \<leftarrow> field_of to_int d ''expires_in'';
     refresh \<leftarrow> field_of (nullable to_str) d ''refresh_token'';
     scope \<leftarrow> field_of to_str d ''scope'';
     Some \<lparr>tr_access_token = access, tr_token_type = kind, tr_expires_in = expires, tr_refresh_token = refresh,
       tr_scope = scope\<rparr> }"

definition encode_refresh :: "refresh_record \<Rightarrow> json" where
  "encode_refresh r = JObj
     ([(''refreshToken'', JStr (rt_refreshToken r)), (''clientId'', JStr (rt_clientId r)), (''scope'', JStr (rt_scope r)),
       (''integration'', or_null JStr (rt_integration r)), (''session'', encode_session (rt_session r)),
       (''createdAt'', JInt (rt_createdAt r)), (''expiresAt'', or_null JInt (rt_expiresAt r)),
       (''revokedAt'', or_null JInt (rt_revokedAt r))] @
      opt_entry ''rotationResponse'' encode_tokens (rt_rotationResponse r))"

definition decode_refresh :: "json \<Rightarrow> refresh_record option" where
  "decode_refresh j = do {
     d \<leftarrow> to_dict j;
     token \<leftarrow> field_of to_str d ''refreshToken'';
     client \<leftarrow> field_of to_str d ''clientId'';
     scope \<leftarrow> field_of to_str d ''scope'';
     integration \<leftarrow> field_of (nullable to_str) d ''integration'';
     s \<leftarrow> field_of decode_session d ''session'';
     created \<leftarrow> field_of to_int d ''createdAt'';
     expires \<leftarrow> field_of (nullable to_int) d ''expiresAt'';
     revoked \<leftarrow> field_of (nullable to_int) d ''revokedAt'';
     rotation \<leftarrow> field_of (nullable decode_tokens) d ''rotationResponse'';
     Some \<lparr>rt_refreshToken = token, rt_clientId = client, rt_scope = scope, rt_integration = integration, rt_session = s,
       rt_createdAt = created, rt_expiresAt = expires, rt_revokedAt = revoked, rt_rotationResponse = rotation\<rparr> }"

definition encode_source :: "source \<Rightarrow> json" where
  "encode_source x =
     (case x of
        FixtureSource asset variant mime w h \<Rightarrow> JObj
          [(''kind'', JStr ''fixture''), (''assetId'', JStr asset), (''variant'', JStr variant), (''mimeType'', JStr mime),
           (''width'', JInt w), (''height'', JInt h)]
      | ProxySource url mime \<Rightarrow> JObj [(''kind'', JStr ''proxy''), (''url'', JStr url), (''mimeType'', JStr mime)])"

definition decode_source :: "json \<Rightarrow> source option" where
  "decode_source j = do {
     d \<leftarrow> to_dict j;
     kind \<leftarrow> field_of to_str d ''kind'';
     mime \<leftarrow> field_of to_str d ''mimeType'';
     if kind = ''fixture'' then do {
       asset \<leftarrow> field_of to_str d ''assetId'';
       variant \<leftarrow> field_of to_str d ''variant'';
       w \<leftarrow> field_of to_int d ''width'';
       h \<leftarrow> field_of to_int d ''height'';
       Some (FixtureSource asset variant mime w h) }
     else do { url \<leftarrow> field_of to_str d ''url''; Some (ProxySource url mime) } }"

definition encode_grant :: "asset_grant \<Rightarrow> json" where
  "encode_grant r = JObj
     [(''grantId'', JStr (ag_grantId r)), (''userId'', JStr (ag_userId r)), (''tenantId'', JStr (ag_tenantId r)),
      (''expiresAt'', JInt (ag_expiresAt r)), (''source'', encode_source (ag_source r)),
      (''integration'', or_null JStr (ag_integration r)), (''mimeType'', or_null JStr (ag_mimeType r)),
      (''filename'', or_null JStr (ag_filename r))]"

definition decode_grant :: "json \<Rightarrow> asset_grant option" where
  "decode_grant j = do {
     d \<leftarrow> to_dict j;
     g \<leftarrow> field_of to_str d ''grantId'';
     u \<leftarrow> field_of to_str d ''userId'';
     t \<leftarrow> field_of to_str d ''tenantId'';
     expires \<leftarrow> field_of to_int d ''expiresAt'';
     src \<leftarrow> field_of decode_source d ''source'';
     integration \<leftarrow> field_of (nullable to_str) d ''integration'';
     mime \<leftarrow> field_of (nullable to_str) d ''mimeType'';
     name \<leftarrow> field_of (nullable to_str) d ''filename'';
     Some \<lparr>ag_grantId = g, ag_userId = u, ag_tenantId = t, ag_expiresAt = expires, ag_source = src,
       ag_integration = integration, ag_mimeType = mime, ag_filename = name\<rparr> }"

definition encode_pending :: "pending_sso \<Rightarrow> json" where
  "encode_pending r = JObj
     [(''handoffState'', JStr (ps_handoffState r)), (''canvaState'', JStr (ps_canvaState r)),
      (''clientId'', JStr (ps_clientId r)), (''redirectUri'', JStr (ps_redirectUri r)), (''scope'', JStr (ps_scope r)),
      (''codeChallenge'', or_null JStr (ps_codeChallenge r)), (''codeChallengeMethod'', JStr (ps_codeChallengeMethod r)),
      (''tenant'', encode_tenant (ps_tenant r)), (''correlationId'', JStr (ps_correlationId r)),
      (''initiatorKey'', JStr (ps_initiatorKey r)), (''createdAt'', JInt (ps_createdAt r)),
      (''expiresAt'', JInt (ps_expiresAt r)), (''usedAt'', or_null JInt (ps_usedAt r)), (''purgeAt'', JInt (ps_purgeAt r))]"

definition decode_pending :: "json \<Rightarrow> pending_sso option" where
  "decode_pending j = do {
     d \<leftarrow> to_dict j;
     handoff \<leftarrow> field_of to_str d ''handoffState'';
     canva \<leftarrow> field_of to_str d ''canvaState'';
     client \<leftarrow> field_of to_str d ''clientId'';
     uri \<leftarrow> field_of to_str d ''redirectUri'';
     scope \<leftarrow> field_of to_str d ''scope'';
     challenge \<leftarrow> field_of (nullable to_str) d ''codeChallenge'';
     meth \<leftarrow> field_of to_str d ''codeChallengeMethod'';
     t \<leftarrow> field_of decode_tenant d ''tenant'';
     correlation \<leftarrow> field_of to_str d ''correlationId'';
     initiator \<leftarrow> field_of to_str d ''initiatorKey'';
     created \<leftarrow> field_of to_int d ''createdAt'';
     expires \<leftarrow> field_of to_int d ''expiresAt'';
     used \<leftarrow> field_of (nullable to_int) d ''usedAt'';
     purge \<leftarrow> field_of to_int d ''purgeAt'';
     Some \<lparr>ps_handoffState = handoff, ps_canvaState = canva, ps_clientId = client, ps_redirectUri = uri, ps_scope = scope,
       ps_codeChallenge = challenge, ps_codeChallengeMethod = meth, ps_tenant = t, ps_correlationId = correlation,
       ps_initiatorKey = initiator, ps_createdAt = created, ps_expiresAt = expires, ps_usedAt = used, ps_purgeAt = purge\<rparr> }"

lemmas reading = field_of_def opt_entry_def

lemma decode_encode_code [simp]: "decode_code (encode_code r) = Some r"
  by (cases r) (simp add: decode_code_def encode_code_def reading)

lemma decode_encode_access [simp]: "decode_access (encode_access r) = Some r"
  by (cases r) (auto simp: decode_access_def encode_access_def reading split: option.splits)

lemma decode_encode_tokens [simp]: "decode_tokens (encode_tokens r) = Some r"
  by (cases r) (simp add: decode_tokens_def encode_tokens_def reading)

lemma nullable_tokens [simp]: "nullable decode_tokens (encode_tokens r) = Some (Some r)"
  using decode_encode_tokens [of r] by (simp add: encode_tokens_def)

lemma decode_encode_refresh [simp]: "decode_refresh (encode_refresh r) = Some r"
  by (cases r) (auto simp: decode_refresh_def encode_refresh_def reading split: option.splits)

lemma decode_encode_source [simp]: "decode_source (encode_source x) = Some x"
  by (cases x) (simp_all add: decode_source_def encode_source_def reading)

lemma decode_encode_grant [simp]: "decode_grant (encode_grant r) = Some r"
  by (cases r) (simp add: decode_grant_def encode_grant_def reading)

lemma decode_encode_pending [simp]: "decode_pending (encode_pending r) = Some r"
  by (cases r) (simp add: decode_pending_def encode_pending_def reading)

section \<open>The store\<close>

definition encode_bucket :: "('a \<Rightarrow> json) \<Rightarrow> 'a dict \<Rightarrow> json dict" where
  "encode_bucket enc b = map (\<lambda>(k, r). (k, enc r)) b"

definition encode_store :: "broker_store \<Rightarrow> json dict dict" where
  "encode_store st =
     [(''authorizationCodes'', encode_bucket encode_code (authorizationCodes st)),
      (''accessTokens'', encode_bucket encode_access (accessTokens st)),
      (''refreshTokens'', encode_bucket encode_refresh (refreshTokens st)),
      (''assetGrants'', encode_bucket encode_grant (assetGrants st)),
      (''pendingSsoStates'', encode_bucket encode_pending (pendingSsoStates st))]"

definition decode_store :: "json dict dict \<Rightarrow> broker_store option" where
  "decode_store d = do {
     codes \<leftarrow> dict_get d ''authorizationCodes'' \<bind> all_of (entry_of decode_code);
     access \<leftarrow> dict_get d ''accessTokens'' \<bind> all_of (entry_of decode_access);
     refresh \<leftarrow> dict_get d ''refreshTokens'' \<bind> all_of (entry_of decode_refresh);
     grants \<leftarrow> dict_get d ''assetGrants'' \<bind> all_of (entry_of decode_grant);
     pending \<leftarrow> dict_get d ''pendingSsoStates'' \<bind> all_of (entry_of decode_pending);
     Some \<lparr>authorizationCodes = codes, accessTokens = access, refreshTokens = refresh, assetGrants = grants,
       pendingSsoStates = pending\<rparr> }"

lemma decode_encode_store: "decode_store (encode_store st) = Some st"
  by (cases st) (simp add: decode_store_def encode_store_def encode_bucket_def all_of_entries)

lemma decode_initial: "decode_store clone_initial_state = Some initial_store"
  by (simp add: decode_store_def clone_initial_state_def bucket_names_def initial_store_def)

section \<open>What can be written\<close>

text \<open>
  A text of JSON reads back when no dictionary has a key twice and no integer has more than 4300
  digits, which Python refuses to read.
\<close>

definition int_fits :: "int \<Rightarrow> bool" where
  "int_fits n \<longleftrightarrow> json_ok (JInt n)"

definition session_fits :: "session \<Rightarrow> bool" where
  "session_fits s \<longleftrightarrow> wf_dict (tn_collectionChildren (ss_tenant s)) \<and>
     (case ss_broker s of None \<Rightarrow> True | Some b \<Rightarrow> wf_dict b)"

definition code_fits :: "auth_code \<Rightarrow> bool" where
  "code_fits r \<longleftrightarrow> session_fits (ac_session r) \<and> int_fits (ac_expiresAt r)"

definition access_fits :: "access_record \<Rightarrow> bool" where
  "access_fits r \<longleftrightarrow> session_fits (at_session r) \<and> int_fits (at_expiresAt r) \<and> int_fits (at_createdAt r) \<and>
     pred_option int_fits (at_revokedAt r)"

definition refresh_fits :: "refresh_record \<Rightarrow> bool" where
  "refresh_fits r \<longleftrightarrow> session_fits (rt_session r) \<and> int_fits (rt_createdAt r) \<and> pred_option int_fits (rt_expiresAt r) \<and>
     pred_option int_fits (rt_revokedAt r) \<and> pred_option (\<lambda>t. int_fits (tr_expires_in t)) (rt_rotationResponse r)"

definition grant_fits :: "asset_grant \<Rightarrow> bool" where
  "grant_fits r \<longleftrightarrow> int_fits (ag_expiresAt r) \<and>
     (case ag_source r of FixtureSource _ _ _ w h \<Rightarrow> int_fits w \<and> int_fits h | ProxySource _ _ \<Rightarrow> True)"

definition pending_fits :: "pending_sso \<Rightarrow> bool" where
  "pending_fits r \<longleftrightarrow> wf_dict (tn_collectionChildren (ps_tenant r)) \<and> int_fits (ps_createdAt r) \<and>
     int_fits (ps_expiresAt r) \<and> pred_option int_fits (ps_usedAt r) \<and> int_fits (ps_purgeAt r)"

definition store_fits :: "broker_store \<Rightarrow> bool" where
  "store_fits st \<longleftrightarrow> wf_store st \<and> list_all (\<lambda>(k, r). code_fits r) (authorizationCodes st) \<and>
     list_all (\<lambda>(k, r). access_fits r) (accessTokens st) \<and> list_all (\<lambda>(k, r). refresh_fits r) (refreshTokens st) \<and>
     list_all (\<lambda>(k, r). grant_fits r) (assetGrants st) \<and> list_all (\<lambda>(k, r). pending_fits r) (pendingSsoStates st)"

lemma json_ok_strings [simp]: "list_all json_ok (map JStr xs)" "json_ok (or_null JStr x)"
  by (induction xs) (auto simp: or_null_def split: option.splits)

lemma json_ok_or_null [simp]: "json_ok (or_null JInt x) \<longleftrightarrow> pred_option int_fits x"
  by (cases x) (simp_all add: or_null_def int_fits_def)

lemma entries_ok:
  assumes "wf_dict b" and "list_all (\<lambda>(k, v). json_ok (enc v)) b"
  shows "json_ok (JObj (map (\<lambda>(k, v). (k, enc v)) b))"
proof -
  have "map fst (map (\<lambda>(k, v). (k, enc v)) b) = map fst b" by (induction b) auto
  moreover have "list_all (\<lambda>(k, v). json_ok v) (map (\<lambda>(k, v). (k, enc v)) b)" using assms(2) by (induction b) auto
  ultimately show ?thesis using assms(1) by (simp only: json_ok.simps wf_dict_def)
qed

lemma tenant_ok: "wf_dict (tn_collectionChildren t) \<Longrightarrow> json_ok (encode_tenant t)"
proof -
  assume wf: "wf_dict (tn_collectionChildren t)"
  have "list_all (\<lambda>(k, cs). json_ok (JArr (map JStr cs))) (tn_collectionChildren t)" by (simp add: list_all_iff)
  from entries_ok [OF wf this]
  have children: "json_ok (JObj (map (\<lambda>(k, cs). (k, JArr (map JStr cs))) (tn_collectionChildren t)))" .
  define j where "j = JObj (map (\<lambda>(k, cs). (k, JArr (map JStr cs))) (tn_collectionChildren t))"
  have "json_ok j" using children by (simp add: j_def)
  then show ?thesis
    unfolding encode_tenant_def j_def [symmetric]
    by (auto simp: opt_entry_def list_entry_def split: option.splits)
qed

lemma broker_ok: "wf_dict b \<Longrightarrow> json_ok (encode_broker b)"
  unfolding encode_broker_def by (rule entries_ok) (simp_all add: list_all_iff split: prod.splits)

lemma user_ok: "json_ok (encode_user u)"
  by (auto simp: encode_user_def opt_entry_def split: option.splits)

lemma upstream_ok: "json_ok (encode_upstream u)"
  by (auto simp: encode_upstream_def opt_entry_def split: option.splits)

lemma session_ok: "session_fits s \<Longrightarrow> json_ok (encode_session s)"
  by (auto simp: encode_session_def session_fits_def opt_entry_def tenant_ok broker_ok user_ok upstream_ok
      split: option.splits)

lemma code_json_ok: "code_fits r \<Longrightarrow> json_ok (encode_code r)"
  by (simp add: encode_code_def code_fits_def session_ok int_fits_def)

lemma access_json_ok: "access_fits r \<Longrightarrow> json_ok (encode_access r)"
  by (auto simp: encode_access_def access_fits_def session_ok int_fits_def opt_entry_def split: option.splits)

lemma refresh_json_ok: "refresh_fits r \<Longrightarrow> json_ok (encode_refresh r)"
  by (auto simp: encode_refresh_def refresh_fits_def session_ok int_fits_def opt_entry_def encode_tokens_def split: option.splits)

lemma grant_json_ok: "grant_fits r \<Longrightarrow> json_ok (encode_grant r)"
  by (auto simp: encode_grant_def grant_fits_def int_fits_def encode_source_def split: source.splits)

lemma pending_json_ok: "pending_fits r \<Longrightarrow> json_ok (encode_pending r)"
  by (simp add: encode_pending_def pending_fits_def int_fits_def tenant_ok)

lemma bucket_ok:
  assumes "wf_dict b" and "list_all (\<lambda>(k, r). fits r) b" and "\<And>r. fits r \<Longrightarrow> json_ok (enc r)"
  shows "json_ok (JObj (encode_bucket enc b))"
  unfolding encode_bucket_def
  by (rule entries_ok [OF assms(1)]) (use assms(2,3) in \<open>auto simp: list_all_iff\<close>)

lemma storable_encode:
  assumes "store_fits st"
  shows "storable (encode_store st)"
proof -
  have "json_ok (JObj (encode_bucket encode_code (authorizationCodes st)))"
    by (rule bucket_ok [OF _ _ code_json_ok]) (use assms in \<open>simp_all add: store_fits_def wf_store_def\<close>)
  moreover have "json_ok (JObj (encode_bucket encode_access (accessTokens st)))"
    by (rule bucket_ok [OF _ _ access_json_ok]) (use assms in \<open>simp_all add: store_fits_def wf_store_def\<close>)
  moreover have "json_ok (JObj (encode_bucket encode_refresh (refreshTokens st)))"
    by (rule bucket_ok [OF _ _ refresh_json_ok]) (use assms in \<open>simp_all add: store_fits_def wf_store_def\<close>)
  moreover have "json_ok (JObj (encode_bucket encode_grant (assetGrants st)))"
    by (rule bucket_ok [OF _ _ grant_json_ok]) (use assms in \<open>simp_all add: store_fits_def wf_store_def\<close>)
  moreover have "json_ok (JObj (encode_bucket encode_pending (pendingSsoStates st)))"
    by (rule bucket_ok [OF _ _ pending_json_ok]) (use assms in \<open>simp_all add: store_fits_def wf_store_def\<close>)
  ultimately show ?thesis
    by (simp add: storable_def encode_store_def bucket_names_def document_def)
qed

section \<open>The services on the file\<close>

text \<open>The records that the file holds, and a transaction on records run on the dictionaries of the file.\<close>

definition records_of :: "file_system \<Rightarrow> broker_store option" where
  "records_of s = view_of s \<bind> decode_store"

definition on_file ::
  "(broker_store \<Rightarrow> world \<Rightarrow> (exn + 'r) \<times> broker_store \<times> world) \<Rightarrow> 'r updater"
where
  "on_file f d w =
     (case decode_store d of
        None \<Rightarrow> (Inl TypeError, d, w)
      | Some st \<Rightarrow> (case f st w of (r, st', w') \<Rightarrow> (r, encode_store st', w')))"

lemma records_stored:
  "store_fits st \<Longrightarrow> fs_main s = Some \<lparr>sf_text = Some (store_text (encode_store st)), sf_mode = m\<rparr> \<Longrightarrow> records_of s = Some st"
  using view_stored [OF storable_encode, of st s m] by (simp add: records_of_def decode_encode_store)

lemma records_fresh: "fs_main s = None \<Longrightarrow> records_of s = Some initial_store"
  by (simp add: records_of_def view_of_def decode_initial)

end
