(* ===== verification/Service_File_Properties.thy ===== *)
theory Service_File_Properties
  imports Store_Encoding Sample_Data
begin

text \<open>
  The composition of the services with the file: a transaction of a service, which the other theories
  run on records, is carried out on the text of the store file with all its calls, and leaves there
  the records that the theories speak of.
\<close>

section \<open>Revoking a token, on the file\<close>

lemma in_prune_dict: "list_all (\<lambda>(k, r). P r) d \<Longrightarrow> list_all (\<lambda>(k, r). P r) (prune_dict dead d)"
  by (auto simp: prune_dict_def list_all_iff)

lemma prune_fits: "store_fits st \<Longrightarrow> store_fits (prune_expired st now grace)"
  by (simp add: store_fits_def prune_expired_def wf_store_def wf_dict_prune in_prune_dict)

lemma delete_fits:
  "store_fits st \<Longrightarrow> store_fits (st\<lparr>accessTokens := AList.delete t (modify_dict t f (accessTokens st))\<rparr>)"
proof -
  have "list_all (\<lambda>(k, r). access_fits r) d \<Longrightarrow> list_all (\<lambda>(k, r). access_fits r) (AList.delete t (modify_dict t f d))" for d
    by (induction d) (auto simp: modify_dict_def AList.delete_eq)
  then show "store_fits st \<Longrightarrow> ?thesis" by (simp add: store_fits_def wf_store_def)
qed

lemma mark_fits:
  "store_fits st \<Longrightarrow> int_fits n \<Longrightarrow>
   store_fits (st\<lparr>refreshTokens := modify_dict t (\<lambda>r. r\<lparr>rt_revokedAt := Some n\<rparr>) (refreshTokens st)\<rparr>)"
proof -
  have "list_all (\<lambda>(k, r). refresh_fits r) d \<Longrightarrow> int_fits n \<Longrightarrow>
      list_all (\<lambda>(k, r). refresh_fits r) (modify_dict t (\<lambda>r. r\<lparr>rt_revokedAt := Some n\<rparr>) d)" for d
    by (induction d) (auto simp: modify_dict_def refresh_fits_def)
  then show "store_fits st \<Longrightarrow> int_fits n \<Longrightarrow> ?thesis" by (simp add: store_fits_def wf_store_def)
qed

lemma revoke_fits:
  assumes "store_fits st" and "\<forall>i. int_fits (clock w i)" and "revoke_updater sv token st w = (Inr x, st', w')"
  shows "store_fits st'"
proof -
  let ?p = "prune_expired st (clock w (ticks w)) (refresh_grace_ms sv)"
  note fits = prune_fits [OF assms(1), of "clock w (ticks w)" "refresh_grace_ms sv"]
  have "st' \<in> {?p, ?p\<lparr>accessTokens := AList.delete token (modify_dict token
        (\<lambda>r. r\<lparr>at_revokedAt := Some (clock w (Suc (ticks w)))\<rparr>) (accessTokens ?p))\<rparr>,
      ?p\<lparr>refreshTokens := modify_dict token (\<lambda>r. r\<lparr>rt_revokedAt := Some (clock w (Suc (ticks w)))\<rparr>) (refreshTokens ?p)\<rparr>}"
    using assms(3) by (auto simp: revoke_updater_def svc_prune_def Let_def split: if_splits)
  then show ?thesis
    using fits delete_fits [OF fits] mark_fits [OF fits] assms(2) by auto
qed

section \<open>Properties\<close>

text \<open>C21. The services run on the file. Where the file holds records, a transaction of a service on them,
  carried out on the text of the file with every call into the operating system, has the result it
  has on the records, moves the world in the same way, and leaves a file that holds the records the
  transaction left: an exception leaves them alone.\<close>

theorem services_run_on_file:
  assumes "records_of s = Some st" and "decodable s" and "fs_lockable s \<or> \<not> secure"
    and "\<forall>x st' w'. f st w = (Inr x, st', w') \<longrightarrow> store_fits st'"
    and "file_update secure (on_file f) s w = (r, cs, w')"
  shows "store_update f (Some st) w = (r, records_of (apply_calls cs s), w') \<and> decodable (apply_calls cs s)"
proof -
  obtain d where d: "view_of s = Some d" "decode_store d = Some st"
    using assms(1) by (auto simp: records_of_def split: bind_splits)
  have "storing_at (on_file f) s w"
    using assms(4) d by (auto simp: storing_at_def on_file_def intro: storable_encode split: prod.splits)
  note effect = file_run_view(1,2) [OF this assms(2,3,5)]
  obtain x st1 w1 where f: "f st w = (x, st1, w1)" by (metis prod.exhaust)
  show ?thesis
  proof (cases x)
    case (Inl e)
    then have "r = Inl e \<and> view_of (apply_calls cs s) = Some d \<and> w1 = w'"
      using effect(1) by (auto simp: d store_update_Some on_file_def f)
    then show ?thesis using effect(2) d(2) by (simp add: store_update_Some f Inl records_of_def)
  next
    case (Inr v)
    then have "r = Inr v \<and> view_of (apply_calls cs s) = Some (encode_store st1) \<and> w1 = w'"
      using effect(1) by (auto simp: d store_update_Some on_file_def f)
    then show ?thesis using effect(2) by (simp add: store_update_Some f Inr records_of_def decode_encode_store)
  qed
qed

definition sample_disk :: file_system where
  "sample_disk = \<lparr>fs_main = Some \<lparr>sf_text = Some (store_text (encode_store sample_store)), sf_mode = OWNER_ONLY\<rparr>,
     fs_tmp = None, fs_dir = Some OWNER_DIR, fs_lockable = True, fs_new_mode = 420\<rparr>"

lemma small_int_fits: "0 \<le> n \<Longrightarrow> n < 10 ^ 18 \<Longrightarrow> int_fits n"
  using length_nat_digits [of "nat n" 18] by (simp add: int_fits_def nat_less_iff)

lemma sample_session_fits: "session_fits sample_session"
  by (simp add: session_fits_def sample_session_def sample_tenant_def)

lemma sample_fits: "store_fits sample_store"
  using sample_wf sample_session_fits
  by (simp add: store_fits_def sample_store_def code_fits_def access_fits_def refresh_fits_def grant_fits_def
      pending_fits_def sample_code_def sample_access_def sample_refresh_def sample_grant_def sample_pending_def
      sample_tenant_def small_int_fits)

definition first_world :: world where
  "first_world = sample_world\<lparr>clock := (\<lambda>_. 1000000)\<rparr>"

lemma sample_disk_ok: "records_of sample_disk = Some sample_store" "decodable sample_disk" "fs_lockable sample_disk \<or> \<not> True"
  by (rule records_stored [OF sample_fits]) (simp_all add: sample_disk_def decodable_def)

theorem services_run_on_file_witness:
  "\<exists>cs w'. file_update True (on_file (revoke_updater sample_service ''rt_xxx'')) sample_disk first_world = (Inr True, cs, w') \<and>
    revoke_token sample_service ''rt_xxx'' (Some sample_store) first_world = (Inr True, records_of (apply_calls cs sample_disk), w')"
proof -
  let ?f = "revoke_updater sample_service ''rt_xxx''"
  obtain r cs w' where run: "file_update True (on_file ?f) sample_disk first_world = (r, cs, w')" by (metis prod.exhaust)
  have "\<forall>i. int_fits (clock first_world i)" by (simp add: first_world_def small_int_fits)
  then have fits: "\<forall>x st' w'. ?f sample_store first_world = (Inr x, st', w') \<longrightarrow> store_fits st'"
    using revoke_fits [OF sample_fits] by blast
  have "fst (?f sample_store first_world) = Inr True"
    by (simp add: revoke_updater_def svc_prune_def Let_def sample_store_def sample_refresh_def first_world_def prune_dict_def
        refresh_dead_def)
  moreover note services_run_on_file [OF sample_disk_ok fits run]
  ultimately have "r = Inr True"
    "revoke_token sample_service ''rt_xxx'' (Some sample_store) first_world = (r, records_of (apply_calls cs sample_disk), w')"
    by (auto simp: revoke_token_def store_update_Some split: prod.splits sum.splits)
  with run show ?thesis by auto
qed

end
