(* ===== verification/Date_Properties.thy ===== *)
theory Date_Properties
  imports Iso_Date
begin

text \<open>
  What the dates of the broker are: the calendar is a bijection between ordinals and dates, and the
  local time of a moment with an offset, as text, is read as that moment and that offset, so that
  \<^verbatim>\<open>_to_iso_date\<close> gives the moment in UTC; what it writes is read back as it is.
\<close>

section \<open>The calendar\<close>

lemma year_length: "days_before_year (y + 1) = days_before_year y + sum_list (month_lengths y)"
proof -
  have step: "y div n - (y - 1) div n = (if y mod n = 0 then 1 else 0)" if "0 < n" for n :: int
  proof (cases "y mod n = 0")
    case True
    then obtain k where k: "y = n * k" by auto
    have "(y - 1) div n = k - 1"
      by (rule int_div_pos_eq [of _ _ _ "n - 1"]) (use that in \<open>auto simp: k algebra_simps\<close>)
    then show ?thesis using that by (simp add: k)
  next
    case False
    have "0 < y mod n" "y mod n < n"
      using that False pos_mod_bound [of n y] pos_mod_sign [of n y] by linarith+
    then have "(y - 1) div n = y div n"
      by (intro int_div_pos_eq [of _ _ _ "y mod n - 1"]) (auto simp: mult_div_mod_eq algebra_simps)
    then show ?thesis using False by simp
  qed
  have s4: "y div 4 - (y - 1) div 4 = (if y mod 4 = 0 then 1 else 0)" by (rule step) simp
  have s100: "y div 100 - (y - 1) div 100 = (if y mod 100 = 0 then 1 else 0)" by (rule step) simp
  have s400: "y div 400 - (y - 1) div 400 = (if y mod 400 = 0 then 1 else 0)" by (rule step) simp
  have mods: "y mod 400 = 0 \<longrightarrow> y mod 100 = 0" "y mod 100 = 0 \<longrightarrow> y mod 4 = 0"
    using dvd_trans [of 100 400 y] dvd_trans [of 4 100 y] by (simp_all add: mod_eq_0_iff_dvd)
  have leap: "365 + (if a then 1 else 0) - (if b then 1 else 0) + (if c then 1 else 0) =
      sum_list [31, if a \<and> (\<not> b \<or> c) then 29 else 28, 31, 30, 31, 30, 31, 31, 30, 31, 30, 31 :: int]"
    if "c \<longrightarrow> b" "b \<longrightarrow> a" for a b c
    using that by (cases a; cases b; cases c) simp_all
  have "days_before_year (y + 1) - days_before_year y =
      365 + (y div 4 - (y - 1) div 4) - (y div 100 - (y - 1) div 100) + (y div 400 - (y - 1) div 400)"
    by (simp add: days_before_year_def Let_def del: div_mult_self1)
  also have "\<dots> = 365 + (if y mod 4 = 0 then 1 else 0) - (if y mod 100 = 0 then 1 else 0) + (if y mod 400 = 0 then 1 else 0)"
    by (simp only: s4 s100 s400)
  also have "\<dots> = sum_list (month_lengths y)"
    unfolding month_lengths_def is_leap_def by (rule leap [OF mods])
  finally show ?thesis by simp
qed

lemma days_before_year_bounds:
  "146097 * (k::int) - 700 \<le> 400 * days_before_year (k + 1)"
  "400 * days_before_year (k + 1) \<le> 146097 * k + 396"
proof -
  define a b c where "a = k div 4" and "b = k div 100" and "c = k div 400"
  have "4 * a \<le> k" "k \<le> 4 * a + 3" unfolding a_def by presburger+
  moreover have "100 * b \<le> k" "k \<le> 100 * b + 99" unfolding b_def by presburger+
  moreover have "400 * c \<le> k" "k \<le> 400 * c + 399" unfolding c_def by presburger+
  moreover have "days_before_year (k + 1) = k * 365 + a - b + c"
    by (simp add: days_before_year_def Let_def a_def b_def c_def)
  ultimately show "146097 * k - 700 \<le> 400 * days_before_year (k + 1)"
    "400 * days_before_year (k + 1) \<le> 146097 * k + 396"
    by linarith+
qed

lemma year_of_spec: "days_before_year (year_of n) < n \<and> n \<le> days_before_year (year_of n + 1)"
proof -
  define k where "k = (n - 1) * 400 div 146097"
  have "146097 * k + (n - 1) * 400 mod 146097 = (n - 1) * 400" unfolding k_def by (rule mult_div_mod_eq)
  moreover have "0 \<le> (n - 1) * 400 mod 146097" "(n - 1) * 400 mod 146097 < 146097" by simp_all
  ultimately have k: "146097 * k \<le> (n - 1) * 400" "(n - 1) * 400 < 146097 * k + 146097" by linarith+
  have low: "days_before_year (k + 1) < n"
    using k(1) days_before_year_bounds(2) [of k] by simp
  have high: "n \<le> days_before_year (k + 3)"
    using k(2) days_before_year_bounds(1) [of "k + 2"] by (simp add: algebra_simps)
  have "year_of n = (if days_before_year (k + 2) < n then k + 2 else if n \<le> days_before_year (k + 1) then k else k + 1)"
    unfolding year_of_def Let_def k_def by (simp add: add.commute)
  then show ?thesis using low high by (auto simp: add.commute)
qed

lemma month_day_spec:
  assumes "1 \<le> r" "r \<le> sum_list ls" "month_day ls m r = (m', d)"
  shows "m \<le> m' \<and> m' < m + int (length ls) \<and> 1 \<le> d \<and> d \<le> ls ! nat (m' - m) \<and>
    sum_list (take (nat (m' - m)) ls) + d = r"
  using assms
proof (induction ls arbitrary: m r)
  case (Cons l ls)
  show ?case
  proof (cases "r \<le> l")
    case False
    then have "m + 1 \<le> m' \<and> m' < m + 1 + int (length ls) \<and> 1 \<le> d \<and> d \<le> ls ! nat (m' - (m + 1)) \<and>
        sum_list (take (nat (m' - (m + 1))) ls) + d = r - l"
      using Cons.prems by (intro Cons.IH) auto
    moreover from this have "nat (m' - m) = Suc (nat (m' - (m + 1)))" by linarith
    ultimately show ?thesis by simp
  qed (use Cons.prems in auto)
qed simp

lemma ordinal_ymd_spec:
  assumes n: "1 \<le> n" "n \<le> LAST_ORDINAL" and ymd: "ordinal_ymd n = (y, m, d)"
  shows "valid_date y m d \<and> ymd_ordinal y m d = n"
proof -
  have y: "y = year_of n" "month_day (month_lengths y) 1 (n - days_before_year y) = (m, d)"
    using ymd by (auto simp: ordinal_ymd_def Let_def)
  note spec = year_of_spec [of n, folded y(1)]
  have "1 \<le> y"
    using days_before_year_bounds(2) [of "y"] spec n(1) by linarith
  moreover have "y \<le> 9999"
    using days_before_year_bounds(1) [of "y - 1"] spec n(2) by (simp add: LAST_ORDINAL_def)
  moreover have "1 \<le> m \<and> m < 1 + int (length (month_lengths y)) \<and> 1 \<le> d \<and> d \<le> month_lengths y ! nat (m - 1) \<and>
      sum_list (take (nat (m - 1)) (month_lengths y)) + d = n - days_before_year y"
    using month_day_spec [OF _ _ y(2)] spec year_length [of y] by simp
  ultimately show ?thesis
    by (auto simp: valid_date_def ymd_ordinal_def month_lengths_def)
qed

lemma month_length_bound: "1 \<le> m \<Longrightarrow> m \<le> 12 \<Longrightarrow> month_lengths y ! nat (m - 1) \<le> 31"
proof -
  assume "1 \<le> m" "m \<le> 12"
  then have "nat (m - 1) < length (month_lengths y)" by (simp add: month_lengths_def)
  then have "month_lengths y ! nat (m - 1) \<in> set (month_lengths y)" by (rule nth_mem)
  then show ?thesis by (auto simp: month_lengths_def split: if_splits)
qed

section \<open>Digits\<close>

definition digit_text :: "nat list \<Rightarrow> string" where
  "digit_text ds = map (\<lambda>x. char_of (48 + x)) ds"

definition digit_value :: "nat list \<Rightarrow> nat" where
  "digit_value ds = foldl (\<lambda>a x. 10 * a + x) 0 ds"

lemma padded_digits:
  "v < 10 ^ w \<Longrightarrow> \<exists>ds. length ds = w \<and> list_all (\<lambda>x. x < 10) ds \<and> padded w v = digit_text ds \<and> digit_value ds = v"
proof (induction w arbitrary: v)
  case (Suc w)
  then have "v div 10 < 10 ^ w" by (simp add: less_mult_imp_div_less mult.commute)
  from Suc.IH [OF this] obtain ds where ds: "length ds = w" "list_all (\<lambda>x. x < 10) ds"
    "padded w (v div 10) = digit_text ds" "digit_value ds = v div 10" by auto
  then show ?case
    by (intro exI [of _ "ds @ [v mod 10]"]) (simp add: digit_text_def digit_value_def)
qed (simp add: digit_text_def digit_value_def)

lemma padded_two:
  assumes "v < 100"
  obtains a b where "a < 10" "b < 10" "padded 2 v = digit_text [a, b]" "digit_value [a, b] = v"
proof -
  obtain ds where ds: "length ds = 2" "list_all (\<lambda>x. x < 10) ds" "padded 2 v = digit_text ds" "digit_value ds = v"
    using padded_digits [of v 2] assms by auto
  from ds(1) obtain a b where "ds = [a, b]" by (auto simp: length_Suc_conv numeral_eq_Suc)
  with ds that [of a b] show ?thesis by simp
qed

lemma padded_four:
  assumes "v < 10000"
  obtains a b c d where "a < 10" "b < 10" "c < 10" "d < 10" "padded 4 v = digit_text [a, b, c, d]"
    "digit_value [a, b, c, d] = v"
proof -
  obtain ds where ds: "length ds = 4" "list_all (\<lambda>x. x < 10) ds" "padded 4 v = digit_text ds" "digit_value ds = v"
    using padded_digits [of v 4] assms by auto
  from ds(1) obtain a b c d where "ds = [a, b, c, d]" by (auto simp: length_Suc_conv numeral_eq_Suc)
  with ds that [of a b c d] show ?thesis by simp
qed

lemma padded_six:
  assumes "v < 1000000"
  obtains a b c d e f where "a < 10" "b < 10" "c < 10" "d < 10" "e < 10" "f < 10"
    "padded 6 v = digit_text [a, b, c, d, e, f]" "digit_value [a, b, c, d, e, f] = v"
proof -
  obtain ds where ds: "length ds = 6" "list_all (\<lambda>x. x < 10) ds" "padded 6 v = digit_text ds" "digit_value ds = v"
    using padded_digits [of v 6] assms by auto
  from ds(1) obtain a b c d e f where "ds = [a, b, c, d, e, f]" by (auto simp: length_Suc_conv numeral_eq_Suc)
  with ds that [of a b c d e f] show ?thesis by simp
qed

section \<open>Reading back what was written\<close>

lemma digit_not_mark [simp]:
  fixes a :: nat
  assumes "a < 10"
  shows "48 + a \<noteq> 43" "48 + a \<noteq> 45" "48 + a \<noteq> 87" "48 + a \<noteq> 90" "48 + a \<noteq> 58" "48 + a \<noteq> 46" "48 + a \<noteq> 44"
  using assms by auto

lemma is_digit_byte_digit [simp]: "is_digit_byte (48 + a) \<longleftrightarrow> a < 10"
  by (auto simp: is_digit_byte_def)

lemma byte_at_simps [simp]:
  "byte_at [] i = 0" "byte_at (b # bs) 0 = b" "byte_at (b # bs) (Suc i) = byte_at bs i"
  "byte_at (b # bs) (numeral n) = byte_at bs (pred_numeral n)"
  by (simp_all add: byte_at_def numeral_eq_Suc)

lemma byte_at_drop: "byte_at cs (k + i) = byte_at (drop k cs) i"
  by (cases "k \<le> length cs") (auto simp: byte_at_def)

lemma parse_digits_run:
  "list_all (\<lambda>x. x < 10) ds \<Longrightarrow> take (length ds) (drop p cs) = map ((+) 48) ds \<Longrightarrow>
   parse_digits cs p (length ds) (int v) = Some (int (foldl (\<lambda>a x. 10 * a + x) v ds))"
proof (induction ds arbitrary: p v)
  case (Cons x ds)
  have p: "p < length cs" using Cons.prems(2) by (cases "p < length cs") auto
  then have "drop p cs = cs ! p # drop (Suc p) cs" by (simp add: Cons_nth_drop_Suc)
  then have "byte_at cs p = 48 + x" "take (length ds) (drop (Suc p) cs) = map ((+) 48) ds"
    using Cons.prems(2) p by (auto simp: byte_at_def)
  then show ?case
    using Cons.IH [of "Suc p" "10 * v + x"] Cons.prems(1) by simp
qed simp

lemma parse_digits_value:
  assumes "length ds = n" "list_all (\<lambda>x. x < 10) ds" "take n (drop p cs) = map ((+) 48) ds"
  shows "parse_digits cs p n 0 = Some (int (digit_value ds))"
  using parse_digits_run [of ds p cs 0] assms by (simp add: digit_value_def)

lemma parse_iso_date_digits:
  assumes "y1 < 10" "y2 < 10" "y3 < 10" "y4 < 10" "m1 < 10" "m2 < 10" "d1 < 10" "d2 < 10"
  shows "parse_iso_date ((48 + y1) # (48 + y2) # (48 + y3) # (48 + y4) # 45 # (48 + m1) # (48 + m2) # 45 # (48 + d1) #
      (48 + d2) # rest) n =
    Some (int (digit_value [y1, y2, y3, y4]), int (digit_value [m1, m2]), int (digit_value [d1, d2]))"
    (is "parse_iso_date ?cs n = _")
proof -
  have "parse_digits ?cs 0 4 0 = Some (int (digit_value [y1, y2, y3, y4]))"
    by (rule parse_digits_value) (simp_all add: assms)
  moreover have "parse_digits ?cs 5 2 0 = Some (int (digit_value [m1, m2]))"
    by (rule parse_digits_value) (simp_all add: assms)
  moreover have "parse_digits ?cs 8 2 0 = Some (int (digit_value [d1, d2]))"
    by (rule parse_digits_value) (simp_all add: assms)
  ultimately show ?thesis
    by (simp add: parse_iso_date_def Let_def assms)
qed

lemma find_separator_dashed:
  "m < 10 \<Longrightarrow> length rest \<noteq> 1 \<Longrightarrow> find_separator (y1 # y2 # y3 # y4 # 45 # (48 + m) # rest) = Some 10"
  by (simp add: find_separator_def Let_def)

lemma hms_fields_numeral:
  "hms_fields cs stop (numeral n) p colons vs =
     (case parse_digits cs p 2 0 of
        None \<Rightarrow> BadTime
      | Some v \<Rightarrow>
          (let c = byte_at cs (p + 2); colons = (if vs = [] then c = 58 else colons) in
           if stop \<le> p + 3 then WholeTime (vs @ [v]) (c \<noteq> 0)
           else if colons \<and> c = 58 then hms_fields cs stop (pred_numeral n) (p + 3) colons (vs @ [v])
           else if c = 46 \<or> c = 44 then FractionAt (vs @ [v]) (p + 3)
           else if \<not> colons then hms_fields cs stop (pred_numeral n) (p + 2) colons (vs @ [v])
           else BadTime))"
  by (subst numeral_eq_Suc, subst hms_fields.simps(2), rule refl)

lemma parse_hms_whole:
  assumes "parse_digits cs p 2 0 = Some h" "parse_digits cs (p + 3) 2 0 = Some m" "parse_digits cs (p + 6) 2 0 = Some s"
    "byte_at cs (p + 2) = 58" "byte_at cs (p + 5) = 58"
  shows "parse_hms cs p (p + 8) = Some ((h, m, s, 0), byte_at cs (p + 8) \<noteq> 0)"
  using assms by (simp add: parse_hms_def hms_fields_numeral hms_us_def Let_def add.commute [of p])

lemma parse_hms_fraction:
  assumes "parse_digits cs p 2 0 = Some h" "parse_digits cs (p + 3) 2 0 = Some m" "parse_digits cs (p + 6) 2 0 = Some s"
    "byte_at cs (p + 2) = 58" "byte_at cs (p + 5) = 58" "byte_at cs (p + 8) = 46"
    "parse_digits cs (p + 9) 6 0 = Some us" "\<not> is_digit_byte (byte_at cs (p + 15))" "p + 15 \<le> length cs"
  shows "parse_hms cs p (p + 15) = Some ((h, m, s, us), byte_at cs (p + 15) \<noteq> 0)"
proof -
  have "takeWhile is_digit_byte (drop (p + 15) cs) = []"
    using assms(8,9) by (cases "p + 15 < length cs") (auto simp: byte_at_def takeWhile_eq_Nil_iff hd_drop_conv_nth)
  then show ?thesis
    using assms by (simp add: parse_hms_def hms_fields_numeral hms_us_def Let_def add.commute [of p])
qed

lemma parse_hms_zone:
  assumes "parse_digits cs p 2 0 = Some h" "parse_digits cs (p + 3) 2 0 = Some m" "byte_at cs (p + 2) = 58"
    "byte_at cs (p + 5) = 0"
  shows "parse_hms cs p (p + 5) = Some ((h, m, 0, 0), False)"
  using assms by (simp add: parse_hms_def hms_fields_numeral hms_us_def Let_def add.commute [of p])

abbreviation utc_bytes :: "nat list" where
  "utc_bytes \<equiv> [43, 48, 48, 58, 48, 48]"

text \<open>No zone at all, or a signed offset of hours and minutes, with what it stands for in microseconds.\<close>

definition minute_zone :: "nat list \<Rightarrow> int option \<Rightarrow> bool" where
  "minute_zone zone z \<longleftrightarrow> zone = [] \<and> z = None \<or>
     (\<exists>sg p q r s. sg \<in> {43, 45} \<and> p < 10 \<and> q < 10 \<and> r < 10 \<and> s < 10 \<and>
        zone = [sg, 48 + p, 48 + q, 58, 48 + r, 48 + s] \<and>
        z = Some ((if sg = 45 then - 60000000 else 60000000) * (int (digit_value [p, q]) * 60 + int (digit_value [r, s]))))"

lemma zone_value:
  "(if h * 3600 + m * 60 = 0 then 0 else sign * ((h * 3600 + m * 60) * 1000000)) = sign * 60000000 * (h * 60 + m)"
  for h m sign :: int
proof (cases "h * 3600 + m * 60 = 0")
  case True
  then have "h * 60 + m = 0" by simp
  with True show ?thesis by simp
qed (simp add: algebra_simps)

lemma parse_iso_time_zone:
  assumes zone: "minute_zone zone z" and cs: "cs = pre @ body @ zone" and p: "length pre = 11" and k: "length body = k"
    and plain: "list_all (\<lambda>c. c \<notin> {43, 45, 90}) body"
    and time: "parse_hms cs 11 (11 + k) = Some (t, byte_at cs (11 + k) \<noteq> 0)"
  shows "parse_iso_time cs 11 = Some (t, z)"
proof -
  have d: "drop 11 cs = body @ zone" using p by (simp add: cs)
  have none: "takeWhile (\<lambda>c. c \<notin> {43, 45, 90}) body = body"
    using plain by (simp add: takeWhile_eq_all_conv list_all_iff)
  from zone show ?thesis
    unfolding minute_zone_def
  proof (elim disjE conjE exE)
    assume zone: "zone = []" "z = None"
    have "byte_at cs (11 + k) = 0" "length cs = 11 + k" using p k by (simp_all add: cs zone byte_at_def)
    moreover have "length (takeWhile (\<lambda>c. c \<notin> {43, 45, 90}) (drop 11 cs)) = k"
      unfolding d zone append_Nil2 none by (rule k)
    ultimately show ?thesis
      using time unfolding parse_iso_time_def Let_def by (simp add: zone(2))
  next
    fix sg a b c e
    assume sg: "sg \<in> {43, 45}" and ds: "a < 10" "b < 10" "c < 10" "e < 10"
      and zone: "zone = [sg, 48 + a, 48 + b, 58, 48 + c, 48 + e]"
      and z: "z = Some ((if sg = 45 then - 60000000 else 60000000) * (int (digit_value [a, b]) * 60 + int (digit_value [c, e])))"
    have tail: "drop (11 + k) cs = zone" using p k by (simp add: cs)
    note at = byte_at_drop [of cs "11 + k", unfolded tail zone]
    have len: "length (takeWhile (\<lambda>c. c \<notin> {43, 45, 90}) (drop 11 cs)) = k"
      unfolding d using plain sg k by (auto simp: takeWhile_append zone list_all_iff)
    have "parse_digits cs (12 + k) 2 0 = Some (int (digit_value [a, b]))"
      by (rule parse_digits_value) (use p k in \<open>simp_all add: ds cs zone\<close>)
    moreover have "parse_digits cs (12 + k + 3) 2 0 = Some (int (digit_value [c, e]))"
      by (rule parse_digits_value) (use p k in \<open>simp_all add: ds cs zone\<close>)
    ultimately have "parse_hms cs (12 + k) (12 + k + 5) = Some ((int (digit_value [a, b]), int (digit_value [c, e]), 0, 0), False)"
      using at [of 3] at [of 6] by (intro parse_hms_zone) (simp_all add: add.commute [of k])
    moreover have "byte_at cs (11 + k) = sg" "length cs = 17 + k" using at [of 0] p k by (simp_all add: cs zone)
    ultimately show ?thesis
      using time sg unfolding parse_iso_time_def Let_def len z
      by (auto simp: zone_value add.commute [of k])
  qed
qed

lemma unat_byte_of: "n < 256 \<Longrightarrow> unat (byte_of n) = n"
  by (simp add: byte_of_def unat_of_nat)

lemma iso_bytes_append: "iso_bytes (s @ t) = iso_bytes s @ iso_bytes t"
  by (simp add: iso_bytes_def utf8_def)

lemma iso_bytes_ascii [simp]: "is_ascii_char c \<Longrightarrow> iso_bytes (c # s) = char_code c # iso_bytes s"
  by (simp add: iso_bytes_def utf8_def utf8_char_def is_ascii_char_def Let_def unat_byte_of)

lemma iso_bytes_Nil [simp]: "iso_bytes [] = []"
  by (simp add: iso_bytes_def utf8_def)

lemma iso_bytes_digits: "list_all (\<lambda>x. x < 10) ds \<Longrightarrow> iso_bytes (digit_text ds) = map ((+) 48) ds"
proof (induction ds)
  case (Cons x ds)
  then have "is_ascii_char (char_of (48 + x))" "char_code (char_of (48 + x)) = 48 + x"
    by (simp_all add: is_ascii_char_def of_char_of)
  with Cons show ?case by (simp add: digit_text_def)
qed (simp add: digit_text_def)

lemma spell_zone_append: "spell_zone (s @ t) = spell_zone s @ spell_zone t"
  by (simp add: spell_zone_def)

lemma spell_zone_Cons [simp]:
  "spell_zone (c # s) = (if c = CHR ''Z'' then UTC_OFFSET else [c]) @ spell_zone s" "spell_zone [] = []"
  by (simp_all add: spell_zone_def)

lemma spell_zone_digits: "list_all (\<lambda>x. x < 10) ds \<Longrightarrow> spell_zone (digit_text ds) = digit_text ds"
proof (induction ds)
  case (Cons x ds)
  have "char_code (char_of (48 + x)) \<noteq> char_code (CHR ''Z'')"
    using Cons.prems by (simp add: of_char_of)
  then have "char_of (48 + x) \<noteq> CHR ''Z''" by metis
  with Cons show ?case by (simp add: digit_text_def)
qed (simp add: digit_text_def)

lemma utc_offset_bytes [simp]: "iso_bytes UTC_OFFSET = utc_bytes"
  by (simp add: UTC_OFFSET_def is_ascii_char_def)

lemma zone_bytes: "iso_bytes (spell_zone (s @ ''Z'')) = iso_bytes (spell_zone s) @ utc_bytes"
  by (simp add: spell_zone_append iso_bytes_append)

lemma bytes_append: "iso_bytes (spell_zone (s @ t)) = iso_bytes (spell_zone s) @ iso_bytes (spell_zone t)"
  by (simp add: spell_zone_append iso_bytes_append)

lemma bytes_mark:
  "is_ascii_char c \<Longrightarrow> c \<noteq> CHR ''Z'' \<Longrightarrow> iso_bytes (spell_zone (c # s)) = char_code c # iso_bytes (spell_zone s)"
  by simp

lemma bytes_digits: "list_all (\<lambda>x. x < 10) ds \<Longrightarrow> iso_bytes (spell_zone (digit_text ds)) = map ((+) 48) ds"
  by (simp add: spell_zone_digits iso_bytes_digits)

lemmas text_bytes = bytes_append bytes_mark bytes_digits is_ascii_char_def

definition date_bytes :: "nat list \<Rightarrow> nat list \<Rightarrow> nat list \<Rightarrow> nat list" where
  "date_bytes ys ms ds = map ((+) 48) ys @ 45 # map ((+) 48) ms @ 45 # map ((+) 48) ds"

definition clock_bytes :: "nat list \<Rightarrow> nat list \<Rightarrow> nat list \<Rightarrow> nat list" where
  "clock_bytes hs ms ss = map ((+) 48) hs @ 58 # map ((+) 48) ms @ 58 # map ((+) 48) ss"

lemma from_isoformat_bytes:
  assumes bytes: "iso_bytes s = date_bytes [y1, y2, y3, y4] [m1, m2] [d1, d2] @ 84 # rest"
    and digits: "y1 < 10" "y2 < 10" "y3 < 10" "y4 < 10" "m1 < 10" "m2 < 10" "d1 < 10" "d2 < 10"
    and rest: "parse_iso_time (date_bytes [y1, y2, y3, y4] [m1, m2] [d1, d2] @ 84 # rest) 11 = Some ((h, mi, se, us), z)"
    and zone: "case z of None \<Rightarrow> True | Some off \<Rightarrow> - day_us < off \<and> off < day_us"
    and valid: "valid_date (int (digit_value [y1, y2, y3, y4])) (int (digit_value [m1, m2])) (int (digit_value [d1, d2]))"
      "h < 24" "mi < 60" "se < 60"
  shows "from_isoformat s = Some ((ymd_ordinal (int (digit_value [y1, y2, y3, y4])) (int (digit_value [m1, m2]))
    (int (digit_value [d1, d2])) - 1) * day_us + ((h * 60 + mi) * 60 + se) * 1000000 + us, z)"
proof -
  have cs: "iso_bytes s = (48 + y1) # (48 + y2) # (48 + y3) # (48 + y4) # 45 # (48 + m1) # (48 + m2) # 45 # (48 + d1) #
      (48 + d2) # 84 # rest"
    using bytes by (simp add: date_bytes_def)
  have "find_separator (iso_bytes s) = Some 10"
    unfolding cs by (rule find_separator_dashed) (simp_all add: digits)
  moreover have "parse_iso_date (iso_bytes s) 10 =
      Some (int (digit_value [y1, y2, y3, y4]), int (digit_value [m1, m2]), int (digit_value [d1, d2]))"
    unfolding cs by (rule parse_iso_date_digits) (rule digits)+
  moreover have "parse_iso_time (iso_bytes s) 11 = Some ((h, mi, se, us), z)"
    using rest by (simp add: bytes)
  moreover have "\<not> length (iso_bytes s) < 7" "\<not> length (iso_bytes s) < 10" "length (iso_bytes s) \<noteq> 10"
    "byte_at (iso_bytes s) 10 = 84"
    unfolding cs by simp_all
  ultimately show ?thesis
    using valid zone by (simp add: from_isoformat_def Let_def)
qed

lemma clock_time:
  assumes digits: "a < 10" "b < 10" "c < 10" "d < 10" "e < 10" "f < 10" and pre: "length pre = 11"
    and zone: "minute_zone zone z"
  shows "parse_iso_time (pre @ clock_bytes [a, b] [c, d] [e, f] @ zone) 11 =
    Some ((int (digit_value [a, b]), int (digit_value [c, d]), int (digit_value [e, f]), 0), z)"
    (is "parse_iso_time ?cs 11 = _")
proof -
  have d: "drop 11 ?cs = [48 + a, 48 + b, 58, 48 + c, 48 + d, 58, 48 + e, 48 + f] @ zone"
    using pre by (simp add: clock_bytes_def)
  note at = byte_at_drop [of ?cs 11, unfolded d]
  have t: "parse_digits ?cs 11 2 0 = Some (int (digit_value [a, b]))"
    "parse_digits ?cs (11 + 3) 2 0 = Some (int (digit_value [c, d]))"
    "parse_digits ?cs (11 + 6) 2 0 = Some (int (digit_value [e, f]))"
    by (rule parse_digits_value; simp add: digits pre clock_bytes_def)+
  have "parse_hms ?cs 11 (11 + 8) =
      Some ((int (digit_value [a, b]), int (digit_value [c, d]), int (digit_value [e, f]), 0), byte_at ?cs (11 + 8) \<noteq> 0)"
    using parse_hms_whole [OF t] at [of 2] at [of 5] by simp
  note hms = this
  show ?thesis
  proof (rule parse_iso_time_zone [OF zone refl pre, where k = 8, OF _ _ hms])
    show "length (clock_bytes [a, b] [c, d] [e, f]) = 8"
      by (simp add: clock_bytes_def)
    show "list_all (\<lambda>c. c \<notin> {43, 45, 90}) (clock_bytes [a, b] [c, d] [e, f])"
      using digits by (simp add: clock_bytes_def)
  qed
qed

lemma clock_time_fraction:
  assumes digits: "a < 10" "b < 10" "c < 10" "d < 10" "e < 10" "f < 10"
    "u1 < 10" "u2 < 10" "u3 < 10" "u4 < 10" "u5 < 10" "u6 < 10" and pre: "length pre = 11"
    and zone: "minute_zone zone z"
  shows "parse_iso_time (pre @ (clock_bytes [a, b] [c, d] [e, f] @ 46 # map ((+) 48) [u1, u2, u3, u4, u5, u6]) @ zone) 11 =
    Some ((int (digit_value [a, b]), int (digit_value [c, d]), int (digit_value [e, f]),
      int (digit_value [u1, u2, u3, u4, u5, u6])), z)"
    (is "parse_iso_time ?cs 11 = _")
proof -
  have d: "drop 11 ?cs = [48 + a, 48 + b, 58, 48 + c, 48 + d, 58, 48 + e, 48 + f, 46, 48 + u1, 48 + u2, 48 + u3,
      48 + u4, 48 + u5, 48 + u6] @ zone"
    using pre by (simp add: clock_bytes_def)
  note at = byte_at_drop [of ?cs 11, unfolded d]
  have t: "parse_digits ?cs 11 2 0 = Some (int (digit_value [a, b]))"
    "parse_digits ?cs (11 + 3) 2 0 = Some (int (digit_value [c, d]))"
    "parse_digits ?cs (11 + 6) 2 0 = Some (int (digit_value [e, f]))"
    "parse_digits ?cs (11 + 9) 6 0 = Some (int (digit_value [u1, u2, u3, u4, u5, u6]))"
    by (rule parse_digits_value; simp add: digits pre clock_bytes_def)+
  have "\<not> is_digit_byte (byte_at ?cs (11 + 15))"
    using zone at [of 15] by (auto simp: minute_zone_def is_digit_byte_def)
  moreover have "11 + 15 \<le> length ?cs" using pre by (simp add: clock_bytes_def)
  ultimately have "parse_hms ?cs 11 (11 + 15) = Some ((int (digit_value [a, b]), int (digit_value [c, d]),
      int (digit_value [e, f]), int (digit_value [u1, u2, u3, u4, u5, u6])), byte_at ?cs (11 + 15) \<noteq> 0)"
    using at [of 2] at [of 5] at [of 8] by (intro parse_hms_fraction t) simp_all
  note hms = this
  show ?thesis
  proof (rule parse_iso_time_zone [OF zone refl pre, where k = 15, OF _ _ hms])
    show "length (clock_bytes [a, b] [c, d] [e, f] @ 46 # map ((+) 48) [u1, u2, u3, u4, u5, u6]) = 15"
      by (simp add: clock_bytes_def)
    show "list_all (\<lambda>c. c \<notin> {43, 45, 90}) (clock_bytes [a, b] [c, d] [e, f] @ 46 # map ((+) 48) [u1, u2, u3, u4, u5, u6])"
      using digits by (simp add: clock_bytes_def)
  qed
qed

text \<open>The fields of a moment, and the moment that they stand for.\<close>

lemma div_range:
  fixes t :: int
  assumes "0 < D" "0 \<le> t" "t < L * D"
  shows "0 \<le> t div D" "t div D < L"
proof -
  show "0 \<le> t div D" using assms by (simp add: pos_imp_zdiv_nonneg_iff)
  have "t div D * D \<le> t" using div_mult_mod_eq [of t D] pos_mod_sign [of D t] assms(1) by linarith
  then have "t div D * D < L * D" using assms(3) by linarith
  then show "t div D < L" using assms(1) by simp
qed

lemma moment_fields:
  assumes "in_calendar t"
  obtains y m d r where "ordinal_ymd (t div day_us + 1) = (y, m, d)" "valid_date y m d" "t mod day_us = int r"
    "r < 86400000000" "(ymd_ordinal y m d - 1) * day_us + int r = t"
proof -
  obtain y m d where ymd: "ordinal_ymd (t div day_us + 1) = (y, m, d)" by (cases "ordinal_ymd (t div day_us + 1)") auto
  have r: "0 \<le> t mod day_us" "t mod day_us < 86400000000" by (simp_all add: day_us_def)
  have n: "1 \<le> t div day_us + 1" "t div day_us + 1 \<le> LAST_ORDINAL"
    using assms div_range [of day_us t LAST_ORDINAL] by (simp_all add: in_calendar_def day_us_def)
  note spec = ordinal_ymd_spec [OF n ymd]
  show ?thesis
    using that [OF ymd, of "nat (t mod day_us)"] spec r by simp
qed

lemma clock_fields:
  assumes "r < (86400000000 :: nat)"
  shows "r div 1000000 div 3600 < 24" "r div 1000000 div 60 mod 60 < 60" "r div 1000000 mod 60 < 60"
    "((int (r div 1000000 div 3600) * 60 + int (r div 1000000 div 60 mod 60)) * 60 + int (r div 1000000 mod 60)) * 1000000 +
      int (r mod 1000000) = int r"
proof -
  define s where "s = r div 1000000"
  have s: "s < 86400" using assms by (simp add: s_def less_mult_imp_div_less)
  have "s div 3600 = s div 60 div 60" by (simp add: div_mult2_eq [symmetric])
  then have "(s div 3600 * 60 + s div 60 mod 60) * 60 + s mod 60 = s" by simp
  moreover have "s * 1000000 + r mod 1000000 = r" by (simp add: s_def)
  ultimately have "((s div 3600 * 60 + s div 60 mod 60) * 60 + s mod 60) * 1000000 + r mod 1000000 = r" by simp
  from arg_cong [OF this, of int] show "((int (r div 1000000 div 3600) * 60 + int (r div 1000000 div 60 mod 60)) * 60 + int (r div 1000000 mod 60)) * 1000000 +
      int (r mod 1000000) = int r"
    unfolding s_def by (simp only: of_nat_add of_nat_mult of_nat_numeral)
  show "r div 1000000 div 3600 < 24" using s by (simp add: s_def [symmetric] less_mult_imp_div_less)
qed simp_all

lemma clock_text_back:
  assumes r: "r < 86400000000" and pre: "length pre = 11" and zone: "minute_zone zone z"
  obtains h m s us where "parse_iso_time (pre @ iso_bytes (spell_zone (clock_text r)) @ zone) 11 = Some ((h, m, s, us), z)"
    "h < 24" "m < 60" "s < 60" "((h * 60 + m) * 60 + s) * 1000000 + us = int r"
proof -
  define secs us where "secs = r div 1000000" and "us = r mod 1000000"
  note clock = clock_fields [OF r, folded secs_def us_def]
  have fits: "secs div 3600 < 100" "secs div 60 mod 60 < 100" "secs mod 60 < 100" "us < 1000000"
    using clock(1-3) by (auto simp: us_def)
  obtain h1 h2 where h: "h1 < 10" "h2 < 10" "padded 2 (secs div 3600) = digit_text [h1, h2]"
    "digit_value [h1, h2] = secs div 3600"
    by (rule padded_two [OF fits(1)])
  obtain i1 i2 where i: "i1 < 10" "i2 < 10" "padded 2 (secs div 60 mod 60) = digit_text [i1, i2]"
    "digit_value [i1, i2] = secs div 60 mod 60"
    by (rule padded_two [OF fits(2)])
  obtain s1 s2 where s: "s1 < 10" "s2 < 10" "padded 2 (secs mod 60) = digit_text [s1, s2]"
    "digit_value [s1, s2] = secs mod 60"
    by (rule padded_two [OF fits(3)])
  obtain u1 u2 u3 u4 u5 u6 where u: "u1 < 10" "u2 < 10" "u3 < 10" "u4 < 10" "u5 < 10" "u6 < 10"
    "padded 6 us = digit_text [u1, u2, u3, u4, u5, u6]" "digit_value [u1, u2, u3, u4, u5, u6] = us"
    by (rule padded_six [OF fits(4)])
  have bytes: "iso_bytes (spell_zone (clock_text r)) = clock_bytes [h1, h2] [i1, i2] [s1, s2] @
      (if us = 0 then [] else 46 # map ((+) 48) [u1, u2, u3, u4, u5, u6])"
    by (simp add: clock_text_def Let_def secs_def [symmetric] us_def [symmetric] h i s u clock_bytes_def text_bytes)
  have "parse_iso_time (pre @ iso_bytes (spell_zone (clock_text r)) @ zone) 11 =
      Some ((int (secs div 3600), int (secs div 60 mod 60), int (secs mod 60), int us), z)"
    using clock_time [OF h(1,2) i(1,2) s(1,2) pre zone] clock_time_fraction [OF h(1,2) i(1,2) s(1,2) u(1-6) pre zone]
    by (cases "us = 0") (simp_all add: bytes h(4) i(4) s(4) u(8))
  then show ?thesis
    by (rule that) (use clock in simp_all)
qed

lemma moment_of_zoned_text:
  assumes "in_calendar t" and zone: "minute_zone (iso_bytes (spell_zone zone_text)) z"
    and range: "case z of None \<Rightarrow> True | Some off \<Rightarrow> - day_us < off \<and> off < day_us"
  shows "from_isoformat (spell_zone (isoformat t @ zone_text)) = Some (t, z)"
proof -
  obtain y m d r where ymd: "ordinal_ymd (t div day_us + 1) = (y, m, d)" and valid: "valid_date y m d"
    and r: "t mod day_us = int r" "r < 86400000000" and t: "(ymd_ordinal y m d - 1) * day_us + int r = t"
    by (rule moment_fields [OF assms(1)])
  have v: "1 \<le> y" "y \<le> 9999" "1 \<le> m" "m \<le> 12" "1 \<le> d" "d \<le> 31"
    using valid month_length_bound [of m y] by (auto simp: valid_date_def)
  then have fits: "nat y < 10000" "nat m < 100" "nat d < 100" by auto
  obtain y1 y2 y3 y4 where y: "y1 < 10" "y2 < 10" "y3 < 10" "y4 < 10" "padded 4 (nat y) = digit_text [y1, y2, y3, y4]"
    "digit_value [y1, y2, y3, y4] = nat y"
    by (rule padded_four [OF fits(1)])
  obtain m1 m2 where m: "m1 < 10" "m2 < 10" "padded 2 (nat m) = digit_text [m1, m2]" "digit_value [m1, m2] = nat m"
    by (rule padded_two [OF fits(2)])
  obtain d1 d2 where d: "d1 < 10" "d2 < 10" "padded 2 (nat d) = digit_text [d1, d2]" "digit_value [d1, d2] = nat d"
    by (rule padded_two [OF fits(3)])
  define rest where "rest = iso_bytes (spell_zone (clock_text r)) @ iso_bytes (spell_zone zone_text)"
  define pre where "pre = date_bytes [y1, y2, y3, y4] [m1, m2] [d1, d2] @ [84]"
  have pre: "length pre = 11" by (simp add: pre_def date_bytes_def)
  obtain h mi s us where time: "parse_iso_time (pre @ rest) 11 = Some ((h, mi, s, us), z)"
    "h < 24" "mi < 60" "s < 60" "((h * 60 + mi) * 60 + s) * 1000000 + us = int r"
    unfolding rest_def by (rule clock_text_back [OF r(2) pre zone])
  have "iso_bytes (spell_zone (isoformat t @ zone_text)) = date_bytes [y1, y2, y3, y4] [m1, m2] [d1, d2] @ 84 # rest"
    by (simp add: isoformat_def ymd r(1) y m d text_bytes rest_def date_bytes_def)
  from from_isoformat_bytes [OF this y(1-4) m(1,2) d(1,2) _ range _ time(2-4)] time(1)
  show ?thesis
    using valid v t time(5) y(6) m(4) d(4) by (simp add: pre_def add.assoc)
qed

text \<open>The suffixes: none, \<^verbatim>\<open>Z\<close>, and a signed offset of minutes.\<close>

definition offset_text :: "int \<Rightarrow> string" where
  "offset_text minutes = (if minutes < 0 then CHR ''-'' else CHR ''+'') # padded 2 (nat \<bar>minutes\<bar> div 60) @
     CHR '':'' # padded 2 (nat \<bar>minutes\<bar> mod 60)"

lemma offset_zone:
  assumes "\<bar>minutes\<bar> < 1440"
  shows "minute_zone (iso_bytes (spell_zone (offset_text minutes))) (Some (60000000 * minutes))"
proof -
  define n where "n = nat \<bar>minutes\<bar>"
  have n: "n < 1440" "\<bar>minutes\<bar> = int n" using assms by (simp_all add: n_def)
  have fits: "n div 60 < 100" using n(1) by simp
  have low: "n mod 60 < 60" by simp
  have fits2: "n mod 60 < 100" using low by linarith
  obtain p q where p: "p < 10" "q < 10" "padded 2 (n div 60) = digit_text [p, q]" "digit_value [p, q] = n div 60"
    by (rule padded_two [OF fits])
  obtain r s where r: "r < 10" "s < 10" "padded 2 (n mod 60) = digit_text [r, s]" "digit_value [r, s] = n mod 60"
    by (rule padded_two [OF fits2])
  have "int (n div 60) * 60 + int (n mod 60) = int n" using div_mult_mod_eq [of n 60] by linarith
  moreover have "minutes = (if minutes < 0 then - int n else int n)" using n(2) by auto
  ultimately have amount: "60000000 * minutes = (if (if minutes < 0 then 45 else 43) = (45 :: nat) then - 60000000 else 60000000) *
      (int (digit_value [p, q]) * 60 + int (digit_value [r, s]))"
    unfolding p(4) r(4) by (simp split: if_split_asm)
  have bytes: "iso_bytes (spell_zone (offset_text minutes)) =
      [if minutes < 0 then 45 else 43, 48 + p, 48 + q, 58, 48 + r, 48 + s]"
    by (simp add: offset_text_def n_def [symmetric] p(3) r(3) text_bytes p(1,2) r(1,2))
  have mark: "(if minutes < 0 then 45 else 43) \<in> {43, 45 :: nat}" by simp
  show ?thesis
    unfolding minute_zone_def bytes using mark p(1,2) r(1,2) amount by blast
qed

lemma utc_zone: "minute_zone (iso_bytes (spell_zone ''Z'')) (Some 0)"
proof -
  have "minute_zone utc_bytes (Some 0)"
    unfolding minute_zone_def
    by (intro disjI2 exI [of _ 43] exI [of _ 0]) (simp add: digit_value_def)
  then show ?thesis by simp
qed

lemma no_zone: "minute_zone (iso_bytes (spell_zone [])) None"
  by (simp add: minute_zone_def)

lemma moment_of_utc_text:
  assumes "in_calendar t"
  shows "moment_of_text (utc_text t) = Inr t"
  using moment_of_zoned_text [OF assms utc_zone] assms by (simp add: moment_of_text_def utc_text_def day_us_def)

section \<open>What is read lies in the calendar\<close>

lemma ymd_ordinal_range:
  assumes "valid_date y m d"
  shows "1 \<le> ymd_ordinal y m d \<and> ymd_ordinal y m d \<le> LAST_ORDINAL"
proof -
  define i where "i = nat (m - 1)"
  have i: "i < length (month_lengths y)" "1 \<le> d" "d \<le> month_lengths y ! i" "1 \<le> y" "y \<le> 9999"
    using assms by (auto simp: valid_date_def i_def month_lengths_def)
  have pos: "\<forall>l\<in>set (month_lengths y). 0 \<le> l" by (simp add: month_lengths_def)
  have nonneg: "0 \<le> sum_list (take i (month_lengths y))" "0 \<le> sum_list (drop (Suc i) (month_lengths y))"
    using pos by (auto intro!: sum_list_nonneg dest: in_set_takeD in_set_dropD)
  have "sum_list (month_lengths y) = sum_list (take i (month_lengths y)) + month_lengths y ! i +
      sum_list (drop (Suc i) (month_lengths y))"
    by (subst id_take_nth_drop [OF i(1)]) simp
  then have high: "sum_list (take i (month_lengths y)) + d \<le> sum_list (month_lengths y)"
    using i(3) nonneg(2) by linarith
  have "0 \<le> days_before_year y"
  proof (cases "y = 1")
    case False
    then show ?thesis using days_before_year_bounds(1) [of "y - 1"] i(4) by simp
  qed (simp add: days_before_year_def)
  moreover have "days_before_year (y + 1) \<le> LAST_ORDINAL"
  proof (cases "y = 9999")
    case False
    then show ?thesis using days_before_year_bounds(2) [of y] i(5) by (simp add: LAST_ORDINAL_def)
  qed (simp add: days_before_year_def LAST_ORDINAL_def)
  ultimately show ?thesis
    using high nonneg(1) i(2) year_length [of y] by (simp add: ymd_ordinal_def i_def)
qed

lemma parse_digits_range:
  "parse_digits cs p n v = Some w \<Longrightarrow> 0 \<le> v \<Longrightarrow> 0 \<le> w \<and> w < (v + 1) * 10 ^ n"
proof (induction n arbitrary: p v)
  case (Suc n)
  define x where "x = int (byte_at cs p) - 48"
  have x: "0 \<le> x" "x \<le> 9" and rest: "parse_digits cs (Suc p) n (10 * v + x) = Some w"
    using Suc.prems by (auto simp: x_def is_digit_byte_def split: if_splits)
  have "0 \<le> w" "w < (10 * v + x + 1) * 10 ^ n"
    using Suc.IH [OF rest] x Suc.prems(2) by simp_all
  moreover have "(10 * v + x + 1) * 10 ^ n \<le> (10 * v + 10) * (10 ^ n :: int)"
    using x by (intro mult_right_mono) auto
  moreover have "(10 * v + 10) * 10 ^ n = (v + 1) * 10 ^ Suc n"
    by (simp add: algebra_simps)
  ultimately show ?case by linarith
qed simp

lemma hms_fields_range:
  "hms_fields cs stop n p colons vs = r \<Longrightarrow> list_all ((\<le>) 0) vs \<Longrightarrow>
   (case r of BadTime \<Rightarrow> True | WholeTime ws e \<Rightarrow> list_all ((\<le>) 0) ws | FractionAt ws q \<Rightarrow> list_all ((\<le>) 0) ws)"
proof (induction n arbitrary: p colons vs)
  case (Suc n)
  show ?case
  proof (cases "parse_digits cs p 2 0")
    case (Some v)
    then have "list_all ((\<le>) 0) (vs @ [v])"
      using parse_digits_range [OF Some] Suc.prems(2) by simp
    then show ?thesis
      using Suc.prems(1) Suc.IH Some by (auto simp: Let_def split: if_splits)
  qed (use Suc.prems in auto)
qed auto

lemma parse_hms_range:
  assumes "parse_hms cs p stop = Some ((h, m, s, us), e)"
  shows "0 \<le> h \<and> 0 \<le> m \<and> 0 \<le> s \<and> 0 \<le> us \<and> us < 1000000"
proof -
  have fields: "0 \<le> a \<and> 0 \<le> b \<and> 0 \<le> c" if "hms_us vs u = (a, b, c, w)" "list_all ((\<le>) 0) vs" for vs u a b c w
    using that by (cases vs; cases "tl vs"; cases "tl (tl vs)") (auto simp: hms_us_def)
  note range = hms_fields_range [OF refl, of "[]" cs stop 3 p True, simplified]
  show ?thesis
  proof (cases "hms_fields cs stop 3 p True []")
    case (WholeTime vs rest)
    with assms range fields [of vs 0 h m s us] show ?thesis by (auto simp: parse_hms_def hms_us_def Let_def)
  next
    case (FractionAt vs q)
    define k where "k = min 6 (stop - q)"
    obtain f where f: "parse_digits cs q k 0 = Some f" and us: "hms_us vs (f * 10 ^ (6 - k)) = (h, m, s, us)"
      using assms FractionAt by (auto simp: parse_hms_def k_def Let_def split: option.splits)
    have "0 \<le> f" "f < 10 ^ k" using parse_digits_range [OF f] by simp_all
    then have "0 \<le> f * 10 ^ (6 - k)" "f * 10 ^ (6 - k) < 10 ^ k * 10 ^ (6 - k)" by simp_all
    moreover have "10 ^ k * 10 ^ (6 - k) = (1000000 :: int)"
      by (simp add: power_add [symmetric] k_def)
    ultimately show ?thesis
      using fields [OF us] range us FractionAt by (auto simp: hms_us_def Let_def)
  qed (use assms in \<open>simp add: parse_hms_def\<close>)
qed

lemma parse_iso_time_range:
  assumes "parse_iso_time cs p = Some ((h, m, s, us), z)"
  shows "0 \<le> h \<and> 0 \<le> m \<and> 0 \<le> s \<and> 0 \<le> us \<and> us < 1000000"
proof -
  obtain stop rest where "parse_hms cs p stop = Some ((h, m, s, us), rest)"
    using assms by (auto simp: parse_iso_time_def Let_def split: option.splits if_splits prod.splits bool.splits)
  then show ?thesis by (rule parse_hms_range)
qed

lemma clock_range:
  assumes "(0::int) \<le> h" "h < 24" "0 \<le> m" "m < 60" "0 \<le> s" "s < 60" "0 \<le> us" "us < 1000000"
  shows "0 \<le> ((h * 60 + m) * 60 + s) * 1000000 + us" "((h * 60 + m) * 60 + s) * 1000000 + us < day_us"
  using assms by (simp_all add: day_us_def)

lemma calendar_time:
  assumes "1 \<le> n" "n \<le> LAST_ORDINAL" "0 \<le> r" "r < day_us"
  shows "in_calendar ((n - 1) * day_us + r)"
proof -
  have "0 \<le> (n - 1) * day_us" "(n - 1) * day_us \<le> (LAST_ORDINAL - 1) * day_us"
    using assms(1,2) by (simp_all add: day_us_def)
  moreover have "(LAST_ORDINAL - 1) * day_us + day_us = LAST_ORDINAL * day_us"
    by (simp add: left_diff_distrib)
  ultimately show ?thesis unfolding in_calendar_def using assms(3,4) by linarith
qed

lemma from_isoformat_range:
  assumes "from_isoformat s = Some (t, z)"
  shows "in_calendar t"
proof -
  define cs where "cs = iso_bytes s"
  obtain sep y m d where date: "find_separator cs = Some sep" "parse_iso_date cs sep = Some (y, m, d)"
    using assms by (auto simp: from_isoformat_def Let_def cs_def [symmetric] split: option.splits if_splits)
  define clock where "clock = (if length cs = sep then Some ((0, 0, 0, 0), None)
    else parse_iso_time cs (sep + (if byte_at cs sep < 128 then 1 else 2)))"
  obtain h mi se us where time: "clock = Some ((h, mi, se, us), z)" and ymd: "valid_date y m d" "h < 24" "mi < 60" "se < 60"
    and t: "t = (ymd_ordinal y m d - 1) * day_us + (((h * 60 + mi) * 60 + se) * 1000000 + us)"
    using assms date unfolding from_isoformat_def Let_def cs_def [symmetric] clock_def
    by (auto simp del: if_split_asm simp: add.assoc split: option.splits if_split_asm)
  have "0 \<le> h \<and> 0 \<le> mi \<and> 0 \<le> se \<and> 0 \<le> us \<and> us < 1000000"
    using time parse_iso_time_range unfolding clock_def by (auto split: if_splits)
  then have "0 \<le> ((h * 60 + mi) * 60 + se) * 1000000 + us" "((h * 60 + mi) * 60 + se) * 1000000 + us < day_us"
    using clock_range [of h mi se us] ymd(2-4) by blast+
  then show ?thesis
    unfolding t using ymd_ordinal_range [OF ymd(1)] by (intro calendar_time) auto
qed

lemma moment_of_range: "moment_of j = Inr t \<Longrightarrow> in_calendar t"
proof -
  have stamp: "in_calendar t" if "from_timestamp f = Inr t" for f
    using that by (cases f) (auto simp: from_timestamp_def Let_def split: if_splits)
  have "in_calendar t" if "moment_of_text s = Inr t" for s
    using that from_isoformat_range [of "spell_zone s"]
    by (auto simp: moment_of_text_def split: option.splits if_splits)
  with stamp show "moment_of j = Inr t \<Longrightarrow> in_calendar t"
    by (cases j) (auto simp: moment_of_def)
qed

lemma to_iso_date_Some: "to_iso_date j = Inr (Some s) \<longleftrightarrow> json_truthy j \<and> (\<exists>t. moment_of j = Inr t \<and> s = utc_text t)"
  by (auto simp: to_iso_date_def split: sum.splits if_splits)

lemma to_iso_dateI: "json_truthy j \<Longrightarrow> moment_of j = Inr t \<Longrightarrow> utc_text t = s \<Longrightarrow> to_iso_date j = Inr (Some s)"
  by (auto simp: to_iso_date_Some)

section \<open>Properties\<close>

text \<open>C37. A date of an upstream is turned into the same moment in UTC, and its text is canonical. Take any
  moment of the calendar. The local time at any offset of whole minutes below a day, written with that
  offset, gives the text of the moment in UTC; so does its own text with the suffix Z, and without
  any suffix, which is taken for UTC. If subtracting the offset leads out of the calendar, the
  OverflowError of Python escapes. And whatever the upstream sent, also a number of seconds, the text that comes
  out is a fixed point.\<close>

theorem iso_date_converts:
  assumes "in_calendar local" and "\<bar>minutes\<bar> < 1440"
  defines "t \<equiv> local - 60000000 * minutes"
  shows "to_iso_date (JStr (isoformat local @ offset_text minutes)) =
      (if in_calendar t then Inr (Some (utc_text t)) else Inl OverflowError) \<and>
    to_iso_date (JStr (isoformat local @ ''Z'')) = Inr (Some (utc_text local)) \<and>
    to_iso_date (JStr (isoformat local)) = Inr (Some (utc_text local)) \<and>
    (\<forall>j s. to_iso_date j = Inr (Some s) \<longrightarrow> to_iso_date (JStr s) = Inr (Some s))"
proof (intro conjI allI impI)
  have written: "isoformat local \<noteq> []" by (simp add: isoformat_def split: prod.splits)
  have "case Some (60000000 * minutes) of None \<Rightarrow> True | Some off \<Rightarrow> - day_us < off \<and> off < day_us"
    using assms(2) by (simp add: day_us_def) linarith
  note zoned = moment_of_zoned_text [OF assms(1) offset_zone [OF assms(2)] this]
  have "moment_of_text (isoformat local @ offset_text minutes) = (if in_calendar t then Inr t else Inl OverflowError)"
    by (simp add: moment_of_text_def zoned t_def)
  then show "to_iso_date (JStr (isoformat local @ offset_text minutes)) =
      (if in_calendar t then Inr (Some (utc_text t)) else Inl OverflowError)"
    using written by (simp add: to_iso_date_def moment_of_def)
  show "to_iso_date (JStr (isoformat local @ ''Z'')) = Inr (Some (utc_text local))"
    using moment_of_utc_text [OF assms(1)] written by (simp add: to_iso_date_Some moment_of_def utc_text_def)
  show "to_iso_date (JStr (isoformat local)) = Inr (Some (utc_text local))"
    using moment_of_zoned_text [OF assms(1) no_zone] written by (simp add: to_iso_date_Some moment_of_def moment_of_text_def)
next
  fix j s
  assume "to_iso_date j = Inr (Some s)"
  then obtain u where u: "moment_of j = Inr u" "s = utc_text u" by (auto simp: to_iso_date_Some)
  have "moment_of (JStr s) = Inr u"
    using moment_of_utc_text [OF moment_of_range [OF u(1)]] by (simp add: moment_of_def u(2))
  then show "to_iso_date (JStr s) = Inr (Some s)"
    by (simp add: to_iso_date_Some u(2) utc_text_def)
qed

text \<open>Half past eleven in the evening of the leap day, one hour west of Greenwich, is the first of March.\<close>

definition sample_date :: string where
  "sample_date = ''2024-02-29T23:30:00.250000-01:00''"

definition sample_moment :: int where
  "sample_moment = 63844849800250000"

lemma padded_numeral:
  "padded (numeral n) v = padded (pred_numeral n) (v div 10) @ [char_of (48 + v mod 10)]"
  by (subst numeral_eq_Suc, subst padded.simps(2), rule refl)

lemma sample_moment_parts:
  "ordinal_ymd (sample_moment div day_us + 1) = (2024, 3, 1)" "sample_moment mod day_us = 1800250000"
  "ordinal_ymd ((sample_moment - 3600000000) div day_us + 1) = (2024, 2, 29)"
  "(sample_moment - 3600000000) mod day_us = 84600250000"
  "in_calendar sample_moment" "in_calendar (sample_moment - 3600000000)"
  by code_simp+

lemmas sample_text =
  sample_moment_parts isoformat_def clock_text_def offset_text_def padded_numeral char_of_def bit_0

lemma sample_date_text: "isoformat (sample_moment - 3600000000) @ offset_text (- 60) = sample_date"
  by (simp add: sample_date_def sample_text)

lemma sample_utc_text: "utc_text sample_moment = ''2024-03-01T00:30:00.250000Z''"
  by (simp add: utc_text_def sample_text)

theorem iso_date_converts_witness:
  "to_iso_date (JStr sample_date) = Inr (Some ''2024-03-01T00:30:00.250000Z'')"
  using iso_date_converts [OF sample_moment_parts(6), of "- 60"] sample_moment_parts(5)
  by (simp add: sample_date_text sample_utc_text)

section \<open>Dates that escape\<close>

text \<open>
  Only two kinds of exception are caught. A date at the edge of the calendar, with an offset that leads
  out of it, raises a third one, and so does a number of seconds that the C library refuses.
\<close>

theorem bad_date_escapes:
  "to_iso_date (JStr ''0001-01-01T00:00:00+02:00'') = Inl OverflowError"
  by code_simp

end
