(* ===== verification/Log_Properties.thy ===== *)
theory Log_Properties
  imports Http_Properties
begin

text \<open>
  Properties of the log: whatever clients and tenants send, each event is one line that reads back as
  what was logged, and what the token endpoint logs.
\<close>

section \<open>The calls of a run\<close>

definition log_printable :: "app_state \<Rightarrow> bool" where
  "log_printable s \<longleftrightarrow> (\<forall>c \<in> set (bk_log s). loggable (lg_message c) (lg_context c))"

interpretation log_run: app_discipline sv log_printable for sv
  by unfold_locales (auto simp: log_printable_def)

lemma log_printable_run: "reach (app_step sv) s s' \<Longrightarrow> log_printable s \<Longrightarrow> log_printable s'"
  by (induction rule: reach.induct) (auto intro: log_run.app_step_keeps)

section \<open>What is written to the two streams\<close>

text \<open>What has been written to a stream, when the n-th call of the log was made at the moment \<open>now n\<close>.\<close>

definition written :: "(exn \<Rightarrow> string) \<Rightarrow> (nat \<Rightarrow> int) \<Rightarrow> log_call list \<Rightarrow> output_stream \<Rightarrow> string" where
  "written exn_text now log out =
     concat (map snd (filter (\<lambda>x. fst x = out) (map (\<lambda>(n, c). emit exn_text (now n) c) (enumerate 0 log))))"

text \<open>The calls whose lines go to a stream.\<close>

definition calls_for :: "log_call list \<Rightarrow> output_stream \<Rightarrow> (nat \<times> log_call) list" where
  "calls_for log out = filter (\<lambda>(n, c). (out = Stderr) = (lg_level c = ''error'')) (enumerate 0 log)"

lemma written_calls:
  "written exn_text now log out = concat (map (\<lambda>(n, c). emit_line exn_text (now n) c @ [newline]) (calls_for log out))"
proof -
  have "concat (map snd (filter (\<lambda>x. fst x = out) (map (\<lambda>(n, c). emit exn_text (now n) c) ncs))) =
      concat (map (\<lambda>(n, c). emit_line exn_text (now n) c @ [newline])
        (filter (\<lambda>(n, c). (out = Stderr) = (lg_level c = ''error'')) ncs))" for ncs
    by (induction ncs) (cases out; auto simp: emit_def)+
  then show ?thesis by (simp add: written_def calls_for_def)
qed

lemma not_printable_newline: "\<not> printable_char newline"
  by (simp add: printable_char_def newline_def)

lemma split_line: "printable_text s \<Longrightarrow> split_on newline s = [s]"
  by (induction s) (auto simp: not_printable_newline)

lemma split_lines:
  "list_all printable_text ls \<Longrightarrow> split_on newline (concat (map (\<lambda>l. l @ [newline]) ls)) = ls @ [[]]"
  by (induction ls) (simp_all add: split_on_append split_line)

section \<open>The entry that a line holds\<close>

lemma entry_keys_distinct: "distinct (map fst (log_entry exn_text now c))"
proof -
  have upd: "distinct (map fst d) \<Longrightarrow> distinct (map fst (fold (\<lambda>(k, v) d. AList.update k (log_json exn_text v) d) ctx d))" for ctx d
    by (induction ctx arbitrary: d) (auto simp: distinct_update)
  show ?thesis unfolding log_entry_def by (rule upd) simp
qed

lemma entry_ok:
  assumes "context_exact (lg_context c)"
  shows "json_ok (JObj (log_entry exn_text now c))"
proof -
  have val: "log_value_exact v \<Longrightarrow> json_ok (log_json exn_text v)" for v by (cases v) simp_all
  have upd: "list_all (\<lambda>(k, v). json_ok v) d \<Longrightarrow> json_ok v \<Longrightarrow> list_all (\<lambda>(k, v). json_ok v) (AList.update k v d)" for k v d
    by (induction d) auto
  have "list_all (\<lambda>(k, v). log_value_exact v) ctx \<Longrightarrow> list_all (\<lambda>(k, v). json_ok v) d \<Longrightarrow>
      list_all (\<lambda>(k, v). json_ok v) (fold (\<lambda>(k, v) d. AList.update k (log_json exn_text v) d) ctx d)" for ctx d
    by (induction ctx arbitrary: d) (auto simp: upd val)
  note fold_ok = this
  have "list_all (\<lambda>(k, v). json_ok v) (log_entry exn_text now c)"
    unfolding log_entry_def by (rule fold_ok) (use assms in \<open>simp_all add: context_exact_def\<close>)
  then show ?thesis using entry_keys_distinct by (simp only: json_ok.simps)
qed

text \<open>C18. Nobody can forge or break a line of the log: whatever requests are served, each of the two
  streams holds exactly one line of printable ASCII per call of the logger, in their order. Every line
  reads back as the entry that was logged, with the values that clients and tenants supplied; only of
  the line for a completed uninstall, whose two ids are logged as they stand in the signed body, this
  is said when those hold no float and no number of more than 4300 digits.\<close>

theorem log_lines_safe:
  assumes "reach (app_step sv) s s'" and "bk_log s = []"
  shows "split_on newline (written exn_text now (bk_log s') out) =
      map (\<lambda>(n, c). emit_line exn_text (now n) c) (calls_for (bk_log s') out) @ [[]] \<and>
    (\<forall>(n, c) \<in> set (calls_for (bk_log s') out). printable_text (emit_line exn_text (now n) c) \<and>
      (lg_message c \<noteq> ''canva_user_uninstall'' \<or> context_exact (lg_context c) \<longrightarrow>
        loads (emit_line exn_text (now n) c) = Some (JObj (log_entry exn_text (now n) c))))"
proof -
  have "log_printable s'" using log_printable_run [OF assms(1)] assms(2) by (simp add: log_printable_def)
  moreover have "c \<in> set (bk_log s')" if "(n, c) \<in> set (calls_for (bk_log s') out)" for n c
    using that by (auto simp: calls_for_def in_set_enumerate_eq)
  ultimately have ok: "loggable (lg_message c) (lg_context c)" if "(n, c) \<in> set (calls_for (bk_log s') out)" for n c
    using that by (auto simp: log_printable_def)
  have line: "printable_text (emit_line exn_text (now n) c)" if "(n, c) \<in> set (calls_for (bk_log s') out)" for n c
    using ok [OF that] emit_line_printable by (simp add: loggable_def)
  have all: "list_all printable_text (map (\<lambda>(n, c). emit_line exn_text (now n) c) (calls_for (bk_log s') out))"
    using line by (auto simp: list_all_iff)
  have "written exn_text now (bk_log s') out =
      concat (map (\<lambda>l. l @ [newline]) (map (\<lambda>(n, c). emit_line exn_text (now n) c) (calls_for (bk_log s') out)))"
    unfolding written_calls by (intro arg_cong [where f = concat]) (simp add: case_prod_beta)
  moreover have "loads (emit_line exn_text t c) = Some (JObj (log_entry exn_text t c))"
    if "(n, c) \<in> set (calls_for (bk_log s') out)" "lg_message c \<noteq> ''canva_user_uninstall'' \<or> context_exact (lg_context c)" for n t c
  proof -
    have "context_exact (lg_context c)" using ok [OF that(1)] that(2) by (auto simp: loggable_def)
    from loads_spaced [OF entry_ok [OF this]] show ?thesis by (simp only: emit_line_def)
  qed
  ultimately show ?thesis using split_lines [OF all] line by auto
qed

text \<open>A request without a token whose path has a line break and a forged entry in it.\<close>

definition forging_request :: http_request where
  "forging_request = blank_request\<lparr>rq_path := newline # ''{}''\<rparr>"

definition forging_log :: "log_call list" where
  "forging_log = bk_log (snd (serve forging_request (handle sample_service Find forging_request) sample_app))"

lemma forging_logged:
  "forging_log = [log_warn ''auth_rejected'' [(''path'', LvStr (newline # ''{}'')), (''reason'', LvStr ''missing_bearer_token'')]]"
proof -
  obtain l where rate: "consume (bk_limiter sample_app) (''content_find:'' @ peer_or_unknown forging_request) (bk_world sample_app) =
      (\<lparr>allowed = True, retry_after_ms = 0\<rparr>, l, sample_world\<lparr>ticks := Suc (ticks sample_world)\<rparr>)"
    using fresh_consume unfolding sample_app_sel unfolding sample_app_def by blast
  have token: "read_bearer_token forging_request = None" by code_simp
  have path: "rq_path forging_request = newline # ''{}''" by (simp add: forging_request_def)
  have log: "bk_log sample_app = []" by (simp add: sample_app_def fresh_app_def)
  have "\<exists>r. content_resources_find sample_service forging_request sample_app =
      (Inr r, sample_app\<lparr>bk_limiter := l, bk_world := sample_world\<lparr>ticks := Suc (ticks sample_world)\<rparr>,
         bk_log := [log_warn ''auth_rejected'' [(''path'', LvStr (newline # ''{}'')), (''reason'', LvStr ''missing_bearer_token'')]]\<rparr>)"
    unfolding content_resources_find_def rate_limited_run [OF rate]
    by (simp add: with_scope_def with_token_def token truthy_str_def auth_rejected_def path log op_return_def)
  then show ?thesis by (auto simp: forging_log_def handle_def serve_def)
qed

theorem log_lines_safe_witness:
  "\<exists>line. split_on newline (written (\<lambda>_. []) (\<lambda>_. 0) forging_log Stdout) = [line, []] \<and> printable_text line \<and>
     loads line = Some (JObj (log_entry (\<lambda>_. []) 0 (forging_log ! 0)))"
proof -
  have fresh: "bk_log sample_app = []" by (simp add: sample_app_def fresh_app_def)
  have "calls_for forging_log Stdout = [(0, forging_log ! 0)]"
    by (simp add: forging_logged calls_for_def log_warn_def enumerate_eq_zip)
  moreover have "lg_message (forging_log ! 0) \<noteq> ''canva_user_uninstall''"
    by (simp add: forging_logged log_warn_def)
  moreover have run: "reach (app_step sample_service) sample_app
      (snd (serve forging_request (handle sample_service Find forging_request) sample_app))"
    by (rule app_run_request)
  ultimately show ?thesis
    using log_lines_safe [OF run fresh, of "\<lambda>_. []" "\<lambda>_. 0" Stdout] unfolding forging_log_def [symmetric] by simp
qed

section \<open>Events of failed requests\<close>

text \<open>
  The two failures of the content endpoints lose their name: the message of the error takes the place
  of the event under the key \<^verbatim>\<open>message\<close>.
\<close>

lemma failure_event_lost:
  "dict_get (log_entry exn_text now (last (bk_log (snd (log_failure event e s))))) ''message'' =
     Some (JStr (err_message e))"
  by (simp add: log_failure_def log_op_def log_warn_def log_entry_def)

end
