(* ===== verification/Spec2Isabelle.thy ===== *)
theory Spec2Isabelle
  imports Auth_Properties Revocation_Properties Sso_Properties Store_Properties Asset_Properties
    Route_Properties Content_Properties Guard_Properties Deployment_Properties
    File_Properties Service_File_Properties Date_Properties Log_Properties
begin

text \<open>
  A verification library of the ResourceSpace authentication broker for Canva, a FastAPI service in
  Python under \<^verbatim>\<open>src/src/resourcespace_platform\<close>. The broker is an OAuth provider for a Canva app: a
  user signs in to a ResourceSpace tenant through it (with a password, or with the hosted sign-on of
  the tenant), the app gets tokens, and with a token it lists, uploads and downloads assets of the
  tenant through the broker. All durable state is one JSON file.

  \<^bold>\<open>Parts and theories.\<close> The theories follow the modules of the program; a record stands for a class,
  a dataclass or a dictionary with fixed keys, a function for a function or method, an updater for the
  closure that a method passes to the store. Source names are kept.

  \<^item> \<open>Broker_Prelude\<close>: strings and dictionaries of Python, the exceptions, the world (the clock behind
    \<^verbatim>\<open>time.time()\<close> and the randomness behind \<^verbatim>\<open>secrets\<close>, read one element at a time), and the locales
    \<open>expiring_bucket\<close>, \<open>step_invariant\<close> and \<open>step_progress\<close>. \<open>Effect_Monad\<close>: operations on a state that
    may raise, and \<open>delivers\<close> and \<open>keeps\<close>, their contracts.
  \<^item> The standard library, written out where the code rests on it: \<open>Byte_Codec\<close> (UTF-8, base64),
    \<open>Sha256\<close> (SHA-256 and HMAC), \<open>Url_Codec\<close> and \<open>Url_Parse\<close> (\<^verbatim>\<open>urllib.parse\<close>), \<open>Ip_Address\<close> and
    \<open>Ip_Class\<close> (\<^verbatim>\<open>ipaddress\<close>), \<open>Json_Text\<close>, \<open>Json_Layout\<close> and \<open>Json_Values\<close> (\<^verbatim>\<open>json\<close>: the parser, the
    three layouts that are printed, floats, truth and conversions), \<open>Iso_Date\<close> (\<^verbatim>\<open>datetime\<close>).
  \<^item> \<open>Json_Store\<close>, \<open>Store_Files\<close> and \<open>Store_Encoding\<close>: \<^verbatim>\<open>services/json_store.py\<close>. The first has the loading
    of the file and the transaction \<open>store_update\<close> as the services see it: the state, or \<open>None\<close> when the
    file does not load. The second has the file with its calls into the operating system, the
    crashes between them and the threads around the lock. The third has the dictionary of each record.
  \<^item> \<open>Field_Crypto\<close> (\<^verbatim>\<open>field_crypto.py\<close>), \<open>Broker_Config\<close> and \<open>Config_Loading\<close> (\<^verbatim>\<open>config.py\<close>),
    \<open>Rate_Limiter\<close> (\<^verbatim>\<open>rate_limiter.py\<close>), \<open>Logger\<close> (\<^verbatim>\<open>logger.py\<close>: the line that each call becomes).
  \<^item> \<open>Auth_State\<close>, \<open>Auth_Service\<close> and \<open>Sso_Service\<close>: the five buckets of the store and every operation of
    \<^verbatim>\<open>services/auth_service.py\<close>. \<open>Asset_Service\<close>: the grants of \<^verbatim>\<open>services/asset_service.py\<close>.
    \<open>Broker_System\<close>: these operations as a state machine. \<open>Sealed_Store\<close>: its runs in which no session
    comes in with a leaf that already looks sealed, and what the store then holds of secrets.
  \<^item> \<open>Net_Model\<close>, \<open>Rs_Helpers\<close>, \<open>Tenant_Config\<close>, \<open>Fixture_Backend\<close>, \<open>Live_Backend\<close>, \<open>Rs_Upload\<close> and
    \<open>Rs_Service\<close>: \<^verbatim>\<open>services/resourcespace/\<close>, over a network whose resolver, servers and races may
    answer anything. \<open>Asset_Delivery\<close>: the race of pinned connections in \<^verbatim>\<open>asset_service.py\<close>.
  \<^item> \<open>Http_Utils\<close> (\<^verbatim>\<open>http_utils.py\<close>, \<^verbatim>\<open>trusted_proxy.py\<close>), \<open>Continuation\<close> (the paging cursor),
    \<open>Canva_Verifier\<close> (\<^verbatim>\<open>canva_verifier.py\<close>), \<open>Broker_App\<close> (\<^verbatim>\<open>main.py\<close>, \<^verbatim>\<open>dependencies.py\<close>: the state
    of the application with the calls of the logger, and the guards that handlers share),
    \<open>Oauth_Routes\<close>, \<open>Content_Routes\<close> and \<open>Other_Routes\<close> (\<^verbatim>\<open>routes/\<close>), \<open>Http_System\<close>: the application as a
    state machine whose steps serve one request to any endpoint. \<open>Startup\<close>: \<^verbatim>\<open>run\<close> and \<^verbatim>\<open>create_app\<close>.

  \<^bold>\<open>What the lemmas show.\<close> \<open>Auth_Facts\<close> and \<open>Token_Facts\<close> give the effect of every updater as equations
  on the buckets; \<open>Store_Invariant\<close> and \<open>Broker_System\<close> the invariant of the store and how records may
  change (\<open>step_good\<close>), over any run. The properties are in

  \<^item> \<open>Auth_Properties\<close>, \<open>Revocation_Properties\<close>, \<open>Sso_Properties\<close>, \<open>Store_Properties\<close>,
    \<open>Asset_Properties\<close>: when codes, tokens, links and sign-ons are accepted, that they are used once, that
    revocation is final, what is sealed in the file;
  \<^item> \<open>File_Properties\<close>, \<open>Service_File_Properties\<close>: that the file implements the transaction and the
    services, survives crashes, and does not lose updates of threads;
  \<^item> \<open>Http_Properties\<close>, \<open>Route_Properties\<close>, \<open>Guard_Properties\<close>, \<open>Content_Properties\<close>: that whatever
    requests are served, the store changes by operations of the services only (\<open>app_store_run\<close>) and
    requests go to checked public addresses only; PKCE, redirects, tokens and scopes, links to assets,
    signatures, the client address, rate limits, paging, visibility;
  \<^item> \<open>Deployment_Properties\<close>: what holds of a configuration that starts, and that its store file stays
    private; \<open>Log_Properties\<close>: the log holds one readable line per event; \<open>Date_Properties\<close>: that
    a date with any offset becomes the same moment in UTC.

  \<^bold>\<open>Interfaces.\<close> \<open>transaction\<close> (the store), \<open>leaf_cipher\<close> (sealing of fields), \<open>expiring_bucket\<close> (pruning),
  \<open>record_order\<close> (how records of a bucket may change), \<open>request_discipline\<close> and \<open>pinned_discipline\<close> (what
  may be sent), \<open>app_discipline\<close> (what every handler keeps), \<open>json_layout\<close> and its extension
  \<open>line_layout\<close> (texts of JSON that are read back, and stay on a line); each is interpreted on the
  definitions of the model, \<open>app_discipline\<close> four times: for the store, the network, the limiter and the
  log, \<open>json_layout\<close> three times: for cursors, the log and the store file.

  \<^bold>\<open>Bounds and fuel.\<close> The loops up the tree of folders take as many steps as there are folders, which is
  enough because the demo tree has no cycle (\<open>container_chain_ends\<close>); a download follows at most the five
  redirects the code allows; \<^verbatim>\<open>json.loads\<close> runs on the length of the text, which \<open>loads_layout\<close>
  shows to be enough for every layout; integers of more than 4300 digits are refused as Python does, and
  the round trips of cursors assume offsets below ten to the eighteenth; following the pages of a demo
  tenant ends after twelve pages (\<open>paging_ends\<close>).

  \<^bold>\<open>Parameters.\<close> What is not code of the repository or of the standard library is a field of the network
  or of the service: Fernet, the resolver, servers and clocks, the IDNA codec and URL parser of
  \<^verbatim>\<open>httpx\<close>, the JPEG encoder, \<^verbatim>\<open>repr\<close> of values that are not strings; the text of an exception and the
  time of a call are arguments of the line of the log. Theorems that need something of
  them name it (\<open>cipher_ok\<close>), and a witness instantiates it.

  \<^bold>\<open>Not modelled.\<close> The page templates, the scripts, deployment files and tests; the routing of
  FastAPI, and what the CORS middleware and the server do with their settings; the one log line inside
  a service, about a session that cannot be decrypted (the handlers and the start log all of theirs). Characters above U+00FF; bodies in UTF-16 or UTF-32 or
  that are not UTF-8; file parts of forms; the text of Python's own exceptions; the rounding of the
  limit of sign-ons per source, which Python computes in floating point. A handler is one atomic step:
  the interleaving of requests is covered by the properties over runs of service operations, which
  hold for any order, and by the threads of \<open>Store_Files\<close>. A number in a search scope keeps its text.
  A URL or file name in an answer of an upstream is taken as its text.

  \<^bold>\<open>Where the model is coarser than the code.\<close> A float in a line of the log is printed as its source text,
  not as Python's \<^verbatim>\<open>repr\<close>; the ISO text of the expiry of a link is computed exactly, without the float
  division; header lines of the same name are collapsed before a request reaches the model; a pinned URL
  is the pair of the parsed URL and the address instead of the text of \<^verbatim>\<open>copy_with(host=ip)\<close>.
  \<open>consume_all\<close> and \<open>page_through\<close> are not code: the first drives the limiter with given readings of the
  clock, the second is a client that follows continuations.
\<close>

end
